(* ===== verification/Prelude.thy ===== *)
theory Prelude
  imports Complex_Main "HOL-Library.Sublist"
begin

text \<open>
  Shared vocabulary of the System Manager development: the names of the model's basic
  types, the collections of rewrite rules the component theories fill, and generic facts
  about lists, indices and options that several components use (index-wise updates of a
  list, filtering of index ranges, deletion at an index).
\<close>

named_theorems store_simps "rewrite rules of the row-store operations"
named_theorems view_simps "rewrite rules of the filter view"
named_theorems handler_simps "rewrite rules of the event handlers"

type_synonym timestamp = real
  \<comment> \<open>\<open>time.time()\<close>: seconds since the epoch, read as an exact real\<close>

subsection \<open>Deleting one element by index\<close>

text \<open>\<open>del xs[i]\<close> of Python (on a \<open>Gtk.ListStore\<close>: \<open>del store[store.get_iter(i)]\<close>).\<close>

definition del_at :: "nat \<Rightarrow> 'a list \<Rightarrow> 'a list" where
  "del_at i xs = take i xs @ drop (Suc i) xs"

lemma del_at_filter_prefix:
  assumes "i < length xs" and "\<not> P (xs ! i)"
  shows "filter P (del_at i xs) = filter P xs"
proof -
  have "xs = take i xs @ xs ! i # drop (Suc i) xs"
    using assms(1) by (simp add: id_take_nth_drop)
  then have "filter P xs = filter P (take i xs) @ filter P (drop (Suc i) xs)"
    using assms(2) by (metis filter.simps(2) filter_append)
  then show ?thesis by (simp add: del_at_def)
qed

lemma length_del_at [simp]: "i < length xs \<Longrightarrow> length (del_at i xs) = length xs - 1"
  by (simp add: del_at_def)

lemma nth_del_at_below [simp]:
  "j < i \<Longrightarrow> i < length xs \<Longrightarrow> del_at i xs ! j = xs ! j"
  by (simp add: del_at_def nth_append)

subsection \<open>Index ranges\<close>

lemma set_filter_upt [simp]: "set (filter P [0..<n]) = {i. i < n \<and> P i}"
  by auto

lemma sorted_filter_upt [intro, simp]: "sorted_wrt (<) (filter P [m..<n])"
  by (simp add: sorted_wrt_filter)

lemma distinct_filter_upt [intro, simp]: "distinct (filter P [m..<n])"
  by simp

subsection \<open>List comprehensions with one generator and one guard\<close>

lemma concat_map_if_single [simp]:
  "concat (map (\<lambda>x. if P x then [f x] else []) xs) = map f (filter P xs)"
  by (induction xs) auto

lemma image_filter_in [simp]: "f ` {x \<in> A. f x \<in> K} = f ` A \<inter> K"
  by auto

subsection \<open>Updating a list at an index that may be out of range\<close>

lemma nth_list_update_cases:
  "j < length xs \<Longrightarrow> xs[i := x] ! j = (if i = j then x else xs ! j)"
  by (simp add: nth_list_update)

lemma in_set_map_filter: "(y \<in> set (List.map_filter f xs)) = (\<exists>x \<in> set xs. f x = Some y)"
  by (induction xs) (auto simp: List.map_filter_simps split: option.splits)

end
