(* ===== verification/Store.thy ===== *)
theory Store
  imports Prelude
begin

text \<open>
  The Record Store and the Reconciler. A \<open>Gtk.ListStore\<close> of the process view
  (src/pages/processes.py, \<open>process_store\<close>) or the package view
  (src/pages/packages.py, \<open>pkg_store\<close>) is a list of rows; in both views column 0 is the
  check box (the selection bit) and column 1 the identity (PID, package name); the other
  columns are carried as one value of a type parameter. The store operations are the
  reads and writes of column 0 that the handlers make (with the fallbacks the code takes
  when an index is out of range), the query of the selected identities, and the
  incremental refresh \<open>refresh_process_list\<close> with its dictionary of existing rows, its
  in-place update, its appends and its deletion in reverse index order. The refresh is
  shown to implement the abstract reconciliation \<open>reconcile\<close> (update every sampled
  identity in place, append the new ones, then evict the absent ones).
\<close>

subsection \<open>Rows and stores\<close>

record ('k, 'f) row =
  sel :: bool   \<comment> \<open>column 0, the check box\<close>
  ident :: 'k   \<comment> \<open>column 1, PID or package name\<close>
  cols :: 'f    \<comment> \<open>the remaining columns\<close>

type_synonym ('k, 'f) store = "('k, 'f) row list"

text \<open>
  Reading column 0 at a store index: \<open>store.get_value(store.get_iter(idx), 0)\<close>, and when
  that raises, \<open>bool(store[idx][0])\<close>, and when that raises too, a default (\<open>False\<close> in the
  toggle handler, \<open>True\<close> for the anchor in the click handler).
\<close>

definition get_sel_or :: "bool \<Rightarrow> nat \<Rightarrow> ('k, 'f) store \<Rightarrow> bool" where
  "get_sel_or dflt i st = (if i < length st then sel (st ! i) else dflt)"

text \<open>Writing column 0: \<open>store.set_value(it, 0, v)\<close>, falling back to
  \<open>store[idx][0] = v\<close>, and to \<open>pass\<close> when the index is out of range.\<close>

definition set_sel :: "nat \<Rightarrow> bool \<Rightarrow> ('k, 'f) store \<Rightarrow> ('k, 'f) store" where
  "set_sel i v st = (if i < length st then st[i := (st ! i)\<lparr>sel := v\<rparr>] else st)"

text \<open>The Action Surface: \<open>[r[1] for r in store if r[0]]\<close>.\<close>

definition selected_ids :: "('k, 'f) store \<Rightarrow> 'k list" where
  "selected_ids st = [ident r. r \<leftarrow> st, sel r]"

subsection \<open>The incremental refresh of the process view\<close>

text \<open>
  \<open>new_data\<close>: one row per sampled process, its check box set to
  \<open>pid in selected_pids\<close> where \<open>selected_pids\<close> are the identities selected before the
  refresh. The sampler (the \<open>psutil.process_iter\<close> loop and the conversion of each
  process's attributes to the display columns) is the parameter \<open>sample\<close>: the list of
  \<open>(pid, other columns)\<close> it produced.
\<close>

definition mk_new_data :: "('k, 'f) store \<Rightarrow> ('k \<times> 'f) list \<Rightarrow> ('k, 'f) store" where
  "mk_new_data st sample =
     (let selected_pids = set (selected_ids st)
      in map (\<lambda>(k, c). \<lparr>sel = k \<in> selected_pids, ident = k, cols = c\<rparr>) sample)"

text \<open>\<open>existing = {store[i][1]: i for i in range(len(store))}\<close>: a later index
  overwrites an earlier one with the same identity.\<close>

definition index_map :: "('k, 'f) store \<Rightarrow> 'k \<Rightarrow> nat option" where
  "index_map st = fold (\<lambda>i m. m(ident (st ! i) \<mapsto> i)) [0..<length st] Map.empty"

text \<open>One iteration of \<open>for row in new_data\<close>: overwrite every column of the row at the
  recorded path, or append.\<close>

definition upsert_row ::
  "('k \<Rightarrow> nat option) \<Rightarrow> ('k, 'f) row \<Rightarrow> ('k, 'f) store \<Rightarrow> ('k, 'f) store" where
  "upsert_row existing r st =
     (case existing (ident r) of Some path \<Rightarrow> st[path := r] | None \<Rightarrow> st @ [r])"

text \<open>\<open>to_remove = [i for i in range(len(store)) if store[i][1] not in {r[1] for r in
  new_data}]\<close>, then \<open>for i in reversed(to_remove): del store[...]\<close>.\<close>

definition to_remove :: "('k, 'f) store \<Rightarrow> 'k list \<Rightarrow> nat list" where
  "to_remove st keep = [i \<leftarrow> [0..<length st]. ident (st ! i) \<notin> set keep]"

fun del_indices :: "nat list \<Rightarrow> 'a list \<Rightarrow> 'a list" where
  "del_indices [] xs = xs"
| "del_indices (i # is) xs = del_indices is (del_at i xs)"

definition refresh_process_list :: "('k, 'f) store \<Rightarrow> ('k \<times> 'f) list \<Rightarrow> ('k, 'f) store" where
  "refresh_process_list st sample =
     (let new_data = mk_new_data st sample;
          existing = index_map st;
          st1 = fold (upsert_row existing) new_data st;
          keep = map ident new_data
      in del_indices (rev (to_remove st1 keep)) st1)"

subsection \<open>The reconciliation contract\<close>

text \<open>
  What the refresh promises (spec, Reconciler): every row whose identity is sampled again
  keeps its place and its check box and takes the sampled columns (the last sampled ones
  if the identity is sampled twice); every row whose identity is not sampled is evicted;
  every newly sampled identity is appended, unselected, in sample order.
\<close>

definition latest :: "('k \<times> 'f) list \<Rightarrow> 'k \<Rightarrow> 'f option" where
  "latest sample = map_of (rev sample)"

definition reconcile :: "('k, 'f) store \<Rightarrow> ('k \<times> 'f) list \<Rightarrow> ('k, 'f) store" where
  "reconcile st sample =
     [r\<lparr>cols := the (latest sample (ident r))\<rparr>. r \<leftarrow> st, ident r \<in> set (map fst sample)] @
     [\<lparr>sel = False, ident = k, cols = c\<rparr>. (k, c) \<leftarrow> sample, k \<notin> set (map ident st)]"

text \<open>The store invariant: no two rows share an identity.\<close>

definition store_inv :: "('k, 'f) store \<Rightarrow> bool" where
  "store_inv st \<longleftrightarrow> distinct (map ident st)"

subsection \<open>Lemmas: reads, writes and the selection query\<close>

lemma length_set_sel [simp]: "length (set_sel i v st) = length st"
  by (simp add: set_sel_def)

lemma map_ident_set_sel [simp]: "map ident (set_sel i v st) = map ident st"
  by (auto simp: set_sel_def nth_list_update intro!: nth_equalityI)

lemma nth_set_sel:
  "j < length st \<Longrightarrow> set_sel i v st ! j = (if i = j then (st ! j)\<lparr>sel := v\<rparr> else st ! j)"
  by (auto simp: set_sel_def nth_list_update)

lemma sel_set_sel [store_simps]:
  "j < length st \<Longrightarrow> sel (set_sel i v st ! j) = (if i = j then v else sel (st ! j))"
  by (simp add: nth_set_sel)

lemma set_sel_beyond [store_simps]: "length st \<le> i \<Longrightarrow> set_sel i v st = st"
  by (simp add: set_sel_def)

lemma store_inv_set_sel [store_simps]: "store_inv (set_sel i v st) = store_inv st"
  by (simp add: store_inv_def)

subsection \<open>Lemmas: the dictionary of existing rows\<close>

lemma fold_index_upd:
  "fold (\<lambda>i m. m(f i \<mapsto> i)) xs m0 k =
     (if \<exists>i \<in> set xs. f i = k then Some (last (filter (\<lambda>i. f i = k) xs)) else m0 k)"
proof (induction xs arbitrary: m0)
  case Nil
  then show ?case by simp
next
  case (Cons x xs)
  show ?case
  proof (cases "\<exists>i \<in> set xs. f i = k")
    case True
    then have "filter (\<lambda>i. f i = k) xs \<noteq> []" by (simp add: filter_empty_conv)
    with True Cons.IH show ?thesis by simp
  next
    case False
    then have "filter (\<lambda>i. f i = k) xs = []" by (simp add: filter_empty_conv)
    with False Cons.IH show ?thesis by auto
  qed
qed

lemma index_map_Some:
  assumes "index_map st k = Some p"
  shows "p < length st \<and> ident (st ! p) = k"
proof -
  let ?is = "filter (\<lambda>i. ident (st ! i) = k) [0..<length st]"
  from assms have ne: "?is \<noteq> []" and p: "p = last ?is"
    by (auto simp: index_map_def fold_index_upd filter_empty_conv split: if_splits)
  then have "last ?is \<in> set ?is" by (intro last_in_set)
  with p show ?thesis by simp
qed

lemma in_idents_conv_nth: "(k \<in> set (map ident st)) = (\<exists>i < length st. ident (st ! i) = k)"
proof
  assume "k \<in> set (map ident st)"
  then obtain i where "i < length (map ident st)" and "map ident st ! i = k"
    by (auto simp only: in_set_conv_nth)
  then show "\<exists>i < length st. ident (st ! i) = k" by auto
next
  assume "\<exists>i < length st. ident (st ! i) = k"
  then show "k \<in> set (map ident st)" by (auto simp: image_iff)
qed

lemma index_map_None: "(index_map st k = None) = (k \<notin> set (map ident st))"
  unfolding in_idents_conv_nth by (auto simp: index_map_def fold_index_upd)

lemma ident_nth_inj:
  assumes "distinct (map ident st)" and "i < length st" and "j < length st"
    and "ident (st ! i) = ident (st ! j)"
  shows "i = j"
proof -
  from assms(4) have "map ident st ! i = map ident st ! j" using assms(2,3) by simp
  with assms(1-3) show ?thesis by (simp only: nth_eq_iff_index_eq length_map)
qed

lemma index_map_distinct:
  assumes "distinct (map ident st)" and "p < length st" and "ident (st ! p) = k"
  shows "index_map st k = Some p"
proof -
  have "k \<in> set (map ident st)"
    using assms(2,3) in_idents_conv_nth [of k st] by blast
  then have "index_map st k \<noteq> None"
    using index_map_None [of st k] by blast
  then obtain q where q: "index_map st k = Some q" by blast
  from index_map_Some [OF q] have "q < length st" and "ident (st ! q) = k" by blast+
  with assms have "q = p" using ident_nth_inj by blast
  with q show ?thesis by simp
qed

subsection \<open>Lemmas: deletion in reverse index order is a filter\<close>

lemma del_at_append: "i < length ys \<Longrightarrow> del_at i (ys @ zs) = del_at i ys @ zs"
  by (simp add: del_at_def)

lemma del_indices_append:
  "sorted_wrt (>) is \<Longrightarrow> \<forall>i \<in> set is. i < length ys \<Longrightarrow>
   del_indices is (ys @ zs) = del_indices is ys @ zs"
proof (induction "is" arbitrary: ys)
  case Nil
  then show ?case by simp
next
  case (Cons i "is")
  then have "\<forall>j \<in> set is. j < length (del_at i ys)" by fastforce
  with Cons show ?case by (simp add: del_at_append)
qed

lemma to_remove_snoc:
  "to_remove (st @ [r]) keep =
     to_remove st keep @ (if ident r \<notin> set keep then [length st] else [])"
proof -
  have "[i \<leftarrow> [0..<length st]. ident ((st @ [r]) ! i) \<notin> set keep] =
        [i \<leftarrow> [0..<length st]. ident (st ! i) \<notin> set keep]"
    by (rule filter_cong) (auto simp: nth_append)
  then show ?thesis by (simp add: to_remove_def)
qed

lemma sorted_rev_to_remove: "sorted_wrt (>) (rev (to_remove st keep))"
  by (simp add: to_remove_def sorted_wrt_rev)

lemma del_at_last [simp]: "del_at (length ys) (ys @ [y]) = ys"
  by (simp add: del_at_def)

lemma del_rev_to_remove_filter:
  "del_indices (rev (to_remove st keep)) st = filter (\<lambda>r. ident r \<in> set keep) st"
proof (induction st rule: rev_induct)
  case Nil
  then show ?case by (simp add: to_remove_def)
next
  case (snoc r st)
  let ?R = "rev (to_remove st keep)"
  show ?case
  proof (cases "ident r \<in> set keep")
    case True
    then have "rev (to_remove (st @ [r]) keep) = ?R" by (simp add: to_remove_snoc)
    moreover have "\<forall>i \<in> set ?R. i < length st" by (simp add: to_remove_def)
    then have "del_indices ?R (st @ [r]) = del_indices ?R st @ [r]"
      by (intro del_indices_append sorted_rev_to_remove)
    ultimately show ?thesis using True snoc.IH by simp
  next
    case False
    then have "rev (to_remove (st @ [r]) keep) = length st # ?R" by (simp add: to_remove_snoc)
    then have "del_indices (rev (to_remove (st @ [r]) keep)) (st @ [r]) = del_indices ?R st"
      by simp
    with False snoc.IH show ?thesis by simp
  qed
qed

subsection \<open>Lemmas: the update-or-append loop\<close>

lemma mk_new_data_snoc [simp]:
  "mk_new_data st (sample @ [(k, c)]) =
     mk_new_data st sample @ [\<lparr>sel = k \<in> set (selected_ids st), ident = k, cols = c\<rparr>]"
  by (simp add: mk_new_data_def Let_def)

lemma mk_new_data_idents [simp]: "map ident (mk_new_data st sample) = map fst sample"
  unfolding mk_new_data_def Let_def by (induction sample) auto

lemma mk_new_data_ident_set [simp]: "ident ` set (mk_new_data st sample) = fst ` set sample"
  by (simp only: set_map [symmetric] mk_new_data_idents)

lemma latest_snoc [simp]:
  "latest (sample @ [(k, c)]) x = (if x = k then Some c else latest sample x)"
  by (simp add: latest_def)

lemma latest_Some_iff: "(latest sample k \<noteq> None) = (k \<in> set (map fst sample))"
  using map_of_eq_None_iff [of "rev sample" k] by (simp add: latest_def)

lemma selected_ids_subset: "set (selected_ids st) \<subseteq> set (map ident st)"
  by (auto simp: selected_ids_def)

lemma sel_iff_selected:
  assumes "distinct (map ident st)" and "r \<in> set st"
  shows "(ident r \<in> set (selected_ids st)) = sel r"
proof
  assume "ident r \<in> set (selected_ids st)"
  then obtain r' where "r' \<in> set st" and "sel r'" and "ident r' = ident r"
    by (auto simp: selected_ids_def)
  from assms(1) have "inj_on ident (set st)" by (simp add: distinct_map)
  with \<open>r' \<in> set st\<close> assms(2) \<open>ident r' = ident r\<close> have "r' = r"
    by (auto dest: inj_onD)
  with \<open>sel r'\<close> show "sel r" by simp
next
  assume "sel r"
  with assms(2) show "ident r \<in> set (selected_ids st)" by (auto simp: selected_ids_def)
qed

text \<open>The row the loop leaves at an existing position.\<close>

definition refreshed_row ::
  "('k, 'f) store \<Rightarrow> ('k \<times> 'f) list \<Rightarrow> ('k, 'f) row \<Rightarrow> ('k, 'f) row" where
  "refreshed_row st sample r =
     (case latest sample (ident r) of
        None \<Rightarrow> r
      | Some c \<Rightarrow> \<lparr>sel = ident r \<in> set (selected_ids st), ident = ident r, cols = c\<rparr>)"

lemma ident_refreshed_row [simp]: "ident (refreshed_row st sample r) = ident r"
  by (simp add: refreshed_row_def split: option.split)

lemma fold_upsert:
  assumes "distinct (map ident st)"
  shows "fold (upsert_row (index_map st)) (mk_new_data st sample) st =
     map (refreshed_row st sample) st @
     [\<lparr>sel = False, ident = k, cols = c\<rparr>. (k, c) \<leftarrow> sample, k \<notin> set (map ident st)]"
proof (induction sample rule: rev_induct)
  case Nil
  then show ?case by (simp add: mk_new_data_def refreshed_row_def latest_def)
next
  case (snoc x sample)
  obtain k c where x: "x = (k, c)" by fastforce
  let ?S = "set (selected_ids st)"
  let ?M = "map (refreshed_row st sample) st"
  let ?E = "[\<lparr>sel = False, ident = k, cols = c\<rparr>. (k, c) \<leftarrow> sample, k \<notin> set (map ident st)]"
  let ?new = "\<lparr>sel = k \<in> ?S, ident = k, cols = c\<rparr>"
  have step: "fold (upsert_row (index_map st)) (mk_new_data st (sample @ [x])) st =
      upsert_row (index_map st) ?new (?M @ ?E)"
    using snoc.IH by (simp add: x)
  show ?case
  proof (cases "k \<in> set (map ident st)")
    case True
    then have "\<exists>i < length st. ident (st ! i) = k" by (simp only: in_idents_conv_nth)
    then obtain p where p: "p < length st" "ident (st ! p) = k" by blast
    with assms have ix: "index_map st k = Some p" by (rule index_map_distinct)
    have "?M[p := ?new] = map (refreshed_row st (sample @ [x])) st"
    proof (rule nth_equalityI)
      fix j assume "j < length (?M[p := ?new])"
      then have j: "j < length st" by simp
      show "?M[p := ?new] ! j = map (refreshed_row st (sample @ [x])) st ! j"
      proof (cases "j = p")
        case True
        with p show ?thesis by (simp add: x refreshed_row_def)
      next
        case False
        with assms j p have "ident (st ! j) \<noteq> k"
          using ident_nth_inj by blast
        with False j show ?thesis by (simp add: x refreshed_row_def)
      qed
    qed simp
    note M = this
    have E: "?E = [\<lparr>sel = False, ident = k, cols = c\<rparr>. (k, c) \<leftarrow> sample @ [x],
        k \<notin> set (map ident st)]" using True by (simp add: x)
    have "upsert_row (index_map st) ?new (?M @ ?E) = (?M @ ?E)[p := ?new]"
      by (simp add: upsert_row_def ix)
    also have "\<dots> = ?M[p := ?new] @ ?E" using p by (simp add: list_update_append1)
    finally show ?thesis using step M E by simp
  next
    case False
    then have ix: "index_map st k = None" by (simp add: index_map_None)
    have "\<forall>r \<in> set st. ident r \<noteq> k" using False by auto
    then have M: "?M = map (refreshed_row st (sample @ [x])) st"
      by (auto simp: x refreshed_row_def)
    have "k \<notin> ?S" using False selected_ids_subset [of st] by blast
    with False have E: "?E @ [?new] = [\<lparr>sel = False, ident = k, cols = c\<rparr>. (k, c) \<leftarrow> sample @ [x],
        k \<notin> set (map ident st)]" by (simp add: x)
    have "upsert_row (index_map st) ?new (?M @ ?E) = ?M @ ?E @ [?new]"
      by (simp add: upsert_row_def ix)
    then show ?thesis using step M E by simp
  qed
qed

lemma refreshed_row_kept:
  assumes "distinct (map ident st)" and "r \<in> set st" and "ident r \<in> set (map fst sample)"
  shows "refreshed_row st sample r = r\<lparr>cols := the (latest sample (ident r))\<rparr>"
proof -
  from assms(3) obtain c where c: "latest sample (ident r) = Some c"
    using latest_Some_iff [of sample "ident r"] by blast
  from assms(1,2) have "(ident r \<in> set (selected_ids st)) = sel r" by (rule sel_iff_selected)
  with c show ?thesis by (simp add: refreshed_row_def)
qed

lemma refresh_as_filter:
  "refresh_process_list st sample =
     filter (\<lambda>r. ident r \<in> set (map fst sample))
       (fold (upsert_row (index_map st)) (mk_new_data st sample) st)"
  by (simp add: refresh_process_list_def Let_def del_rev_to_remove_filter)

lemma refresh_eq_reconcile:
  assumes "store_inv st"
  shows "refresh_process_list st sample = reconcile st sample"
proof -
  let ?K = "set (map fst sample)"
  let ?E = "[\<lparr>sel = False, ident = k, cols = c\<rparr>. (k, c) \<leftarrow> sample, k \<notin> set (map ident st)]"
  from assms have d: "distinct (map ident st)" by (simp add: store_inv_def)
  have "filter (\<lambda>r. ident r \<in> ?K) ?E = ?E"
    by (rule filter_True) (force split: if_splits)
  then have "refresh_process_list st sample =
      map (refreshed_row st sample) (filter (\<lambda>r. ident r \<in> ?K) st) @ ?E"
    using d by (simp add: refresh_as_filter fold_upsert filter_map comp_def)
  also have "map (refreshed_row st sample) (filter (\<lambda>r. ident r \<in> ?K) st) =
      map (\<lambda>r. r\<lparr>cols := the (latest sample (ident r))\<rparr>) (filter (\<lambda>r. ident r \<in> ?K) st)"
    using d by (intro map_cong refl) (simp add: refreshed_row_kept)
  finally show ?thesis by (simp add: reconcile_def)
qed

subsection \<open>Lemmas: identities through the loop, without any invariant\<close>

lemma upsert_row_positions:
  assumes "length st \<le> length acc" and "\<forall>i < length st. ident (acc ! i) = ident (st ! i)"
  shows "length st \<le> length (upsert_row (index_map st) r acc) \<and>
    (\<forall>i < length st. ident (upsert_row (index_map st) r acc ! i) = ident (st ! i)) \<and>
    set (map ident (upsert_row (index_map st) r acc)) = insert (ident r) (set (map ident acc))"
proof (cases "index_map st (ident r)")
  case None
  with assms show ?thesis by (auto simp: upsert_row_def nth_append)
next
  case (Some p)
  from index_map_Some [OF Some] have p: "p < length st" "ident (st ! p) = ident r" by auto
  with assms have at_p: "map ident acc ! p = ident r" by simp
  have "map ident (acc[p := r]) = (map ident acc)[p := ident r]" by (simp add: map_update)
  also have "\<dots> = map ident acc" by (simp only: at_p [symmetric] list_update_id)
  finally have "map ident (acc[p := r]) = map ident acc" .
  moreover have "ident r \<in> set (map ident acc)"
    using at_p p assms(1) by (metis length_map less_le_trans nth_mem)
  ultimately show ?thesis using Some assms p by (auto simp: upsert_row_def nth_list_update)
qed

lemma fold_upsert_idents:
  assumes "length st \<le> length acc" and "\<forall>i < length st. ident (acc ! i) = ident (st ! i)"
  shows "set (map ident (fold (upsert_row (index_map st)) rows acc)) =
    set (map ident acc) \<union> set (map ident rows)"
  using assms
proof (induction rows arbitrary: acc)
  case Nil
  then show ?case by simp
next
  case (Cons r rows)
  from upsert_row_positions [OF Cons.prems] Cons.IH show ?case by auto
qed

lemma reconcile_idents:
  "map ident (reconcile st sample) =
     filter (\<lambda>k. k \<in> set (map fst sample)) (map ident st) @
     filter (\<lambda>k. k \<notin> set (map ident st)) (map fst sample)"
  by (induction sample) (auto simp: reconcile_def filter_map comp_def)

lemma selected_ids_reconcile:
  "selected_ids (reconcile st sample) = [k \<leftarrow> selected_ids st. k \<in> set (map fst sample)]"
proof -
  have "filter sel [\<lparr>sel = False, ident = k, cols = c\<rparr>. (k, c) \<leftarrow> sample, k \<notin> set (map ident st)] = []"
    by (induction sample) auto
  then show ?thesis by (simp add: reconcile_def selected_ids_def filter_map comp_def filter_filter conj_commute)
qed

lemma refresh_keeps_store_inv:
  assumes "store_inv st" and "distinct (map fst sample)"
  shows "store_inv (refresh_process_list st sample)"
proof -
  have "distinct (filter (\<lambda>k. k \<in> set (map fst sample)) (map ident st))"
    using assms(1) by (simp add: store_inv_def)
  moreover have "distinct (filter (\<lambda>k. k \<notin> set (map ident st)) (map fst sample))"
    using assms(2) by simp
  ultimately show ?thesis
    using assms(1) by (auto simp: refresh_eq_reconcile store_inv_def reconcile_idents)
qed

subsection \<open>Properties of the refresh\<close>

text \<open>
  C1: on a store without duplicate identities, the incremental
  refresh \<open>refresh_process_list\<close> (dictionary of existing rows, update in place or
  append, deletion of the absent rows in reverse index order) computes exactly the
  reconciliation contract: the surviving rows in their old order with their check boxes
  and the last sampled columns, then the new identities unselected in sample order.
\<close>

theorem refresh_refines:
  assumes "store_inv st"
  shows "refresh_process_list st sample = reconcile st sample"
  using assms by (rule refresh_eq_reconcile)

text \<open>The scenario of the spec: store \<open>{1, 2, 3, 4}\<close> with 2 selected, sample
  \<open>{2, 3, 5}\<close>.\<close>

theorem refresh_refines_witness:
  "refresh_process_list
     [\<lparr>sel = False, ident = 1::nat, cols = ''a''\<rparr>, \<lparr>sel = True, ident = 2, cols = ''b''\<rparr>,
      \<lparr>sel = False, ident = 3, cols = ''c''\<rparr>, \<lparr>sel = False, ident = 4, cols = ''d''\<rparr>]
     [(2, ''B''), (3, ''C''), (5, ''E'')] =
   [\<lparr>sel = True, ident = 2, cols = ''B''\<rparr>, \<lparr>sel = False, ident = 3, cols = ''C''\<rparr>,
    \<lparr>sel = False, ident = 5, cols = ''E''\<rparr>]"
  using refresh_refines
    [of "[\<lparr>sel = False, ident = 1::nat, cols = ''a''\<rparr>, \<lparr>sel = True, ident = 2, cols = ''b''\<rparr>,
          \<lparr>sel = False, ident = 3, cols = ''c''\<rparr>, \<lparr>sel = False, ident = 4, cols = ''d''\<rparr>]"
        "[(2, ''B''), (3, ''C''), (5, ''E'')]"]
  by (simp add: store_inv_def reconcile_def latest_def)

text \<open>
  C3: the deletion loop of the refresh (collect the indices of
  the rows whose identity is not sampled, delete them from the highest down) removes
  exactly those rows and keeps the others in order: it is a filter.
\<close>

theorem del_indices_to_remove:
  "del_indices (rev (to_remove st keep)) st = filter (\<lambda>r. ident r \<in> set keep) st"
  by (rule del_rev_to_remove_filter)

text \<open>
  Whatever the store holds before, even rows that share an
  identity, after a refresh the identities in the store are exactly the sampled ones.
\<close>

theorem refresh_idents:
  "set (map ident (refresh_process_list st sample)) = set (map fst sample)"
proof -
  let ?F = "fold (upsert_row (index_map st)) (mk_new_data st sample) st"
  have "set (map ident ?F) = set (map ident st) \<union> set (map fst sample)"
    by (subst fold_upsert_idents) simp_all
  then show ?thesis by (auto simp: refresh_as_filter)
qed

text \<open>
  On a store without duplicate identities, the identities
  selected after a refresh are those selected before that are sampled again, in store
  order: a refresh never selects a row and never deselects a surviving one.
\<close>

theorem refresh_selected_ids:
  assumes "store_inv st"
  shows "selected_ids (refresh_process_list st sample) =
    [k \<leftarrow> selected_ids st. k \<in> set (map fst sample)]"
  using assms by (simp add: refresh_eq_reconcile selected_ids_reconcile)

theorem refresh_selected_ids_witness:
  "store_inv [\<lparr>sel = True, ident = 1::nat, cols = ''a''\<rparr>, \<lparr>sel = True, ident = 2, cols = ''b''\<rparr>] \<and>
   selected_ids (refresh_process_list
     [\<lparr>sel = True, ident = 1::nat, cols = ''a''\<rparr>, \<lparr>sel = True, ident = 2, cols = ''b''\<rparr>]
     [(2, ''B''), (3, ''C'')]) = [2]"
  using refresh_selected_ids
    [of "[\<lparr>sel = True, ident = 1::nat, cols = ''a''\<rparr>, \<lparr>sel = True, ident = 2, cols = ''b''\<rparr>]"
        "[(2, ''B''), (3, ''C'')]"]
  by (simp add: store_inv_def selected_ids_def)

text \<open>
  C2: a refresh keeps the store free of duplicate identities when
  the sample is.
\<close>

theorem refresh_store_inv:
  assumes "store_inv st" and "distinct (map fst sample)"
  shows "store_inv (refresh_process_list st sample)"
  using assms by (rule refresh_keeps_store_inv)

theorem refresh_store_inv_witness:
  "store_inv [\<lparr>sel = True, ident = 1::nat, cols = ''a''\<rparr>] \<and> distinct (map fst [(1::nat, ''x''), (2, ''y'')]) \<and>
   store_inv (refresh_process_list [\<lparr>sel = True, ident = 1::nat, cols = ''a''\<rparr>] [(1, ''x''), (2, ''y'')])"
  using refresh_store_inv [of "[\<lparr>sel = True, ident = 1::nat, cols = ''a''\<rparr>]" "[(1, ''x''), (2, ''y'')]"]
  by (simp add: store_inv_def)

text \<open>
  The code does not deduplicate the sample. A new
  identity sampled twice is appended twice (the dictionary of existing rows is built
  before the loop), so the store then holds two rows with one identity; the spec asks
  for last-write-wins.
\<close>

theorem refresh_duplicate_sample:
  "refresh_process_list [] [(1::nat, ''a''), (1, ''b'')] =
     [\<lparr>sel = False, ident = 1, cols = ''a''\<rparr>, \<lparr>sel = False, ident = 1, cols = ''b''\<rparr>] \<and>
   \<not> store_inv (refresh_process_list [] [(1::nat, ''a''), (1, ''b'')])"
  by (simp add: refresh_process_list_def mk_new_data_def index_map_def upsert_row_def
      to_remove_def selected_ids_def del_at_def store_inv_def)

end
