(* ===== verification/FilterView.thy ===== *)
theory FilterView
  imports Store
begin

text \<open>
  The Filter View. Each view shows its store through a \<open>Gtk.TreeModelFilter\<close>
  (\<open>process_store.filter_new(None)\<close> with \<open>set_visible_func\<close>, refiltered on every
  change of the search entry): the rows of the store for which the view's visible
  function holds, in store order, re-enumerated from 0. The model is that projection as a
  list of store indices, the map from a filter path to a store index
  (\<open>convert_path_to_child_path\<close>), and the two visible functions: the process view
  matches the lower-cased query against the name and the command line, the package view
  against the package name. Python's \<open>str.lower\<close> is modelled on the ASCII letters;
  \<open>text in s\<close> is \<open>sublist\<close> of HOL-Library.Sublist (a contiguous substring).
\<close>

subsection \<open>Strings\<close>

definition lower_char :: "char \<Rightarrow> char" where
  "lower_char c =
     (if (65::nat) \<le> of_char c \<and> of_char c \<le> (90::nat) then char_of (of_char c + (32::nat)) else c)"

definition py_lower :: "string \<Rightarrow> string" where
  "py_lower s = map lower_char s"

subsection \<open>The projection\<close>

text \<open>The filtered model: the store indices of the visible rows, in store order.\<close>

definition filter_view :: "(('k, 'f) row \<Rightarrow> bool) \<Rightarrow> ('k, 'f) store \<Rightarrow> nat list" where
  "filter_view vis st = [i \<leftarrow> [0..<length st]. vis (st ! i)]"

text \<open>\<open>convert_path_to_child_path\<close>: the store index behind a filter path, \<open>None\<close> for a
  path the filter model does not have.\<close>

definition child_index :: "nat list \<Rightarrow> nat \<Rightarrow> nat option" where
  "child_index view p = (if p < length view then Some (view ! p) else None)"

subsection \<open>The visible functions\<close>

text \<open>
  \<open>proc_visible_func\<close>: columns 3 (name) and 9 (command line) of a process row, passed
  here as the selectors \<open>name\<close> and \<open>cmd\<close> of the row's other columns;
  \<open>pkg_visible_func\<close>: column 1, the identity of a package row.
\<close>

definition proc_visible ::
  "('f \<Rightarrow> string) \<Rightarrow> ('f \<Rightarrow> string) \<Rightarrow> string \<Rightarrow> ('k, 'f) row \<Rightarrow> bool" where
  "proc_visible name cmd query r =
     (let text = py_lower query
      in text = [] \<or> sublist text (py_lower (name (cols r))) \<or> sublist text (py_lower (cmd (cols r))))"

definition pkg_visible :: "string \<Rightarrow> (string, 'f) row \<Rightarrow> bool" where
  "pkg_visible query r =
     (let text = py_lower query in text = [] \<or> sublist text (py_lower (ident r)))"

subsection \<open>Lemmas\<close>

lemma lower_char_idem [simp]: "lower_char (lower_char c) = lower_char c"
  by (simp add: lower_char_def)

lemma py_lower_idem [simp]: "py_lower (py_lower s) = py_lower s"
  by (simp add: py_lower_def comp_def)

lemma py_lower_Nil_iff [simp]: "(py_lower s = []) = (s = [])"
  by (simp add: py_lower_def)

lemma length_filter_view [view_simps]:
  "length (filter_view vis st) \<le> length st"
proof -
  have "length (filter_view vis st) \<le> length [0..<length st]"
    unfolding filter_view_def by (rule length_filter_le)
  then show ?thesis by simp
qed

lemma set_filter_view [view_simps]:
  "set (filter_view vis st) = {i. i < length st \<and> vis (st ! i)}"
  by (simp add: filter_view_def)

lemma filter_view_rows: "map (nth st) (filter_view vis st) = filter vis st"
proof -
  have "map (nth st) (filter_view vis st) = filter vis (map (nth st) [0..<length st])"
    by (simp add: filter_view_def filter_map comp_def)
  then show ?thesis by (simp add: map_nth)
qed

lemma child_index_Some [view_simps]:
  assumes "child_index (filter_view vis st) p = Some i"
  shows "i < length st \<and> vis (st ! i)"
proof -
  from assms have "i \<in> set (filter_view vis st)"
    by (auto simp: child_index_def split: if_splits)
  then show ?thesis by (simp add: set_filter_view)
qed

lemma child_index_None [view_simps]:
  "(child_index view p = None) = (length view \<le> p)"
  by (simp add: child_index_def)

lemma filter_view_all: "(\<And>r. vis r) \<Longrightarrow> filter_view vis st = [0..<length st]"
  by (simp add: filter_view_def)

end
