(* ===== verification/Modifier.thy ===== *)
theory Modifier
  imports Prelude
begin

text \<open>
  The Modifier Tracker: the application-wide Shift state of src/app.py
  (\<open>SystemManager.shift_pressed\<close>, \<open>SystemManager.shift_last_active\<close>), the two key
  handlers that write it, and the test that the page click handlers run on it to decide
  whether a click is a range gesture (src/pages/processes.py line 263, the same line in
  src/pages/packages.py line 369). The state machine of the key events is an inductive
  reachability predicate; its invariant shows that the 0.6 s grace window is never
  consulted in a reachable state.
\<close>

subsection \<open>State and handlers\<close>

text \<open>The GDK key values the handlers distinguish: the two Shift keys and any other key.\<close>

datatype keyval = KEY_Shift_L | KEY_Shift_R | Other_Key nat

record shift_state =
  shift_pressed :: bool
  shift_last_active :: "timestamp option"

definition init_shift :: shift_state where
  "init_shift = \<lparr>shift_pressed = False, shift_last_active = None\<rparr>"

definition is_shift_key :: "keyval \<Rightarrow> bool" where
  "is_shift_key k \<longleftrightarrow> k = KEY_Shift_L \<or> k = KEY_Shift_R"

text \<open>
  \<open>on_key_pressed\<close> stamps the time of the press; \<open>on_key_released\<close> clears the stamp.
  Both return \<open>False\<close> to GTK (the event propagates); that value does not touch the state.
\<close>

definition on_key_pressed :: "shift_state \<Rightarrow> keyval \<Rightarrow> timestamp \<Rightarrow> shift_state" where
  "on_key_pressed s k now =
     (if is_shift_key k then s\<lparr>shift_pressed := True, shift_last_active := Some now\<rparr> else s)"

definition on_key_released :: "shift_state \<Rightarrow> keyval \<Rightarrow> shift_state" where
  "on_key_released s k =
     (if is_shift_key k then s\<lparr>shift_pressed := False, shift_last_active := None\<rparr> else s)"

text \<open>
  \<open>is_shift = app.shift_pressed or (app.shift_last_active and
  (time.time() - app.shift_last_active) < 0.6)\<close>: a stamp of \<open>0.0\<close> is falsy in Python,
  like \<open>None\<close>.
\<close>

definition is_shift :: "shift_state \<Rightarrow> timestamp \<Rightarrow> bool" where
  "is_shift s now \<longleftrightarrow>
     shift_pressed s \<or>
     (case shift_last_active s of None \<Rightarrow> False | Some t \<Rightarrow> t \<noteq> 0 \<and> now - t < 0.6)"

subsection \<open>Key events as a state machine\<close>

datatype key_event = KeyPress keyval timestamp | KeyRelease keyval

fun key_step :: "shift_state \<Rightarrow> key_event \<Rightarrow> shift_state" where
  "key_step s (KeyPress k t) = on_key_pressed s k t"
| "key_step s (KeyRelease k) = on_key_released s k"

inductive shift_reach :: "shift_state \<Rightarrow> bool" where
  init: "shift_reach init_shift"
| step: "shift_reach s \<Longrightarrow> shift_reach (key_step s e)"

text \<open>What the two handlers keep true between the fields: the stamp is present exactly
  while Shift is held.\<close>

definition shift_inv :: "shift_state \<Rightarrow> bool" where
  "shift_inv s \<longleftrightarrow> (shift_pressed s \<longleftrightarrow> shift_last_active s \<noteq> None)"

inductive_cases shift_reach_stepE: "shift_reach (key_step s e)"

lemmas shift_defs [handler_simps] =
  init_shift_def on_key_pressed_def on_key_released_def is_shift_def

lemma shift_inv_init: "shift_inv init_shift"
  by (simp add: shift_inv_def init_shift_def)

lemma key_step_shift_inv: "shift_inv s \<Longrightarrow> shift_inv (key_step s e)"
  by (cases e) (auto simp: shift_inv_def shift_defs)

lemma shift_reach_inv: "shift_reach s \<Longrightarrow> shift_inv s"
  by (induction rule: shift_reach.induct) (auto intro: shift_inv_init key_step_shift_inv)

lemma is_shift_inv: "shift_inv s \<Longrightarrow> is_shift s now = shift_pressed s"
  by (auto simp: shift_inv_def is_shift_def)

text \<open>
  C4: in every state the key handlers can produce, the
  range-gesture test equals the live key state; the grace window (the second disjunct)
  never decides a click.
\<close>

theorem is_shift_reachable:
  assumes "shift_reach s"
  shows "is_shift s now = shift_pressed s"
  using assms by (intro is_shift_inv shift_reach_inv)

theorem is_shift_reachable_witness:
  "shift_reach (key_step init_shift (KeyPress KEY_Shift_L 5)) \<and>
   is_shift (key_step init_shift (KeyPress KEY_Shift_L 5)) 7"
proof -
  have r: "shift_reach (key_step init_shift (KeyPress KEY_Shift_L 5))"
    by (intro shift_reach.step shift_reach.init)
  have "shift_pressed (key_step init_shift (KeyPress KEY_Shift_L 5))"
    by (simp add: shift_defs is_shift_key_def)
  with r is_shift_reachable [OF r, of 7] show ?thesis by simp
qed

text \<open>
  Releasing either Shift key makes every later click a
  plain toggle, however soon it follows: the release clears the stamp that the grace
  window reads. The spec's scenario (release at 0 s, click at 0.3 s, treated as a range
  gesture) does not happen.
\<close>

theorem is_shift_after_release:
  assumes "is_shift_key k"
  shows "\<not> is_shift (on_key_released s k) now"
  using assms by (simp add: shift_defs)

theorem is_shift_after_release_witness:
  "is_shift_key KEY_Shift_R \<and>
   \<not> is_shift (on_key_released (on_key_pressed init_shift KEY_Shift_R 0) KEY_Shift_R) 0.3"
  using is_shift_after_release [of KEY_Shift_R "on_key_pressed init_shift KEY_Shift_R 0" "0.3"]
  by (simp add: is_shift_key_def)

end
