(* ===== verification/Selection.thy ===== *)
theory Selection
  imports FilterView Modifier
begin

text \<open>
  The Selection Controller: the per-view state the two check-box handlers share
  (\<open>last_proc_toggled_idx\<close> / \<open>last_pkg_toggled_idx\<close>, the anchor, and
  \<open>_suppress_proc_toggle\<close> / \<open>_suppress_pkg_toggle\<close>, the one-shot flag), the toggle
  handler \<open>on_process_toggled\<close> (flip the row behind a filter path, move the anchor) and
  the click handler \<open>on_process_tree_click\<close> (with Shift held and an anchor, paint the
  anchor's current value over the closed interval of store indices between anchor and
  clicked row, then tell the toggle handler to ignore the platform's own toggle). The
  package view's handlers (\<open>on_package_toggled\<close>, \<open>on_packages_tree_click\<close>) are the same
  code over the package store; both are these definitions, applied to the view's visible
  function. Store indices are nats; the anchor may point past the end of the store after a
  refresh has shrunk it, and the code's fallbacks for that case are modelled.
\<close>

subsection \<open>State and handlers\<close>

record ('k, 'f) page =
  store :: "('k, 'f) store"
  search_text :: string
  last_toggled_idx :: "nat option"
  suppress_toggle :: bool

type_synonym ('k, 'f) visible = "string \<Rightarrow> ('k, 'f) row \<Rightarrow> bool"

definition init_page :: "('k, 'f) page" where
  "init_page = \<lparr>store = [], search_text = [], last_toggled_idx = None, suppress_toggle = False\<rparr>"

text \<open>The filter model the tree view shows: the store filtered by the entry's text.\<close>

definition view_of :: "('k, 'f) visible \<Rightarrow> ('k, 'f) page \<Rightarrow> nat list" where
  "view_of vis pg = filter_view (vis (search_text pg)) (store pg)"

text \<open>\<open>filter_processes\<close>: the entry's \<open>changed\<close> signal refilters.\<close>

definition set_search :: "string \<Rightarrow> ('k, 'f) page \<Rightarrow> ('k, 'f) page" where
  "set_search q pg = pg\<lparr>search_text := q\<rparr>"

definition on_toggled :: "('k, 'f) visible \<Rightarrow> nat \<Rightarrow> ('k, 'f) page \<Rightarrow> ('k, 'f) page" where
  "on_toggled vis path pg =
     (if suppress_toggle pg then pg\<lparr>suppress_toggle := False\<rparr>
      else case child_index (view_of vis pg) path of
        None \<Rightarrow> pg
      | Some idx \<Rightarrow>
          (let new_state = \<not> get_sel_or False idx (store pg)
           in pg\<lparr>store := set_sel idx new_state (store pg), last_toggled_idx := Some idx\<rparr>))"

text \<open>\<open>for i in range(a, b + 1): set column 0 of row i\<close>, each write a no-op past the end.\<close>

definition paint_range :: "nat \<Rightarrow> nat \<Rightarrow> bool \<Rightarrow> ('k, 'f) store \<Rightarrow> ('k, 'f) store" where
  "paint_range a b v st = fold (\<lambda>i. set_sel i v) [a..<Suc b] st"

text \<open>
  The click: \<open>hit\<close> is \<open>get_path_at_pos\<close>, a filter path and a column number, or
  \<open>None\<close> off the rows. The result is the new page and the handler's return value
  (\<open>True\<close>: the click was taken as a range gesture).
\<close>

definition on_tree_click ::
  "('k, 'f) visible \<Rightarrow> shift_state \<Rightarrow> timestamp \<Rightarrow> (nat \<times> nat) option \<Rightarrow> ('k, 'f) page
   \<Rightarrow> ('k, 'f) page \<times> bool" where
  "on_tree_click vis sh now hit pg =
     (case hit of
        None \<Rightarrow> (pg, False)
      | Some (path, column) \<Rightarrow>
          if column \<noteq> 0 then (pg, False)
          else
            (let is_sh = is_shift sh now
             in case child_index (view_of vis pg) path of
                  None \<Rightarrow> (pg, False)
                | Some idx \<Rightarrow>
                    (case last_toggled_idx pg of
                       Some anchor \<Rightarrow>
                         if is_sh then
                           (let new_state = get_sel_or True anchor (store pg)
                            in (pg\<lparr>store := paint_range (min anchor idx) (max anchor idx)
                                                   new_state (store pg),
                                   suppress_toggle := True, last_toggled_idx := Some idx\<rparr>,
                                True))
                         else (pg, False)
                     | None \<Rightarrow> (pg, False))))"

text \<open>A visible function that does not read the check box (both views' functions read
  only text columns).\<close>

definition sel_blind :: "('k, 'f) visible \<Rightarrow> bool" where
  "sel_blind vis \<longleftrightarrow> (\<forall>q r v. vis q (r\<lparr>sel := v\<rparr>) = vis q r)"

subsection \<open>Lemmas: painting a range\<close>

lemma fold_set_sel_nth:
  "j < length st \<Longrightarrow>
   fold (\<lambda>i. set_sel i v) is st ! j = (if j \<in> set is then (st ! j)\<lparr>sel := v\<rparr> else st ! j)"
  by (induction "is" arbitrary: st) (auto simp: nth_set_sel)

lemma length_fold_set_sel [simp]: "length (fold (\<lambda>i. set_sel i v) is st) = length st"
  by (induction "is" arbitrary: st) auto

lemma idents_fold_set_sel [simp]: "map ident (fold (\<lambda>i. set_sel i v) is st) = map ident st"
  by (induction "is" arbitrary: st) auto

lemma length_paint_range [simp]: "length (paint_range a b v st) = length st"
  by (simp add: paint_range_def)

lemma idents_paint_range [simp]: "map ident (paint_range a b v st) = map ident st"
  by (simp add: paint_range_def)

lemma paint_range_nth:
  "j < length st \<Longrightarrow>
   paint_range a b v st ! j = (if a \<le> j \<and> j \<le> b then (st ! j)\<lparr>sel := v\<rparr> else st ! j)"
  by (auto simp: paint_range_def fold_set_sel_nth)

lemma sel_paint_range [store_simps]:
  "j < length st \<Longrightarrow> sel (paint_range a b v st ! j) = (if a \<le> j \<and> j \<le> b then v else sel (st ! j))"
  by (simp add: paint_range_nth)

lemma paint_range_single:
  "i < length st \<Longrightarrow> sel (st ! i) = v \<Longrightarrow> paint_range i i v st = st"
  by (rule nth_equalityI) (auto simp: paint_range_nth)

subsection \<open>Lemmas: the handlers case by case\<close>

lemmas page_defs [handler_simps] = on_toggled_def on_tree_click_def set_search_def view_of_def

lemma on_tree_click_range:
  assumes "is_shift sh now" and "last_toggled_idx pg = Some a"
    and "child_index (view_of vis pg) path = Some idx"
  shows "on_tree_click vis sh now (Some (path, 0)) pg =
    (pg\<lparr>store := paint_range (min a idx) (max a idx) (get_sel_or True a (store pg)) (store pg),
        suppress_toggle := True, last_toggled_idx := Some idx\<rparr>, True)"
  using assms by (simp add: on_tree_click_def)

lemma on_tree_click_plain:
  assumes "\<not> (is_shift sh now \<and> last_toggled_idx pg \<noteq> None \<and>
      (\<exists>path. hit = Some (path, 0) \<and> child_index (view_of vis pg) path \<noteq> None))"
  shows "on_tree_click vis sh now hit pg = (pg, False)"
  using assms by (auto simp: on_tree_click_def split: option.split)

lemma on_toggled_flip:
  assumes "\<not> suppress_toggle pg" and "child_index (view_of vis pg) path = Some idx"
  shows "on_toggled vis path pg =
    pg\<lparr>store := set_sel idx (\<not> sel (store pg ! idx)) (store pg), last_toggled_idx := Some idx\<rparr>"
proof -
  from assms(2) have "idx < length (store pg)"
    by (auto simp: view_of_def dest: child_index_Some)
  with assms show ?thesis by (simp add: on_toggled_def get_sel_or_def)
qed

lemma filter_view_cong:
  assumes "length xs = length ys" and "\<And>j. j < length xs \<Longrightarrow> vis (xs ! j) = vis (ys ! j)"
  shows "filter_view vis xs = filter_view vis ys"
  unfolding filter_view_def using assms by (auto intro: filter_cong)

lemma view_of_paint_range:
  assumes "sel_blind vis"
  shows "view_of vis (pg\<lparr>store := paint_range a b v (store pg), suppress_toggle := t,
      last_toggled_idx := l\<rparr>) = view_of vis pg"
proof -
  have "filter_view (vis (search_text pg)) (paint_range a b v (store pg)) =
      filter_view (vis (search_text pg)) (store pg)"
    by (rule filter_view_cong) (use assms in \<open>auto simp: paint_range_nth sel_blind_def\<close>)
  then show ?thesis by (simp add: view_of_def)
qed

lemma child_index_lt:
  "child_index (view_of vis pg) path = Some idx \<Longrightarrow> idx < length (store pg)"
  by (auto simp: view_of_def dest: child_index_Some)

lemma proc_visible_sel_blind: "sel_blind (proc_visible name cmd)"
  by (simp add: sel_blind_def proc_visible_def)

lemma pkg_visible_sel_blind: "sel_blind pkg_visible"
  by (simp add: sel_blind_def pkg_visible_def)

lemma on_tree_click_idents:
  "map ident (store (fst (on_tree_click vis sh now hit pg))) = map ident (store pg)"
  by (auto simp: on_tree_click_def Let_def split: option.splits)

lemma on_toggled_idents: "map ident (store (on_toggled vis path pg)) = map ident (store pg)"
  by (auto simp: on_toggled_def Let_def split: option.splits)

lemma set_search_store [simp]: "store (set_search q pg) = store pg"
  by (simp add: set_search_def)

subsection \<open>Properties of the handlers\<close>

text \<open>
  C5: a toggle on a filter path the view has flips the check box of
  exactly the store row behind that path (a row the filter shows), leaves every other
  row and every identity as it was, and makes that row the anchor.
\<close>

theorem on_toggled_flips:
  assumes "\<not> suppress_toggle pg" and "path < length (view_of vis pg)"
    and "view_of vis pg ! path = idx" and "on_toggled vis path pg = pg'"
  shows "idx < length (store pg) \<and> vis (search_text pg) (store pg ! idx) \<and>
    (\<forall>j < length (store pg).
       sel (store pg' ! j) = (if j = idx then \<not> sel (store pg ! j) else sel (store pg ! j))) \<and>
    map ident (store pg') = map ident (store pg) \<and> length (store pg') = length (store pg) \<and>
    last_toggled_idx pg' = Some idx \<and> \<not> suppress_toggle pg'"
proof -
  have ci: "child_index (view_of vis pg) path = Some idx"
    using assms(2,3) by (simp add: child_index_def)
  then have "idx < length (store pg) \<and> vis (search_text pg) (store pg ! idx)"
    by (auto simp: view_of_def dest: child_index_Some)
  moreover have "pg' = pg\<lparr>store := set_sel idx (\<not> sel (store pg ! idx)) (store pg),
      last_toggled_idx := Some idx\<rparr>"
    using on_toggled_flip [OF assms(1) ci] assms(4) by simp
  ultimately show ?thesis using assms(1) by (auto simp: sel_set_sel)
qed

theorem on_toggled_flips_witness:
  "\<not> suppress_toggle (init_page\<lparr>store := [\<lparr>sel = False, ident = ''vim'', cols = ()\<rparr>,
       \<lparr>sel = False, ident = ''zsh'', cols = ()\<rparr>], search_text := ''z''\<rparr>) \<and>
   0 < length (view_of pkg_visible (init_page\<lparr>store := [\<lparr>sel = False, ident = ''vim'', cols = ()\<rparr>,
       \<lparr>sel = False, ident = ''zsh'', cols = ()\<rparr>], search_text := ''z''\<rparr>)) \<and>
   view_of pkg_visible (init_page\<lparr>store := [\<lparr>sel = False, ident = ''vim'', cols = ()\<rparr>,
       \<lparr>sel = False, ident = ''zsh'', cols = ()\<rparr>], search_text := ''z''\<rparr>) ! 0 = 1 \<and>
   sel (store (on_toggled pkg_visible 0 (init_page\<lparr>store := [\<lparr>sel = False, ident = ''vim'', cols = ()\<rparr>,
       \<lparr>sel = False, ident = ''zsh'', cols = ()\<rparr>], search_text := ''z''\<rparr>)) ! 1)"
proof -
  let ?pg = "init_page\<lparr>store := [\<lparr>sel = False, ident = ''vim'', cols = ()\<rparr>,
       \<lparr>sel = False, ident = ''zsh'', cols = ()\<rparr>], search_text := ''z''\<rparr>"
  have v: "view_of pkg_visible ?pg = [1]" by code_simp
  have s: "\<not> suppress_toggle ?pg" by (simp add: init_page_def)
  from on_toggled_flips [OF s, of 0 pkg_visible 1 "on_toggled pkg_visible 0 ?pg"] v s
  show ?thesis by (simp add: init_page_def)
qed

text \<open>
  A toggle on a filter path the view no longer has (the row
  vanished between render and event) changes nothing: not the store, not the anchor.
\<close>

theorem on_toggled_stale:
  assumes "\<not> suppress_toggle pg" and "length (view_of vis pg) \<le> path"
  shows "on_toggled vis path pg = pg"
  using assms by (simp add: on_toggled_def child_index_def)

theorem on_toggled_stale_witness:
  "\<not> suppress_toggle (init_page :: (string, unit) page) \<and>
   length (view_of pkg_visible (init_page :: (string, unit) page)) \<le> 0 \<and>
   on_toggled pkg_visible 0 (init_page :: (string, unit) page) = init_page"
  using on_toggled_stale [of "init_page :: (string, unit) page" pkg_visible 0]
  by (simp add: init_page_def view_of_def filter_view_def)

text \<open>
  C6: a click on the check-box column of a row the view has, with
  Shift held and an anchor set, writes the anchor's current check box (not its negation)
  into every store row whose index lies between anchor and clicked row, both included,
  and into no other row; it keeps every identity, moves the anchor to the clicked row,
  arms the one-shot suppression of the next toggle, and reports the click as handled.
\<close>

theorem on_tree_click_paints:
  assumes "is_shift sh now" and "last_toggled_idx pg = Some a"
    and "child_index (view_of vis pg) path = Some idx"
    and "on_tree_click vis sh now (Some (path, 0)) pg = (pg', handled)"
  shows "handled \<and> last_toggled_idx pg' = Some idx \<and> suppress_toggle pg' \<and>
    map ident (store pg') = map ident (store pg) \<and>
    (\<forall>j < length (store pg). sel (store pg' ! j) =
       (if min a idx \<le> j \<and> j \<le> max a idx then get_sel_or True a (store pg) else sel (store pg ! j)))"
  using on_tree_click_range [OF assms(1-3)] assms(4) by (auto simp: sel_paint_range)

theorem on_tree_click_paints_witness:
  "is_shift \<lparr>shift_pressed = True, shift_last_active = Some 1\<rparr> 2 \<and>
   last_toggled_idx (init_page\<lparr>store := [\<lparr>sel = True, ident = ''a'', cols = ()\<rparr>,
      \<lparr>sel = False, ident = ''b'', cols = ()\<rparr>], last_toggled_idx := Some 0\<rparr>) = Some 0 \<and>
   child_index (view_of pkg_visible (init_page\<lparr>store := [\<lparr>sel = True, ident = ''a'', cols = ()\<rparr>,
      \<lparr>sel = False, ident = ''b'', cols = ()\<rparr>], last_toggled_idx := Some 0\<rparr>)) 1 = Some 1 \<and>
   sel (store (fst (on_tree_click pkg_visible \<lparr>shift_pressed = True, shift_last_active = Some 1\<rparr> 2
      (Some (1, 0)) (init_page\<lparr>store := [\<lparr>sel = True, ident = ''a'', cols = ()\<rparr>,
      \<lparr>sel = False, ident = ''b'', cols = ()\<rparr>], last_toggled_idx := Some 0\<rparr>))) ! 1)"
proof -
  let ?pg = "init_page\<lparr>store := [\<lparr>sel = True, ident = ''a'', cols = ()\<rparr>,
      \<lparr>sel = False, ident = ''b'', cols = ()\<rparr>], last_toggled_idx := Some 0\<rparr>"
  let ?sh = "\<lparr>shift_pressed = True, shift_last_active = Some 1\<rparr>"
  have sh: "is_shift ?sh 2" by (simp add: is_shift_def)
  have l: "last_toggled_idx ?pg = Some 0" by simp
  have c: "child_index (view_of pkg_visible ?pg) 1 = Some 1" by code_simp
  obtain pg' h where r: "on_tree_click pkg_visible ?sh 2 (Some (1, 0)) ?pg = (pg', h)"
    by (cases "on_tree_click pkg_visible ?sh 2 (Some (1, 0)) ?pg")
  from on_tree_click_paints [OF sh l c r] have "sel (store pg' ! 1)"
    by (simp add: init_page_def get_sel_or_def)
  with sh c r show ?thesis by simp
qed

text \<open>
  The click handler is idempotent on the page: repeating
  the same click with nothing in between leaves the page as one click left it (a second
  range gesture over the same rows paints the one-row range of the new anchor with its own
  value). This needs only that the view's visible function ignores the check box, which
  both views' functions do.
\<close>

theorem on_tree_click_idempotent:
  assumes "sel_blind vis"
  shows "fst (on_tree_click vis sh now hit (fst (on_tree_click vis sh now hit pg))) =
    fst (on_tree_click vis sh now hit pg)"
proof (cases "is_shift sh now \<and> last_toggled_idx pg \<noteq> None \<and>
    (\<exists>path. hit = Some (path, 0) \<and> child_index (view_of vis pg) path \<noteq> None)")
  case True
  then obtain a path idx where a: "last_toggled_idx pg = Some a" and h: "hit = Some (path, 0)"
    and c: "child_index (view_of vis pg) path = Some idx" and sh: "is_shift sh now" by blast
  let ?v = "get_sel_or True a (store pg)"
  let ?P = "paint_range (min a idx) (max a idx) ?v (store pg)"
  let ?pg1 = "pg\<lparr>store := ?P, suppress_toggle := True, last_toggled_idx := Some idx\<rparr>"
  have one: "fst (on_tree_click vis sh now hit pg) = ?pg1"
    using on_tree_click_range [OF sh a c] h by simp
  have idx: "idx < length (store pg)" using c by (rule child_index_lt)
  have c1: "child_index (view_of vis ?pg1) path = Some idx"
    using c view_of_paint_range [OF assms] by simp
  have "get_sel_or True idx ?P = ?v" using idx by (simp add: get_sel_or_def sel_paint_range)
  then have "paint_range idx idx (get_sel_or True idx ?P) ?P = ?P"
    using idx by (simp add: paint_range_single get_sel_or_def)
  then have "fst (on_tree_click vis sh now hit ?pg1) = ?pg1"
    using on_tree_click_range [OF sh _ c1, of idx] h by simp
  with one show ?thesis by simp
next
  case False
  then show ?thesis by (simp add: on_tree_click_plain)
qed

theorem on_tree_click_idempotent_witness:
  "sel_blind (pkg_visible :: (string, unit) visible) \<and>
   fst (on_tree_click pkg_visible init_shift 0 None
     (fst (on_tree_click pkg_visible init_shift 0 None (init_page :: (string, unit) page)))) =
   fst (on_tree_click pkg_visible init_shift 0 None (init_page :: (string, unit) page))"
  using on_tree_click_idempotent [OF pkg_visible_sel_blind, of init_shift 0 None
      "init_page :: (string, unit) page"] pkg_visible_sel_blind by simp

text \<open>
  The painted interval is one of store indices, not of
  the view: a row the filter hides is painted when its store index lies between anchor and
  clicked row.
\<close>

theorem on_tree_click_hidden_rows:
  assumes "is_shift sh now" and "last_toggled_idx pg = Some a"
    and "child_index (view_of vis pg) path = Some idx"
    and "min a idx \<le> j" and "j \<le> max a idx" and "j < length (store pg)"
    and "\<not> vis (search_text pg) (store pg ! j)"
  shows "sel (store (fst (on_tree_click vis sh now (Some (path, 0)) pg)) ! j) =
    get_sel_or True a (store pg)"
  using on_tree_click_range [OF assms(1-3)] assms(4-6) by (simp add: sel_paint_range)

theorem on_tree_click_hidden_rows_witness:
  "is_shift \<lparr>shift_pressed = True, shift_last_active = Some 1\<rparr> 2 \<and>
   child_index (view_of pkg_visible (init_page\<lparr>store := [\<lparr>sel = True, ident = ''bash'', cols = ()\<rparr>,
      \<lparr>sel = False, ident = ''vim'', cols = ()\<rparr>, \<lparr>sel = False, ident = ''bc'', cols = ()\<rparr>],
      search_text := ''b'', last_toggled_idx := Some 0\<rparr>)) 1 = Some 2 \<and>
   \<not> pkg_visible ''b'' \<lparr>sel = False, ident = ''vim'', cols = ()\<rparr> \<and>
   sel (store (fst (on_tree_click pkg_visible \<lparr>shift_pressed = True, shift_last_active = Some 1\<rparr> 2
      (Some (1, 0)) (init_page\<lparr>store := [\<lparr>sel = True, ident = ''bash'', cols = ()\<rparr>,
      \<lparr>sel = False, ident = ''vim'', cols = ()\<rparr>, \<lparr>sel = False, ident = ''bc'', cols = ()\<rparr>],
      search_text := ''b'', last_toggled_idx := Some 0\<rparr>))) ! 1)"
proof -
  let ?pg = "init_page\<lparr>store := [\<lparr>sel = True, ident = ''bash'', cols = ()\<rparr>,
      \<lparr>sel = False, ident = ''vim'', cols = ()\<rparr>, \<lparr>sel = False, ident = ''bc'', cols = ()\<rparr>],
      search_text := ''b'', last_toggled_idx := Some 0\<rparr>"
  let ?sh = "\<lparr>shift_pressed = True, shift_last_active = Some 1\<rparr>"
  have sh: "is_shift ?sh 2" by (simp add: is_shift_def)
  have c: "child_index (view_of pkg_visible ?pg) 1 = Some 2" by code_simp
  have h: "\<not> pkg_visible ''b'' \<lparr>sel = False, ident = ''vim'', cols = ()\<rparr>" by code_simp
  have "sel (store (fst (on_tree_click pkg_visible ?sh 2 (Some (1, 0)) ?pg)) ! 1) =
      get_sel_or True 0 (store ?pg)"
    by (rule on_tree_click_hidden_rows [OF sh _ c]) (use h in \<open>simp_all add: init_page_def\<close>)
  with sh c h show ?thesis by (simp add: get_sel_or_def init_page_def)
qed

text \<open>
  C7: an anchor left past the end of the store (the store
  shrank in a refresh after the last direct toggle) is not a no-op: the anchor's value
  falls back to \<open>True\<close>, and a Shift click selects the clicked row and every row after it.
\<close>

theorem on_tree_click_stale_anchor:
  assumes "is_shift sh now" and "last_toggled_idx pg = Some a" and "length (store pg) \<le> a"
    and "child_index (view_of vis pg) path = Some idx"
    and "idx \<le> j" and "j < length (store pg)"
  shows "sel (store (fst (on_tree_click vis sh now (Some (path, 0)) pg)) ! j)"
  using on_tree_click_range [OF assms(1,2,4)] assms(3,5,6)
  by (simp add: sel_paint_range get_sel_or_def)

theorem on_tree_click_stale_anchor_witness:
  "is_shift \<lparr>shift_pressed = True, shift_last_active = Some 1\<rparr> 2 \<and>
   sel (store (fst (on_tree_click pkg_visible \<lparr>shift_pressed = True, shift_last_active = Some 1\<rparr> 2
      (Some (0, 0)) (init_page\<lparr>store := [\<lparr>sel = False, ident = ''vim'', cols = ()\<rparr>,
      \<lparr>sel = False, ident = ''zsh'', cols = ()\<rparr>], last_toggled_idx := Some 5\<rparr>))) ! 1)"
proof -
  let ?pg = "init_page\<lparr>store := [\<lparr>sel = False, ident = ''vim'', cols = ()\<rparr>,
      \<lparr>sel = False, ident = ''zsh'', cols = ()\<rparr>], last_toggled_idx := Some 5\<rparr>"
  let ?sh = "\<lparr>shift_pressed = True, shift_last_active = Some 1\<rparr>"
  have sh: "is_shift ?sh 2" by (simp add: is_shift_def)
  have c: "child_index (view_of pkg_visible ?pg) 0 = Some 0" by code_simp
  have "sel (store (fst (on_tree_click pkg_visible ?sh 2 (Some (0, 0)) ?pg)) ! 1)"
  proof (rule on_tree_click_stale_anchor [OF sh _ _ c])
    show "last_toggled_idx ?pg = Some 5" by simp
    show "length (store ?pg) \<le> 5" by (simp add: init_page_def)
  qed simp_all
  with sh show ?thesis by simp
qed

end
