(* ===== verification/PyStr.thy ===== *)
theory PyStr
  imports Prelude
begin

text \<open>
  The Python string built-ins the parsers of the views call: \<open>str.isspace\<close>,
  \<open>strip\<close>, \<open>split()\<close>, \<open>split(sep)\<close>, \<open>split(sep, 1)\<close>, \<open>splitlines\<close>, \<open>startswith\<close>, \<open>int\<close>,
  \<open>os.path.splitext\<close> and the truthiness of an optional string.
  A HOL \<open>char\<close> stands for a code point below 256 (Latin-1); the definitions follow
  CPython's behaviour on those code points. They are library functions, not code of the
  repository, and are the vocabulary of the parser models.
\<close>

definition is_space :: "char \<Rightarrow> bool" where
  "is_space c \<longleftrightarrow> of_char c \<in> ({9, 10, 11, 12, 13, 28, 29, 30, 31, 32, 133, 160} :: nat set)"

text \<open>\<open>splitlines\<close> breaks at \<open>\n\<close>, \<open>\r\<close>, \<open>\r\n\<close>, \<open>\v\<close>, \<open>\f\<close>, \<open>\x1c\<close>-\<open>\x1e\<close>
  and \<open>\x85\<close>; it drops the break and yields no empty last line.\<close>

definition is_line_break :: "char \<Rightarrow> bool" where
  "is_line_break c \<longleftrightarrow> of_char c \<in> ({10, 11, 12, 13, 28, 29, 30, 133} :: nat set)"

definition py_strip :: "string \<Rightarrow> string" where
  "py_strip s = rev (dropWhile is_space (rev (dropWhile is_space s)))"

function py_split_ws :: "string \<Rightarrow> string list" where
  "py_split_ws [] = []"
| "py_split_ws (c # s) =
     (if is_space c then py_split_ws s
      else (c # takeWhile (\<lambda>x. \<not> is_space x) s) # py_split_ws (dropWhile (\<lambda>x. \<not> is_space x) s))"
  by pat_completeness auto
termination
  by (relation "measure length") (auto simp: le_imp_less_Suc length_dropWhile_le)

text \<open>\<open>s.split(sep)\<close> for a one-character separator: every piece, empty ones included.\<close>

fun py_split_sep :: "char \<Rightarrow> string \<Rightarrow> string list" where
  "py_split_sep d [] = [[]]"
| "py_split_sep d (c # s) =
     (if c = d then [] # py_split_sep d s
      else (case py_split_sep d s of p # ps \<Rightarrow> (c # p) # ps | [] \<Rightarrow> [[c]]))"

fun py_splitlines :: "string \<Rightarrow> string list" where
  "py_splitlines [] = []"
| "py_splitlines (c # s) =
     (if is_line_break c then
        [] # py_splitlines (if of_char c = (13::nat) \<and> s \<noteq> [] \<and> of_char (hd s) = (10::nat)
                            then tl s else s)
      else (case py_splitlines s of [] \<Rightarrow> [[c]] | l # ls \<Rightarrow> (c # l) # ls))"

text \<open>\<open>sep.join(xs)\<close>.\<close>

fun py_join :: "string \<Rightarrow> string list \<Rightarrow> string" where
  "py_join sep [] = []"
| "py_join sep [x] = x"
| "py_join sep (x # y # xs) = x @ sep @ py_join sep (y # xs)"

definition py_startswith :: "string \<Rightarrow> string \<Rightarrow> bool" where
  "py_startswith s p \<longleftrightarrow> prefix p s"

text \<open>\<open>os.path.basename\<close>: the part after the last slash.\<close>

definition py_basename :: "string \<Rightarrow> string" where
  "py_basename p = rev (takeWhile (\<lambda>c. c \<noteq> CHR ''/'') (rev p))"

text \<open>\<open>s.replace(old, new)\<close> for a nonempty \<open>old\<close>: occurrences replaced left to right,
  without overlap.\<close>

function py_replace :: "string \<Rightarrow> string \<Rightarrow> string \<Rightarrow> string" where
  "py_replace old new [] = []"
| "py_replace old new (c # s) =
     (if old \<noteq> [] \<and> prefix old (c # s) then new @ py_replace old new (drop (length old) (c # s))
      else c # py_replace old new s)"
  by pat_completeness auto
termination
  by (relation "measure (\<lambda>(_, _, s). length s)") auto

definition py_endswith :: "string \<Rightarrow> string \<Rightarrow> bool" where
  "py_endswith s p \<longleftrightarrow> suffix p s"

text \<open>Python truthiness of a string that may be \<open>None\<close>, and \<open>a or b\<close> on such values.\<close>

definition truthy :: "string option \<Rightarrow> bool" where
  "truthy x \<longleftrightarrow> (case x of None \<Rightarrow> False | Some s \<Rightarrow> s \<noteq> [])"

definition py_or :: "string option \<Rightarrow> string option \<Rightarrow> string option" where
  "py_or a b = (if truthy a then a else b)"

text \<open>\<open>s.split(sep, 1)\<close> for a one-character separator: the text before its first
  occurrence and the rest, or \<open>[s]\<close> when it does not occur.\<close>

definition py_split1 :: "char \<Rightarrow> string \<Rightarrow> string list" where
  "py_split1 d s =
     (if d \<in> set s then [takeWhile (\<lambda>x. x \<noteq> d) s, tl (dropWhile (\<lambda>x. x \<noteq> d) s)] else [s])"

text \<open>\<open>os.path.splitext(p)[0]\<close> (posixpath): the path without the extension, which starts
  at the last dot of the base name when a character other than a dot precedes it there.\<close>

definition py_splitext_root :: "string \<Rightarrow> string" where
  "py_splitext_root p =
     (let b = takeWhile (\<lambda>c. c \<noteq> CHR ''/'') (rev p);
          k = length (takeWhile (\<lambda>c. c \<noteq> CHR ''.'') b)
      in if k < length b \<and> list_ex (\<lambda>c. c \<noteq> CHR ''.'') (drop (Suc k) b)
         then take (length p - Suc k) p else p)"

text \<open>
  \<open>int(s)\<close> on a string: surrounding whitespace, an optional sign, ASCII digits with
  single underscores between them; anything else raises \<open>ValueError\<close> (\<open>None\<close>).
\<close>

definition digit_val :: "char \<Rightarrow> nat option" where
  "digit_val c =
     (if (48::nat) \<le> of_char c \<and> (of_char c :: nat) \<le> 57 then Some (of_char c - 48) else None)"

fun digits_val :: "int \<Rightarrow> bool \<Rightarrow> string \<Rightarrow> int option" where
  "digits_val acc after_us [] = (if after_us then None else Some acc)"
| "digits_val acc after_us (c # s) =
     (if c = CHR ''_'' then (if after_us then None else digits_val acc True s)
      else case digit_val c of
        None \<Rightarrow> None
      | Some d \<Rightarrow> digits_val (10 * acc + int d) False s)"

definition py_int :: "string \<Rightarrow> int option" where
  "py_int s =
     (let t = py_strip s
      in case t of
           [] \<Rightarrow> None
         | c # r \<Rightarrow>
             if c = CHR ''-'' then (if r = [] then None else map_option uminus (digits_val 0 True r))
             else if c = CHR ''+'' then (if r = [] then None else digits_val 0 True r)
             else digits_val 0 True t)"

text \<open>Decimal notation of a natural number, as \<open>str(n)\<close> prints it.\<close>

definition digit_char :: "nat \<Rightarrow> char" where
  "digit_char d = char_of (48 + d)"

fun dec_string :: "nat \<Rightarrow> string" where
  "dec_string n = (if n < 10 then [digit_char n] else dec_string (n div 10) @ [digit_char (n mod 10)])"

declare dec_string.simps [simp del]

text \<open>The exceptions of \<open>subprocess.run\<close> the views tell apart: \<open>CalledProcessError\<close>
  (with \<open>check=True\<close>: the return code and the captured standard error),
  \<open>FileNotFoundError\<close>, and any other exception with its text.\<close>

datatype run_error = CalledProcessError int string | FileNotFound | OtherError string

text \<open>\<open>str(i)\<close> of an integer.\<close>

definition py_str_int :: "int \<Rightarrow> string" where
  "py_str_int i = (if i < 0 then ''-'' @ dec_string (nat (- i)) else dec_string (nat i))"

text \<open>The value of a digit string read left to right, as \<open>digits_val\<close> accumulates it.\<close>

definition digit_fold :: "int \<Rightarrow> string \<Rightarrow> int" where
  "digit_fold acc ds = foldl (\<lambda>a c. 10 * a + int (the (digit_val c))) acc ds"

lemma digit_val_digit_char [simp]: "d < 10 \<Longrightarrow> digit_val (digit_char d) = Some d"
  by (simp add: digit_val_def digit_char_def)

lemma digit_char_not_space [simp]: "d < 10 \<Longrightarrow> \<not> is_space (digit_char d)"
  by (auto simp: is_space_def digit_char_def)

lemma of_char_digit_char [simp]: "d < 10 \<Longrightarrow> (of_char (digit_char d) :: nat) = 48 + d"
  by (simp add: digit_char_def)

lemma digit_char_neq: "d < 10 \<Longrightarrow> (of_char c :: nat) \<noteq> 48 + d \<Longrightarrow> digit_char d \<noteq> c"
  by auto

lemma digit_char_not_punct [simp]:
  "d < 10 \<Longrightarrow> digit_char d \<noteq> CHR ''_''" "d < 10 \<Longrightarrow> digit_char d \<noteq> CHR ''-''"
  "d < 10 \<Longrightarrow> digit_char d \<noteq> CHR ''+''" "d < 10 \<Longrightarrow> digit_char d \<noteq> CHR 0x09"
  by (rule digit_char_neq, assumption, simp)+

lemma digit_char_not_line_break [simp]: "d < 10 \<Longrightarrow> \<not> is_line_break (digit_char d)"
  by (auto simp: is_line_break_def)

lemma dec_string_digits: "c \<in> set (dec_string n) \<Longrightarrow> \<exists>d < 10. c = digit_char d"
proof (induction n rule: dec_string.induct)
  case (1 n)
  show ?case
  proof (cases "n < 10")
    case True
    with "1.prems" show ?thesis by (subst (asm) dec_string.simps) auto
  next
    case False
    with "1.prems" have "c \<in> set (dec_string (n div 10)) \<or> c = digit_char (n mod 10)"
      by (subst (asm) dec_string.simps) auto
    then show ?thesis
    proof
      assume "c \<in> set (dec_string (n div 10))"
      with "1.IH" False show ?thesis by blast
    next
      assume "c = digit_char (n mod 10)"
      moreover have "n mod 10 < (10::nat)" by simp
      ultimately show ?thesis by blast
    qed
  qed
qed

lemma dec_string_nonempty [simp]: "dec_string n \<noteq> []"
  by (subst dec_string.simps) simp

lemma digits_val_digits:
  "ds \<noteq> [] \<Longrightarrow> \<forall>c \<in> set ds. \<exists>d < 10. c = digit_char d \<Longrightarrow>
   digits_val acc b ds = Some (digit_fold acc ds)"
proof (induction ds arbitrary: acc b)
  case Nil
  then show ?case by simp
next
  case (Cons c ds)
  then obtain d where d: "d < 10" "c = digit_char d" by auto
  show ?case
  proof (cases "ds = []")
    case True
    with d show ?thesis by (simp add: digit_fold_def)
  next
    case False
    with Cons.IH [of "10 * acc + int d" False] Cons.prems d show ?thesis
      by (simp add: digit_fold_def)
  qed
qed

lemma digit_fold_dec_string: "digit_fold 0 (dec_string n) = int n"
proof (induction n rule: dec_string.induct)
  case (1 n)
  show ?case
  proof (cases "n < 10")
    case True
    then show ?thesis by (subst dec_string.simps) (simp add: digit_fold_def)
  next
    case False
    then have "digit_fold 0 (dec_string n) =
        10 * digit_fold 0 (dec_string (n div 10)) + int (n mod 10)"
      by (subst dec_string.simps) (simp add: digit_fold_def)
    also have "\<dots> = 10 * int (n div 10) + int (n mod 10)" using "1" False by simp
    also have "\<dots> = int n"
    proof -
      have e: "n = 10 * (n div 10) + n mod 10" by simp
      have "int n = 10 * int (n div 10) + int (n mod 10)"
        using arg_cong [OF e, of int] by (simp only: of_nat_add of_nat_mult of_nat_numeral)
      then show ?thesis by simp
    qed
    finally show ?thesis .
  qed
qed

lemma py_strip_no_space: "\<forall>c \<in> set s. \<not> is_space c \<Longrightarrow> py_strip s = s"
proof -
  assume a: "\<forall>c \<in> set s. \<not> is_space c"
  then have "dropWhile is_space s = s" by (cases s) auto
  moreover from a have "dropWhile is_space (rev s) = rev s" by (cases "rev s") auto
  ultimately show ?thesis by (simp add: py_strip_def)
qed

lemma py_int_dec_string: "py_int (dec_string n) = Some (int n)"
proof -
  have dig: "\<forall>c \<in> set (dec_string n). \<exists>d < 10. c = digit_char d"
    by (blast dest: dec_string_digits)
  then have "\<forall>c \<in> set (dec_string n). \<not> is_space c" by auto
  then have strip: "py_strip (dec_string n) = dec_string n" by (rule py_strip_no_space)
  obtain c r where cr: "dec_string n = c # r" by (cases "dec_string n") auto
  with dig obtain d where "d < 10" "c = digit_char d" by auto
  then have "c \<noteq> CHR ''-''" "c \<noteq> CHR ''+''" by simp_all
  moreover have "digits_val 0 True (dec_string n) = Some (int n)"
    using digits_val_digits [OF dec_string_nonempty dig] by (simp add: digit_fold_dec_string)
  ultimately show ?thesis using strip cr by (simp add: py_int_def)
qed

lemma py_split_sep_no_delim: "d \<notin> set a \<Longrightarrow> py_split_sep d a = [a]"
  by (induction a) auto

lemma py_split_sep_append: "d \<notin> set a \<Longrightarrow> py_split_sep d (a @ d # b) = a # py_split_sep d b"
proof (induction a)
  case Nil
  then show ?case by simp
next
  case (Cons c a)
  then show ?case by auto
qed

lemma py_splitlines_no_break: "l \<in> set (py_splitlines s) \<Longrightarrow> \<forall>c \<in> set l. \<not> is_line_break c"
proof (induction s arbitrary: l rule: py_splitlines.induct)
  case 1
  then show ?case by simp
next
  case (2 c s)
  show ?case
  proof (cases "is_line_break c")
    case True
    with "2.prems" "2.IH"(1) [OF True] show ?thesis by (cases "l = []") auto
  next
    case False
    show ?thesis
    proof (cases "py_splitlines s")
      case Nil
      with False "2.prems" show ?thesis by simp
    next
      case (Cons l' ls)
      with False "2.prems" have "l = c # l' \<or> l \<in> set ls" by simp
      moreover have "\<forall>x \<in> set l'. \<not> is_line_break x" and "\<forall>m \<in> set ls. \<forall>x \<in> set m. \<not> is_line_break x"
        using "2.IH"(2) [OF False] Cons by auto
      ultimately show ?thesis using False by auto
    qed
  qed
qed

lemma py_split_ws_words: "w \<in> set (py_split_ws s) \<Longrightarrow> w \<noteq> [] \<and> (\<forall>c \<in> set w. \<not> is_space c)"
proof (induction s arbitrary: w rule: py_split_ws.induct)
  case 1
  then show ?case by simp
next
  case (2 c s)
  show ?case
  proof (cases "is_space c")
    case True
    with "2.prems" "2.IH"(1) [OF True] show ?thesis by simp
  next
    case False
    let ?u = "c # takeWhile (\<lambda>x. \<not> is_space x) s"
    from False "2.prems" have "w = ?u \<or> w \<in> set (py_split_ws (dropWhile (\<lambda>x. \<not> is_space x) s))"
      by simp
    moreover have "\<forall>x \<in> set ?u. \<not> is_space x" using False by (auto dest: set_takeWhileD)
    ultimately show ?thesis using "2.IH"(2) [OF False] by blast
  qed
qed

lemma py_split_sep_nonempty [simp]: "py_split_sep d s \<noteq> []"
proof (induction s)
  case Nil
  then show ?case by simp
next
  case (Cons c s)
  then show ?case by (cases "py_split_sep d s") simp_all
qed

lemma py_split_sep_no_sep: "p \<in> set (py_split_sep d s) \<Longrightarrow> d \<notin> set p"
proof (induction s arbitrary: p)
  case Nil
  then show ?case by simp
next
  case (Cons c s)
  show ?case
  proof (cases "c = d")
    case True
    with Cons show ?thesis by auto
  next
    case False
    obtain q qs where q: "py_split_sep d s = q # qs"
      using py_split_sep_nonempty by (cases "py_split_sep d s") blast+
    with False Cons.prems have "p = c # q \<or> p \<in> set qs" by simp
    with False Cons.IH q show ?thesis by auto
  qed
qed

lemma py_splitlines_line:
  assumes "\<forall>c \<in> set l. \<not> is_line_break c"
  shows "py_splitlines (l @ CHR 0x0A # s) = l # py_splitlines s"
  using assms
proof (induction l)
  case Nil
  have "is_line_break (CHR 0x0A)" by (simp add: is_line_break_def)
  then show ?case by simp
next
  case (Cons c l)
  then show ?case by simp
qed

lemma py_splitlines_lines:
  "\<forall>l \<in> set ls. \<forall>c \<in> set l. \<not> is_line_break c \<Longrightarrow>
   py_splitlines (concat (map (\<lambda>l. l @ [CHR 0x0A]) ls)) = ls"
  by (induction ls) (simp_all add: py_splitlines_line)

lemma py_split_sep_fields:
  "d \<notin> set a \<Longrightarrow> d \<notin> set b \<Longrightarrow> d \<notin> set c \<Longrightarrow> d \<notin> set e \<Longrightarrow>
   py_split_sep d (a @ d # b @ d # c @ d # e) = [a, b, c, e]"
  by (simp add: py_split_sep_append py_split_sep_no_delim)

lemma py_split_ws_Nil_iff: "(py_split_ws s = []) = (\<forall>c \<in> set s. is_space c)"
  by (induction s rule: py_split_ws.induct) simp_all

lemma py_strip_nonempty: "py_strip s \<noteq> [] \<Longrightarrow> \<exists>c \<in> set (py_strip s). \<not> is_space c"
proof -
  let ?d = "dropWhile is_space (rev (dropWhile is_space s))"
  assume "py_strip s \<noteq> []"
  then have "?d \<noteq> []" by (simp add: py_strip_def)
  then have "\<not> is_space (hd ?d)" and "hd ?d \<in> set ?d" by (simp_all add: hd_dropWhile)
  then show ?thesis by (auto simp: py_strip_def)
qed

lemma py_strip_ends:
  assumes "s \<noteq> []" and "\<not> is_space (hd s)" and "\<not> is_space (last s)"
  shows "py_strip s = s"
proof -
  have "dropWhile is_space s = s" using assms(1,2) by (cases s) auto
  moreover have "dropWhile is_space (rev s) = rev s"
    using assms(1,3) by (cases "rev s") (auto simp: last_rev [symmetric])
  ultimately show ?thesis by (simp add: py_strip_def)
qed

lemma is_space_blank [simp]: "is_space (CHR '' '')"
  by (simp add: is_space_def)

end
