(* ===== verification/Packages.thy ===== *)
theory Packages
  imports Selection PyStr
begin

text \<open>
  The package view (src/pages/packages.py, class \<open>PackagesPage\<close>) and the two helpers
  its actions go through (src/utils/apt.py \<open>run_apt_command\<close>, src/utils/async_ops.py
  \<open>run_async_cmd\<close>). The view's state is its page (store, search text, anchor,
  suppression flag), the status line with its spinner, the confirmation dialog that is
  open (the command it will run), and the commands that are running (each \<open>Yes\<close>
  starts its own thread, so several may run at once). The store is filled
  by full replacement: \<open>refresh_packages\<close> clears it and appends one unselected row per
  installed package parsed from the \<open>dpkg-query\<close> output; \<open>show_upgradeable_packages\<close>
  does the same from \<open>apt list --upgradable\<close>. A subprocess result is a sum: \<open>Inr\<close>
  the captured standard output, \<open>Inl\<close> the text of the exception. The actions on the
  selected rows build an \<open>apt\<close> command line, open the dialog, and on \<open>Yes\<close> run it;
  when it ends the completion callback reports success and schedules a refresh.
\<close>

subsection \<open>State\<close>

text \<open>Columns 2 to 5 of \<open>pkg_store = Gtk.ListStore(bool, str, str, str, int, int)\<close>.\<close>

record pkg_cols =
  pkg_icon :: string
  version :: string
  size_kb :: int
  pkg_col5 :: int

type_synonym pkg_row = "(string, pkg_cols) row"

text \<open>An open confirmation dialog: the command it runs on \<open>Yes\<close> and the message the
  completion callback shows.\<close>

record apt_request =
  req_cmd :: "string list"
  req_success :: string

record pkg_state =
  pkg_page :: "(string, pkg_cols) page"
  status_text :: string
  spinning :: bool
  dialog :: "apt_request option"
  running :: "apt_request list"

definition init_pkg_state :: pkg_state where
  "init_pkg_state = \<lparr>pkg_page = init_page, status_text = ''Ready.'', spinning = False,
     dialog = None, running = []\<rparr>"

definition show_progress :: "string \<Rightarrow> bool \<Rightarrow> pkg_state \<Rightarrow> pkg_state" where
  "show_progress message is_active st = st\<lparr>status_text := message, spinning := is_active\<rparr>"

definition set_pkg_store :: "pkg_row list \<Rightarrow> pkg_state \<Rightarrow> pkg_state" where
  "set_pkg_store rows st = st\<lparr>pkg_page := (pkg_page st)\<lparr>store := rows\<rparr>\<rparr>"

subsection \<open>Filling the store\<close>

definition pkg_row_of :: "string \<Rightarrow> string \<Rightarrow> int \<Rightarrow> pkg_row" where
  "pkg_row_of name ver kb =
     \<lparr>sel = False, ident = name,
      cols = \<lparr>pkg_icon = ''package-x-generic'', version = ver, size_kb = kb, pkg_col5 = 0\<rparr>\<rparr>"

text \<open>\<open>[False, f"Error: {e}", "dialog-error", "", 0, 0]\<close>.\<close>

definition error_row :: "string \<Rightarrow> pkg_row" where
  "error_row e =
     \<lparr>sel = False, ident = ''Error: '' @ e,
      cols = \<lparr>pkg_icon = ''dialog-error'', version = [], size_kb = 0, pkg_col5 = 0\<rparr>\<rparr>"

text \<open>\<open>int(parts[3] or 0) // 1024\<close>, and \<open>0\<close> when \<open>int\<close> raises \<open>ValueError\<close>.\<close>

definition installed_size_kb :: "string \<Rightarrow> int" where
  "installed_size_kb field =
     (if field = [] then 0 else case py_int field of Some n \<Rightarrow> n div 1024 | None \<Rightarrow> 0)"

definition parse_dpkg_line :: "string \<Rightarrow> pkg_row option" where
  "parse_dpkg_line line =
     (let parts = py_split_sep CHR 0x09 line
      in if length parts = 4 \<and> sublist ''install ok installed'' (parts ! 1)
         then Some (pkg_row_of (parts ! 0) (parts ! 2) (installed_size_kb (parts ! 3)))
         else None)"

definition refresh_packages :: "string + string \<Rightarrow> pkg_state \<Rightarrow> pkg_state" where
  "refresh_packages result st =
     (let st1 = set_pkg_store [] (show_progress ''Scanning installed packages (via: dpkg-query)...'' True st)
      in case result of
           Inr out \<Rightarrow>
             show_progress ''Ready.'' False
               (set_pkg_store (List.map_filter parse_dpkg_line (py_splitlines out)) st1)
         | Inl e \<Rightarrow>
             show_progress ''Ready.'' False
               (show_progress (''Error loading packages: '' @ e) False (set_pkg_store [error_row e] st1)))"

text \<open>
  What \<open>dpkg-query --show\<close> prints with the \<open>--showformat\<close> of \<open>refresh_packages\<close>:
  per package, \<open>${Package}\t${Status}\t${Version}\t${Installed-Size}\n\<close>, the size in
  KiB in decimal or empty when the package has none. This is the producer the parser is
  written against; \<open>entry_row\<close> is the row the view should show for an entry.
\<close>

record dpkg_entry =
  pkg_name :: string
  pkg_status :: string
  pkg_version :: string
  installed_size :: "nat option"

definition dpkg_line :: "dpkg_entry \<Rightarrow> string" where
  "dpkg_line e =
     pkg_name e @ CHR 0x09 # pkg_status e @ CHR 0x09 # pkg_version e @ CHR 0x09 #
     (case installed_size e of None \<Rightarrow> [] | Some n \<Rightarrow> dec_string n)"

definition dpkg_output :: "dpkg_entry list \<Rightarrow> string" where
  "dpkg_output es = concat (map (\<lambda>e. dpkg_line e @ [CHR 0x0A]) es)"





definition parse_upgradable_line :: "string \<Rightarrow> pkg_row option" where
  "parse_upgradable_line line =
     (if line \<noteq> [] \<and> \<not> py_startswith line ''Listing...''
      then Some (pkg_row_of (hd (py_split_sep CHR ''/'' line)) [] 0)
      else None)"

definition show_upgradeable_packages :: "string + string \<Rightarrow> pkg_state \<Rightarrow> pkg_state" where
  "show_upgradeable_packages result st =
     (let st1 = set_pkg_store [] (show_progress ''Checking for updates (via: apt list)...'' True st)
      in case result of
           Inr out \<Rightarrow>
             show_progress ''Upgradeable packages listed.'' False
               (set_pkg_store (List.map_filter parse_upgradable_line (py_splitlines out)) st1)
         | Inl e \<Rightarrow>
             show_progress (''Error checking upgrades: '' @ e) False (set_pkg_store [error_row e] st1))"

subsection \<open>Actions through apt\<close>

text \<open>
  \<open>_run_apt_action\<close>: show the message with the spinner, then \<open>run_apt_command\<close> opens
  the Yes/No dialog. \<open>resp\<close> of src/utils/apt.py: on \<open>Yes\<close>, \<open>run_async_cmd\<close> starts the
  command; on any other answer nothing else happens.
\<close>

definition run_apt_action :: "string \<Rightarrow> string list \<Rightarrow> string \<Rightarrow> pkg_state \<Rightarrow> pkg_state" where
  "run_apt_action message command success_message st =
     (show_progress message True st)\<lparr>dialog := Some \<lparr>req_cmd = command, req_success = success_message\<rparr>\<rparr>"

definition apt_dialog_response :: "bool \<Rightarrow> pkg_state \<Rightarrow> pkg_state" where
  "apt_dialog_response yes st =
     (case dialog st of
        None \<Rightarrow> st
      | Some r \<Rightarrow> if yes then st\<lparr>dialog := None, running := running st @ [r]\<rparr> else st\<lparr>dialog := None\<rparr>)"

text \<open>
  \<open>run_async_cmd\<close> runs the command on a thread, catches every exception, and then
  schedules \<open>callback\<close> with no argument, whatever the outcome (modelled by the
  outcome parameter that the definition does not read); \<open>k\<close> is the running command
  that ended, in any order. The callback is
  \<open>completion_callback(success=True)\<close>: it shows the success message and schedules
  \<open>refresh_packages\<close>, whose own result is the next event.
\<close>

definition async_cmd_finished :: "nat \<Rightarrow> bool \<Rightarrow> pkg_state \<Rightarrow> pkg_state" where
  "async_cmd_finished k outcome st =
     (if k < length (running st)
      then show_progress (req_success (running st ! k)) False (st\<lparr>running := del_at k (running st)\<rparr>)
      else st)"

text \<open>\<open>remove_selected_packages\<close>, \<open>purge_selected_packages\<close>,
  \<open>reinstall_selected_packages\<close>: nothing when no row is checked.\<close>

definition selected_action ::
  "string \<Rightarrow> string list \<Rightarrow> string \<Rightarrow> pkg_state \<Rightarrow> pkg_state" where
  "selected_action message cmd_prefix success_message st =
     (let pkgs = selected_ids (store (pkg_page st))
      in if pkgs = [] then st else run_apt_action message (cmd_prefix @ pkgs) success_message st)"

definition remove_selected_packages :: "pkg_state \<Rightarrow> pkg_state" where
  "remove_selected_packages =
     selected_action ''Removing selected packages (via: apt remove)''
       [''pkexec'', ''apt'', ''remove'', ''-y''] ''Selected packages removed.''"

definition purge_selected_packages :: "pkg_state \<Rightarrow> pkg_state" where
  "purge_selected_packages =
     selected_action ''Purging selected packages & config files (via: apt purge)''
       [''pkexec'', ''apt'', ''purge'', ''-y''] ''Selected packages and configurations purged.''"

definition reinstall_selected_packages :: "pkg_state \<Rightarrow> pkg_state" where
  "reinstall_selected_packages =
     selected_action ''Reinstalling selected packages (via: apt reinstall)''
       [''pkexec'', ''apt'', ''install'', ''--reinstall'', ''-y''] ''Selected packages reinstalled.''"

definition update_system :: "pkg_state \<Rightarrow> pkg_state" where
  "update_system =
     run_apt_action ''Updating system and installing upgrades (via: apt update & upgrade)''
       [''pkexec'', ''bash'', ''-c'', ''apt update && apt upgrade -y''] ''System is fully up-to-date.''"

definition clean_packages :: "pkg_state \<Rightarrow> pkg_state" where
  "clean_packages =
     run_apt_action ''Cleaning up unused dependencies and cache (via: apt autoremove)''
       [''pkexec'', ''apt'', ''autoremove'', ''-y''] ''Cleanup complete. System storage freed.''"

text \<open>\<open>install_package_dialog\<close>: the response handler with \<open>OK\<close> and the entry's text.\<close>

definition install_response :: "bool \<Rightarrow> string \<Rightarrow> pkg_state \<Rightarrow> pkg_state" where
  "install_response ok entry_text st =
     (if ok then
        (let text = py_strip entry_text
         in if text \<noteq> [] then
              (let packages = py_split_ws text
               in run_apt_action
                    (''Installing package(s): '' @ py_join '' '' packages @ '' (via: apt install)'')
                    ([''pkexec'', ''apt'', ''install'', ''-y''] @ packages)
                    (''Installation complete: '' @ py_join '' '' packages @ ''.'') st)
            else st)
      else st)"

subsection \<open>The check-box handlers of the view\<close>

definition on_package_toggled :: "nat \<Rightarrow> pkg_state \<Rightarrow> pkg_state" where
  "on_package_toggled path st = st\<lparr>pkg_page := on_toggled pkg_visible path (pkg_page st)\<rparr>"

definition on_packages_tree_click ::
  "shift_state \<Rightarrow> timestamp \<Rightarrow> (nat \<times> nat) option \<Rightarrow> pkg_state \<Rightarrow> pkg_state \<times> bool" where
  "on_packages_tree_click sh now hit st =
     (let (pg, handled) = on_tree_click pkg_visible sh now hit (pkg_page st)
      in (st\<lparr>pkg_page := pg\<rparr>, handled))"

definition filter_packages :: "string \<Rightarrow> pkg_state \<Rightarrow> pkg_state" where
  "filter_packages q st = st\<lparr>pkg_page := set_search q (pkg_page st)\<rparr>"

subsection \<open>The view as a state machine\<close>

text \<open>The signals \<open>__init__\<close> connects (the tool-bar buttons, the menu's upgradable
  button, the three buttons under the list, the search entry, the check-box renderer and
  the click gesture), the install dialog's answer, the apt dialog's answer, and the two
  main-loop callbacks of a command: its completion (in any order among the running
  commands) and the refresh it schedules, which carries the result of \<open>dpkg-query\<close>.
  \<open>PRefresh\<close> stands for the refresh button and for the scheduled refresh alike, and
  is accepted at any time: an over-approximation of when the timer fires.\<close>

datatype pkg_event =
    PRefresh "string + string"
  | PUpgradable "string + string"
  | PRemove | PPurge | PReinstall | PUpdate | PClean
  | PInstall bool string
  | PAnswer bool
  | PFinished nat bool
  | PToggled nat
  | PSearch string
  | PClick shift_state timestamp "(nat \<times> nat) option"

text \<open>The apt dialog is modal (\<open>Gtk.MessageDialog(modal=True)\<close>): while it is open the
  window takes no input; the main-loop callbacks still run.\<close>

fun pkg_window_input :: "pkg_event \<Rightarrow> bool" where
  "pkg_window_input (PAnswer _) = False"
| "pkg_window_input (PFinished _ _) = False"
| "pkg_window_input (PRefresh _) = False"
| "pkg_window_input _ = True"

fun pkg_dispatch :: "pkg_event \<Rightarrow> pkg_state \<Rightarrow> pkg_state" where
  "pkg_dispatch (PRefresh r) st = refresh_packages r st"
| "pkg_dispatch (PUpgradable r) st = show_upgradeable_packages r st"
| "pkg_dispatch PRemove st = remove_selected_packages st"
| "pkg_dispatch PPurge st = purge_selected_packages st"
| "pkg_dispatch PReinstall st = reinstall_selected_packages st"
| "pkg_dispatch PUpdate st = update_system st"
| "pkg_dispatch PClean st = clean_packages st"
| "pkg_dispatch (PInstall ok text) st = install_response ok text st"
| "pkg_dispatch (PAnswer yes) st = apt_dialog_response yes st"
| "pkg_dispatch (PFinished k outcome) st = async_cmd_finished k outcome st"
| "pkg_dispatch (PToggled path) st = on_package_toggled path st"
| "pkg_dispatch (PSearch q) st = filter_packages q st"
| "pkg_dispatch (PClick sh now hit) st = fst (on_packages_tree_click sh now hit st)"

definition pkg_step :: "pkg_event \<Rightarrow> pkg_state \<Rightarrow> pkg_state" where
  "pkg_step e st = (if dialog st \<noteq> None \<and> pkg_window_input e then st else pkg_dispatch e st)"

inductive pkg_reach :: "pkg_state \<Rightarrow> bool" where
  init: "pkg_reach init_pkg_state"
| step: "pkg_reach st \<Longrightarrow> pkg_reach (pkg_step e st)"

text \<open>A command line the view may hand to \<open>run_async_cmd\<close>: \<open>pkexec apt\<close> with arguments,
  or the one \<open>pkexec bash -c\<close> of the update button with its fixed script.\<close>

definition privileged_apt :: "string list \<Rightarrow> bool" where
  "privileged_apt cmd \<longleftrightarrow>
     take 2 cmd = [''pkexec'', ''apt''] \<or>
     cmd = [''pkexec'', ''bash'', ''-c'', ''apt update && apt upgrade -y'']"

fun is_answer :: "pkg_event \<Rightarrow> bool" where
  "is_answer (PAnswer _) = True"
| "is_answer _ = False"

definition pkg_cmds_ok :: "pkg_state \<Rightarrow> bool" where
  "pkg_cmds_ok st \<longleftrightarrow>
     list_all (\<lambda>r. privileged_apt (req_cmd r)) (running st) \<and>
     (case dialog st of None \<Rightarrow> True | Some r \<Rightarrow> privileged_apt (req_cmd r))"


text \<open>A store with one checked package.\<close>

definition sample_pkg_state :: pkg_state where
  "sample_pkg_state =
     set_pkg_store [\<lparr>sel = True, ident = ''vlc'', cols = \<lparr>pkg_icon = ''package-x-generic'',
       version = ''3.0'', size_kb = 1, pkg_col5 = 0\<rparr>\<rparr>] init_pkg_state"

subsection \<open>Lemmas\<close>

lemma dec_string_field [simp]:
  "CHR 0x09 \<notin> set (dec_string n)" "\<forall>c \<in> set (dec_string n). \<not> is_line_break c"
  by (metis dec_string_digits digit_char_not_punct(4), metis dec_string_digits digit_char_not_line_break)






lemma refresh_packages_Inr:
  "refresh_packages (Inr out) st =
     st\<lparr>pkg_page := (pkg_page st)\<lparr>store := List.map_filter parse_dpkg_line (py_splitlines out)\<rparr>,
        status_text := ''Ready.'', spinning := False\<rparr>"
  by (simp add: refresh_packages_def show_progress_def set_pkg_store_def)

lemma refresh_packages_Inl:
  "refresh_packages (Inl e) st =
     st\<lparr>pkg_page := (pkg_page st)\<lparr>store := [error_row e]\<rparr>, status_text := ''Ready.'', spinning := False\<rparr>"
  by (simp add: refresh_packages_def show_progress_def set_pkg_store_def)

lemma filter_sel_map_filter:
  "(\<And>x r. f x = Some r \<Longrightarrow> \<not> sel r) \<Longrightarrow> filter sel (List.map_filter f xs) = []"
  by (induction xs) (auto simp: List.map_filter_simps split: option.splits)

lemma parse_dpkg_line_unselected: "parse_dpkg_line l = Some r \<Longrightarrow> \<not> sel r"
  by (auto simp: parse_dpkg_line_def pkg_row_of_def Let_def split: if_splits)

lemma selected_ids_refresh_packages [simp]:
  "selected_ids (store (pkg_page (refresh_packages r st))) = []"
  by (cases r) (simp_all add: refresh_packages_Inr refresh_packages_Inl selected_ids_def error_row_def
      filter_sel_map_filter parse_dpkg_line_unselected)

lemma selected_action_none:
  "selected_ids (store (pkg_page st)) = [] \<Longrightarrow> selected_action m c s st = st"
  by (simp add: selected_action_def)

lemma selected_action_some:
  "selected_ids (store (pkg_page st)) \<noteq> [] \<Longrightarrow>
   selected_action m c s st =
     st\<lparr>status_text := m, spinning := True,
        dialog := Some \<lparr>req_cmd = c @ selected_ids (store (pkg_page st)), req_success = s\<rparr>\<rparr>"
  by (simp add: selected_action_def run_apt_action_def show_progress_def)

lemma install_words:
  assumes "py_strip txt \<noteq> []"
  shows "py_split_ws (py_strip txt) \<noteq> []"
    and "\<forall>w \<in> set (py_split_ws (py_strip txt)). w \<noteq> [] \<and> (\<forall>c \<in> set w. \<not> is_space c)"
proof -
  show "py_split_ws (py_strip txt) \<noteq> []"
    using py_strip_nonempty [OF assms] by (auto simp: py_split_ws_Nil_iff)
  show "\<forall>w \<in> set (py_split_ws (py_strip txt)). w \<noteq> [] \<and> (\<forall>c \<in> set w. \<not> is_space c)"
    using py_split_ws_words by blast
qed

subsection \<open>Properties\<close>



text \<open>After a refresh, whatever \<open>dpkg-query\<close> returned,
  no package row is checked, so remove, purge and reinstall do nothing until a row is
  toggled again.\<close>

theorem refresh_packages_unselects:
  "selected_ids (store (pkg_page (refresh_packages r st))) = [] \<and>
   remove_selected_packages (refresh_packages r st) = refresh_packages r st \<and>
   purge_selected_packages (refresh_packages r st) = refresh_packages r st \<and>
   reinstall_selected_packages (refresh_packages r st) = refresh_packages r st"
  by (simp add: remove_selected_packages_def purge_selected_packages_def
      reinstall_selected_packages_def selected_action_none)

text \<open>The full-replace refresh clears the store but keeps
  the page's anchor and its suppression flag, so an anchor can name a row of the previous
  listing or lie past the end of the new one.\<close>

theorem refresh_packages_keeps_anchor:
  "last_toggled_idx (pkg_page (refresh_packages r st)) = last_toggled_idx (pkg_page st) \<and>
   suppress_toggle (pkg_page (refresh_packages r st)) = suppress_toggle (pkg_page st)"
  by (cases r) (simp_all add: refresh_packages_Inr refresh_packages_Inl)

text \<open>C9: when \<open>dpkg-query\<close> fails the store holds only the
  error row, and the status line reads \<open>Ready.\<close>: the \<open>finally\<close> clause overwrites the
  error message just shown.\<close>

theorem refresh_packages_error_status:
  "store (pkg_page (refresh_packages (Inl e) st)) = [error_row e] \<and>
   status_text (refresh_packages (Inl e) st) = ''Ready.'' \<and>
   \<not> spinning (refresh_packages (Inl e) st)"
  by (simp add: refresh_packages_Inl)

text \<open>With some rows checked, \<open>remove_selected_packages\<close>
  shows its message with the spinner and opens the dialog for
  \<open>pkexec apt remove -y\<close> followed by the checked package names in store order.\<close>

theorem remove_selected_request:
  assumes "selected_ids (store (pkg_page st)) = pkgs" and "pkgs \<noteq> []"
  shows "remove_selected_packages st =
     st\<lparr>status_text := ''Removing selected packages (via: apt remove)'', spinning := True,
        dialog := Some \<lparr>req_cmd = [''pkexec'', ''apt'', ''remove'', ''-y''] @ pkgs,
                        req_success = ''Selected packages removed.''\<rparr>\<rparr>"
  using assms by (simp add: remove_selected_packages_def selected_action_some)

theorem remove_selected_request_witness:
  "remove_selected_packages (on_package_toggled 1 (refresh_packages
      (Inr (dpkg_output [\<lparr>pkg_name = ''vim'', pkg_status = ''install ok installed'',
                          pkg_version = ''2:9.0'', installed_size = Some 3712\<rparr>,
                         \<lparr>pkg_name = ''zsh'', pkg_status = ''install ok installed'',
                          pkg_version = ''5.9'', installed_size = None\<rparr>])) init_pkg_state))
   = (on_package_toggled 1 (refresh_packages
      (Inr (dpkg_output [\<lparr>pkg_name = ''vim'', pkg_status = ''install ok installed'',
                          pkg_version = ''2:9.0'', installed_size = Some 3712\<rparr>,
                         \<lparr>pkg_name = ''zsh'', pkg_status = ''install ok installed'',
                          pkg_version = ''5.9'', installed_size = None\<rparr>])) init_pkg_state))
     \<lparr>status_text := ''Removing selected packages (via: apt remove)'', spinning := True,
        dialog := Some \<lparr>req_cmd = [''pkexec'', ''apt'', ''remove'', ''-y'', ''zsh''],
                        req_success = ''Selected packages removed.''\<rparr>\<rparr>"
proof -
  let ?st = "on_package_toggled 1 (refresh_packages
      (Inr (dpkg_output [\<lparr>pkg_name = ''vim'', pkg_status = ''install ok installed'',
                          pkg_version = ''2:9.0'', installed_size = Some 3712\<rparr>,
                         \<lparr>pkg_name = ''zsh'', pkg_status = ''install ok installed'',
                          pkg_version = ''5.9'', installed_size = None\<rparr>])) init_pkg_state)"
  have sel: "selected_ids (store (pkg_page ?st)) = [''zsh'']" by code_simp
  show ?thesis using remove_selected_request [OF sel] by simp
qed

text \<open>C10: when a confirmed apt command ends, the status
  line shows the action's success message and the spinner stops whether the command
  succeeded or failed: \<open>run_async_cmd\<close> calls the callback with no argument, so
  \<open>success\<close> is always \<open>True\<close>.\<close>

theorem async_finished_reports_success:
  assumes "k < length (running st)"
  shows "async_cmd_finished k False st = async_cmd_finished k True st \<and>
         status_text (async_cmd_finished k False st) = req_success (running st ! k) \<and>
         \<not> spinning (async_cmd_finished k False st) \<and>
         running (async_cmd_finished k False st) = del_at k (running st)"
  using assms by (simp add: async_cmd_finished_def show_progress_def)

theorem async_finished_reports_success_witness:
  "status_text (async_cmd_finished 0 False (apt_dialog_response True (update_system init_pkg_state)))
   = ''System is fully up-to-date.''"
proof -
  let ?st = "apt_dialog_response True (update_system init_pkg_state)"
  have run: "running ?st = [\<lparr>req_cmd = [''pkexec'', ''bash'', ''-c'', ''apt update && apt upgrade -y''],
                              req_success = ''System is fully up-to-date.''\<rparr>]"
    by (simp add: apt_dialog_response_def update_system_def run_apt_action_def show_progress_def
        init_pkg_state_def)
  then have "0 < length (running ?st)" by simp
  then have "status_text (async_cmd_finished 0 False ?st) = req_success (running ?st ! 0)"
    by (rule conjunct1 [OF conjunct2 [OF async_finished_reports_success]])
  then show ?thesis using run by simp
qed

text \<open>Two confirmed commands can run at once; when either
  ends, the spinner stops and the status line shows its success message although the
  other is still running.\<close>

theorem async_finished_concurrent:
  assumes "2 \<le> length (running st)" and "k < length (running st)"
  shows "\<not> spinning (async_cmd_finished k b st) \<and> running (async_cmd_finished k b st) \<noteq> []"
proof -
  have "0 < length (del_at k (running st))" using assms by simp
  then have "del_at k (running st) \<noteq> []" by auto
  then show ?thesis using assms by (simp add: async_cmd_finished_def show_progress_def)
qed

theorem async_finished_concurrent_witness:
  "\<not> spinning (async_cmd_finished 0 True
      (apt_dialog_response True (clean_packages (apt_dialog_response True (update_system init_pkg_state))))) \<and>
   running (async_cmd_finished 0 True
      (apt_dialog_response True (clean_packages (apt_dialog_response True (update_system init_pkg_state))))) \<noteq> []"
proof -
  let ?st = "apt_dialog_response True (clean_packages (apt_dialog_response True (update_system init_pkg_state)))"
  have "length (running ?st) = 2"
    by (simp add: apt_dialog_response_def update_system_def clean_packages_def run_apt_action_def
        show_progress_def init_pkg_state_def)
  then show ?thesis using async_finished_concurrent [of ?st 0 True] by simp
qed

text \<open>Answering \<open>No\<close> to the confirmation dialog of an apt
  action closes it without running anything, and leaves the action's message on the
  status line with the spinner still running: nothing ever stops it.\<close>

theorem apt_dialog_cancel_spins:
  "dialog (apt_dialog_response False (run_apt_action m c s st)) = None \<and>
   running (apt_dialog_response False (run_apt_action m c s st)) = running st \<and>
   status_text (apt_dialog_response False (run_apt_action m c s st)) = m \<and>
   spinning (apt_dialog_response False (run_apt_action m c s st))"
  by (simp add: apt_dialog_response_def run_apt_action_def show_progress_def)

text \<open>\<open>OK\<close> in the install dialog with a text that is not
  blank opens the confirmation for \<open>pkexec apt install -y\<close> followed by the text's
  whitespace-separated words, at least one, each nonempty and free of whitespace; a blank
  text or \<open>Cancel\<close> changes nothing.\<close>

theorem install_response_request:
  "install_response False txt st = st \<and>
   (py_strip txt = [] \<longrightarrow> install_response True txt st = st) \<and>
   (py_strip txt \<noteq> [] \<longrightarrow>
      (\<exists>ws. dialog (install_response True txt st) =
              Some \<lparr>req_cmd = [''pkexec'', ''apt'', ''install'', ''-y''] @ ws,
                    req_success = ''Installation complete: '' @ py_join '' '' ws @ ''.''\<rparr> \<and>
              ws \<noteq> [] \<and> (\<forall>w \<in> set ws. w \<noteq> [] \<and> (\<forall>c \<in> set w. \<not> is_space c))))"
proof (intro conjI impI)
  show "install_response False txt st = st" by (simp add: install_response_def)
  show "py_strip txt = [] \<Longrightarrow> install_response True txt st = st" by (simp add: install_response_def)
  assume ne: "py_strip txt \<noteq> []"
  show "\<exists>ws. dialog (install_response True txt st) =
            Some \<lparr>req_cmd = [''pkexec'', ''apt'', ''install'', ''-y''] @ ws,
                  req_success = ''Installation complete: '' @ py_join '' '' ws @ ''.''\<rparr> \<and>
            ws \<noteq> [] \<and> (\<forall>w \<in> set ws. w \<noteq> [] \<and> (\<forall>c \<in> set w. \<not> is_space c))"
    using ne install_words [OF ne]
    by (intro exI [of _ "py_split_ws (py_strip txt)"])
       (simp add: install_response_def run_apt_action_def show_progress_def Let_def)
qed

theorem install_response_request_witness:
  "(\<exists>ws. dialog (install_response True ''  vlc htop '' init_pkg_state) =
          Some \<lparr>req_cmd = [''pkexec'', ''apt'', ''install'', ''-y''] @ ws,
                req_success = ''Installation complete: '' @ py_join '' '' ws @ ''.''\<rparr> \<and>
          ws \<noteq> [] \<and> (\<forall>w \<in> set ws. w \<noteq> [] \<and> (\<forall>c \<in> set w. \<not> is_space c))) \<and>
   install_response True '' \<newline> '' init_pkg_state = init_pkg_state"
proof -
  have ne: "py_strip ''  vlc htop '' \<noteq> []" by code_simp
  have bl: "py_strip '' \<newline> '' = []" by code_simp
  show ?thesis
    using install_response_request [of "''  vlc htop ''" init_pkg_state]
          install_response_request [of "'' \<newline> ''" init_pkg_state] ne bl
    by blast
qed

text \<open>The error row of a failed refresh is an ordinary row:
  with the search entry empty and no toggle pending suppression, checking it and pressing
  remove asks to run \<open>apt remove\<close> on the package named \<open>Error: \<close> followed by the
  exception's text.\<close>

theorem error_row_removable:
  assumes "search_text (pkg_page st) = []" and "\<not> suppress_toggle (pkg_page st)"
  shows "dialog (remove_selected_packages (on_package_toggled 0 (refresh_packages (Inl e) st))) =
           Some \<lparr>req_cmd = [''pkexec'', ''apt'', ''remove'', ''-y'', ''Error: '' @ e],
                 req_success = ''Selected packages removed.''\<rparr>"
proof -
  let ?st = "on_package_toggled 0 (refresh_packages (Inl e) st)"
  have "view_of pkg_visible (pkg_page (refresh_packages (Inl e) st)) = [0]"
    using assms by (simp add: refresh_packages_Inl view_of_def filter_view_def pkg_visible_def)
  then have "store (pkg_page ?st) = [(error_row e)\<lparr>sel := True\<rparr>]"
    using assms
    by (simp add: on_package_toggled_def on_toggled_def child_index_def refresh_packages_Inl
        get_sel_or_def set_sel_def error_row_def)
  then have "selected_ids (store (pkg_page ?st)) = [''Error: '' @ e]"
    by (simp add: selected_ids_def error_row_def)
  then show ?thesis
    by (simp add: remove_selected_packages_def selected_action_some)
qed

theorem error_row_removable_witness:
  "dialog (remove_selected_packages (on_package_toggled 0
      (refresh_packages (Inl ''dpkg-query: not found'') init_pkg_state))) =
   Some \<lparr>req_cmd = [''pkexec'', ''apt'', ''remove'', ''-y'', ''Error: dpkg-query: not found''],
         req_success = ''Selected packages removed.''\<rparr>"
proof -
  have "search_text (pkg_page init_pkg_state) = []" "\<not> suppress_toggle (pkg_page init_pkg_state)"
    by (simp_all add: init_pkg_state_def init_page_def)
  from error_row_removable [OF this] show ?thesis by simp
qed

subsection \<open>Commands the view runs\<close>

lemma run_apt_action_cmds:
  "privileged_apt command \<Longrightarrow> pkg_cmds_ok st \<Longrightarrow> pkg_cmds_ok (run_apt_action m command sm st)"
  by (simp add: pkg_cmds_ok_def run_apt_action_def show_progress_def)

lemma pkg_cmds_ok_fields [simp]:
  "pkg_cmds_ok (show_progress m a st) = pkg_cmds_ok st"
  "pkg_cmds_ok (set_pkg_store rows st) = pkg_cmds_ok st"
  "pkg_cmds_ok (st\<lparr>pkg_page := pg\<rparr>) = pkg_cmds_ok st"
  by (simp_all add: pkg_cmds_ok_def show_progress_def set_pkg_store_def)

lemma selected_action_cmds:
  "pkg_cmds_ok st \<Longrightarrow> pkg_cmds_ok (selected_action m (''pkexec'' # ''apt'' # args) sm st)"
  by (auto simp: selected_action_def Let_def privileged_apt_def intro: run_apt_action_cmds)

lemma install_response_cmds: "pkg_cmds_ok st \<Longrightarrow> pkg_cmds_ok (install_response ok text st)"
  by (auto simp: install_response_def Let_def privileged_apt_def intro: run_apt_action_cmds)

lemma apt_dialog_response_cmds: "pkg_cmds_ok st \<Longrightarrow> pkg_cmds_ok (apt_dialog_response yes st)"
  by (auto simp: apt_dialog_response_def pkg_cmds_ok_def split: option.splits)

lemma async_cmd_finished_cmds: "pkg_cmds_ok st \<Longrightarrow> pkg_cmds_ok (async_cmd_finished k outcome st)"
  by (auto simp: async_cmd_finished_def pkg_cmds_ok_def show_progress_def del_at_def list_all_iff
           dest: in_set_takeD in_set_dropD)

lemma pkg_dispatch_cmds:
  assumes "pkg_cmds_ok st"
  shows "pkg_cmds_ok (pkg_dispatch e st)"
  using assms
proof (cases e)
  case (PRefresh r)
  then show ?thesis using assms by (simp add: refresh_packages_def Let_def split: sum.split)
next
  case (PUpgradable r)
  then show ?thesis using assms by (simp add: show_upgradeable_packages_def Let_def split: sum.split)
next
  case (PClick sh now hit)
  then show ?thesis using assms by (simp add: on_packages_tree_click_def split: prod.split)
qed (auto simp: remove_selected_packages_def purge_selected_packages_def
        reinstall_selected_packages_def update_system_def clean_packages_def privileged_apt_def
        on_package_toggled_def filter_packages_def
        intro: selected_action_cmds run_apt_action_cmds install_response_cmds
          apt_dialog_response_cmds async_cmd_finished_cmds)

text \<open>C12: in every state the package view reaches, over any
  sequence of button clicks, dialog answers, refreshes, searches, toggles and command
  completions, the command of the open confirmation dialog and every running command is
  \<open>pkexec apt\<close> with arguments or the update button's fixed \<open>pkexec bash -c\<close> script:
  the names the user types or checks only ever become arguments of \<open>apt\<close>.\<close>

theorem pkg_runs_only_pkexec_apt: "pkg_reach st \<Longrightarrow> pkg_cmds_ok st"
proof (induction rule: pkg_reach.induct)
  case init
  then show ?case by (simp add: pkg_cmds_ok_def init_pkg_state_def)
next
  case (step st e)
  then show ?case by (simp add: pkg_step_def pkg_dispatch_cmds)
qed

theorem pkg_runs_only_pkexec_apt_witness:
  "pkg_cmds_ok (pkg_step (PAnswer True) (pkg_step (PInstall True '' vlc '') init_pkg_state)) \<and>
   running (pkg_step (PAnswer True) (pkg_step (PInstall True '' vlc '') init_pkg_state)) =
     [\<lparr>req_cmd = [''pkexec'', ''apt'', ''install'', ''-y'', ''vlc''],
       req_success = ''Installation complete: vlc.''\<rparr>]"
proof -
  have r: "pkg_reach (pkg_step (PAnswer True) (pkg_step (PInstall True '' vlc '') init_pkg_state))"
    by (intro pkg_reach.step pkg_reach.init)
  have "running (pkg_step (PAnswer True) (pkg_step (PInstall True '' vlc '') init_pkg_state)) =
     [\<lparr>req_cmd = [''pkexec'', ''apt'', ''install'', ''-y'', ''vlc''],
       req_success = ''Installation complete: vlc.''\<rparr>]"
    by code_simp
  then show ?thesis using pkg_runs_only_pkexec_apt [OF r] by simp
qed

subsection \<open>The modal confirmation dialog\<close>

lemma pkg_dispatch_keeps_dialog:
  assumes "dialog st = Some r" "\<not> pkg_window_input e" "\<not> is_answer e"
  shows "dialog (pkg_dispatch e st) = Some r"
  using assms
  by (cases e) (auto simp: refresh_packages_def async_cmd_finished_def show_progress_def
                  set_pkg_store_def Let_def split: sum.split)

lemma pkg_step_keeps_dialog:
  "dialog st = Some r \<Longrightarrow> \<not> is_answer e \<Longrightarrow> dialog (pkg_step e st) = Some r"
  by (cases "pkg_window_input e") (simp_all add: pkg_step_def pkg_dispatch_keeps_dialog)

lemma fold_pkg_step_keeps_dialog:
  "dialog st = Some r \<Longrightarrow> \<not> list_ex is_answer es \<Longrightarrow> dialog (fold pkg_step es st) = Some r"
  by (induction es arbitrary: st) (simp_all add: pkg_step_keeps_dialog)

lemma remove_opens_dialog:
  "dialog st = None \<Longrightarrow> selected_ids (store (pkg_page st)) \<noteq> [] \<Longrightarrow>
   dialog (pkg_step PRemove st) =
     Some \<lparr>req_cmd = [''pkexec'', ''apt'', ''remove'', ''-y''] @ selected_ids (store (pkg_page st)),
           req_success = ''Selected packages removed.''\<rparr>"
  by (simp add: pkg_step_def remove_selected_packages_def selected_action_def run_apt_action_def
                show_progress_def)

text \<open>C13: the apt dialog is modal, so the command that \<open>Yes\<close>
  starts is the one built from the rows checked when Remove Selected was clicked: toggles,
  searches and other buttons tried while the dialog is open are ignored, and refreshes
  and completions of other commands in between do not change it. It is appended to the
  running commands and the dialog is closed.\<close>

theorem pkg_remove_confirmed:
  assumes "dialog st = None" and "selected_ids (store (pkg_page st)) \<noteq> []"
    and "\<not> list_ex is_answer es"
  shows "dialog (pkg_step (PAnswer True) (fold pkg_step es (pkg_step PRemove st))) = None \<and>
         last (running (pkg_step (PAnswer True) (fold pkg_step es (pkg_step PRemove st)))) =
           \<lparr>req_cmd = [''pkexec'', ''apt'', ''remove'', ''-y''] @ selected_ids (store (pkg_page st)),
            req_success = ''Selected packages removed.''\<rparr>"
proof -
  have "dialog (fold pkg_step es (pkg_step PRemove st)) =
     Some \<lparr>req_cmd = [''pkexec'', ''apt'', ''remove'', ''-y''] @ selected_ids (store (pkg_page st)),
           req_success = ''Selected packages removed.''\<rparr>"
    using assms by (simp add: fold_pkg_step_keeps_dialog remove_opens_dialog)
  then show ?thesis by (simp add: pkg_step_def apt_dialog_response_def)
qed

theorem pkg_remove_confirmed_witness:
  "last (running (pkg_step (PAnswer True)
      (fold pkg_step [PToggled 0, PRefresh (Inl ''x''), PClean] (pkg_step PRemove sample_pkg_state)))) =
     \<lparr>req_cmd = [''pkexec'', ''apt'', ''remove'', ''-y'', ''vlc''], req_success = ''Selected packages removed.''\<rparr>"
proof -
  have s: "selected_ids (store (pkg_page sample_pkg_state)) = [''vlc'']"
    by (simp add: sample_pkg_state_def set_pkg_store_def selected_ids_def)
  have "dialog sample_pkg_state = None"
    by (simp add: sample_pkg_state_def set_pkg_store_def init_pkg_state_def)
  then show ?thesis
    using pkg_remove_confirmed [of sample_pkg_state "[PToggled 0, PRefresh (Inl ''x''), PClean]"] s
    by simp
qed

end
