(* ===== verification/Helpers.thy ===== *)
theory Helpers
  imports PyStr "HOL-Library.While_Combinator"
begin

text \<open>
  \<open>human_readable_size\<close> of src/utils/helpers.py, which the process view uses for its
  I/O columns. The byte count is converted to a float and divided by 1024 while it is at
  least 1024 and a larger unit remains; the result is printed with \<open>:.2f\<close> and the unit.
  The float is modelled as an exact rational: dividing by 1024 is exact in binary
  floating point, so the model is exact for every count below \<open>2^53\<close> bytes, where
  \<open>float(size_bytes)\<close> is exact too. \<open>:.2f\<close> rounds the exact value to two decimals,
  ties to even.
\<close>

definition size_units :: "string list" where
  "size_units = [''B'', ''KiB'', ''MiB'', ''GiB'', ''TiB'', ''PiB'', ''EiB'', ''ZiB'', ''YiB'']"

text \<open>The \<open>while\<close> loop: the value and the unit index.\<close>

function hr_loop :: "rat \<Rightarrow> nat \<Rightarrow> rat \<times> nat" where
  "hr_loop size_float i =
     (if size_float \<ge> 1024 \<and> i < length size_units - 1 then hr_loop (size_float / 1024) (Suc i)
      else (size_float, i))"
  by pat_completeness auto
termination
  by (relation "measure (\<lambda>(x, i). length size_units - 1 - i)") (auto simp: size_units_def)

declare hr_loop.simps [simp del]

text \<open>Rounding to an integer, ties to even, as the \<open>f\<close> format rounds.\<close>

definition round_half_even :: "rat \<Rightarrow> int" where
  "round_half_even x =
     (let q = \<lfloor>x\<rfloor>; r = x - of_int q
      in if r > 1/2 then q + 1 else if r < 1/2 then q else if even q then q else q + 1)"

text \<open>\<open>f"{x:.2f}"\<close> for \<open>x \<ge> 0\<close>, the only values the function formats.\<close>

definition fmt_cents :: "nat \<Rightarrow> string" where
  "fmt_cents q = dec_string (q div 100) @ ''.'' @ [digit_char (q mod 100 div 10), digit_char (q mod 10)]"

definition fmt_fixed2 :: "rat \<Rightarrow> string" where
  "fmt_fixed2 x = fmt_cents (nat (round_half_even (x * 100)))"

text \<open>\<open>None\<close> stands for \<open>size_bytes is None\<close>.\<close>

definition human_readable_size :: "int option \<Rightarrow> string" where
  "human_readable_size size_bytes =
     (case size_bytes of
        None \<Rightarrow> ''0 B''
      | Some n \<Rightarrow>
          if n < 0 then ''0 B''
          else if n = 0 then ''0 B''
          else (let (size_float, i) = hr_loop (of_int n) 0
                in fmt_fixed2 size_float @ '' '' @ size_units ! i))"

subsection \<open>Lemmas\<close>

lemma length_size_units [simp]: "length size_units = 9"
  by (simp add: size_units_def)

lemma hr_loop_result:
  assumes "hr_loop x i = (y, j)" and "i \<le> 8" and "0 \<le> x"
  shows "i \<le> j \<and> j \<le> 8 \<and> y = x / 1024 ^ (j - i) \<and> (y < 1024 \<or> j = 8) \<and> (1 \<le> x \<longrightarrow> 1 \<le> y)"
  using assms
proof (induction x i rule: hr_loop.induct)
  case (1 x i)
  show ?case
  proof (cases "x \<ge> 1024 \<and> i < length size_units - 1")
    case True
    then have rec: "hr_loop (x / 1024) (Suc i) = (y, j)" using "1.prems"(1) by (simp add: hr_loop.simps)
    have "0 \<le> x / 1024" "Suc i \<le> 8" using True by simp_all
    with "1.IH" [OF True rec] obtain ij: "Suc i \<le> j" "j \<le> 8" and
        y: "y = x / 1024 / 1024 ^ (j - Suc i)" and top: "y < 1024 \<or> j = 8" and
        one: "1 \<le> x / 1024 \<longrightarrow> 1 \<le> y"
      by blast
    have "1 \<le> x / 1024" using True by simp
    with one have "1 \<le> y" by blast
    moreover obtain k where k: "j - Suc i = k" "j - i = Suc k" using ij(1) by simp
    then have "y = x / 1024 ^ (j - i)" using y by (simp add: divide_divide_eq_left)
    ultimately show ?thesis using ij top by simp
  next
    case False
    with "1.prems" show ?thesis by (auto simp: hr_loop.simps)
  qed
qed

lemma round_half_even_int [simp]: "round_half_even (of_int m) = m"
  by (simp add: round_half_even_def)

lemma digit_char_0: "digit_char 0 = CHR ''0''"
  by code_simp

lemma fmt_fixed2_nat: "fmt_fixed2 (of_nat k) = dec_string k @ ''.00''"
proof -
  have e: "(of_nat k * 100 :: rat) = of_int (int (k * 100))" by simp
  have "nat (round_half_even (of_nat k * 100)) = k * 100"
    unfolding e round_half_even_int by (rule nat_int)
  then show ?thesis by (simp add: fmt_fixed2_def fmt_cents_def digit_char_0)
qed

lemma human_readable_size_pos:
  "0 < n \<Longrightarrow> human_readable_size (Some n) =
     (let (size_float, i) = hr_loop (of_int n) 0 in fmt_fixed2 size_float @ '' '' @ size_units ! i)"
  by (simp add: human_readable_size_def)

subsection \<open>Properties\<close>

text \<open>For a positive byte count the loop ends (after at
  most eight divisions) with the unit \<open>j\<close> such that the printed number is the count
  divided by \<open>1024^j\<close>, at least 1, and below 1024 unless the unit is the largest, YiB.\<close>

theorem human_readable_size_bounds:
  assumes "0 < n"
  shows "\<exists>j \<le> 8. human_readable_size (Some n) = fmt_fixed2 (of_int n / 1024 ^ j) @ '' '' @ size_units ! j \<and>
                 1 \<le> of_int n / (1024 ^ j :: rat) \<and> (of_int n / (1024 ^ j :: rat) < 1024 \<or> j = 8)"
proof -
  obtain y j where l: "hr_loop (of_int n) 0 = (y, j)" by (cases "hr_loop (of_int n) 0")
  have r: "0 \<le> j \<and> j \<le> 8 \<and> y = of_int n / 1024 ^ (j - 0) \<and> (y < 1024 \<or> j = 8) \<and>
           (1 \<le> (of_int n :: rat) \<longrightarrow> 1 \<le> y)"
    by (rule hr_loop_result [OF l]) (use assms in simp_all)
  then have j: "j \<le> 8" and top: "y < 1024 \<or> j = 8" by blast+
  from r have y: "y = of_int n / 1024 ^ j" by simp
  have "1 \<le> (of_int n :: rat)" using assms by simp
  with r have one: "1 \<le> y" by blast
  have h: "human_readable_size (Some n) = fmt_fixed2 y @ '' '' @ size_units ! j"
    using l assms by (simp add: human_readable_size_pos)
  show ?thesis
    using j h top one unfolding y by blast
qed

theorem human_readable_size_bounds_witness:
  "\<exists>j \<le> 8. human_readable_size (Some 1152) = fmt_fixed2 (1152 / 1024 ^ j) @ '' '' @ size_units ! j \<and>
            1 \<le> (1152 / 1024 ^ j :: rat) \<and> ((1152 / 1024 ^ j :: rat) < 1024 \<or> j = 8)"
  using human_readable_size_bounds [of 1152] by simp

text \<open>A count from 1 to 1023 prints as its decimal
  notation with two zero decimals and the unit B; a count that is zero or negative prints
  \<open>0 B\<close>.\<close>

theorem human_readable_size_bytes:
  "(0 < n \<and> n < 1024 \<longrightarrow> human_readable_size (Some n) = dec_string (nat n) @ ''.00 B'') \<and>
   (n \<le> 0 \<longrightarrow> human_readable_size (Some n) = ''0 B'')"
proof (intro conjI impI)
  assume n: "0 < n \<and> n < 1024"
  then have "hr_loop (of_int n) 0 = (of_nat (nat n), 0)" by (simp add: hr_loop.simps)
  moreover have "fmt_fixed2 (of_int n) = dec_string (nat n) @ ''.00''"
  proof -
    have "fmt_fixed2 (of_int n) = fmt_fixed2 (of_nat (nat n))" using n by simp
    also have "\<dots> = dec_string (nat n) @ ''.00''" by (rule fmt_fixed2_nat)
    finally show ?thesis .
  qed
  ultimately show "human_readable_size (Some n) = dec_string (nat n) @ ''.00 B''"
    using n by (simp add: human_readable_size_pos fmt_fixed2_nat size_units_def)
next
  assume "n \<le> 0"
  then show "human_readable_size (Some n) = ''0 B''" by (simp add: human_readable_size_def)
qed

theorem human_readable_size_bytes_witness:
  "human_readable_size (Some 512) = ''512.00 B'' \<and> human_readable_size (Some 0) = ''0 B''"
proof -
  have "dec_string 512 = ''512''" by code_simp
  then show ?thesis
    using human_readable_size_bytes [of 512] human_readable_size_bytes [of 0] by simp
qed

text \<open>The unit is chosen before rounding, so a count
  just below a power of 1024 prints as 1024.00 of the smaller unit: 1048575 bytes print
  as \<open>1024.00 KiB\<close>, not \<open>1.00 MiB\<close>.\<close>

theorem human_readable_size_rounds_up: "human_readable_size (Some 1048575) = ''1024.00 KiB''"
proof -
  have l: "hr_loop 1048575 0 = (1048575 / 1024, 1)" by code_simp
  have r: "round_half_even (1048575 / 1024 * 100) = 102400" by code_simp
  have d: "dec_string 1024 = ''1024''" by code_simp
  have "human_readable_size (Some 1048575) = fmt_cents 102400 @ '' '' @ size_units ! 1"
    using l r by (simp add: human_readable_size_pos fmt_fixed2_def)
  also have "\<dots> = ''1024.00 KiB''" using d by (simp add: fmt_cents_def digit_char_0 size_units_def)
  finally show ?thesis .
qed


end
