(* ===== verification/PyRe.thy ===== *)
theory PyRe
  imports PyStr
begin

text \<open>
  \<open>re.match\<close> for the patterns of src/pages/repositories.py: a concatenation of
  literals, \<open>\s+\<close> (greedy), \<open>(.*?)\<close> (lazy group) and \<open>(.*)\<close> (greedy group), anchored at
  the start. Python's engine backtracks: a greedy atom tries its longest extent first, a
  lazy one its shortest, and the first combination with which the rest of the pattern
  matches wins. The matcher below enumerates the extents of the first atom in that order
  and returns the captured groups of the first success. \<open>\s\<close> is \<open>is_space\<close> (the same
  Unicode predicate as \<open>str.isspace\<close>); \<open>.\<close> is any character but a newline.
\<close>

datatype re_item = ReLit string | ReSpaces | ReLazyAny | ReGreedyAny

definition first_match :: "'a option list \<Rightarrow> 'a option" where
  "first_match rs = (case dropWhile (\<lambda>r. r = None) rs of [] \<Rightarrow> None | r # _ \<Rightarrow> r)"

definition line_run :: "string \<Rightarrow> nat" where
  "line_run s = length (takeWhile (\<lambda>c. c \<noteq> CHR 0x0A) s)"

fun re_match :: "re_item list \<Rightarrow> string \<Rightarrow> string list option" where
  "re_match [] s = Some []"
| "re_match (ReLit l # ps) s = (if prefix l s then re_match ps (drop (length l) s) else None)"
| "re_match (ReSpaces # ps) s =
     first_match (map (\<lambda>k. re_match ps (drop k s)) (rev [1..<Suc (length (takeWhile is_space s))]))"
| "re_match (ReLazyAny # ps) s =
     first_match (map (\<lambda>k. map_option (Cons (take k s)) (re_match ps (drop k s))) [0..<Suc (line_run s)])"
| "re_match (ReGreedyAny # ps) s =
     first_match (map (\<lambda>k. map_option (Cons (take k s)) (re_match ps (drop k s))) (rev [0..<Suc (line_run s)]))"

subsection \<open>Lemmas\<close>

lemma first_match_Nil [simp]: "first_match [] = None"
  by (simp add: first_match_def)

lemma first_match_Cons [simp]: "first_match (r # rs) = (if r = None then first_match rs else r)"
  by (simp add: first_match_def)

lemma first_match_append:
  "first_match (xs @ ys) = (if \<forall>x \<in> set xs. x = None then first_match ys else first_match xs)"
  by (induction xs) auto

lemma first_match_None: "\<forall>x \<in> set xs. x = None \<Longrightarrow> first_match xs = None"
  using first_match_append [of xs "[]"] by simp

lemma re_match_spaces_one:
  assumes "is_space c" and "rest = [] \<or> \<not> is_space (hd rest)"
  shows "re_match (ReSpaces # ps) (c # rest) = re_match ps rest"
proof -
  have "takeWhile is_space rest = []" using assms(2) by (cases rest) auto
  with assms(1) show ?thesis by simp
qed

lemma re_match_spaces_none:
  "s = [] \<or> \<not> is_space (hd s) \<Longrightarrow> re_match (ReSpaces # ps) s = None"
  by (cases s) auto

lemma re_match_lit_prefix [simp]: "re_match (ReLit l # ps) (l @ s) = re_match ps s"
  by simp

lemma re_match_lit_none: "\<not> prefix l s \<Longrightarrow> re_match (ReLit l # ps) s = None"
  by simp

lemma line_run_no_newline: "CHR 0x0A \<notin> set s \<Longrightarrow> line_run s = length s"
proof -
  assume "CHR 0x0A \<notin> set s"
  then have "takeWhile (\<lambda>c. c \<noteq> CHR 0x0A) s = s" by (auto simp: takeWhile_eq_all_conv)
  then show ?thesis unfolding line_run_def by (rule arg_cong)
qed

lemma re_match_greedy_last:
  "CHR 0x0A \<notin> set s \<Longrightarrow> re_match [ReGreedyAny] s = Some [s]"
  by (simp add: line_run_no_newline)

text \<open>A lazy group before \<open>\s+\<close> stops at the first whitespace when what follows matches.\<close>

lemma re_match_lazy_word:
  assumes w: "\<forall>x \<in> set w. \<not> is_space x \<and> x \<noteq> CHR 0x0A"
    and r: "re_match (ReSpaces # ps) (c # rest) = Some gs"
  shows "re_match (ReLazyAny # ReSpaces # ps) (w @ c # rest) = Some (w # gs)"
proof -
  let ?s = "w @ c # rest"
  let ?f = "\<lambda>k. map_option (Cons (take k ?s)) (re_match (ReSpaces # ps) (drop k ?s))"
  have run: "length w < Suc (line_run ?s)"
  proof -
    have "takeWhile (\<lambda>x. x \<noteq> CHR 0x0A) ?s = w @ takeWhile (\<lambda>x. x \<noteq> CHR 0x0A) (c # rest)"
      using w by simp
    then show ?thesis by (simp add: line_run_def)
  qed
  have "[0..<Suc (line_run ?s)] = [0..<length w] @ [length w..<Suc (line_run ?s)]"
    using upt_add_eq_append [of 0 "length w" "Suc (line_run ?s) - length w"] run by simp
  also have "[length w..<Suc (line_run ?s)] = length w # [Suc (length w)..<Suc (line_run ?s)]"
    by (rule upt_conv_Cons) (rule run)
  finally have eq: "[0..<Suc (line_run ?s)] = [0..<length w] @ length w # [Suc (length w)..<Suc (line_run ?s)]" .
  have none: "\<forall>x \<in> set (map ?f [0..<length w]). x = None"
  proof
    fix x assume "x \<in> set (map ?f [0..<length w])"
    then obtain k where k: "k < length w" and x: "x = ?f k" by auto
    then have "drop k ?s = w ! k # drop (Suc k) w @ c # rest" by (simp add: Cons_nth_drop_Suc)
    moreover have "\<not> is_space (w ! k)" using w k by simp
    ultimately show "x = None" using x by (simp add: re_match_spaces_none)
  qed
  have some: "?f (length w) = Some (w # gs)" using r by simp
  have "re_match (ReLazyAny # ReSpaces # ps) ?s = first_match (map ?f [0..<Suc (line_run ?s)])"
    by (simp only: re_match.simps)
  also have "\<dots> = first_match (map ?f [0..<length w] @ ?f (length w) #
      map ?f [Suc (length w)..<Suc (line_run ?s)])"
    by (simp only: eq map_append list.map)
  also have "\<dots> = first_match (?f (length w) # map ?f [Suc (length w)..<Suc (line_run ?s)])"
    by (simp only: first_match_append if_P [OF none])
  also have "\<dots> = Some (w # gs)" by (simp only: first_match_Cons some option.simps if_False)
  finally show ?thesis .
qed

end
