(* ===== verification/PyOs.thy ===== *)
theory PyOs
  imports PyRe
begin

text \<open>
  The parts of \<open>os.path\<close> and \<open>time\<close> that src/pages/backups.py uses, on POSIX:
  \<open>os.path.join\<close> of two components, \<open>os.path.expanduser\<close> (the home directory and the
  password database are parameters), \<open>str.rstrip(c)\<close>, and \<open>time.strftime\<close> and
  \<open>time.strptime\<close> for the two formats of the page, \<open>%Y%m%d_%H%M%S\<close> (the backup names) and
  \<open>%Y-%m-%d %H:%M:%S\<close> (the list). \<open>time.strptime\<close> is CPython's \<open>_strptime\<close>: the format
  becomes a regular expression whose directives are alternations of fixed-length
  character classes, tried in order with backtracking; the first match must consume the
  whole string, and the date must exist (\<open>datetime.date(year, month, day)\<close>).
\<close>

subsection \<open>Paths\<close>

text \<open>\<open>s.rstrip(c)\<close> for one character.\<close>

definition py_rstrip_char :: "char \<Rightarrow> string \<Rightarrow> string" where
  "py_rstrip_char c s = rev (dropWhile (\<lambda>d. d = c) (rev s))"

text \<open>\<open>posixpath.join(a, b)\<close>: an absolute second component replaces the first.\<close>

definition py_path_join :: "string \<Rightarrow> string \<Rightarrow> string" where
  "py_path_join a b =
     (if py_startswith b ''/'' then b
      else if a = [] \<or> py_endswith a ''/'' then a @ b
      else a @ ''/'' @ b)"

text \<open>\<open>posixpath.expanduser(path)\<close>: \<open>home\<close> is \<open>$HOME\<close>, \<open>user_home\<close> the password
  database (\<open>None\<close> for an unknown user, which leaves the path unchanged).\<close>

definition py_expanduser :: "string \<Rightarrow> (string \<Rightarrow> string option) \<Rightarrow> string \<Rightarrow> string" where
  "py_expanduser home user_home path =
     (if \<not> py_startswith path ''~'' then path
      else
        (let name = takeWhile (\<lambda>c. c \<noteq> CHR ''/'') (tl path);
             rest = dropWhile (\<lambda>c. c \<noteq> CHR ''/'') (tl path)
         in case (if name = [] then Some home else user_home name) of
              None \<Rightarrow> path
            | Some uh \<Rightarrow> (let r = py_rstrip_char CHR ''/'' uh @ rest in if r = [] then ''/'' else r)))"

subsection \<open>Broken-down time and \<open>strftime\<close>\<close>

record tm =
  tm_year :: nat
  tm_mon :: nat
  tm_mday :: nat
  tm_hour :: nat
  tm_min :: nat
  tm_sec :: nat

text \<open>\<open>%m\<close>, \<open>%d\<close>, \<open>%H\<close>, \<open>%M\<close>, \<open>%S\<close> print \<open>%02d\<close>; glibc prints \<open>%Y\<close> without padding.\<close>

definition pad2 :: "nat \<Rightarrow> string" where
  "pad2 n = (if n < 10 then CHR ''0'' # dec_string n else dec_string n)"

definition strftime_stamp :: "tm \<Rightarrow> string" where
  "strftime_stamp t =
     dec_string (tm_year t) @ pad2 (tm_mon t) @ pad2 (tm_mday t) @ ''_'' @
     pad2 (tm_hour t) @ pad2 (tm_min t) @ pad2 (tm_sec t)"

definition strftime_display :: "tm \<Rightarrow> string" where
  "strftime_display t =
     dec_string (tm_year t) @ ''-'' @ pad2 (tm_mon t) @ ''-'' @ pad2 (tm_mday t) @ '' '' @
     pad2 (tm_hour t) @ '':'' @ pad2 (tm_min t) @ '':'' @ pad2 (tm_sec t)"

definition leap_year :: "nat \<Rightarrow> bool" where
  "leap_year y \<longleftrightarrow> 4 dvd y \<and> (\<not> 100 dvd y \<or> 400 dvd y)"

definition days_in_month :: "nat \<Rightarrow> nat \<Rightarrow> nat" where
  "days_in_month y m =
     (if m = 2 then (if leap_year y then 29 else 28)
      else if m = 4 \<or> m = 6 \<or> m = 9 \<or> m = 11 then 30 else 31)"

text \<open>A broken-down time that \<open>time.localtime\<close> can return, with a four-digit year.\<close>

definition tm_ok :: "tm \<Rightarrow> bool" where
  "tm_ok t \<longleftrightarrow> 1000 \<le> tm_year t \<and> tm_year t \<le> 9999 \<and> 1 \<le> tm_mon t \<and> tm_mon t \<le> 12 \<and>
     1 \<le> tm_mday t \<and> tm_mday t \<le> days_in_month (tm_year t) (tm_mon t) \<and>
     tm_hour t \<le> 23 \<and> tm_min t \<le> 59 \<and> tm_sec t \<le> 61"

subsection \<open>\<open>strptime\<close>\<close>

text \<open>The character classes of \<open>_strptime\<close>'s directives: a digit range \<open>[lo-hi]\<close> (\<open>\d\<close> is
  \<open>[0-9]\<close> on Latin-1) and the space of \<open>%d\<close>'s last alternative.\<close>

datatype char_class = Digits nat nat | SpaceChar

fun in_class :: "char_class \<Rightarrow> char \<Rightarrow> bool" where
  "in_class (Digits lo hi) c = (case digit_val c of Some k \<Rightarrow> lo \<le> k \<and> k \<le> hi | None \<Rightarrow> False)"
| "in_class SpaceChar c = (c = CHR '' '')"

text \<open>A directive is its list of alternatives, each a sequence of classes; a literal of
  the format matches itself.\<close>

datatype strp_item = SLit char | SField "char_class list list"

fun alt_accepts :: "char_class list \<Rightarrow> string \<Rightarrow> bool" where
  "alt_accepts [] s = True"
| "alt_accepts (k # ks) [] = False"
| "alt_accepts (k # ks) (c # s) = (in_class k c \<and> alt_accepts ks s)"

fun strp_match :: "strp_item list \<Rightarrow> string \<Rightarrow> (string list \<times> string) option" where
  "strp_match [] s = Some ([], s)"
| "strp_match (SLit c # ps) s =
     (case s of [] \<Rightarrow> None | d # s' \<Rightarrow> if d = c then strp_match ps s' else None)"
| "strp_match (SField alts # ps) s =
     first_match (map (\<lambda>alt.
        if alt_accepts alt s
        then map_option (\<lambda>(gs, r). (take (length alt) s # gs, r)) (strp_match ps (drop (length alt) s))
        else None) alts)"

text \<open>The directives of \<open>_strptime.TimeRE\<close>: \<open>%Y\<close> is \<open>\d\d\d\d\<close>, \<open>%m\<close> is
  \<open>1[0-2]|0[1-9]|[1-9]\<close>, \<open>%d\<close> is \<open>3[01]|[12]\d|0[1-9]|[1-9]| [1-9]\<close>, \<open>%H\<close> is
  \<open>2[0-3]|[0-1]\d|\d\<close>, \<open>%M\<close> is \<open>[0-5]\d|\d\<close>, \<open>%S\<close> is \<open>6[0-1]|[0-5]\d|\d\<close>.\<close>

definition re_Y :: strp_item where
  "re_Y = SField [[Digits 0 9, Digits 0 9, Digits 0 9, Digits 0 9]]"

definition re_m :: strp_item where
  "re_m = SField [[Digits 1 1, Digits 0 2], [Digits 0 0, Digits 1 9], [Digits 1 9]]"

definition re_d :: strp_item where
  "re_d = SField [[Digits 3 3, Digits 0 1], [Digits 1 2, Digits 0 9], [Digits 0 0, Digits 1 9],
                  [Digits 1 9], [SpaceChar, Digits 1 9]]"

definition re_H :: strp_item where
  "re_H = SField [[Digits 2 2, Digits 0 3], [Digits 0 1, Digits 0 9], [Digits 0 9]]"

definition re_M :: strp_item where
  "re_M = SField [[Digits 0 5, Digits 0 9], [Digits 0 9]]"

definition re_S :: strp_item where
  "re_S = SField [[Digits 6 6, Digits 0 1], [Digits 0 5, Digits 0 9], [Digits 0 9]]"

definition stamp_format :: "strp_item list" where
  "stamp_format = [re_Y, re_m, re_d, SLit CHR ''_'', re_H, re_M, re_S]"

text \<open>\<open>time.strptime(s, "%Y%m%d_%H%M%S")\<close>; \<open>None\<close> is the \<open>ValueError\<close> (no match,
  unconverted data, or a day the month does not have).\<close>

definition py_strptime_stamp :: "string \<Rightarrow> tm option" where
  "py_strptime_stamp s =
     (case strp_match stamp_format s of
        Some (gs, []) \<Rightarrow>
          (case those (map py_int gs) of
             Some [y, mo, d, h, mi, se] \<Rightarrow>
               if 1 \<le> y \<and> 1 \<le> d \<and> d \<le> int (days_in_month (nat y) (nat mo))
               then Some \<lparr>tm_year = nat y, tm_mon = nat mo, tm_mday = nat d, tm_hour = nat h,
                          tm_min = nat mi, tm_sec = nat se\<rparr>
               else None
           | _ \<Rightarrow> None)
      | _ \<Rightarrow> None)"

subsection \<open>Lemmas: the stamp format read back\<close>

lemma digit_char_zero: "digit_char 0 = CHR ''0''"
  by code_simp

lemma pad2_digits:
  assumes "n < 100"
  shows "pad2 n = [digit_char (n div 10), digit_char (n mod 10)]"
proof (cases "n < 10")
  case True
  then show ?thesis by (simp add: pad2_def digit_char_zero dec_string.simps)
next
  case False
  moreover have "n div 10 < 10" using assms by simp
  ultimately show ?thesis by (simp add: pad2_def dec_string.simps)
qed

lemma dec_string_4:
  assumes "1000 \<le> n" and "n \<le> 9999"
  shows "dec_string n = [digit_char (n div 1000), digit_char (n div 100 mod 10),
                         digit_char (n div 10 mod 10), digit_char (n mod 10)]"
proof -
  have "n div 10 div 10 div 10 = n div 1000" "n div 10 div 10 = n div 100"
    by (simp_all add: div_mult2_eq)
  moreover have "1000 div 100 \<le> n div 100" "1000 div 10 \<le> n div 10" "n div 1000 \<le> 9999 div 1000"
    using assms by (simp_all only: div_le_mono)
  ultimately show ?thesis using assms by (simp add: dec_string.simps)
qed

lemma alt_accepts_append:
  "alt_accepts alt x \<Longrightarrow> length alt = length x \<Longrightarrow> alt_accepts alt (x @ s)"
  by (induction alt x rule: alt_accepts.induct) auto

lemma in_class_digit [simp]:
  "a < 10 \<Longrightarrow> in_class (Digits lo hi) (digit_char a) = (lo \<le> a \<and> a \<le> hi)"
  by simp

lemma in_class_space_digit [simp]: "a < 10 \<Longrightarrow> \<not> in_class SpaceChar (digit_char a)"
  by (simp add: digit_char_neq)

lemma strp_m:
  assumes "a < 10" "b < 10" "a = 1 \<and> b \<le> 2 \<or> a = 0 \<and> 1 \<le> b" and "strp_match ps s = Some (gs, r)"
  shows "strp_match (re_m # ps) ([digit_char a, digit_char b] @ s) = Some ([digit_char a, digit_char b] # gs, r)"
  using assms by (auto simp: re_m_def)

lemma strp_d:
  assumes "a < 10" "b < 10" "a = 3 \<and> b \<le> 1 \<or> 1 \<le> a \<and> a \<le> 2 \<or> a = 0 \<and> 1 \<le> b"
    and "strp_match ps s = Some (gs, r)"
  shows "strp_match (re_d # ps) ([digit_char a, digit_char b] @ s) = Some ([digit_char a, digit_char b] # gs, r)"
  using assms by (auto simp: re_d_def)

lemma strp_H:
  assumes "a < 10" "b < 10" "a = 2 \<and> b \<le> 3 \<or> a \<le> 1" and "strp_match ps s = Some (gs, r)"
  shows "strp_match (re_H # ps) ([digit_char a, digit_char b] @ s) = Some ([digit_char a, digit_char b] # gs, r)"
  using assms by (auto simp: re_H_def)

lemma strp_M:
  assumes "a \<le> 5" "b < 10" and "strp_match ps s = Some (gs, r)"
  shows "strp_match (re_M # ps) ([digit_char a, digit_char b] @ s) = Some ([digit_char a, digit_char b] # gs, r)"
  using assms by (auto simp: re_M_def)

lemma strp_S:
  assumes "a < 10" "b < 10" "a = 6 \<and> b \<le> 1 \<or> a \<le> 5"
  shows "strp_match [re_S] [digit_char a, digit_char b] = Some ([[digit_char a, digit_char b]], [])"
  using assms by (auto simp: re_S_def)

lemma strp_Y:
  assumes "a < 10" "b < 10" "c < 10" "d < 10" and "strp_match ps s = Some (gs, r)"
  shows "strp_match (re_Y # ps) ([digit_char a, digit_char b, digit_char c, digit_char d] @ s) =
    Some ([digit_char a, digit_char b, digit_char c, digit_char d] # gs, r)"
  using assms by (simp add: re_Y_def)

lemma strp_lit [simp]: "strp_match (SLit c # ps) (c # s) = strp_match ps s"
  by simp

lemma strp_Y_dec:
  assumes "1000 \<le> n" "n \<le> 9999" and "strp_match ps s = Some (gs, r)"
  shows "strp_match (re_Y # ps) (dec_string n @ s) = Some (dec_string n # gs, r)"
proof -
  have "n div 1000 \<le> 9999 div 1000" using assms(2) by (rule div_le_mono)
  then have "n div 1000 < 10" by simp
  then show ?thesis unfolding dec_string_4 [OF assms(1,2)] using assms(3) by (intro strp_Y) simp_all
qed

lemma less_10_cases:
  "a < (10::nat) \<Longrightarrow> a = 0 \<or> a = 1 \<or> a = 2 \<or> a = 3 \<or> a = 4 \<or> a = 5 \<or> a = 6 \<or> a = 7 \<or> a = 8 \<or> a = 9"
  by presburger

lemma pad2_split:
  assumes "n < 100"
  obtains a b where "a < 10" "b < 10" "n = 10 * a + b" "pad2 n = [digit_char a, digit_char b]"
proof
  show "n div 10 < 10" "n mod 10 < 10" using assms by simp_all
  show "n = 10 * (n div 10) + n mod 10" by simp
  show "pad2 n = [digit_char (n div 10), digit_char (n mod 10)]" using assms by (rule pad2_digits)
qed

lemma strp_m_pad:
  assumes "1 \<le> n" "n \<le> 12" and "strp_match ps s = Some (gs, r)"
  shows "strp_match (re_m # ps) (pad2 n @ s) = Some (pad2 n # gs, r)"
proof -
  have "n < 100" using assms(2) by simp
  then obtain a b where ab: "a < 10" "b < 10" "n = 10 * a + b" and p: "pad2 n = [digit_char a, digit_char b]"
    by (rule pad2_split)
  have h: "a = 1 \<and> b \<le> 2 \<or> a = 0 \<and> 1 \<le> b" using ab(1,3) assms(1,2) by (auto dest!: less_10_cases)
  show ?thesis unfolding p by (rule strp_m [OF ab(1,2) h assms(3)])
qed

lemma strp_d_pad:
  assumes "1 \<le> n" "n \<le> 31" and "strp_match ps s = Some (gs, r)"
  shows "strp_match (re_d # ps) (pad2 n @ s) = Some (pad2 n # gs, r)"
proof -
  have "n < 100" using assms(2) by simp
  then obtain a b where ab: "a < 10" "b < 10" "n = 10 * a + b" and p: "pad2 n = [digit_char a, digit_char b]"
    by (rule pad2_split)
  have h: "a = 3 \<and> b \<le> 1 \<or> 1 \<le> a \<and> a \<le> 2 \<or> a = 0 \<and> 1 \<le> b" using ab(1,3) assms(1,2) by (auto dest!: less_10_cases)
  show ?thesis unfolding p by (rule strp_d [OF ab(1,2) h assms(3)])
qed

lemma strp_H_pad:
  assumes "n \<le> 23" and "strp_match ps s = Some (gs, r)"
  shows "strp_match (re_H # ps) (pad2 n @ s) = Some (pad2 n # gs, r)"
proof -
  have "n < 100" using assms(1) by simp
  then obtain a b where ab: "a < 10" "b < 10" "n = 10 * a + b" and p: "pad2 n = [digit_char a, digit_char b]"
    by (rule pad2_split)
  have h: "a = 2 \<and> b \<le> 3 \<or> a \<le> 1" using ab(1,3) assms(1) by (auto dest!: less_10_cases)
  show ?thesis unfolding p by (rule strp_H [OF ab(1,2) h assms(2)])
qed

lemma strp_M_pad:
  assumes "n \<le> 59" and "strp_match ps s = Some (gs, r)"
  shows "strp_match (re_M # ps) (pad2 n @ s) = Some (pad2 n # gs, r)"
proof -
  have "n < 100" using assms(1) by simp
  then obtain a b where ab: "a < 10" "b < 10" "n = 10 * a + b" and p: "pad2 n = [digit_char a, digit_char b]"
    by (rule pad2_split)
  have h: "a \<le> 5" using ab(1,3) assms(1) by (auto dest!: less_10_cases)
  show ?thesis unfolding p by (rule strp_M [OF h ab(2) assms(2)])
qed

lemma strp_S_pad:
  assumes "n \<le> 61"
  shows "strp_match [re_S] (pad2 n) = Some ([pad2 n], [])"
proof -
  have "n < 100" using assms(1) by simp
  then obtain a b where ab: "a < 10" "b < 10" "n = 10 * a + b" and p: "pad2 n = [digit_char a, digit_char b]"
    by (rule pad2_split)
  have "a = 6 \<and> b \<le> 1 \<or> a \<le> 5" using ab(1,3) assms(1) by (auto dest!: less_10_cases)
  then show ?thesis unfolding p by (rule strp_S [OF ab(1,2)])
qed

lemma strp_stamp:
  assumes "tm_ok t"
  shows "strp_match stamp_format (strftime_stamp t) =
    Some ([dec_string (tm_year t), pad2 (tm_mon t), pad2 (tm_mday t), pad2 (tm_hour t),
           pad2 (tm_min t), pad2 (tm_sec t)], [])"
proof -
  note ok = assms [unfolded tm_ok_def]
  have "days_in_month (tm_year t) (tm_mon t) \<le> 31" by (simp add: days_in_month_def)
  then have d31: "tm_mday t \<le> 31" using ok by linarith
  have S: "strp_match [re_S] (pad2 (tm_sec t)) = Some ([pad2 (tm_sec t)], [])"
    using ok by (intro strp_S_pad) simp
  have H: "strp_match [re_H, re_M, re_S] (pad2 (tm_hour t) @ pad2 (tm_min t) @ pad2 (tm_sec t)) =
      Some ([pad2 (tm_hour t), pad2 (tm_min t), pad2 (tm_sec t)], [])"
    using ok by (intro strp_H_pad strp_M_pad S) simp_all
  have "strp_match stamp_format (dec_string (tm_year t) @ pad2 (tm_mon t) @ pad2 (tm_mday t) @
      CHR ''_'' # pad2 (tm_hour t) @ pad2 (tm_min t) @ pad2 (tm_sec t)) =
      Some ([dec_string (tm_year t), pad2 (tm_mon t), pad2 (tm_mday t), pad2 (tm_hour t),
             pad2 (tm_min t), pad2 (tm_sec t)], [])"
    unfolding stamp_format_def using ok d31 H by (intro strp_Y_dec strp_m_pad strp_d_pad) simp_all
  then show ?thesis by (simp add: strftime_stamp_def)
qed

lemma py_int_two_digits:
  assumes "a < 10" "b < 10"
  shows "py_int [digit_char a, digit_char b] = Some (int (10 * a + b))"
proof -
  have "py_strip [digit_char a, digit_char b] = [digit_char a, digit_char b]"
    using assms by (intro py_strip_no_space) simp
  with assms show ?thesis by (simp add: py_int_def)
qed

lemma py_int_pad2: "n < 100 \<Longrightarrow> py_int (pad2 n) = Some (int n)"
  by (erule pad2_split) (simp add: py_int_two_digits)

lemma strptime_strftime:
  assumes "tm_ok t"
  shows "py_strptime_stamp (strftime_stamp t) = Some t"
proof -
  note ok = assms [unfolded tm_ok_def]
  have "days_in_month (tm_year t) (tm_mon t) \<le> 31" by (simp add: days_in_month_def)
  then have "tm_mday t < 100" using ok by linarith
  then have "those (map py_int [dec_string (tm_year t), pad2 (tm_mon t), pad2 (tm_mday t), pad2 (tm_hour t),
           pad2 (tm_min t), pad2 (tm_sec t)]) =
      Some [int (tm_year t), int (tm_mon t), int (tm_mday t), int (tm_hour t), int (tm_min t), int (tm_sec t)]"
    using ok by (simp add: py_int_dec_string py_int_pad2)
  with ok show ?thesis by (simp add: py_strptime_stamp_def strp_stamp [OF assms])
qed

end
