(* ===== verification/Icons.thy ===== *)
theory Icons
  imports PyOs
begin

text \<open>
  The desktop icon map of src/utils/icons.py (\<open>build_desktop_icon_map\<close>), which the
  process view builds once at start-up and consults for the icon of every process. The
  two globs are the \<open>.desktop\<close> names of a directory listing; each file is the list of
  lines the text-mode file iterator yields, or \<open>None\<close> when \<open>open\<close> raises. The line
  loop with its \<open>break\<close> is \<open>scan_desktop\<close>, one file's contribution \<open>desktop_entry\<close>
  (\<open>None\<close> where the file adds nothing, the handler \<open>except Exception: pass\<close> included),
  and the map is the fold of the updates followed by the three \<open>setdefault\<close> calls.
\<close>

type_synonym icon_map = "string \<Rightarrow> string option"

text \<open>\<open>glob.glob(dir + '/*.desktop')\<close> over the listing of \<open>dir\<close>: the names that are
  not hidden (a wildcard does not match a leading dot) and end in \<open>.desktop\<close>, joined to
  the directory, in the order of the listing.\<close>

definition glob_desktop :: "string \<Rightarrow> string list \<Rightarrow> string list" where
  "glob_desktop dir names =
     [py_path_join dir n. n \<leftarrow> names, \<not> py_startswith n ''.'' \<and> py_endswith n ''.desktop'']"

definition desktop_paths ::
  "string \<Rightarrow> (string \<Rightarrow> string option) \<Rightarrow> (string \<Rightarrow> string list) \<Rightarrow> string list" where
  "desktop_paths home user_home listdir =
     (let udir = py_expanduser home user_home ''~/.local/share/applications''
      in glob_desktop ''/usr/share/applications'' (listdir ''/usr/share/applications'') @
         glob_desktop udir (listdir udir))"

text \<open>\<open>line.split('=', 1)[1].strip()\<close>; \<open>None\<close> is the \<open>IndexError\<close> of a line without
  \<open>=\<close>.\<close>

definition eq_value :: "string \<Rightarrow> string option" where
  "eq_value line = (case py_split1 CHR ''='' line of [_, v] \<Rightarrow> Some (py_strip v) | _ \<Rightarrow> None)"

text \<open>The loop over the lines: the first \<open>Icon=\<close> and the first \<open>Exec=\<close> value, left as
  soon as both are nonempty; \<open>None\<close> when the body raises.\<close>

fun scan_desktop ::
  "string option \<Rightarrow> string option \<Rightarrow> string list \<Rightarrow> (string option \<times> string option) option" where
  "scan_desktop icon exec_cmd [] = Some (icon, exec_cmd)"
| "scan_desktop icon exec_cmd (line # lns) =
     (let s = py_strip line
      in case (if py_startswith s ''Icon='' \<and> icon = None then map_option Some (eq_value line)
               else Some icon) of
           None \<Rightarrow> None
         | Some icon' \<Rightarrow>
             (case (if py_startswith s ''Exec='' \<and> exec_cmd = None then map_option Some (eq_value line)
                    else Some exec_cmd) of
                None \<Rightarrow> None
              | Some exec' \<Rightarrow>
                  if truthy icon' \<and> truthy exec' then Some (icon', exec')
                  else scan_desktop icon' exec' lns))"

text \<open>The body of the loop over the paths for one file: the key and the icon name it
  writes, or \<open>None\<close>.\<close>

definition desktop_entry :: "string \<Rightarrow> string list option \<Rightarrow> (string \<times> string) option" where
  "desktop_entry p lines =
     (case lines of
        None \<Rightarrow> None
      | Some lns \<Rightarrow>
          (case scan_desktop None None lns of
             None \<Rightarrow> None
           | Some (icon, exec_cmd) \<Rightarrow>
               if truthy exec_cmd then
                 (case py_split_ws (the exec_cmd) of
                    [] \<Rightarrow> None
                  | exe # _ \<Rightarrow>
                      Some (py_basename exe,
                            if truthy icon then the icon else py_splitext_root (py_basename p)))
               else None))"

definition add_entry :: "icon_map \<Rightarrow> string \<Rightarrow> string list option \<Rightarrow> icon_map" where
  "add_entry m p lines = (case desktop_entry p lines of None \<Rightarrow> m | Some (k, v) \<Rightarrow> m(k \<mapsto> v))"

text \<open>\<open>mapping.setdefault(k, v)\<close>.\<close>

definition py_setdefault :: "'k \<Rightarrow> 'v \<Rightarrow> ('k \<Rightarrow> 'v option) \<Rightarrow> ('k \<Rightarrow> 'v option)" where
  "py_setdefault k v m = (if m k = None then m(k \<mapsto> v) else m)"

definition build_desktop_icon_map ::
  "string \<Rightarrow> (string \<Rightarrow> string option) \<Rightarrow> (string \<Rightarrow> string list) \<Rightarrow>
   (string \<Rightarrow> string list option) \<Rightarrow> icon_map" where
  "build_desktop_icon_map home user_home listdir read_lines =
     (let m = fold (\<lambda>p m. add_entry m p (read_lines p)) (desktop_paths home user_home listdir) Map.empty
      in py_setdefault ''sh'' ''utilities-terminal''
           (py_setdefault ''bash'' ''utilities-terminal'' (py_setdefault ''python'' ''python3'' m)))"

text \<open>The reference the loop is measured against: the value of the first line that
  starts with the key, without any early exit.\<close>

definition first_value :: "string \<Rightarrow> string list \<Rightarrow> string option" where
  "first_value key lns =
     map_option (\<lambda>line. py_strip (tl (dropWhile (\<lambda>c. c \<noteq> CHR ''='') line)))
       (find (\<lambda>line. py_startswith (py_strip line) key) lns)"

subsection \<open>Lemmas\<close>

lemma set_py_strip: "set (py_strip s) \<subseteq> set s"
  by (auto simp: py_strip_def dest!: set_dropWhileD)

lemma eq_value_Some:
  "CHR ''='' \<in> set line \<Longrightarrow> eq_value line = Some (py_strip (tl (dropWhile (\<lambda>c. c \<noteq> CHR ''='') line)))"
  by (simp add: eq_value_def py_split1_def)

lemma startswith_eq_in:
  assumes "py_startswith (py_strip line) k" and "CHR ''='' \<in> set k"
  shows "CHR ''='' \<in> set line"
proof -
  obtain zs where "py_strip line = k @ zs"
    using assms(1) by (auto simp: py_startswith_def prefix_def)
  then have "CHR ''='' \<in> set (py_strip line)" using assms(2) by simp
  then show ?thesis using set_py_strip by blast
qed

lemma eq_value_key:
  "py_startswith (py_strip line) ''Icon='' \<Longrightarrow> eq_value line = Some (py_strip (tl (dropWhile (\<lambda>c. c \<noteq> CHR ''='') line)))"
  "py_startswith (py_strip line) ''Exec='' \<Longrightarrow> eq_value line = Some (py_strip (tl (dropWhile (\<lambda>c. c \<noteq> CHR ''='') line)))"
  by (simp_all add: eq_value_Some startswith_eq_in)

lemma scan_desktop_first:
  "scan_desktop icon exec_cmd lns =
     Some (case icon of None \<Rightarrow> first_value ''Icon='' lns | Some _ \<Rightarrow> icon,
           case exec_cmd of None \<Rightarrow> first_value ''Exec='' lns | Some _ \<Rightarrow> exec_cmd)"
proof (induction lns arbitrary: icon exec_cmd)
  case Nil
  then show ?case by (simp add: first_value_def split: option.split)
next
  case (Cons line lns)
  then show ?case
    by (auto simp: first_value_def eq_value_key truthy_def Let_def split: option.split)
qed

lemma fold_add_entry:
  "fold (\<lambda>p m. add_entry m p (read_lines p)) ps m0 =
     m0 ++ map_of (rev (List.map_filter (\<lambda>p. desktop_entry p (read_lines p)) ps))"
proof (induction ps arbitrary: m0)
  case Nil
  then show ?case by (simp add: List.map_filter_simps)
next
  case (Cons p ps)
  then show ?case
    by (auto simp: add_entry_def List.map_filter_simps map_add_upd_left split: option.split)
qed

lemma py_setdefault_map_add: "py_setdefault k v m = [k \<mapsto> v] ++ m"
  by (rule ext) (simp add: py_setdefault_def map_add_def split: option.split)

subsection \<open>Properties of the icon map\<close>

text \<open>C15: the line loop of \<open>build_desktop_icon_map\<close> with its early
  \<open>break\<close> computes what a loop without it computes: the value of the first \<open>Icon=\<close> line
  and of the first \<open>Exec=\<close> line of the file, stripped, and it never raises: the
  \<open>IndexError\<close> of \<open>split('=', 1)[1]\<close> cannot happen on a line that starts with the key.\<close>

theorem scan_desktop_break:
  "scan_desktop None None lines = Some (first_value ''Icon='' lines, first_value ''Exec='' lines)"
  using scan_desktop_first [of None None lines] by simp

text \<open>C16: the icon map is the three defaults overridden by the
  entries of the desktop files, system files first and then the user's, a later file
  overriding an earlier one for the same executable: for every key the map holds the
  entry of the last file that writes the key, and \<open>python\<close>, \<open>bash\<close> and \<open>sh\<close> get their
  defaults only when no file writes them.\<close>

theorem icon_map_last_wins:
  "build_desktop_icon_map home user_home listdir read_lines =
     ([''sh'' \<mapsto> ''utilities-terminal''] ++ [''bash'' \<mapsto> ''utilities-terminal''] ++ [''python'' \<mapsto> ''python3'']) ++
     map_of (rev (List.map_filter (\<lambda>p. desktop_entry p (read_lines p)) (desktop_paths home user_home listdir)))"
  by (simp add: build_desktop_icon_map_def fold_add_entry py_setdefault_map_add map_add_assoc)

end
