(* ===== verification/Processes.thy ===== *)
theory Processes
  imports Selection Helpers Icons
begin

text \<open>
  The process view (src/pages/processes.py, class \<open>ProcessesPage\<close>) around the Record
  Store and Selection Controller it shares with the package view: the conversion of one
  \<open>psutil\<close> process record into a row (\<open>refresh_process_list\<close>'s sampling loop, with
  \<open>icon_for_process\<close> and \<open>human_readable_size\<close>), the refresh of the page, the icon cell,
  the kill actions with their confirmation dialog, and \<open>send_signal\<close>. The operating
  system is a parameter: the process records psutil yields, the outcome of each
  \<open>os.kill\<close>, and the desktop icon map built at start-up (theory Icons). The
  effects the view has on the system are returned as a list of actions.
\<close>

subsection \<open>Data\<close>

text \<open>\<open>p.info\<close>: the attributes asked of \<open>psutil.process_iter\<close>; \<open>None\<close> where psutil
  gives none (denied access, a zombie).\<close>

record pinfo =
  pid :: nat
  pname :: "string option"
  cpu_percent :: "rat option"
  memory_percent :: "rat option"
  num_threads :: "nat option"
  pstatus :: "string option"
  username :: "string option"
  cmdline :: "string list option"
  io_counters :: "(nat \<times> nat) option"
  exe :: "string option"

text \<open>Columns 2 to 11 of \<open>process_store\<close>; column 1 is the pid, the row's identity.\<close>

record proc_cols =
  icon_name :: string
  name :: string
  cpu :: rat
  mem :: rat
  threads :: nat
  status :: string
  user :: string
  cmd :: string
  read_str :: string
  write_str :: string

type_synonym proc_row = "(nat, proc_cols) row"

text \<open>\<open>(pinfo.get('cmdline') or [None])[0]\<close>.\<close>

definition first_arg :: "string list option \<Rightarrow> string option" where
  "first_arg c = (case c of None \<Rightarrow> None | Some [] \<Rightarrow> None | Some (a # _) \<Rightarrow> Some a)"

text \<open>
  \<open>icon_for_process\<close>: \<open>Inr\<close> the icon name or \<open>None\<close>; \<open>Inl ()\<close> when
  \<open>os.path.basename(exe).split()[0]\<close> raises \<open>IndexError\<close> (a base name with no
  non-whitespace character).
\<close>

definition icon_for_process :: "icon_map \<Rightarrow> pinfo \<Rightarrow> unit + string option" where
  "icon_for_process icons p =
     (let e = py_or (py_or (exe p) (first_arg (cmdline p))) (pname p)
      in if \<not> truthy e then Inr None
         else (case py_split_ws (py_basename (the e)) of
                 [] \<Rightarrow> Inl ()
               | base # _ \<Rightarrow>
                   if truthy (icons base) then Inr (icons base)
                   else (let guess = py_replace ''.exe'' [] base
                         in Inr (if guess \<noteq> [] then Some guess else None))))"

text \<open>\<open>x or default\<close> for a string attribute.\<close>

definition str_or :: "string option \<Rightarrow> string \<Rightarrow> string" where
  "str_or x d = (if truthy x then the x else d)"

text \<open>
  The body of the sampling loop: the pid and the other columns of the row, or \<open>Inl ()\<close>
  when the body raises (the \<open>except Exception: pass\<close> skips the process).
\<close>

definition proc_entry :: "icon_map \<Rightarrow> pinfo \<Rightarrow> unit + (nat \<times> proc_cols)" where
  "proc_entry icons p =
     (let c = py_join '' '' (case cmdline p of None \<Rightarrow> [] | Some l \<Rightarrow> l);
          command = (if c \<noteq> [] then c else str_or (pname p) []);
          (read_b, write_b) = (case io_counters p of None \<Rightarrow> (0, 0) | Some io \<Rightarrow> io)
      in case icon_for_process icons p of
           Inl u \<Rightarrow> Inl u
         | Inr icon \<Rightarrow>
             Inr (pid p,
                  \<lparr>icon_name = (case icon of None \<Rightarrow> [] | Some i \<Rightarrow> i),
                   name = str_or (pname p) ''<unknown>'',
                   cpu = (case cpu_percent p of None \<Rightarrow> 0 | Some x \<Rightarrow> x),
                   mem = (case memory_percent p of None \<Rightarrow> 0 | Some x \<Rightarrow> x),
                   threads = (case num_threads p of None \<Rightarrow> 0 | Some x \<Rightarrow> x),
                   status = str_or (pstatus p) [],
                   user = str_or (username p) [],
                   cmd = command,
                   read_str = human_readable_size (Some (int read_b)),
                   write_str = human_readable_size (Some (int write_b))\<rparr>))"

text \<open>\<open>new_data\<close> without its column 0: the rows of the processes whose body did not
  raise, in the order psutil yields them.\<close>

definition process_sample :: "icon_map \<Rightarrow> pinfo list \<Rightarrow> (nat \<times> proc_cols) list" where
  "process_sample icons ps =
     List.map_filter (\<lambda>p. case proc_entry icons p of Inl _ \<Rightarrow> None | Inr e \<Rightarrow> Some e) ps"

subsection \<open>The view\<close>

text \<open>The page and the open kill confirmation: the pids, the signal and the prompt.\<close>

record proc_state =
  proc_page :: "(nat, proc_cols) page"
  kill_dialog :: "(nat list \<times> nat \<times> string) option"

definition init_proc_state :: proc_state where
  "init_proc_state = \<lparr>proc_page = init_page, kill_dialog = None\<rparr>"

text \<open>\<open>proc_visible_func\<close>: columns 3 and 9.\<close>

definition proc_visible_func :: "(nat, proc_cols) visible" where
  "proc_visible_func = proc_visible name cmd"

definition refresh_processes :: "icon_map \<Rightarrow> pinfo list \<Rightarrow> proc_state \<Rightarrow> proc_state" where
  "refresh_processes icons ps st =
     st\<lparr>proc_page := (proc_page st)\<lparr>store :=
        refresh_process_list (store (proc_page st)) (process_sample icons ps)\<rparr>\<rparr>"

text \<open>\<open>render_icon_cell\<close>: the renderer's \<open>visible\<close> and \<open>icon-name\<close> properties.\<close>

definition render_icon_cell :: "proc_row \<Rightarrow> bool \<times> string" where
  "render_icon_cell r = (if icon_name (cols r) \<noteq> [] then (True, icon_name (cols r)) else (False, []))"

definition on_process_toggled :: "nat \<Rightarrow> proc_state \<Rightarrow> proc_state" where
  "on_process_toggled path st = st\<lparr>proc_page := on_toggled proc_visible_func path (proc_page st)\<rparr>"

definition on_process_tree_click ::
  "shift_state \<Rightarrow> timestamp \<Rightarrow> (nat \<times> nat) option \<Rightarrow> proc_state \<Rightarrow> proc_state \<times> bool" where
  "on_process_tree_click sh now hit st =
     (let (pg, handled) = on_tree_click proc_visible_func sh now hit (proc_page st)
      in (st\<lparr>proc_page := pg\<rparr>, handled))"

definition filter_processes :: "string \<Rightarrow> proc_state \<Rightarrow> proc_state" where
  "filter_processes q st = st\<lparr>proc_page := set_search q (proc_page st)\<rparr>"

subsection \<open>Signals\<close>

text \<open>Linux signal numbers of the four the view sends.\<close>

definition SIGKILL :: nat where "SIGKILL = 9"
definition SIGTERM :: nat where "SIGTERM = 15"
definition SIGCONT :: nat where "SIGCONT = 18"
definition SIGSTOP :: nat where "SIGSTOP = 19"

datatype kill_outcome = Delivered | PermissionDenied | OtherError

text \<open>The effects on the system: \<open>os.kill(pid, sig)\<close> and a subprocess command line.\<close>

datatype effect = is_os_kill: OsKill nat nat | RunCmd "string list"

text \<open>\<open>os.kill\<close>, then on \<open>PermissionError\<close> \<open>pkexec kill -<sig> <pid>\<close>; any other
  failure is logged and skipped. The body of \<open>confirm_kill.resp\<close>'s loop and of
  \<open>send_signal\<close>'s loop.\<close>

definition kill_one :: "(nat \<Rightarrow> nat \<Rightarrow> kill_outcome) \<Rightarrow> nat \<Rightarrow> nat \<Rightarrow> effect list" where
  "kill_one env sig p =
     OsKill p sig #
       (if env p sig = PermissionDenied
        then [RunCmd [''pkexec'', ''kill'', ''-'' @ dec_string sig, dec_string p]] else [])"

definition send_signal ::
  "(nat \<Rightarrow> nat \<Rightarrow> kill_outcome) \<Rightarrow> nat \<Rightarrow> proc_state \<Rightarrow> effect list" where
  "send_signal env sig st =
     concat (map (\<lambda>r. if sel r then kill_one env sig (ident r) else []) (store (proc_page st)))"

definition confirm_kill :: "nat list \<Rightarrow> nat \<Rightarrow> string \<Rightarrow> proc_state \<Rightarrow> proc_state" where
  "confirm_kill pids sig title st =
     st\<lparr>kill_dialog := Some (pids, sig, title @ '' '' @ dec_string (length pids) @ '' process(es)?'')\<rparr>"

definition kill_selected_processes :: "proc_state \<Rightarrow> proc_state" where
  "kill_selected_processes st =
     (let pids = selected_ids (store (proc_page st))
      in if pids = [] then st else confirm_kill pids SIGTERM ''Kill'' st)"

definition force_kill_selected :: "proc_state \<Rightarrow> proc_state" where
  "force_kill_selected st =
     (let pids = selected_ids (store (proc_page st))
      in if pids = [] then st else confirm_kill pids SIGKILL ''FORCE KILL (SIGKILL)'' st)"

text \<open>\<open>confirm_kill.resp\<close>: on \<open>Yes\<close> the signal to every pid the dialog was opened with,
  then \<open>refresh_process_list\<close> on the processes that remain (\<open>ps\<close>).\<close>

definition kill_response ::
  "bool \<Rightarrow> (nat \<Rightarrow> nat \<Rightarrow> kill_outcome) \<Rightarrow> icon_map \<Rightarrow> pinfo list \<Rightarrow> proc_state
   \<Rightarrow> proc_state \<times> effect list" where
  "kill_response yes env icons ps st =
     (case kill_dialog st of
        None \<Rightarrow> (st, [])
      | Some (pids, sig, _) \<Rightarrow>
          if yes then (refresh_processes icons ps (st\<lparr>kill_dialog := None\<rparr>),
                       concat (map (kill_one env sig) pids))
          else (st\<lparr>kill_dialog := None\<rparr>, []))"

subsection \<open>Lemmas\<close>

lemma proc_entry_Inl: "(\<exists>u. proc_entry icons p = Inl u) = (\<exists>u. icon_for_process icons p = Inl u)"
  by (auto simp: proc_entry_def Let_def split: sum.splits prod.splits)

lemma proc_entry_Inr: "proc_entry icons p = Inr e \<Longrightarrow> fst e = pid p"
  by (auto simp: proc_entry_def Let_def split: sum.splits prod.splits)

lemma process_sample_Cons:
  "process_sample icons (p # ps) =
     (case proc_entry icons p of Inl _ \<Rightarrow> process_sample icons ps | Inr e \<Rightarrow> e # process_sample icons ps)"
  by (simp add: process_sample_def List.map_filter_simps split: sum.splits)

lemma process_sample_pids:
  "map fst (process_sample icons ps) = map pid (filter (\<lambda>p. \<not> isl (icon_for_process icons p)) ps)"
proof (induction ps)
  case Nil
  then show ?case by (simp add: process_sample_def List.map_filter_simps)
next
  case (Cons p ps)
  show ?case
  proof (cases "proc_entry icons p")
    case (Inl u)
    then have "isl (icon_for_process icons p)" using proc_entry_Inl [of icons p] by auto
    with Inl Cons.IH show ?thesis by (simp add: process_sample_Cons)
  next
    case (Inr e)
    then have "\<not> isl (icon_for_process icons p)" using proc_entry_Inl [of icons p]
      by (cases "icon_for_process icons p") auto
    with Inr Cons.IH proc_entry_Inr [OF Inr] show ?thesis by (simp add: process_sample_Cons)
  qed
qed

lemma distinct_process_sample:
  "distinct (map pid ps) \<Longrightarrow> distinct (map fst (process_sample icons ps))"
  by (simp add: process_sample_pids distinct_map_filter)

lemma icon_for_process_raises:
  "isl (icon_for_process icons p) =
     (let e = py_or (py_or (exe p) (first_arg (cmdline p))) (pname p)
      in truthy e \<and> (\<forall>c \<in> set (py_basename (the e)). is_space c))"
  by (auto simp: icon_for_process_def Let_def py_split_ws_Nil_iff [symmetric]
      split: list.splits)

lemma send_signal_selected:
  "send_signal env sig st = concat (map (kill_one env sig) (selected_ids (store (proc_page st))))"
proof -
  have "concat (map (\<lambda>r. if sel r then kill_one env sig (ident r) else []) rs) =
        concat (map (kill_one env sig) (map ident (filter sel rs)))" for rs
    by (induction rs) auto
  then show ?thesis by (simp add: send_signal_def selected_ids_def)
qed

lemma kill_dialog_refresh [simp]: "kill_dialog (refresh_processes icons ps st) = kill_dialog st"
  by (simp add: refresh_processes_def)

lemma kill_one_parts:
  "filter is_os_kill (kill_one env sig p) = [OsKill p sig]"
  "[c. RunCmd c \<leftarrow> kill_one env sig p] =
     (if env p sig = PermissionDenied then [[''pkexec'', ''kill'', ''-'' @ dec_string sig, dec_string p]] else [])"
  by (simp_all add: kill_one_def)

lemma kill_selected_dialog:
  "selected_ids (store (proc_page st)) \<noteq> [] \<Longrightarrow>
   kill_dialog (kill_selected_processes st) =
     Some (selected_ids (store (proc_page st)), SIGTERM,
           ''Kill '' @ dec_string (length (selected_ids (store (proc_page st)))) @ '' process(es)?'')"
  by (simp add: kill_selected_processes_def confirm_kill_def Let_def)

subsection \<open>Properties\<close>

text \<open>On a store without duplicate pids, a refresh of the
  process view leaves the pids that psutil still lists (and whose row could be built) in
  their places and appends the new ones in psutil's order; every other pid is evicted.\<close>

theorem refresh_processes_pids:
  assumes "store_inv (store (proc_page st))"
  shows "map ident (store (proc_page (refresh_processes icons ps st))) =
     (let listed = map pid (filter (\<lambda>p. \<not> isl (icon_for_process icons p)) ps);
          old = map ident (store (proc_page st))
      in filter (\<lambda>k. k \<in> set listed) old @ filter (\<lambda>k. k \<notin> set old) listed)"
  using assms
  by (simp add: refresh_processes_def refresh_eq_reconcile reconcile_idents process_sample_pids)

theorem refresh_processes_pids_witness:
  "let row = \<lambda>k. \<lparr>sel = False, ident = k, cols = \<lparr>icon_name = [], name = [], cpu = 0, mem = 0,
                   threads = 0, status = [], user = [], cmd = [], read_str = [], write_str = []\<rparr>\<rparr>;
       proc = \<lambda>k e. \<lparr>pid = k, pname = Some ''sh'', cpu_percent = None, memory_percent = None,
                   num_threads = None, pstatus = None, username = None, cmdline = None,
                   io_counters = None, exe = e\<rparr>;
       st = \<lparr>proc_page = init_page\<lparr>store := [row 1, row 2]\<rparr>, kill_dialog = None\<rparr>
   in map ident (store (proc_page (refresh_processes Map.empty
        [proc 2 (Some ''/bin/sh''), proc 3 (Some ''/opt/app/''), proc 4 None] st))) = [2, 4]"
proof -
  let ?row = "\<lambda>k. \<lparr>sel = False, ident = k, cols = \<lparr>icon_name = [], name = [], cpu = 0, mem = 0,
                   threads = 0, status = [], user = [], cmd = [], read_str = [], write_str = []\<rparr>\<rparr>"
  let ?proc = "\<lambda>k e. \<lparr>pid = k, pname = Some ''sh'', cpu_percent = None, memory_percent = None,
                   num_threads = None, pstatus = None, username = None, cmdline = None,
                   io_counters = None, exe = e\<rparr>"
  let ?st = "\<lparr>proc_page = init_page\<lparr>store := [?row 1, ?row 2]\<rparr>, kill_dialog = None\<rparr>"
  let ?ps = "[?proc 2 (Some ''/bin/sh''), ?proc 3 (Some ''/opt/app/''), ?proc (4::nat) None]"
  have inv: "store_inv (store (proc_page ?st))" by (simp add: store_inv_def)
  have i: "map (\<lambda>p. isl (icon_for_process Map.empty p)) ?ps = [False, True, False]" by code_simp
  from refresh_processes_pids [OF inv, of Map.empty ?ps] i show ?thesis by simp
qed

text \<open>A process whose executable path psutil cannot read
  and whose \<open>argv[0]\<close> has a blank base name (ends in a slash, or is whitespace after the
  last slash) makes \<open>icon_for_process\<close> raise \<open>IndexError\<close>; the loop swallows it and
  the process is missing from the sample, so the view never lists it and a refresh evicts
  its row, check box included.\<close>

theorem process_dropped_blank_argv0:
  assumes "\<not> truthy (exe p)" and "cmdline p = Some (a # args)" and "a \<noteq> []"
    and "\<forall>c \<in> set (py_basename a). is_space c"
  shows "process_sample icons (p # ps) = process_sample icons ps"
proof -
  have "py_or (py_or (exe p) (first_arg (cmdline p))) (pname p) = Some a"
    using assms(1-3) by (simp add: py_or_def first_arg_def truthy_def)
  then have "isl (icon_for_process icons p)"
    using assms(3,4) by (simp add: icon_for_process_raises truthy_def)
  then obtain u where "icon_for_process icons p = Inl u" by (cases "icon_for_process icons p") auto
  then obtain v where "proc_entry icons p = Inl v" using proc_entry_Inl [of icons p] by auto
  then show ?thesis by (simp add: process_sample_Cons)
qed

theorem process_dropped_blank_argv0_witness:
  "process_sample Map.empty
     [\<lparr>pid = 7, pname = Some ''app'', cpu_percent = None, memory_percent = None, num_threads = None,
       pstatus = None, username = None, cmdline = Some [''/opt/app/'', ''--serve''],
       io_counters = None, exe = None\<rparr>] = []"
proof -
  let ?p = "\<lparr>pid = 7::nat, pname = Some ''app'', cpu_percent = None, memory_percent = None,
       num_threads = None, pstatus = None, username = None, cmdline = Some [''/opt/app/'', ''--serve''],
       io_counters = None, exe = None\<rparr>"
  have b: "\<forall>c \<in> set (py_basename ''/opt/app/''). is_space c" by code_simp
  have t: "\<not> truthy (exe ?p)" by (simp add: truthy_def)
  have "process_sample Map.empty [?p] = process_sample Map.empty []"
    by (rule process_dropped_blank_argv0 [OF t _ _ b]) simp_all
  then show ?thesis by (simp add: process_sample_def List.map_filter_simps)
qed

text \<open>C11: \<open>Kill Selected\<close> with rows checked opens the
  confirmation with those pids; \<open>Yes\<close> then sends \<open>SIGTERM\<close> to exactly them, in store
  order (with the \<open>pkexec\<close> fallback where \<open>os.kill\<close> is denied), even when a timed
  refresh ran while the dialog was open; \<open>No\<close> sends nothing; both close the dialog.\<close>

theorem kill_selected_response:
  assumes "selected_ids (store (proc_page st)) \<noteq> []"
  shows "snd (kill_response True env icons ps' (refresh_processes icons ps (kill_selected_processes st))) =
           concat (map (kill_one env SIGTERM) (selected_ids (store (proc_page st)))) \<and>
         snd (kill_response False env icons ps' (refresh_processes icons ps (kill_selected_processes st))) = [] \<and>
         kill_dialog (fst (kill_response b env icons ps' (refresh_processes icons ps (kill_selected_processes st)))) = None"
  using kill_selected_dialog [OF assms]
  by (cases b) (simp_all add: kill_response_def refresh_processes_def)

theorem kill_selected_response_witness:
  "snd (kill_response True (\<lambda>p s. if p = 1 then PermissionDenied else Delivered) Map.empty []
     (refresh_processes Map.empty []
       (kill_selected_processes \<lparr>proc_page = init_page\<lparr>store :=
          [\<lparr>sel = True, ident = 1, cols = \<lparr>icon_name = [], name = [], cpu = 0, mem = 0, threads = 0,
             status = [], user = [], cmd = [], read_str = [], write_str = []\<rparr>\<rparr>]\<rparr>,
          kill_dialog = None\<rparr>))) =
   [OsKill 1 15, RunCmd [''pkexec'', ''kill'', ''-15'', ''1'']]"
proof -
  let ?st = "\<lparr>proc_page = init_page\<lparr>store :=
          [\<lparr>sel = True, ident = 1::nat, cols = \<lparr>icon_name = [], name = [], cpu = 0, mem = 0, threads = 0,
             status = [], user = [], cmd = [], read_str = [], write_str = []\<rparr>\<rparr>]\<rparr>,
          kill_dialog = None\<rparr>"
  have s: "selected_ids (store (proc_page ?st)) = [1]" by (simp add: selected_ids_def)
  have d: "dec_string 15 = ''15''" "dec_string 1 = ''1''" by code_simp+
  from kill_selected_response [of ?st, unfolded s] d show ?thesis
    by (simp add: kill_one_def SIGTERM_def)
qed

text \<open>\<open>Suspend\<close>, \<open>Resume\<close> (\<open>send_signal\<close>) call \<open>os.kill\<close>
  on exactly the checked pids, in store order, and run \<open>pkexec kill -<sig> <pid>\<close> for
  exactly those whose \<open>os.kill\<close> was denied.\<close>

theorem send_signal_targets:
  "filter is_os_kill (send_signal env sig st) = map (\<lambda>p. OsKill p sig) (selected_ids (store (proc_page st))) \<and>
   [c. RunCmd c \<leftarrow> send_signal env sig st] =
     [[''pkexec'', ''kill'', ''-'' @ dec_string sig, dec_string p].
        p \<leftarrow> selected_ids (store (proc_page st)), env p sig = PermissionDenied]"
proof -
  have "filter is_os_kill (concat (map (kill_one env sig) ks)) = map (\<lambda>p. OsKill p sig) ks \<and>
        [c. RunCmd c \<leftarrow> concat (map (kill_one env sig) ks)] =
        [[''pkexec'', ''kill'', ''-'' @ dec_string sig, dec_string p]. p \<leftarrow> ks, env p sig = PermissionDenied]"
    for ks
    by (induction ks) (auto simp: kill_one_def)
  then show ?thesis by (simp only: send_signal_selected)
qed

end
