(* ===== verification/Services.thy ===== *)
theory Services
  imports PyStr
begin

text \<open>
  The services view (src/pages/services.py, class \<open>ServicesPage\<close>): the list of units
  parsed from \<open>systemctl list-units --type=service --no-pager\<close>, the status line, the
  tree view's single selection, the confirmation dialog of an action and the message
  dialogs. The two worker threads (loading the list, running \<open>pkexec systemctl\<close>) are
  split into the event that starts them and the event that delivers their result through
  \<open>GLib.idle_add\<close>; a subprocess result is \<open>Inr\<close> its standard output or \<open>Inl\<close> the
  exception.
\<close>

subsection \<open>Strings\<close>

text \<open>\<open>s.split(maxsplit=n)\<close>: at most \<open>n\<close> splits at whitespace runs; the remainder keeps
  its inner and trailing whitespace.\<close>

function py_split_max :: "nat \<Rightarrow> string \<Rightarrow> string list" where
  "py_split_max n s =
     (let t = dropWhile is_space s
      in if t = [] then []
         else if n = 0 then [t]
         else takeWhile (\<lambda>c. \<not> is_space c) t # py_split_max (n - 1) (dropWhile (\<lambda>c. \<not> is_space c) t))"
  by pat_completeness auto
termination
proof (relation "measure (\<lambda>(n, s). length s)")
  fix n s t
  assume t: "t = dropWhile is_space s" and ne: "t \<noteq> []"
  obtain c r where cr: "t = c # r" using ne by (cases t) auto
  have "dropWhile is_space s \<noteq> []" using ne t by simp
  then have "\<not> is_space (hd (dropWhile is_space s))" by (simp add: hd_dropWhile)
  with cr t have "\<not> is_space c" by simp
  then have "length (dropWhile (\<lambda>c. \<not> is_space c) t) \<le> length r"
    using cr by (simp add: length_dropWhile_le)
  then have "length (dropWhile (\<lambda>c. \<not> is_space c) t) < length t" using cr by simp
  moreover have "length t \<le> length s" unfolding t by (rule length_dropWhile_le)
  ultimately show "((n - 1, dropWhile (\<lambda>c. \<not> is_space c) t), n, s) \<in> measure (\<lambda>(n, s). length s)"
    by simp
qed simp

declare py_split_max.simps [simp del]

subsection \<open>State\<close>

text \<open>A row of \<open>service_store = Gtk.ListStore(str, str, str, bool)\<close>.\<close>

record service_row =
  svc_status :: string
  svc_name :: string
  svc_desc :: string
  svc_active :: bool

record services_state =
  service_store :: "service_row list"
  selected :: "nat option"
  status_label :: string
  confirm :: "(string \<times> string) option"
  message_dialog :: "(string \<times> string) option"

definition init_services :: services_state where
  "init_services = \<lparr>service_store = [], selected = None, status_label = ''Ready.'', confirm = None,
     message_dialog = None\<rparr>"

subsection \<open>Loading the list\<close>

definition load_services :: "services_state \<Rightarrow> services_state" where
  "load_services st = st\<lparr>status_label := ''Loading system services...''\<rparr>"

definition parse_service_line :: "string \<Rightarrow> service_row option" where
  "parse_service_line line =
     (let parts = py_split_max 5 line
      in if length parts \<ge> 5
         then Some \<lparr>svc_status = parts ! 2, svc_name = parts ! 0,
                    svc_desc = (if length parts > 4 then parts ! 4 else parts ! 0),
                    svc_active = (parts ! 2 = ''active'')\<rparr>
         else None)"

text \<open>\<open>_process_service_output\<close>: header and last line dropped when there are more than
  two lines, one row per line of at least five fields. Clearing the store drops the tree
  view's selection.\<close>

definition process_service_output :: "string \<Rightarrow> services_state \<Rightarrow> services_state" where
  "process_service_output output st =
     (let lines = py_splitlines output;
          lines = (if length lines > 2 then tl (butlast lines) else lines);
          rows = List.map_filter parse_service_line lines
      in st\<lparr>service_store := rows, selected := None,
            status_label := ''Loaded '' @ dec_string (length rows) @ '' services.''\<rparr>)"

text \<open>The result of \<open>_run_service_load_thread\<close>, applied on the main loop.\<close>

definition service_load_done :: "run_error + string \<Rightarrow> services_state \<Rightarrow> services_state" where
  "service_load_done r st =
     (case r of
        Inr out \<Rightarrow> process_service_output (py_strip out) st
      | Inl (CalledProcessError code err) \<Rightarrow>
          st\<lparr>status_label := ''Error loading services (Code '' @ py_str_int code @ ''): '' @ py_strip err\<rparr>
      | Inl FileNotFound \<Rightarrow>
          st\<lparr>status_label := ''Service load failed: [Errno 2] No such file or directory: '' @
               [CHR 0x27] @ ''systemctl'' @ [CHR 0x27]\<rparr>
      | Inl (OtherError e) \<Rightarrow> st\<lparr>status_label := ''Service load failed: '' @ e\<rparr>)"

subsection \<open>Actions\<close>

definition select_service :: "nat option \<Rightarrow> services_state \<Rightarrow> services_state" where
  "select_service i st = st\<lparr>selected := (case i of Some k \<Rightarrow> if k < length (service_store st) then Some k else None | None \<Rightarrow> None)\<rparr>"

definition run_service_action :: "string \<Rightarrow> services_state \<Rightarrow> services_state" where
  "run_service_action action st =
     (case selected st of
        None \<Rightarrow> st\<lparr>message_dialog := Some (''No Service Selected'',
                   ''Please select a service from the list to perform an action.'')\<rparr>
      | Some i \<Rightarrow> st\<lparr>confirm := Some (action, svc_name (service_store st ! i))\<rparr>)"

text \<open>\<open>handle_response\<close>: on \<open>Yes\<close> the status line and the command the new thread runs.\<close>

definition service_confirm_response ::
  "bool \<Rightarrow> services_state \<Rightarrow> services_state \<times> string list option" where
  "service_confirm_response yes st =
     (case confirm st of
        None \<Rightarrow> (st, None)
      | Some (action, service_name) \<Rightarrow>
          if yes then (st\<lparr>confirm := None,
                          status_label := ''Requesting privilege to '' @ action @ '' '' @ service_name @ ''...''\<rparr>,
                       Some [''pkexec'', ''systemctl'', action, service_name])
          else (st\<lparr>confirm := None\<rparr>, None))"

text \<open>The callbacks \<open>_run_privileged_action_thread\<close> schedules, in order.\<close>

definition privileged_action_done ::
  "string \<Rightarrow> string \<Rightarrow> run_error + unit \<Rightarrow> services_state \<Rightarrow> services_state" where
  "privileged_action_done action service_name r st =
     (case r of
        Inr _ \<Rightarrow>
          load_services (st\<lparr>status_label :=
            ''Successfully executed '' @ [CHR 0x27] @ action @ [CHR 0x27] @ '' on '' @ service_name @ ''.''\<rparr>)
      | Inl (CalledProcessError code err) \<Rightarrow>
          st\<lparr>message_dialog := Some (''Privileged Action Failed'',
               ''Action '' @ [CHR 0x27] @ action @ [CHR 0x27] @ '' failed on '' @ service_name @ ''.'' @
               [CHR 0x0A, CHR 0x0A] @ ''Error Output:'' @ [CHR 0x0A] @ py_strip err),
             status_label := ''Action '' @ [CHR 0x27] @ action @ [CHR 0x27] @ '' on '' @ service_name @ '' failed.''\<rparr>
      | Inl FileNotFound \<Rightarrow>
          st\<lparr>message_dialog := Some (''System Error'', ''Dependency not found: systemctl or pkexec.'')\<rparr>
      | Inl (OtherError e) \<Rightarrow>
          st\<lparr>message_dialog := Some (''Unexpected Error'', ''An unexpected error occurred: '' @ e)\<rparr>)"

definition close_message :: "services_state \<Rightarrow> services_state" where
  "close_message st = st\<lparr>message_dialog := None\<rparr>"

subsection \<open>Lemmas\<close>

lemma py_split_max_space: "is_space c \<Longrightarrow> py_split_max n (c # s) = py_split_max n s"
  by (simp add: py_split_max.simps [of n "c # s"] py_split_max.simps [of n s])

lemma py_split_max_word:
  assumes "w \<noteq> []" and "\<forall>c \<in> set w. \<not> is_space c" and "rest = [] \<or> is_space (hd rest)"
  shows "py_split_max (Suc n) (w @ rest) = w # py_split_max n rest"
proof -
  obtain c v where w: "w = c # v" using assms(1) by (cases w) auto
  have d: "dropWhile is_space (w @ rest) = w @ rest" using assms(2) w by simp
  have "takeWhile (\<lambda>c. \<not> is_space c) rest = []" using assms(3) by (cases rest) auto
  then have t: "takeWhile (\<lambda>c. \<not> is_space c) (w @ rest) = w" using assms(2) by (simp add: takeWhile_append2)
  have "dropWhile (\<lambda>c. \<not> is_space c) rest = rest" using assms(3) by (cases rest) auto
  then have r: "dropWhile (\<lambda>c. \<not> is_space c) (w @ rest) = rest" using assms(2) by (simp add: dropWhile_append2)
  have "py_split_max (Suc n) (w @ rest) =
    (let t = dropWhile is_space (w @ rest)
     in if t = [] then [] else if Suc n = 0 then [t]
        else takeWhile (\<lambda>c. \<not> is_space c) t # py_split_max (Suc n - 1) (dropWhile (\<lambda>c. \<not> is_space c) t))"
    by (rule py_split_max.simps)
  also have "\<dots> = w # py_split_max n rest" using d t r assms(1) by (simp only: Let_def) simp
  finally show ?thesis .
qed

lemma py_split_max_unfold:
  "py_split_max n s =
     (if dropWhile is_space s = [] then []
      else if n = 0 then [dropWhile is_space s]
      else takeWhile (\<lambda>c. \<not> is_space c) (dropWhile is_space s) #
           py_split_max (n - 1) (dropWhile (\<lambda>c. \<not> is_space c) (dropWhile is_space s)))"
  by (subst py_split_max.simps) (simp only: Let_def)

lemma py_split_max_fields:
  "i < length (py_split_max n s) \<Longrightarrow> i < n \<Longrightarrow>
   py_split_max n s ! i \<noteq> [] \<and> (\<forall>c \<in> set (py_split_max n s ! i). \<not> is_space c)"
proof (induction n s arbitrary: i rule: py_split_max.induct)
  case (1 n s)
  let ?t = "dropWhile is_space s"
  have ne: "?t \<noteq> []"
  proof
    assume "?t = []"
    then have "py_split_max n s = []" by (subst py_split_max_unfold) simp
    with "1.prems"(1) show False by simp
  qed
  have n: "n \<noteq> 0" using "1.prems"(2) by simp
  have split: "py_split_max n s = takeWhile (\<lambda>c. \<not> is_space c) ?t #
                      py_split_max (n - 1) (dropWhile (\<lambda>c. \<not> is_space c) ?t)"
    using ne n by (subst py_split_max_unfold) (simp only: if_False)
  show ?case
  proof (cases i)
    case 0
    have "\<not> is_space (hd ?t)" using ne by (simp add: hd_dropWhile)
    then have "takeWhile (\<lambda>c. \<not> is_space c) ?t \<noteq> []" using ne by (cases ?t) auto
    then show ?thesis using 0 by (simp only: split nth_Cons_0) (auto dest: set_takeWhileD)
  next
    case (Suc j)
    have "j < length (py_split_max (n - 1) (dropWhile (\<lambda>c. \<not> is_space c) ?t))"
      using "1.prems"(1) Suc by (simp only: split length_Cons Suc_less_eq)
    moreover have "j < n - 1" using "1.prems"(2) Suc by simp
    ultimately have "py_split_max (n - 1) (dropWhile (\<lambda>c. \<not> is_space c) ?t) ! j \<noteq> [] \<and>
        (\<forall>c \<in> set (py_split_max (n - 1) (dropWhile (\<lambda>c. \<not> is_space c) ?t) ! j). \<not> is_space c)"
      by (rule "1.IH" [OF refl ne n])
    then show ?thesis unfolding Suc split nth_Cons_Suc .
  qed
qed

subsection \<open>Properties\<close>

text \<open>A line of five whitespace-free fields followed
  by a space and any text parses into the row of the unit name, the ACTIVE field as status
  and activity, and as description only the fifth field: \<open>split(maxsplit=5)\<close> leaves the
  rest of a several-word description in the sixth part, which is never read.\<close>

theorem parse_service_line_first_word:
  assumes "\<forall>w \<in> set [u, l, a, b, d]. w \<noteq> [] \<and> (\<forall>c \<in> set w. \<not> is_space c)"
  shows "parse_service_line (u @ '' '' @ l @ '' '' @ a @ '' '' @ b @ '' '' @ d @ '' '' @ rest) =
           Some \<lparr>svc_status = a, svc_name = u, svc_desc = d, svc_active = (a = ''active'')\<rparr>"
proof -
  have "py_split_max 5 (u @ '' '' @ l @ '' '' @ a @ '' '' @ b @ '' '' @ d @ '' '' @ rest) =
        u # l # a # b # d # py_split_max 0 rest"
    using assms
    by (simp add: numeral_eq_Suc py_split_max_word py_split_max_space del: py_split_max.simps)
  moreover have "length (py_split_max 0 rest) \<le> 1" by (simp add: py_split_max.simps Let_def)
  ultimately show ?thesis by (simp add: parse_service_line_def)
qed

theorem parse_service_line_first_word_witness:
  "parse_service_line ''ssh.service loaded active running OpenBSD Secure Shell server'' =
     Some \<lparr>svc_status = ''active'', svc_name = ''ssh.service'', svc_desc = ''OpenBSD'', svc_active = True\<rparr>"
proof -
  have "\<forall>w \<in> set [''ssh.service'', ''loaded'', ''active'', ''running'', ''OpenBSD'']. w \<noteq> [] \<and>
          (\<forall>c \<in> set w. \<not> is_space c)" by code_simp
  from parse_service_line_first_word [OF this, of "''Secure Shell server''"] show ?thesis by simp
qed


text \<open>An action with no row selected only shows the warning
  dialog; with row \<open>i\<close> selected, \<open>Yes\<close> runs \<open>pkexec systemctl <action> <name of row i>\<close>,
  and when it succeeds the status line reads \<open>Loading system services...\<close>: the reload
  scheduled right after overwrites the success message.\<close>

theorem service_action_flow:
  "(selected st = None \<longrightarrow>
      run_service_action action st = st\<lparr>message_dialog := Some (''No Service Selected'',
        ''Please select a service from the list to perform an action.'')\<rparr>) \<and>
   (selected st = Some i \<longrightarrow>
      snd (service_confirm_response True (run_service_action action st)) =
        Some [''pkexec'', ''systemctl'', action, svc_name (service_store st ! i)] \<and>
      status_label (privileged_action_done action (svc_name (service_store st ! i)) (Inr ())
        (fst (service_confirm_response True (run_service_action action st)))) =
        ''Loading system services...'')"
  by (simp add: run_service_action_def service_confirm_response_def privileged_action_done_def
      load_services_def)

theorem service_action_flow_witness:
  "snd (service_confirm_response True (run_service_action ''restart''
      (init_services\<lparr>service_store := [\<lparr>svc_status = ''active'', svc_name = ''ssh.service'',
         svc_desc = ''OpenBSD'', svc_active = True\<rparr>], selected := Some 0\<rparr>))) =
     Some [''pkexec'', ''systemctl'', ''restart'', ''ssh.service''] \<and>
   run_service_action ''stop'' init_services =
     init_services\<lparr>message_dialog := Some (''No Service Selected'',
        ''Please select a service from the list to perform an action.'')\<rparr>"
  using service_action_flow [of "init_services\<lparr>service_store := [\<lparr>svc_status = ''active'',
          svc_name = ''ssh.service'', svc_desc = ''OpenBSD'', svc_active = True\<rparr>], selected := Some 0\<rparr>"
          "''restart''" 0]
        service_action_flow [of init_services "''stop''" 0]
  by (simp add: init_services_def)

text \<open>Whatever \<open>systemctl\<close> prints, every row of the services
  store has a status, a name and a description that are nonempty and contain no
  whitespace (the first, third and fifth of the split fields), and is active exactly
  when its status is \<open>active\<close>.\<close>

theorem service_rows_words:
  "\<forall>r \<in> set (service_store (service_load_done (Inr out) st)).
     svc_name r \<noteq> [] \<and> (\<forall>c \<in> set (svc_name r). \<not> is_space c) \<and>
     svc_status r \<noteq> [] \<and> (\<forall>c \<in> set (svc_status r). \<not> is_space c) \<and>
     svc_desc r \<noteq> [] \<and> (\<forall>c \<in> set (svc_desc r). \<not> is_space c) \<and>
     svc_active r = (svc_status r = ''active'')"
proof
  fix r assume "r \<in> set (service_store (service_load_done (Inr out) st))"
  then obtain l where "parse_service_line l = Some r"
    by (auto simp: service_load_done_def process_service_output_def Let_def in_set_map_filter)
  then obtain parts where p: "parts = py_split_max 5 l" and len: "5 \<le> length parts" and
      r: "r = \<lparr>svc_status = parts ! 2, svc_name = parts ! 0, svc_desc = parts ! 4,
               svc_active = (parts ! 2 = ''active'')\<rparr>"
    by (auto simp: parse_service_line_def Let_def split: if_splits)
  have f: "parts ! i \<noteq> [] \<and> (\<forall>c \<in> set (parts ! i). \<not> is_space c)" if "i < 5" for i
    using that len unfolding p by (intro py_split_max_fields) simp_all
  from f [of 0] f [of 2] f [of 4] show "svc_name r \<noteq> [] \<and> (\<forall>c \<in> set (svc_name r). \<not> is_space c) \<and>
     svc_status r \<noteq> [] \<and> (\<forall>c \<in> set (svc_status r). \<not> is_space c) \<and>
     svc_desc r \<noteq> [] \<and> (\<forall>c \<in> set (svc_desc r). \<not> is_space c) \<and>
     svc_active r = (svc_status r = ''active'')" using r by simp
qed

theorem service_rows_words_witness:
  "service_store (service_load_done
      (Inr (py_join [CHR 0x0A] [''UNIT LOAD ACTIVE SUB DESCRIPTION'',
                               ''cron.service loaded active running Regular background'', ''end'']))
      init_services) \<noteq> [] \<and>
   svc_name (hd (service_store (service_load_done
      (Inr (py_join [CHR 0x0A] [''UNIT LOAD ACTIVE SUB DESCRIPTION'',
                               ''cron.service loaded active running Regular background'', ''end'']))
      init_services))) \<noteq> []"
proof -
  let ?rs = "service_store (service_load_done
      (Inr (py_join [CHR 0x0A] [''UNIT LOAD ACTIVE SUB DESCRIPTION'',
                               ''cron.service loaded active running Regular background'', ''end'']))
      init_services)"
  have ne: "?rs \<noteq> []" by code_simp
  then have "hd ?rs \<in> set ?rs" by simp
  with service_rows_words have "svc_name (hd ?rs) \<noteq> []" by blast
  with ne show ?thesis by blast
qed

end
