(* ===== verification/Repositories.thy ===== *)
theory Repositories
  imports PyRe
begin

text \<open>
  The repositories view (src/pages/repositories.py, class \<open>RepositoriesPage\<close>): the APT
  sources read from \<open>/etc/apt/sources.list\<close> and \<open>/etc/apt/sources.list.d\<close>, each line
  parsed by two regular expressions, and the Flatpak remotes parsed from
  \<open>flatpak remotes --all\<close>. The file system is a parameter: the lines of
  \<open>sources.list\<close> (or \<open>None\<close> when it cannot be opened) and the listing of the directory
  in \<open>os.listdir\<close> order, each file's lines or the text of the error reading it. A file
  is a list of lines: Python's text mode iterates at newlines, and \<open>strip\<close> removes
  the newline. The view's actions on Flatpak remotes run \<open>pkexec flatpak\<close> on a
  thread; the APT actions are view-only dialogs.
\<close>

subsection \<open>APT sources\<close>

text \<open>A row of \<open>apt_store\<close>: enabled, source, components, options.\<close>

record apt_source =
  src_enabled :: bool
  src_info :: string
  src_components :: string
  src_options :: string

text \<open>\<open>^deb\s+\[(.*?)\]\s+(.*?)\s+(.*?)\s+(.*)\<close> and \<open>^deb\s+(.*?)\s+(.*?)\s+(.*)\<close>.\<close>

definition deb_options_pattern :: "re_item list" where
  "deb_options_pattern =
     [ReLit ''deb'', ReSpaces, ReLit ''['', ReLazyAny, ReLit '']'', ReSpaces, ReLazyAny, ReSpaces,
      ReLazyAny, ReSpaces, ReGreedyAny]"

definition deb_pattern :: "re_item list" where
  "deb_pattern = [ReLit ''deb'', ReSpaces, ReLazyAny, ReSpaces, ReLazyAny, ReSpaces, ReGreedyAny]"

definition parse_apt_line :: "string \<Rightarrow> apt_source option" where
  "parse_apt_line line0 =
     (let line = py_strip line0
      in if line = [] \<or> py_startswith line ''#'' \<or> py_startswith line ''deb-src'' then None
         else case re_match deb_options_pattern line of
           Some [options, uri, distribution, components] \<Rightarrow>
             Some \<lparr>src_enabled = True, src_info = uri @ '' ('' @ distribution @ '')'',
                   src_components = py_strip components, src_options = options\<rparr>
         | _ \<Rightarrow>
             (case re_match deb_pattern line of
                Some [uri, distribution, components] \<Rightarrow>
                  Some \<lparr>src_enabled = True, src_info = uri @ '' ('' @ distribution @ '')'',
                        src_components = py_strip components, src_options = []\<rparr>
              | _ \<Rightarrow>
                  Some \<lparr>src_enabled = True, src_info = ''[Unparsed] '' @ line,
                        src_components = [], src_options = []\<rparr>))"

text \<open>What \<open>_load_apt_sources\<close> reads.\<close>

record apt_files =
  sources_list :: "string list option"
  list_d :: "(string + (string \<times> (string + string list)) list) option"

text \<open>The rows of one file of \<open>sources.list.d\<close>, or its read-error row.\<close>

definition list_d_entry :: "string \<Rightarrow> string + string list \<Rightarrow> apt_source list" where
  "list_d_entry filename content =
     (let enabled = \<not> py_endswith filename ''.disabled''
      in case content of
           Inl e \<Rightarrow> [\<lparr>src_enabled = enabled, src_info = ''[Read Error] '' @ filename,
                      src_components = e, src_options = []\<rparr>]
         | Inr lines \<Rightarrow>
             map (\<lambda>r. r\<lparr>src_info := filename @ '': '' @ src_info r, src_enabled := enabled \<and> src_enabled r\<rparr>)
               (List.map_filter parse_apt_line lines))"

definition load_apt_sources :: "apt_files \<Rightarrow> apt_source list" where
  "load_apt_sources fs =
     (let main = (case sources_list fs of None \<Rightarrow> [] | Some lines \<Rightarrow> List.map_filter parse_apt_line lines);
          dir = (case list_d fs of
                   None \<Rightarrow> []
                 | Some (Inl e) \<Rightarrow>
                     [\<lparr>src_enabled = True, src_info = ''[Directory Error] /etc/apt/sources.list.d'',
                       src_components = e, src_options = []\<rparr>]
                 | Some (Inr entries) \<Rightarrow>
                     concat (map (\<lambda>(f, c). if py_endswith f ''.list'' \<or> py_endswith f ''.sources''
                                           then list_d_entry f c else []) entries));
          sources = main @ dir
      in if sources = [] then [\<lparr>src_enabled = True, src_info = ''No APT sources found.'',
                                 src_components = [], src_options = []\<rparr>]
         else sources)"

subsection \<open>The page\<close>

text \<open>A row of \<open>flatpak_store\<close>: name, URL, verified, homepage.\<close>

record flatpak_remote =
  fp_name :: string
  fp_url :: string
  fp_verified :: string
  fp_homepage :: string

record repos_state =
  apt_store :: "apt_source list"
  flatpak_store :: "flatpak_remote list"
  repo_status :: string
  selected_remote :: "nat option"
  repo_confirm :: "(string \<times> string) option"
  repo_dialog :: "(string \<times> string) option"

definition init_repos :: repos_state where
  "init_repos = \<lparr>apt_store = [], flatpak_store = [], repo_status = ''Ready.'', selected_remote = None,
     repo_confirm = None, repo_dialog = None\<rparr>"

definition load_all_repositories :: "repos_state \<Rightarrow> repos_state" where
  "load_all_repositories st = st\<lparr>repo_status := ''Loading repository information...''\<rparr>"

text \<open>\<open>_load_apt_sources\<close>, run on the main loop.\<close>

definition apply_apt_sources :: "apt_files \<Rightarrow> repos_state \<Rightarrow> repos_state" where
  "apply_apt_sources fs st =
     st\<lparr>apt_store := load_apt_sources fs, repo_status := ''APT sources loaded. Flatpak data loading...''\<rparr>"

definition parse_flatpak_line :: "string \<Rightarrow> flatpak_remote option" where
  "parse_flatpak_line line =
     (let parts = py_split_ws line
      in if length parts \<ge> 4
         then Some \<lparr>fp_name = parts ! 0, fp_url = parts ! 3, fp_verified = ''N/A'', fp_homepage = []\<rparr>
         else None)"

definition process_flatpak_output :: "string \<Rightarrow> repos_state \<Rightarrow> repos_state" where
  "process_flatpak_output output st =
     (let lines = py_splitlines output; st = st\<lparr>flatpak_store := []\<rparr>
      in if lines = [] \<or> (length lines = 1 \<and> sublist ''Name'' (hd lines)) then
           st\<lparr>repo_status :=
                if py_startswith (repo_status st) ''APT sources loaded.''
                then ''Loaded '' @ dec_string (length (apt_store st)) @ '' APT sources. No Flatpak remotes found.''
                else ''No Flatpak remotes found.''\<rparr>
         else
           (let lines = (if sublist ''Name'' (hd lines) then tl lines else lines);
                rows = List.map_filter parse_flatpak_line lines
            in st\<lparr>flatpak_store := rows,
                  repo_status := ''Loaded '' @ dec_string (length (apt_store st)) @ '' APT sources and '' @
                                 dec_string (length rows) @ '' Flatpak remotes.''\<rparr>))"

text \<open>The result of the \<open>flatpak remotes --all\<close> run of \<open>_run_load_threads\<close>: an exception,
  or the return code with standard output and standard error.\<close>

definition flatpak_load_done :: "string + int \<times> string \<times> string \<Rightarrow> repos_state \<Rightarrow> repos_state" where
  "flatpak_load_done r st =
     (case r of
        Inl e \<Rightarrow> st\<lparr>repo_status := ''Flatpak execution error: '' @ e\<rparr>
      | Inr (code, out, err) \<Rightarrow>
          if code = 0 then process_flatpak_output (py_strip out) st
          else (let error_msg = py_strip err
                in st\<lparr>repo_status :=
                     if error_msg \<noteq> []
                     then ''Flatpak load failed. (Code: '' @ py_str_int code @ ''). Error: '' @ error_msg
                     else ''Flatpak load failed. (Code: '' @ py_str_int code @ '')''\<rparr>))"

subsection \<open>Actions\<close>

definition toggle_apt_source :: "nat \<Rightarrow> repos_state \<Rightarrow> repos_state" where
  "toggle_apt_source i st =
     (let r = apt_store st ! i;
          action = (if src_enabled r then ''disable'' else ''enable'')
      in st\<lparr>repo_dialog := Some (''Action Blocked'',
           if py_startswith (src_info r) ''/etc/apt/sources.list.d/''
           then ''Toggling APT sources ('' @ action @ '') requires renaming files in /etc/apt/sources.list.d/ via '' @
                [CHR 0x27] @ ''pkexec'' @ [CHR 0x27] @ ''. Implementation is currently limited to view-only for security.''
           else ''Only sources in /etc/apt/sources.list.d/ can be toggled easily.'')\<rparr>)"

definition run_flatpak_action :: "string \<Rightarrow> repos_state \<Rightarrow> repos_state" where
  "run_flatpak_action action st =
     (case selected_remote st of
        None \<Rightarrow> st\<lparr>repo_dialog := Some (''No Remote Selected'', ''Please select a Flatpak remote.'')\<rparr>
      | Some i \<Rightarrow> st\<lparr>repo_confirm := Some (action, fp_name (flatpak_store st ! i))\<rparr>)"

definition flatpak_confirm_response :: "bool \<Rightarrow> repos_state \<Rightarrow> repos_state \<times> string list option" where
  "flatpak_confirm_response yes st =
     (case repo_confirm st of
        None \<Rightarrow> (st, None)
      | Some (action, remote_name) \<Rightarrow>
          if yes then (st\<lparr>repo_confirm := None,
                          repo_status := ''Requesting privilege to '' @ action @ '' '' @ remote_name @ ''...''\<rparr>,
                       Some [''pkexec'', ''flatpak'', ''remote-'' @ action, remote_name])
          else (st\<lparr>repo_confirm := None\<rparr>, None))"

definition privileged_flatpak_done ::
  "string \<Rightarrow> string \<Rightarrow> run_error + unit \<Rightarrow> repos_state \<Rightarrow> repos_state" where
  "privileged_flatpak_done action remote_name r st =
     (case r of
        Inr _ \<Rightarrow>
          load_all_repositories (st\<lparr>repo_status :=
            ''Successfully executed '' @ [CHR 0x27] @ action @ [CHR 0x27] @ '' on '' @ remote_name @ ''.''\<rparr>)
      | Inl (CalledProcessError code err) \<Rightarrow>
          st\<lparr>repo_dialog := Some (''Privileged Action Failed'',
               ''Action '' @ [CHR 0x27] @ action @ [CHR 0x27] @ '' failed on '' @ remote_name @ ''.'' @
               [CHR 0x0A, CHR 0x0A] @ ''Error Output:'' @ [CHR 0x0A] @ py_strip err),
             repo_status := ''Action '' @ [CHR 0x27] @ action @ [CHR 0x27] @ '' on '' @ remote_name @ '' failed.''\<rparr>
      | Inl FileNotFound \<Rightarrow>
          st\<lparr>repo_dialog := Some (''Unexpected Error'',
               ''An unexpected error occurred: [Errno 2] No such file or directory: '' @
               [CHR 0x27] @ ''pkexec'' @ [CHR 0x27])\<rparr>
      | Inl (OtherError e) \<Rightarrow>
          st\<lparr>repo_dialog := Some (''Unexpected Error'', ''An unexpected error occurred: '' @ e)\<rparr>)"

definition run_repo_apt_action :: "string \<Rightarrow> repos_state \<Rightarrow> repos_state" where
  "run_repo_apt_action action st =
     st\<lparr>repo_dialog := Some (''Action Blocked'',
        ''APT actions like '' @ [CHR 0x27] @ action @ [CHR 0x27] @
        '' require complex file manipulation in /etc/apt/ or using '' @ [CHR 0x27] @ ''add-apt-repository'' @
        [CHR 0x27] @ '' via '' @ [CHR 0x27] @ ''pkexec'' @ [CHR 0x27] @
        ''. Implementation is currently limited to view-only for security.'')\<rparr>"

subsection \<open>Lemmas\<close>

definition word :: "string \<Rightarrow> bool" where
  "word w \<longleftrightarrow> w \<noteq> [] \<and> (\<forall>x \<in> set w. \<not> is_space x \<and> x \<noteq> CHR 0x0A)"

lemma word_hd: "word w \<Longrightarrow> \<not> is_space (hd w)"
  by (cases w) (auto simp: word_def)

lemma re_match_word_field:
  assumes "word w" and "re_match ps rest = Some gs" and "rest = [] \<or> \<not> is_space (hd rest)"
  shows "re_match (ReLazyAny # ReSpaces # ps) (w @ CHR '' '' # rest) = Some (w # gs)"
proof -
  have "re_match (ReSpaces # ps) (CHR '' '' # rest) = re_match ps rest"
    using assms(3) by (intro re_match_spaces_one) simp_all
  with assms(2) have "re_match (ReSpaces # ps) (CHR '' '' # rest) = Some gs" by simp
  with assms(1) show ?thesis by (intro re_match_lazy_word) (auto simp: word_def)
qed

lemma deb_line_matches:
  assumes "word uri" "word distribution" and c: "CHR 0x0A \<notin> set comps" "comps \<noteq> []"
    "\<not> is_space (hd comps)"
  shows "re_match deb_pattern (''deb '' @ uri @ '' '' @ distribution @ '' '' @ comps) =
           Some [uri, distribution, comps]"
proof -
  have "re_match [ReGreedyAny] comps = Some [comps]" using c(1) by (rule re_match_greedy_last)
  then have "re_match (ReLazyAny # ReSpaces # [ReGreedyAny]) (distribution @ CHR '' '' # comps) =
             Some [distribution, comps]"
    by (rule re_match_word_field [OF assms(2)]) (simp add: c(3))
  then have m: "re_match (ReLazyAny # ReSpaces # ReLazyAny # ReSpaces # [ReGreedyAny])
               (uri @ CHR '' '' # distribution @ CHR '' '' # comps) = Some [uri, distribution, comps]"
    by (rule re_match_word_field [OF assms(1)]) (use assms(2) word_hd [OF assms(2)] in \<open>simp add: word_def\<close>)
  have "\<not> is_space (hd (uri @ CHR '' '' # distribution @ CHR '' '' # comps))"
    using word_hd [OF assms(1)] assms(1) by (simp add: word_def)
  then have "re_match (ReSpaces # ReLazyAny # ReSpaces # ReLazyAny # ReSpaces # [ReGreedyAny])
               (CHR '' '' # uri @ CHR '' '' # distribution @ CHR '' '' # comps) = Some [uri, distribution, comps]"
    using m by (subst re_match_spaces_one) simp_all
  moreover have "''deb '' @ uri @ '' '' @ distribution @ '' '' @ comps =
      ''deb'' @ CHR '' '' # uri @ CHR '' '' # distribution @ CHR '' '' # comps" by simp
  ultimately show ?thesis unfolding deb_pattern_def by (simp only: re_match_lit_prefix)
qed

lemma deb_options_no_match:
  assumes "word uri" and "hd uri \<noteq> CHR ''[''"
  shows "re_match deb_options_pattern (''deb '' @ uri @ rest) = None"
proof -
  have "\<not> prefix ''['' (uri @ rest)" using assms by (cases uri) (auto simp: word_def)
  then have n: "re_match (ReLit ''['' # ps) (uri @ rest) = None" for ps by (rule re_match_lit_none)
  have "\<not> is_space (hd (uri @ rest))" using word_hd [OF assms(1)] assms(1) by (simp add: word_def)
  then have "re_match (ReSpaces # ReLit ''['' # ps) (CHR '' '' # uri @ rest) = None" for ps
    using n by (subst re_match_spaces_one) simp_all
  moreover have "''deb '' @ uri @ rest = ''deb'' @ CHR '' '' # uri @ rest" by simp
  ultimately show ?thesis unfolding deb_options_pattern_def by (simp only: re_match_lit_prefix)
qed

lemma list_d_entry_enabled:
  assumes "py_endswith f ''.list'' \<or> py_endswith f ''.sources''"
  shows "\<not> py_endswith f ''.disabled''"
proof
  assume d: "py_endswith f ''.disabled''"
  from assms show False
  proof
    assume "py_endswith f ''.list''"
    from suffix_same_cases [OF this [unfolded py_endswith_def] d [unfolded py_endswith_def]]
    show False by (simp add: suffix_to_prefix)
  next
    assume "py_endswith f ''.sources''"
    from suffix_same_cases [OF this [unfolded py_endswith_def] d [unfolded py_endswith_def]]
    show False by (simp add: suffix_to_prefix)
  qed
qed

lemma parse_apt_line_enabled: "parse_apt_line l = Some r \<Longrightarrow> src_enabled r"
  by (auto simp: parse_apt_line_def Let_def split: if_splits option.splits list.splits)

lemma list_d_rows_enabled:
  "r \<in> set (concat (map (\<lambda>(f, c). if py_endswith f ''.list'' \<or> py_endswith f ''.sources''
                                      then list_d_entry f c else []) entries)) \<Longrightarrow> src_enabled r"
  by (auto simp: list_d_entry_def in_set_map_filter list_d_entry_enabled parse_apt_line_enabled
      split: if_splits sum.splits)

subsection \<open>Properties\<close>

text \<open>C18: a one-line source \<open>deb <uri> <suite> <components>\<close> with
  single spaces, a URI not starting with \<open>[\<close> and no newline parses into the enabled row
  \<open><uri> (<suite>)\<close> with the components and no options: the lazy groups of
  \<open>^deb\s+(.*?)\s+(.*?)\s+(.*)\<close> stop at the first spaces, and the pattern with options
  does not match.\<close>

theorem parse_apt_line_deb:
  assumes "word uri" and "word distribution" and "hd uri \<noteq> CHR ''[''"
    and "CHR 0x0A \<notin> set comps" and "comps \<noteq> []" and "\<not> is_space (hd comps)"
    and "\<not> is_space (last comps)"
  shows "parse_apt_line (''deb '' @ uri @ '' '' @ distribution @ '' '' @ comps) =
    Some \<lparr>src_enabled = True, src_info = uri @ '' ('' @ distribution @ '')'', src_components = comps,
          src_options = []\<rparr>"
proof -
  let ?L = "''deb '' @ uri @ '' '' @ distribution @ '' '' @ comps"
  have "last ?L = last comps" using assms(5) by simp
  then have s: "py_strip ?L = ?L" using assms(7) by (intro py_strip_ends) (simp_all add: is_space_def)
  have n: "(?L = [] \<or> py_startswith ?L ''#'' \<or> py_startswith ?L ''deb-src'') = False"
    by (simp add: py_startswith_def)
  have o: "re_match deb_options_pattern ?L = None"
    using deb_options_no_match [OF assms(1,3)] by simp
  have d: "re_match deb_pattern ?L = Some [uri, distribution, comps]"
    using assms(1,2,4,5,6) by (rule deb_line_matches)
  have c: "py_strip comps = comps" by (rule py_strip_ends [OF assms(5,6,7)])
  show ?thesis unfolding parse_apt_line_def Let_def s n o d using c by simp
qed

theorem parse_apt_line_deb_witness:
  "parse_apt_line ''deb http://archive.ubuntu.com/ubuntu jammy main restricted'' =
     Some \<lparr>src_enabled = True, src_info = ''http://archive.ubuntu.com/ubuntu (jammy)'',
           src_components = ''main restricted'', src_options = []\<rparr>"
proof -
  have w: "word ''http://archive.ubuntu.com/ubuntu''" "word ''jammy''" by code_simp+
  have c: "\<not> is_space (hd ''main restricted'')" "\<not> is_space (last ''main restricted'')"
    "CHR 0x0A \<notin> set ''main restricted''" by code_simp+
  from parse_apt_line_deb [OF w _ c(3) _ c(1,2)] show ?thesis by simp
qed


text \<open>Every row of the APT view is shown enabled: the parser
  marks each line enabled, and the test \<open>not filename.endswith(".disabled")\<close> runs only on
  names that end in \<open>.list\<close> or \<open>.sources\<close>, so it never fails; a disabled source file
  is not listed at all.\<close>

theorem apt_sources_enabled: "\<forall>r \<in> set (load_apt_sources fs). src_enabled r"
proof -
  let ?m = "case sources_list fs of None \<Rightarrow> [] | Some lines \<Rightarrow> List.map_filter parse_apt_line lines"
  let ?d = "case list_d fs of
              None \<Rightarrow> []
            | Some (Inl e) \<Rightarrow>
                [\<lparr>src_enabled = True, src_info = ''[Directory Error] /etc/apt/sources.list.d'',
                  src_components = e, src_options = []\<rparr>]
            | Some (Inr entries) \<Rightarrow>
                concat (map (\<lambda>(f, c). if py_endswith f ''.list'' \<or> py_endswith f ''.sources''
                                      then list_d_entry f c else []) entries)"
  have m: "\<forall>r \<in> set ?m. src_enabled r"
    by (auto simp: in_set_map_filter parse_apt_line_enabled split: option.splits)
  have d: "\<forall>r \<in> set ?d. src_enabled r"
  proof (cases "list_d fs")
    case (Some x)
    then show ?thesis using list_d_rows_enabled by (cases x) auto
  qed simp
  have "load_apt_sources fs =
          (if ?m @ ?d = [] then [\<lparr>src_enabled = True, src_info = ''No APT sources found.'',
                                  src_components = [], src_options = []\<rparr>] else ?m @ ?d)"
    by (simp only: load_apt_sources_def Let_def)
  then show ?thesis using m d by auto
qed

theorem apt_sources_enabled_witness:
  "length (load_apt_sources \<lparr>sources_list = Some [''deb http://deb.debian.org/debian bookworm main''],
      list_d = Some (Inr [(''old.list.disabled'', Inr [''deb http://x.org/ y z'']),
                          (''docker.list'', Inl ''Permission denied'')])\<rparr>) = 2 \<and>
   src_enabled (load_apt_sources \<lparr>sources_list = Some [''deb http://deb.debian.org/debian bookworm main''],
      list_d = Some (Inr [(''old.list.disabled'', Inr [''deb http://x.org/ y z'']),
                          (''docker.list'', Inl ''Permission denied'')])\<rparr> ! 1)"
proof -
  let ?fs = "\<lparr>sources_list = Some [''deb http://deb.debian.org/debian bookworm main''],
      list_d = Some (Inr [(''old.list.disabled'', Inr [''deb http://x.org/ y z'']),
                          (''docker.list'', Inl ''Permission denied'')])\<rparr>"
  have l: "length (load_apt_sources ?fs) = 2" by code_simp
  then have "load_apt_sources ?fs ! 1 \<in> set (load_apt_sources ?fs)" by simp
  with apt_sources_enabled [of ?fs] l show ?thesis by blast
qed

end
