(* ===== verification/Backups.thy ===== *)
theory Backups
  imports PyOs "HOL-Library.Multiset"
begin

text \<open>
  The backup page of src/pages/backups.py (class \<open>BackupsPage\<close>): the three entries, the
  status label and the progress bar, the list of snapshots, the dialogs it opens, and the
  callbacks it schedules with \<open>GLib.idle_add\<close>. The file system, \<open>time.localtime\<close>, \<open>du\<close>,
  \<open>rsync\<close> and \<open>rm\<close> are an environment record: each callback reads the environment at
  the time it runs, and a callback that changes the file system and then lists it again
  reads a second environment, the file system after the change. The idle callbacks are a
  FIFO queue that the main loop runs one at a time, in the order they were added.
\<close>

subsection \<open>Environment\<close>

text \<open>The exceptions of \<open>subprocess.run\<close> the page tells apart: \<open>CalledProcessError\<close> with
  the return code and its \<open>stdout\<close> and \<open>stderr\<close> (\<open>None\<close> when the output was not
  captured), \<open>FileNotFoundError\<close> and any other exception, with their text.\<close>

datatype proc_error =
    ProcCalledError int "string option" "string option"
  | ProcFileNotFound string
  | ProcOther string

record backup_env =
  env_home :: string
  env_users :: "string \<Rightarrow> string option"
  env_is_dir :: "string \<Rightarrow> bool"
  env_exists :: "string \<Rightarrow> bool"
  env_makedirs :: "string \<Rightarrow> string option"
  env_listdir :: "string \<Rightarrow> string + string list"
  env_mtime :: "string \<Rightarrow> int"
  env_localtime :: "string \<Rightarrow> tm option"
  env_du :: "string \<Rightarrow> string option"
  env_rename :: "string \<Rightarrow> string \<Rightarrow> string option"
  env_run :: "string list \<Rightarrow> proc_error option"

text \<open>\<open>os.path.expanduser\<close> in this environment.\<close>

definition expand :: "backup_env \<Rightarrow> string \<Rightarrow> string" where
  "expand env p = py_expanduser (env_home env) (env_users env) p"

text \<open>The single quotes of the page's f-strings (\<open>f"Backup '{name}' ..."\<close>).\<close>

definition sq :: "string \<Rightarrow> string" where
  "sq s = CHR 0x27 # s @ [CHR 0x27]"

subsection \<open>Page state\<close>

datatype list_row =
    BackupRow string string string string
  | MessageRow string bool

datatype entry_target = SourceEntry | DestinationEntry

datatype backup_dialog =
    FolderChooser entry_target
  | RenameDialog string string string
  | DeleteDialog string

datatype idle_job = RsyncJob string string string | DeleteJob string

record backups_state =
  source_text :: string
  destination_text :: string
  prefix_text :: string
  status_text :: string
  status_error :: bool
  status_visible :: bool
  busy :: bool
  progress_visible :: bool
  progress_text :: string
  backup_list :: "list_row list"
  dialogs :: "backup_dialog list"
  idle_jobs :: "idle_job list"

definition update_status_message :: "string \<Rightarrow> bool \<Rightarrow> backups_state \<Rightarrow> backups_state" where
  "update_status_message message is_error st = st\<lparr>status_text := message, status_error := is_error\<rparr>"

text \<open>\<open>set_ui_busy\<close>: the buttons and entries are sensitive exactly when the page is not
  busy; the fraction of the bar is always 0.0 and not modelled.\<close>

definition set_ui_busy :: "bool \<Rightarrow> string \<Rightarrow> backups_state \<Rightarrow> backups_state" where
  "set_ui_busy is_busy message st =
     (if is_busy
      then st\<lparr>busy := True, progress_text := message, progress_visible := True, status_visible := False\<rparr>
      else (update_status_message (''Current destination: '' @ destination_text st) False
              (st\<lparr>busy := False, progress_visible := False\<rparr>))\<lparr>status_visible := True\<rparr>)"

subsection \<open>The list of snapshots\<close>

text \<open>The time column: the modification time, replaced by the time in the name when the
  name ends in \<open>_\<close> and fifteen characters; a failure of either step shows \<open>Unknown\<close>.\<close>

definition backup_time :: "backup_env \<Rightarrow> string \<Rightarrow> string \<Rightarrow> string" where
  "backup_time env p name =
     (case env_localtime env p of
        None \<Rightarrow> ''Unknown''
      | Some mtime \<Rightarrow>
          if length name > 16 \<and> name ! (length name - 16) = CHR ''_''
          then (case py_strptime_stamp (drop (length name - 15) name) of
                  None \<Rightarrow> ''Unknown''
                | Some t \<Rightarrow> strftime_display t)
          else strftime_display mtime)"

text \<open>The size column: the first word of \<open>du -sh\<close>'s output; an exception, including the
  \<open>IndexError\<close> of an empty output, shows \<open>Size Unknown\<close>.\<close>

definition backup_size :: "backup_env \<Rightarrow> string \<Rightarrow> string" where
  "backup_size env p =
     (case env_du env p of
        None \<Rightarrow> ''Size Unknown''
      | Some out \<Rightarrow> (case py_split_ws out of [] \<Rightarrow> ''Size Unknown'' | w # _ \<Rightarrow> w))"

definition backup_row :: "backup_env \<Rightarrow> string \<Rightarrow> list_row" where
  "backup_row env p = (let name = py_basename p in BackupRow name (backup_time env p name) (backup_size env p) p)"

text \<open>The directories of the destination root, most recently modified first: \<open>sorted(...,
  reverse=True)\<close> is stable, so directories with one modification time keep the order of
  \<open>os.listdir\<close>.\<close>

definition backup_paths :: "backup_env \<Rightarrow> string \<Rightarrow> string list \<Rightarrow> string list" where
  "backup_paths env destination_root ds =
     sort_key (\<lambda>p. - env_mtime env p)
       [py_path_join destination_root d. d \<leftarrow> ds, env_is_dir env (py_path_join destination_root d)]"

definition refresh_backups :: "backup_env \<Rightarrow> backups_state \<Rightarrow> backups_state" where
  "refresh_backups env st =
     (let st0 = st\<lparr>backup_list := []\<rparr>;
          destination_root = expand env (destination_text st)
      in if \<not> env_is_dir env destination_root
         then update_status_message (''Destination folder '' @ sq destination_root @ '' not found.'') True
                (st0\<lparr>backup_list := [MessageRow (''Backup root directory not found: '' @ destination_root @
                   ''. Please set a valid destination.'') True]\<rparr>)
         else case env_listdir env destination_root of
           Inl e \<Rightarrow> update_status_message (''Error reading destination directory: '' @ e) True st0
         | Inr ds \<Rightarrow>
             (let paths = backup_paths env destination_root ds
              in if paths = []
                 then st0\<lparr>backup_list := [MessageRow (''No Rsync backups found in '' @ destination_root @ ''.'') False]\<rparr>
                 else st0\<lparr>backup_list := map (backup_row env) paths\<rparr>))"

text \<open>The paths the rename and delete buttons of the rows carry.\<close>

fun row_path :: "list_row \<Rightarrow> string option" where
  "row_path (BackupRow _ _ _ p) = Some p"
| "row_path (MessageRow _ _) = None"

definition listed_paths :: "backups_state \<Rightarrow> string list" where
  "listed_paths st = List.map_filter row_path (backup_list st)"

subsection \<open>Creating a backup\<close>

text \<open>\<open>create_backup\<close>: the checks, then the busy state and the rsync callback queued.\<close>

definition create_backup :: "backup_env \<Rightarrow> backups_state \<Rightarrow> backups_state" where
  "create_backup env st =
     (let source_dir = expand env (source_text st);
          destination_root = expand env (destination_text st);
          p = py_strip (prefix_text st);
          name_prefix = (if p = [] then ''manual'' else p)
      in if \<not> env_is_dir env source_dir
         then update_status_message (''Error: Source directory not found: '' @ source_dir) True st
         else case env_makedirs env destination_root of
           Some e \<Rightarrow> update_status_message (''Error: Could not create destination directory: '' @ e) True st
         | None \<Rightarrow>
             (set_ui_busy True ''Creating backup (This may take a moment)...'' st)
               \<lparr>idle_jobs := idle_jobs st @ [RsyncJob source_dir destination_root name_prefix]\<rparr>)"

text \<open>The name and the command of \<open>_execute_rsync\<close>, with \<open>t\<close> the local time at which it
  runs.\<close>

definition target_name :: "string \<Rightarrow> tm \<Rightarrow> string" where
  "target_name name_prefix t = name_prefix @ ''_'' @ strftime_stamp t"

definition rsync_command :: "string \<Rightarrow> string \<Rightarrow> string \<Rightarrow> tm \<Rightarrow> string list" where
  "rsync_command source_dir destination_root name_prefix t =
     [''rsync'', ''-a'', py_rstrip_char CHR ''/'' source_dir @ ''/'',
      py_path_join destination_root (target_name name_prefix t)]"

text \<open>\<open>e.stderr.strip() or e.stdout.strip()\<close>; \<open>None\<close> is the \<open>AttributeError\<close> raised
  when the output was not captured.\<close>

definition cpe_text :: "string option \<Rightarrow> string option \<Rightarrow> string option" where
  "cpe_text out err =
     (case err of
        None \<Rightarrow> None
      | Some e \<Rightarrow> (let e' = py_strip e in if e' \<noteq> [] then Some e' else map_option py_strip out))"

text \<open>\<open>_execute_rsync\<close>: \<open>env\<close> runs rsync, \<open>env'\<close> is the file system the list is read
  from afterwards. An exception raised inside an \<open>except\<close> clause leaves the callback
  with the effects made before it.\<close>

definition execute_rsync ::
  "backup_env \<Rightarrow> backup_env \<Rightarrow> tm \<Rightarrow> string \<Rightarrow> string \<Rightarrow> string \<Rightarrow> backups_state \<Rightarrow> backups_state" where
  "execute_rsync env env' t source_dir destination_root name_prefix st =
     (let st1 = set_ui_busy False [] st
      in case env_run env (rsync_command source_dir destination_root name_prefix t) of
           None \<Rightarrow>
             refresh_backups env' (update_status_message (''Backup '' @ sq (target_name name_prefix t) @
               '' created successfully in '' @ destination_root @ ''.'') False st1)
         | Some (ProcCalledError code out err) \<Rightarrow>
             (case cpe_text out err of
                None \<Rightarrow> st1
              | Some m \<Rightarrow> update_status_message (''Rsync failed (Code '' @ py_str_int code @ ''): '' @ m) True st1)
         | Some (ProcFileNotFound _) \<Rightarrow>
             update_status_message ''Error: rsync command not found. Ensure rsync is installed.'' True st1
         | Some (ProcOther e) \<Rightarrow> update_status_message (''An unexpected error occurred: '' @ e) True st1)"

subsection \<open>Renaming and deleting\<close>

definition rename_backup ::
  "backup_env \<Rightarrow> backup_env \<Rightarrow> string \<Rightarrow> string \<Rightarrow> backups_state \<Rightarrow> backups_state" where
  "rename_backup env env' old_path new_name st =
     (let destination_root = expand env (destination_text st);
          old_name = py_basename old_path;
          new_path = py_path_join destination_root new_name
      in if env_exists env new_path
         then update_status_message (''Error: A backup named '' @ sq new_name @
                '' already exists in the destination folder.'') True st
         else case env_rename env old_path new_path of
           None \<Rightarrow> refresh_backups env' (update_status_message (''Backup '' @ sq old_name @ '' renamed to '' @
                     sq new_name @ ''.'') False st)
         | Some e \<Rightarrow> update_status_message (''Failed to rename backup: '' @ e) True st)"

definition delete_backup :: "string \<Rightarrow> backups_state \<Rightarrow> backups_state" where
  "delete_backup path st =
     (set_ui_busy True (''Deleting backup: '' @ py_basename path @ ''...'') st)
       \<lparr>idle_jobs := idle_jobs st @ [DeleteJob path]\<rparr>"

text \<open>\<open>_execute_delete\<close>: \<open>rm -rf\<close> runs without \<open>capture_output\<close>.\<close>

definition execute_delete :: "backup_env \<Rightarrow> backup_env \<Rightarrow> string \<Rightarrow> backups_state \<Rightarrow> backups_state" where
  "execute_delete env env' path st =
     (let st1 = set_ui_busy False [] st
      in case env_run env [''rm'', ''-rf'', path] of
           None \<Rightarrow>
             refresh_backups env' (update_status_message (''Backup '' @ sq (py_basename path) @
               '' deleted successfully.'') False st1)
         | Some (ProcCalledError _ out err) \<Rightarrow>
             (case cpe_text out err of
                None \<Rightarrow> st1
              | Some m \<Rightarrow> update_status_message (''Deletion failed: '' @ m) True st1)
         | Some (ProcFileNotFound e) \<Rightarrow>
             update_status_message (''An unexpected error occurred during deletion: '' @ e) True st1
         | Some (ProcOther e) \<Rightarrow>
             update_status_message (''An unexpected error occurred during deletion: '' @ e) True st1)"

subsection \<open>Dialogs\<close>

text \<open>Each dialog the page opens is kept until its response; the rename and delete dialogs
  are modal, the folder chooser is not.\<close>

definition open_folder_chooser :: "entry_target \<Rightarrow> backups_state \<Rightarrow> backups_state" where
  "open_folder_chooser target st = st\<lparr>dialogs := dialogs st @ [FolderChooser target]\<rparr>"

definition set_entry :: "entry_target \<Rightarrow> string \<Rightarrow> backups_state \<Rightarrow> backups_state" where
  "set_entry target path st =
     (case target of SourceEntry \<Rightarrow> st\<lparr>source_text := path\<rparr> | DestinationEntry \<Rightarrow> st\<lparr>destination_text := path\<rparr>)"

text \<open>\<open>on_folder_chosen\<close>: \<open>gfile\<close> is \<open>dialog.get_file()\<close> with its path; an empty or
  missing path changes nothing.\<close>

definition on_folder_chosen ::
  "nat \<Rightarrow> bool \<Rightarrow> string option option \<Rightarrow> backups_state \<Rightarrow> backups_state" where
  "on_folder_chosen i accept gfile st =
     (if i < length (dialogs st) then
        case dialogs st ! i of
          FolderChooser target \<Rightarrow>
            (let st1 = st\<lparr>dialogs := del_at i (dialogs st)\<rparr>
             in if accept then
                  (case gfile of Some (Some path) \<Rightarrow> if path \<noteq> [] then set_entry target path st1 else st1
                   | _ \<Rightarrow> st1)
                else st1)
        | _ \<Rightarrow> st
      else st)"

definition show_rename_dialog :: "string \<Rightarrow> backups_state \<Rightarrow> backups_state" where
  "show_rename_dialog backup_path st =
     st\<lparr>dialogs := dialogs st @ [RenameDialog backup_path (py_basename backup_path) (py_basename backup_path)]\<rparr>"

definition rename_entry_edited :: "nat \<Rightarrow> string \<Rightarrow> backups_state \<Rightarrow> backups_state" where
  "rename_entry_edited i text st =
     (if i < length (dialogs st) then
        case dialogs st ! i of
          RenameDialog p old_name _ \<Rightarrow> st\<lparr>dialogs := (dialogs st)[i := RenameDialog p old_name text]\<rparr>
        | _ \<Rightarrow> st
      else st)"

definition rename_dialog_response ::
  "backup_env \<Rightarrow> backup_env \<Rightarrow> nat \<Rightarrow> bool \<Rightarrow> backups_state \<Rightarrow> backups_state" where
  "rename_dialog_response env env' i ok st =
     (if i < length (dialogs st) then
        case dialogs st ! i of
          RenameDialog backup_path old_name entry \<Rightarrow>
            (let st1 = st\<lparr>dialogs := del_at i (dialogs st)\<rparr>;
                 new_name = py_strip entry
             in if ok then
                  (if new_name \<noteq> [] \<and> new_name \<noteq> old_name then rename_backup env env' backup_path new_name st1
                   else if new_name = old_name then update_status_message ''Name not changed.'' False st1
                   else st1)
                else st1)
        | _ \<Rightarrow> st
      else st)"

definition show_delete_confirmation_dialog :: "string \<Rightarrow> backups_state \<Rightarrow> backups_state" where
  "show_delete_confirmation_dialog backup_path st = st\<lparr>dialogs := dialogs st @ [DeleteDialog backup_path]\<rparr>"

definition delete_dialog_response :: "nat \<Rightarrow> bool \<Rightarrow> backups_state \<Rightarrow> backups_state" where
  "delete_dialog_response i ok st =
     (if i < length (dialogs st) then
        case dialogs st ! i of
          DeleteDialog backup_path \<Rightarrow>
            (let st1 = st\<lparr>dialogs := del_at i (dialogs st)\<rparr>
             in if ok then delete_backup backup_path st1 else st1)
        | _ \<Rightarrow> st
      else st)"

fun is_modal :: "backup_dialog \<Rightarrow> bool" where
  "is_modal (FolderChooser _) = False"
| "is_modal (RenameDialog _ _ _) = True"
| "is_modal (DeleteDialog _) = True"

subsection \<open>The page as a state machine\<close>

text \<open>\<open>BackupsPage.__init__\<close>: the default entries (\<open>expanduser\<close> of \<open>~\<close> and
  \<open>~/RsyncBackups\<close>), the status line, and a first refresh.\<close>

definition init_backups :: "backup_env \<Rightarrow> backups_state" where
  "init_backups env =
     (let st = \<lparr>source_text = expand env ''~'', destination_text = expand env ''~/RsyncBackups'',
                prefix_text = ''manual'', status_text = [], status_error = False, status_visible = True,
                busy = False, progress_visible = False, progress_text = ''Waiting...'',
                backup_list = [], dialogs = [], idle_jobs = []\<rparr>
      in refresh_backups env (update_status_message (''Current destination: '' @ destination_text st) False st))"

text \<open>One idle callback of the main loop: the oldest queued job. Each returns
  \<open>GLib.SOURCE_REMOVE\<close> (or raises), so it runs once.\<close>

definition run_idle :: "backup_env \<Rightarrow> backup_env \<Rightarrow> tm \<Rightarrow> backups_state \<Rightarrow> backups_state" where
  "run_idle env env' t st =
     (case idle_jobs st of
        [] \<Rightarrow> st
      | RsyncJob source_dir destination_root name_prefix # js \<Rightarrow>
          execute_rsync env env' t source_dir destination_root name_prefix (st\<lparr>idle_jobs := js\<rparr>)
      | DeleteJob path # js \<Rightarrow> execute_delete env env' path (st\<lparr>idle_jobs := js\<rparr>))"

datatype backups_event =
    CreateClicked | RefreshClicked | PrefixEdited string | BrowseClicked entry_target
  | FolderResponse nat bool "string option option"
  | RenameClicked string | RenameEdited nat string | RenameResponse nat bool
  | DeleteClicked string | DeleteResponse nat bool
  | IdleCallback tm

text \<open>GTK delivers a click only to a sensitive widget of a window no modal dialog blocks;
  the rename and delete buttons exist only on the listed rows and are never made
  insensitive.\<close>

definition window_input :: "backups_state \<Rightarrow> bool" where
  "window_input st \<longleftrightarrow> \<not> list_ex is_modal (dialogs st)"

fun backups_step :: "backup_env \<Rightarrow> backup_env \<Rightarrow> backups_event \<Rightarrow> backups_state \<Rightarrow> backups_state" where
  "backups_step env env' CreateClicked st =
     (if window_input st \<and> \<not> busy st then create_backup env st else st)"
| "backups_step env env' RefreshClicked st =
     (if window_input st \<and> \<not> busy st then refresh_backups env st else st)"
| "backups_step env env' (PrefixEdited text) st =
     (if window_input st \<and> \<not> busy st then st\<lparr>prefix_text := text\<rparr> else st)"
| "backups_step env env' (BrowseClicked target) st =
     (if window_input st \<and> \<not> busy st then open_folder_chooser target st else st)"
| "backups_step env env' (FolderResponse i accept gfile) st = on_folder_chosen i accept gfile st"
| "backups_step env env' (RenameClicked p) st =
     (if window_input st \<and> p \<in> set (listed_paths st) then show_rename_dialog p st else st)"
| "backups_step env env' (RenameEdited i text) st = rename_entry_edited i text st"
| "backups_step env env' (RenameResponse i ok) st = rename_dialog_response env env' i ok st"
| "backups_step env env' (DeleteClicked p) st =
     (if window_input st \<and> p \<in> set (listed_paths st) then show_delete_confirmation_dialog p st else st)"
| "backups_step env env' (DeleteResponse i ok) st = delete_dialog_response i ok st"
| "backups_step env env' (IdleCallback t) st = run_idle env env' t st"

inductive backups_reach :: "backup_env \<Rightarrow> backups_state \<Rightarrow> bool" for env0 where
  init: "backups_reach env0 (init_backups env0)"
| step: "backups_reach env0 st \<Longrightarrow> backups_reach env0 (backups_step env env' e st)"

text \<open>The idle callbacks run in a row, each with its environments and local time.\<close>

definition run_idles :: "(backup_env \<times> backup_env \<times> tm) list \<Rightarrow> backups_state \<Rightarrow> backups_state" where
  "run_idles runs st = fold (\<lambda>(env, env', t). run_idle env env' t) runs st"

text \<open>The busy flag is shown by the bar and only by it, and is set only while a job waits.\<close>

definition backups_inv :: "backups_state \<Rightarrow> bool" where
  "backups_inv st \<longleftrightarrow>
     (busy st \<longrightarrow> idle_jobs st \<noteq> []) \<and> progress_visible st = busy st \<and> status_visible st = (\<not> busy st)"

text \<open>A file system for the examples: \<open>$HOME\<close> is /home/u, the destination holds a
  snapshot made by the page, a file and an older directory; every command succeeds.\<close>

definition sample_time :: tm where
  "sample_time = \<lparr>tm_year = 2024, tm_mon = 3, tm_mday = 7, tm_hour = 9, tm_min = 5, tm_sec = 0\<rparr>"

definition sample_env :: backup_env where
  "sample_env =
     \<lparr>env_home = ''/home/u'', env_users = (\<lambda>_. None),
      env_is_dir = (\<lambda>p. p \<noteq> ''/home/u/RsyncBackups/notes.txt''), env_exists = (\<lambda>_. False),
      env_makedirs = (\<lambda>_. None),
      env_listdir = (\<lambda>_. Inr [''manual_20240307_090500'', ''notes.txt'', ''old_backup_of_disks'']),
      env_mtime = (\<lambda>p. if p = ''/home/u/RsyncBackups/old_backup_of_disks'' then 100 else 200),
      env_localtime = (\<lambda>_. Some sample_time), env_du = (\<lambda>_. Some ''4.0K''),
      env_rename = (\<lambda>_ _. None), env_run = (\<lambda>_. None)\<rparr>"

subsection \<open>Lemmas: what each handler leaves alone\<close>

named_theorems backups_frame "fields of the page a handler does not change"

lemma update_status_message_frame [simp, backups_frame]:
  "busy (update_status_message m e st) = busy st"
  "progress_visible (update_status_message m e st) = progress_visible st"
  "status_visible (update_status_message m e st) = status_visible st"
  "idle_jobs (update_status_message m e st) = idle_jobs st"
  "dialogs (update_status_message m e st) = dialogs st"
  "destination_text (update_status_message m e st) = destination_text st"
  "source_text (update_status_message m e st) = source_text st"
  "prefix_text (update_status_message m e st) = prefix_text st"
  "backup_list (update_status_message m e st) = backup_list st"
  by (simp_all add: update_status_message_def)

lemma refresh_backups_frame [simp, backups_frame]:
  "busy (refresh_backups env st) = busy st"
  "progress_visible (refresh_backups env st) = progress_visible st"
  "status_visible (refresh_backups env st) = status_visible st"
  "idle_jobs (refresh_backups env st) = idle_jobs st"
  "dialogs (refresh_backups env st) = dialogs st"
  "destination_text (refresh_backups env st) = destination_text st"
  "source_text (refresh_backups env st) = source_text st"
  "prefix_text (refresh_backups env st) = prefix_text st"
  by (simp_all add: refresh_backups_def Let_def split: sum.split)

lemma set_ui_busy_idle [simp, backups_frame]:
  "busy (set_ui_busy False m st) = False"
  "progress_visible (set_ui_busy False m st) = False"
  "status_visible (set_ui_busy False m st) = True"
  "idle_jobs (set_ui_busy False m st) = idle_jobs st"
  "dialogs (set_ui_busy False m st) = dialogs st"
  by (simp_all add: set_ui_busy_def)

lemma set_ui_busy_busy [simp, backups_frame]:
  "busy (set_ui_busy True m st) = True"
  "progress_visible (set_ui_busy True m st) = True"
  "status_visible (set_ui_busy True m st) = False"
  "idle_jobs (set_ui_busy True m st) = idle_jobs st"
  "dialogs (set_ui_busy True m st) = dialogs st"
  by (simp_all add: set_ui_busy_def)

text \<open>An idle job ends the busy state on every outcome, the exception paths included.\<close>

lemma execute_rsync_idle [simp]:
  "busy (execute_rsync env env' t s d p st) = False"
  "progress_visible (execute_rsync env env' t s d p st) = False"
  "status_visible (execute_rsync env env' t s d p st) = True"
  "idle_jobs (execute_rsync env env' t s d p st) = idle_jobs st"
  by (simp_all add: execute_rsync_def Let_def split: option.split proc_error.split)

lemma execute_delete_idle [simp]:
  "busy (execute_delete env env' p st) = False"
  "progress_visible (execute_delete env env' p st) = False"
  "status_visible (execute_delete env env' p st) = True"
  "idle_jobs (execute_delete env env' p st) = idle_jobs st"
  by (simp_all add: execute_delete_def Let_def split: option.split proc_error.split)

lemma rename_backup_frame [simp]:
  "busy (rename_backup env env' p n st) = busy st"
  "progress_visible (rename_backup env env' p n st) = progress_visible st"
  "status_visible (rename_backup env env' p n st) = status_visible st"
  "idle_jobs (rename_backup env env' p n st) = idle_jobs st"
  by (simp_all add: rename_backup_def Let_def split: option.split)

lemma run_idle_jobs: "idle_jobs (run_idle env env' t st) = tl (idle_jobs st)"
  by (simp add: run_idle_def split: list.split idle_job.split)

subsection \<open>Lemmas: the busy invariant\<close>

lemma backups_inv_init: "backups_inv (init_backups env)"
  by (simp add: backups_inv_def init_backups_def Let_def)

lemma backups_inv_busy_job:
  "backups_inv (st\<lparr>busy := True, progress_text := m, progress_visible := True, status_visible := False,
                   idle_jobs := idle_jobs st @ [j]\<rparr>)"
  by (simp add: backups_inv_def)

lemma backups_inv_create: "backups_inv st \<Longrightarrow> backups_inv (create_backup env st)"
  by (simp add: create_backup_def Let_def backups_inv_def set_ui_busy_def split: option.split)

lemma backups_inv_delete: "backups_inv (delete_backup p st)"
  by (simp add: delete_backup_def backups_inv_def set_ui_busy_def)

lemma backups_inv_run_idle: "backups_inv st \<Longrightarrow> backups_inv (run_idle env env' t st)"
  by (auto simp: run_idle_def backups_inv_def split: list.split idle_job.split)

lemma backups_inv_set_entry: "backups_inv st \<Longrightarrow> backups_inv (set_entry target p st)"
  by (simp add: set_entry_def backups_inv_def split: entry_target.split)

lemma backups_inv_dialogs:
  "backups_inv st \<Longrightarrow> backups_inv (st\<lparr>dialogs := ds\<rparr>)"
  "backups_inv st \<Longrightarrow> backups_inv (update_status_message m e st)"
  "backups_inv st \<Longrightarrow> backups_inv (refresh_backups env st)"
  "backups_inv st \<Longrightarrow> backups_inv (rename_backup env env' p n st)"
  by (simp_all add: backups_inv_def)

lemma backups_inv_folder: "backups_inv st \<Longrightarrow> backups_inv (on_folder_chosen i a g st)"
  by (auto simp: on_folder_chosen_def Let_def backups_inv_dialogs backups_inv_set_entry
      split: backup_dialog.split option.split)

lemma backups_inv_rename_response: "backups_inv st \<Longrightarrow> backups_inv (rename_dialog_response env env' i ok st)"
  by (auto simp: rename_dialog_response_def Let_def backups_inv_dialogs split: backup_dialog.split)

lemma backups_inv_delete_response: "backups_inv st \<Longrightarrow> backups_inv (delete_dialog_response i ok st)"
  by (auto simp: delete_dialog_response_def Let_def backups_inv_dialogs backups_inv_delete
      split: backup_dialog.split)

lemma backups_inv_step: "backups_inv st \<Longrightarrow> backups_inv (backups_step env env' e st)"
  by (cases e)
    (simp_all add: backups_inv_run_idle backups_inv_create backups_inv_folder backups_inv_rename_response
      backups_inv_delete_response backups_inv_dialogs open_folder_chooser_def show_rename_dialog_def
      show_delete_confirmation_dialog_def rename_entry_edited_def split: backup_dialog.split,
     simp_all add: backups_inv_def)

lemma backups_reach_inv: "backups_reach env0 st \<Longrightarrow> backups_inv st"
  by (induction rule: backups_reach.induct) (simp_all add: backups_inv_init backups_inv_step)

subsection \<open>Lemmas: the idle queue drains\<close>

lemma run_idles_drain:
  assumes "backups_inv st" and "length runs = length (idle_jobs st)"
  shows "idle_jobs (run_idles runs st) = [] \<and> \<not> busy (run_idles runs st)"
  using assms
proof (induction runs arbitrary: st)
  case Nil
  then show ?case by (simp add: run_idles_def backups_inv_def)
next
  case (Cons r runs)
  obtain env env' t where r: "r = (env, env', t)" by (cases r)
  have "backups_inv (run_idle env env' t st)" using Cons.prems(1) by (rule backups_inv_run_idle)
  moreover have "length runs = length (idle_jobs (run_idle env env' t st))"
    using Cons.prems(2) by (simp add: run_idle_jobs)
  ultimately have "idle_jobs (run_idles runs (run_idle env env' t st)) = [] \<and>
      \<not> busy (run_idles runs (run_idle env env' t st))"
    by (rule Cons.IH)
  then show ?case by (simp add: run_idles_def r)
qed

subsection \<open>Lemmas: the name of a new backup read back\<close>

lemma length_pad2: "n < 100 \<Longrightarrow> length (pad2 n) = 2"
  by (simp add: pad2_digits)

lemma set_pad2: "c \<in> set (pad2 n) \<Longrightarrow> \<exists>d < 10. c = digit_char d"
proof -
  assume "c \<in> set (pad2 n)"
  then consider "c = digit_char 0" | "c \<in> set (dec_string n)"
    by (auto simp: pad2_def digit_char_zero split: if_splits)
  then show ?thesis
  proof cases
    case 1
    then show ?thesis by (intro exI [of _ 0]) simp
  next
    case 2
    then show ?thesis by (rule dec_string_digits)
  qed
qed

lemma strftime_stamp_length: "tm_ok t \<Longrightarrow> length (strftime_stamp t) = 15"
proof -
  assume "tm_ok t"
  note ok = this [unfolded tm_ok_def]
  have "days_in_month (tm_year t) (tm_mon t) \<le> 31" by (simp add: days_in_month_def)
  then have "tm_mday t < 100" using ok by linarith
  with ok show ?thesis by (simp add: strftime_stamp_def length_pad2 dec_string_4)
qed

lemma strftime_stamp_chars: "c \<in> set (strftime_stamp t) \<Longrightarrow> c = CHR ''_'' \<or> (\<exists>d < 10. c = digit_char d)"
  by (auto simp: strftime_stamp_def dest: dec_string_digits set_pad2)

lemma strftime_stamp_no_slash: "CHR ''/'' \<notin> set (strftime_stamp t)"
proof
  assume "CHR ''/'' \<in> set (strftime_stamp t)"
  then have "CHR ''/'' = CHR ''_'' \<or> (\<exists>d < 10. CHR ''/'' = digit_char d)" by (rule strftime_stamp_chars)
  then obtain d where "d < 10" "CHR ''/'' = digit_char d" by auto
  moreover from \<open>d < 10\<close> have "digit_char d \<noteq> CHR ''/''" by (rule digit_char_neq) simp
  ultimately show False by simp
qed

lemma takeWhile_no_slash: "CHR ''/'' \<notin> set n \<Longrightarrow> takeWhile (\<lambda>c. c \<noteq> CHR ''/'') (rev n @ ys) = rev n @ takeWhile (\<lambda>c. c \<noteq> CHR ''/'') ys"
  by (rule takeWhile_append2) auto

lemma py_basename_slash: "CHR ''/'' \<notin> set n \<Longrightarrow> py_basename (d @ CHR ''/'' # n) = n"
  by (simp add: py_basename_def takeWhile_no_slash)

lemma py_basename_join:
  assumes "CHR ''/'' \<notin> set n" and "n \<noteq> []"
  shows "py_basename (py_path_join d n) = n"
proof -
  have "\<not> py_startswith n ''/''" using assms by (cases n) (auto simp: py_startswith_def)
  moreover have "py_basename (d @ n) = n" if "d = [] \<or> py_endswith d ''/''"
  proof (cases "d = []")
    case True
    have t: "takeWhile (\<lambda>c. c \<noteq> CHR ''/'') (rev n) = rev n"
      using takeWhile_no_slash [OF assms(1), of "[]"] by (simp only: append_Nil2 takeWhile.simps(1))
    show ?thesis unfolding True py_basename_def append_Nil t by (rule rev_rev_ident)
  next
    case False
    with that obtain d' where "d = d' @ ''/''" by (auto simp: py_endswith_def suffix_def)
    then show ?thesis using py_basename_slash [OF assms(1), of d'] by simp
  qed
  ultimately show ?thesis using py_basename_slash [OF assms(1), of d] by (auto simp: py_path_join_def)
qed

lemma backup_time_target:
  assumes "tm_ok t" and "name_prefix \<noteq> []" and "env_localtime env p = Some lt"
  shows "backup_time env p (target_name name_prefix t) = strftime_display t"
proof -
  let ?n = "target_name name_prefix t"
  have len: "length ?n = length name_prefix + 16"
    using strftime_stamp_length [OF assms(1)] by (simp add: target_name_def)
  then have "length ?n > 16" using assms(2) by simp
  moreover have "?n ! (length ?n - 16) = CHR ''_''"
    unfolding len by (simp add: target_name_def nth_append)
  moreover have "drop (length ?n - 15) ?n = strftime_stamp t"
    unfolding len by (simp add: target_name_def)
  ultimately show ?thesis using assms(3) by (simp add: backup_time_def strptime_strftime [OF assms(1)])
qed

lemma backup_row_target:
  assumes "tm_ok t" and "name_prefix \<noteq> []" and "CHR ''/'' \<notin> set name_prefix"
    and "env_localtime env (py_path_join destination_root (target_name name_prefix t)) \<noteq> None"
  shows "backup_row env (py_path_join destination_root (target_name name_prefix t)) =
    BackupRow (target_name name_prefix t) (strftime_display t)
      (backup_size env (py_path_join destination_root (target_name name_prefix t)))
      (py_path_join destination_root (target_name name_prefix t))"
proof -
  have "CHR ''/'' \<notin> set (target_name name_prefix t)"
    using assms(3) strftime_stamp_no_slash by (simp add: target_name_def)
  moreover have "target_name name_prefix t \<noteq> []" by (simp add: target_name_def)
  ultimately have "py_basename (py_path_join destination_root (target_name name_prefix t)) = target_name name_prefix t"
    by (rule py_basename_join)
  moreover obtain lt where "env_localtime env (py_path_join destination_root (target_name name_prefix t)) = Some lt"
    using assms(4) by auto
  ultimately show ?thesis using backup_time_target [OF assms(1,2)] by (simp add: backup_row_def Let_def)
qed

subsection \<open>Lemmas: the order of the list\<close>

lemma row_path_backup_row [simp]: "row_path (backup_row env p) = Some p"
  by (simp add: backup_row_def Let_def)

lemma map_filter_backup_rows: "List.map_filter row_path (map (backup_row env) ps) = ps"
  by (induction ps) (simp_all add: List.map_filter_simps)

lemma refresh_listed_paths:
  assumes "env_is_dir env (expand env (destination_text st))"
    and "env_listdir env (expand env (destination_text st)) = Inr ds"
  shows "listed_paths (refresh_backups env st) = backup_paths env (expand env (destination_text st)) ds"
  using assms
  by (simp add: refresh_backups_def listed_paths_def Let_def map_filter_backup_rows List.map_filter_simps)

lemma backup_paths_order:
  "sorted_wrt (\<lambda>p q. env_mtime env q \<le> env_mtime env p) (backup_paths env r ds) \<and>
   mset (backup_paths env r ds) = mset [py_path_join r d. d \<leftarrow> ds, env_is_dir env (py_path_join r d)] \<and>
   (\<forall>k. filter (\<lambda>p. env_mtime env p = k) (backup_paths env r ds) =
        filter (\<lambda>p. env_mtime env p = k) [py_path_join r d. d \<leftarrow> ds, env_is_dir env (py_path_join r d)])"
proof (intro conjI allI)
  let ?f = "\<lambda>p. - env_mtime env p" and ?xs = "[py_path_join r d. d \<leftarrow> ds, env_is_dir env (py_path_join r d)]"
  have "sorted (map ?f (sort_key ?f ?xs))" by (rule sorted_sort_key)
  then show "sorted_wrt (\<lambda>p q. env_mtime env q \<le> env_mtime env p) (backup_paths env r ds)"
    by (simp add: backup_paths_def sorted_map)
  show "mset (backup_paths env r ds) = mset ?xs" by (simp add: backup_paths_def mset_sort)
  fix k
  have "filter (\<lambda>p. ?f p = - k) (sort_key ?f ?xs) = filter (\<lambda>p. ?f p = - k) ?xs" by (rule sort_key_stable)
  then show "filter (\<lambda>p. env_mtime env p = k) (backup_paths env r ds) = filter (\<lambda>p. env_mtime env p = k) ?xs"
    by (simp add: backup_paths_def)
qed


subsection \<open>Properties of the backup page\<close>

text \<open>C20: the directory \<open>_execute_rsync\<close> writes, named after the
  prefix and the local time of the run, is listed under that name with that time, read
  back from the name: \<open>strptime\<close> inverts the \<open>strftime\<close> of the name.\<close>

theorem created_backup_listed:
  assumes "tm_ok t" and "name_prefix \<noteq> []" and "CHR ''/'' \<notin> set name_prefix"
    and "env_localtime env (last (rsync_command source_dir destination_root name_prefix t)) \<noteq> None"
  shows "backup_row env (last (rsync_command source_dir destination_root name_prefix t)) =
    BackupRow (target_name name_prefix t) (strftime_display t)
      (backup_size env (last (rsync_command source_dir destination_root name_prefix t)))
      (last (rsync_command source_dir destination_root name_prefix t))"
  using assms by (simp add: rsync_command_def backup_row_target)

theorem created_backup_listed_witness:
  "tm_ok sample_time \<and> ''manual'' \<noteq> [] \<and> CHR ''/'' \<notin> set ''manual'' \<and>
   env_localtime sample_env (last (rsync_command ''/home/u'' ''/home/u/RsyncBackups'' ''manual'' sample_time)) \<noteq> None \<and>
   backup_row sample_env (last (rsync_command ''/home/u'' ''/home/u/RsyncBackups'' ''manual'' sample_time)) =
     BackupRow (target_name ''manual'' sample_time) (strftime_display sample_time)
       (backup_size sample_env (last (rsync_command ''/home/u'' ''/home/u/RsyncBackups'' ''manual'' sample_time)))
       (last (rsync_command ''/home/u'' ''/home/u/RsyncBackups'' ''manual'' sample_time)) \<and>
   strftime_display sample_time = ''2024-03-07 09:05:00''"
proof -
  have t: "tm_ok sample_time" by (simp add: tm_ok_def sample_time_def days_in_month_def)
  have l: "env_localtime sample_env (last (rsync_command ''/home/u'' ''/home/u/RsyncBackups'' ''manual'' sample_time)) \<noteq> None"
    by (simp add: sample_env_def)
  have d: "strftime_display sample_time = ''2024-03-07 09:05:00''" by code_simp
  show ?thesis using created_backup_listed [OF t _ _ l] t l d by simp
qed

text \<open>C21: in every state the page can reach, over any sequence
  of clicks, dialog responses and idle callbacks, running the queued idle callbacks one
  after the other, whatever rsync and rm report or raise, empties the queue and leaves
  the page idle: the buttons sensitive again and the progress bar hidden.\<close>

theorem idle_callbacks_end_busy:
  assumes "backups_reach env0 st" and "length runs = length (idle_jobs st)"
  shows "idle_jobs (run_idles runs st) = [] \<and> \<not> busy (run_idles runs st)"
  using backups_reach_inv [OF assms(1)] assms(2) by (rule run_idles_drain)

theorem idle_callbacks_end_busy_witness:
  "backups_reach sample_env (backups_step sample_env sample_env CreateClicked (init_backups sample_env)) \<and>
   length [(sample_env, sample_env, sample_time)] =
     length (idle_jobs (backups_step sample_env sample_env CreateClicked (init_backups sample_env))) \<and>
   busy (backups_step sample_env sample_env CreateClicked (init_backups sample_env)) \<and>
   idle_jobs (run_idles [(sample_env, sample_env, sample_time)]
     (backups_step sample_env sample_env CreateClicked (init_backups sample_env))) = [] \<and>
   \<not> busy (run_idles [(sample_env, sample_env, sample_time)]
     (backups_step sample_env sample_env CreateClicked (init_backups sample_env)))"
proof -
  let ?st = "backups_step sample_env sample_env CreateClicked (init_backups sample_env)"
  have r: "backups_reach sample_env ?st" by (intro backups_reach.step backups_reach.init)
  have i: "init_backups sample_env = refresh_backups sample_env (update_status_message
      ''Current destination: /home/u/RsyncBackups'' False
      \<lparr>source_text = ''/home/u'', destination_text = ''/home/u/RsyncBackups'', prefix_text = ''manual'',
       status_text = [], status_error = False, status_visible = True, busy = False,
       progress_visible = False, progress_text = ''Waiting...'', backup_list = [], dialogs = [],
       idle_jobs = []\<rparr>)"
    by (simp add: init_backups_def expand_def py_expanduser_def py_startswith_def py_rstrip_char_def sample_env_def)
  have b: "busy ?st \<and> length (idle_jobs ?st) = 1"
    unfolding i by (simp add: window_input_def create_backup_def Let_def expand_def py_expanduser_def
      py_startswith_def sample_env_def)
  then have "length [(sample_env, sample_env, sample_time)] = length (idle_jobs ?st)" by simp
  with r b show ?thesis using idle_callbacks_end_busy [OF r] by blast
qed

text \<open>C22: when the destination is a directory that can be listed,
  the rows of the list are its subdirectories, each once, most recently modified first,
  and subdirectories with one modification time keep the order \<open>os.listdir\<close> gave.\<close>

theorem refresh_backups_order:
  assumes "env_is_dir env (expand env (destination_text st))"
    and "env_listdir env (expand env (destination_text st)) = Inr ds"
  shows "let r = expand env (destination_text st);
             ps = listed_paths (refresh_backups env st);
             dirs = [py_path_join r d. d \<leftarrow> ds, env_is_dir env (py_path_join r d)]
         in sorted_wrt (\<lambda>p q. env_mtime env q \<le> env_mtime env p) ps \<and> mset ps = mset dirs \<and>
            (\<forall>k. filter (\<lambda>p. env_mtime env p = k) ps = filter (\<lambda>p. env_mtime env p = k) dirs)"
  unfolding Let_def refresh_listed_paths [OF assms] by (rule backup_paths_order)

theorem refresh_backups_order_witness:
  "env_is_dir sample_env (expand sample_env ''/home/u/RsyncBackups'') \<and>
   env_listdir sample_env (expand sample_env ''/home/u/RsyncBackups'') =
     Inr [''manual_20240307_090500'', ''notes.txt'', ''old_backup_of_disks''] \<and>
   sorted_wrt (\<lambda>p q. env_mtime sample_env q \<le> env_mtime sample_env p)
     (listed_paths (refresh_backups sample_env (init_backups sample_env))) \<and>
   listed_paths (refresh_backups sample_env (init_backups sample_env)) =
     [''/home/u/RsyncBackups/manual_20240307_090500'', ''/home/u/RsyncBackups/old_backup_of_disks'']"
proof -
  have e: "destination_text (init_backups sample_env) = ''/home/u/RsyncBackups''"
    by (simp add: init_backups_def Let_def expand_def py_expanduser_def py_startswith_def
        py_rstrip_char_def sample_env_def)
  have h1: "env_is_dir sample_env (expand sample_env (destination_text (init_backups sample_env)))"
    unfolding e by code_simp
  have h2: "env_listdir sample_env (expand sample_env (destination_text (init_backups sample_env))) =
      Inr [''manual_20240307_090500'', ''notes.txt'', ''old_backup_of_disks'']"
    by (simp add: sample_env_def)
  have o: "sorted_wrt (\<lambda>p q. env_mtime sample_env q \<le> env_mtime sample_env p)
      (listed_paths (refresh_backups sample_env (init_backups sample_env)))"
    using refresh_backups_order [OF h1 h2] by (simp add: Let_def)
  have "listed_paths (refresh_backups sample_env (init_backups sample_env)) =
      backup_paths sample_env ''/home/u/RsyncBackups'' [''manual_20240307_090500'', ''notes.txt'', ''old_backup_of_disks'']"
    using refresh_listed_paths [OF h1 h2] unfolding e by (simp add: expand_def py_expanduser_def py_startswith_def)
  also have "\<dots> = [''/home/u/RsyncBackups/manual_20240307_090500'', ''/home/u/RsyncBackups/old_backup_of_disks'']"
    by code_simp
  finally show ?thesis using h1 h2 o unfolding e by simp
qed

text \<open>C23: \<open>rm -rf\<close> runs without \<open>capture_output\<close>, so when it
  fails the \<open>CalledProcessError\<close> has \<open>stderr = None\<close> and building the message raises
  \<open>AttributeError\<close> inside the \<open>except\<close> clause: the page goes idle showing \<open>Current
  destination: ...\<close> as after any job, no error is shown, and the list is not refreshed.\<close>

theorem delete_failure_unreported:
  assumes "env_run env [''rm'', ''-rf'', path] = Some (ProcCalledError code None None)"
  shows "status_text (execute_delete env env' path st) = ''Current destination: '' @ destination_text st \<and>
    \<not> status_error (execute_delete env env' path st) \<and>
    backup_list (execute_delete env env' path st) = backup_list st \<and> \<not> busy (execute_delete env env' path st)"
  using assms by (simp add: execute_delete_def cpe_text_def set_ui_busy_def update_status_message_def)

theorem delete_failure_unreported_witness:
  "env_run (sample_env\<lparr>env_run := \<lambda>_. Some (ProcCalledError 1 None None)\<rparr>)
     [''rm'', ''-rf'', ''/home/u/RsyncBackups/old_backup_of_disks''] = Some (ProcCalledError 1 None None) \<and>
   status_text (execute_delete (sample_env\<lparr>env_run := \<lambda>_. Some (ProcCalledError 1 None None)\<rparr>) sample_env
     ''/home/u/RsyncBackups/old_backup_of_disks'' (init_backups sample_env)) =
     ''Current destination: '' @ destination_text (init_backups sample_env) \<and>
   \<not> status_error (execute_delete (sample_env\<lparr>env_run := \<lambda>_. Some (ProcCalledError 1 None None)\<rparr>) sample_env
     ''/home/u/RsyncBackups/old_backup_of_disks'' (init_backups sample_env))"
  using delete_failure_unreported [of "sample_env\<lparr>env_run := \<lambda>_. Some (ProcCalledError 1 None None)\<rparr>"
      "''/home/u/RsyncBackups/old_backup_of_disks''" 1 sample_env "init_backups sample_env"]
  by simp

text \<open>C24: the name prefix is not checked: a prefix that is an
  absolute path makes \<open>os.path.join\<close> drop the destination, so the queued rsync writes
  the snapshot at the prefix itself, outside the destination folder the list shows.\<close>

theorem create_absolute_prefix:
  assumes "env_is_dir env (expand env (source_text st))"
    and "env_makedirs env (expand env (destination_text st)) = None"
    and "py_startswith (py_strip (prefix_text st)) ''/''"
  shows "idle_jobs (create_backup env st) = idle_jobs st @
      [RsyncJob (expand env (source_text st)) (expand env (destination_text st)) (py_strip (prefix_text st))] \<and>
    last (rsync_command (expand env (source_text st)) (expand env (destination_text st)) (py_strip (prefix_text st)) t) =
      target_name (py_strip (prefix_text st)) t"
proof -
  have "py_strip (prefix_text st) \<noteq> []" using assms(3) by (auto simp: py_startswith_def)
  moreover have "py_startswith (target_name (py_strip (prefix_text st)) t) ''/''"
    using assms(3) by (simp add: py_startswith_def target_name_def)
  ultimately show ?thesis
    using assms(1,2) by (simp add: create_backup_def Let_def rsync_command_def py_path_join_def)
qed

theorem create_absolute_prefix_witness:
  "env_is_dir sample_env (expand sample_env (source_text ((init_backups sample_env)\<lparr>prefix_text := ''/tmp/x''\<rparr>))) \<and>
   env_makedirs sample_env (expand sample_env (destination_text ((init_backups sample_env)\<lparr>prefix_text := ''/tmp/x''\<rparr>))) = None \<and>
   py_startswith (py_strip (prefix_text ((init_backups sample_env)\<lparr>prefix_text := ''/tmp/x''\<rparr>))) ''/'' \<and>
   last (rsync_command (expand sample_env (source_text ((init_backups sample_env)\<lparr>prefix_text := ''/tmp/x''\<rparr>)))
       (expand sample_env (destination_text ((init_backups sample_env)\<lparr>prefix_text := ''/tmp/x''\<rparr>)))
       (py_strip (prefix_text ((init_backups sample_env)\<lparr>prefix_text := ''/tmp/x''\<rparr>))) sample_time) =
     ''/tmp/x_20240307_090500''"
proof -
  let ?st = "(init_backups sample_env)\<lparr>prefix_text := ''/tmp/x''\<rparr>"
  have p: "py_strip (prefix_text ?st) = ''/tmp/x''" by code_simp
  have h1: "env_is_dir sample_env (expand sample_env (source_text ?st))"
    by (simp add: init_backups_def Let_def expand_def py_expanduser_def py_startswith_def
        py_rstrip_char_def sample_env_def)
  have h2: "env_makedirs sample_env (expand sample_env (destination_text ?st)) = None"
    by (simp add: sample_env_def)
  have h3: "py_startswith (py_strip (prefix_text ?st)) ''/''" unfolding p by (simp add: py_startswith_def)
  have n: "target_name ''/tmp/x'' sample_time = ''/tmp/x_20240307_090500''" by code_simp
  show ?thesis using create_absolute_prefix [OF h1 h2 h3, of sample_time] h1 h2 h3 n unfolding p by simp
qed



end
