(* ===== verification/Storage.thy ===== *)
theory Storage
  imports Prelude
begin

text \<open>
  The storage page of src/pages/storage.py (class \<open>StoragePage\<close>): it looks for a disk
  usage analyzer on the \<open>PATH\<close> once, in an idle callback, and each time the page is
  shown (the \<open>map\<close> signal) starts a thread that asks \<open>pgrep\<close> whether the analyzer runs
  and launches it if not. The thread's status texts reach the label through
  \<open>GLib.idle_add\<close>. The threads are modelled by their two steps on the world, the
  \<open>pgrep\<close> check and the \<open>Popen\<close> launch, which interleave with each other and with the
  main loop in any order; the world holds the analyzer processes.
\<close>

subsection \<open>State\<close>

text \<open>\<open>self.analyzer_command\<close>: \<open>None\<close> before the check, the command found, or \<open>False\<close>.\<close>

datatype analyzer = Unchecked | Found string | NotFound

datatype storage_idle = CheckTool | SetStatus string

text \<open>A running \<open>_launch_or_update_thread\<close>: started, or past \<open>pgrep\<close> with its answer.\<close>

datatype worker = Started | Checked bool

record storage_state =
  storage_status :: string
  analyzer_command :: analyzer
  storage_idle :: "storage_idle list"
  workers :: "worker list"

text \<open>The world: which commands \<open>which\<close> finds, whether an analyzer runs that the page
  did not start, how many the page started and still run, and the error \<open>Popen\<close> raises
  for a command (\<open>FileNotFoundError\<close> or another exception, with its text).\<close>

datatype popen_error = PopenNotFound | PopenOther string

record storage_world =
  which_ok :: "string \<Rightarrow> bool"
  external_running :: bool
  launched :: nat
  popen_result :: "string \<Rightarrow> popen_error option"

definition ANALYZER_COMMANDS :: "string list" where
  "ANALYZER_COMMANDS = [''baobab'', ''gnome-disk-usage-analyzer'']"

definition init_storage :: storage_state where
  "init_storage = \<lparr>storage_status = ''Loading...'', analyzer_command = Unchecked,
     storage_idle = [CheckTool], workers = []\<rparr>"

subsection \<open>Handlers\<close>

text \<open>The loop of \<open>_check_tool_availability\<close>: the first command \<open>which\<close> finds; a
  failing or missing \<open>which\<close> moves on to the next.\<close>

fun check_commands :: "storage_world \<Rightarrow> string list \<Rightarrow> storage_state \<Rightarrow> storage_state" where
  "check_commands w [] st =
     st\<lparr>analyzer_command := NotFound,
        storage_status := ''Error: Disk Usage Analyzer (baobab) not found. Please ensure it is installed.''\<rparr>"
| "check_commands w (cmd # cmds) st =
     (if which_ok w cmd
      then st\<lparr>analyzer_command := Found cmd,
              storage_status := ''Ready to check and launch '' @ [CHR 0x27] @ cmd @ [CHR 0x27] @ ''.''\<rparr>
      else check_commands w cmds st)"

definition check_tool_availability :: "storage_world \<Rightarrow> storage_state \<Rightarrow> storage_state" where
  "check_tool_availability w st = check_commands w ANALYZER_COMMANDS st"

text \<open>\<open>_on_page_mapped\<close>: only a command that was found starts a thread.\<close>

definition on_page_mapped :: "storage_state \<Rightarrow> storage_state" where
  "on_page_mapped st =
     (case analyzer_command st of
        Found cmd \<Rightarrow>
          st\<lparr>storage_status := ''Checking if '' @ [CHR 0x27] @ cmd @ [CHR 0x27] @ '' is already open...'',
             workers := workers st @ [Started]\<rparr>
      | _ \<Rightarrow> st)"

text \<open>\<open>_is_analyzer_running\<close>: \<open>pgrep -f cmd\<close> finds the page's analyzers and any other.\<close>

definition is_analyzer_running :: "storage_world \<Rightarrow> bool" where
  "is_analyzer_running w \<longleftrightarrow> external_running w \<or> 0 < launched w"

text \<open>The thread's first step, \<open>pgrep\<close>; its second, the launch or the message.\<close>

definition worker_check :: "nat \<Rightarrow> storage_world \<Rightarrow> storage_state \<Rightarrow> storage_state" where
  "worker_check i w st =
     (if i < length (workers st) \<and> workers st ! i = Started
      then st\<lparr>workers := (workers st)[i := Checked (is_analyzer_running w)]\<rparr> else st)"

definition run_tool :: "string \<Rightarrow> storage_world \<Rightarrow> storage_world \<times> storage_idle list" where
  "run_tool cmd w =
     (case popen_result w cmd of
        None \<Rightarrow> (w\<lparr>launched := Suc (launched w)\<rparr>,
                 [SetStatus (''Launching '' @ [CHR 0x27] @ cmd @ [CHR 0x27] @ '' in external window...''),
                  SetStatus ''Opened in external application.''])
      | Some PopenNotFound \<Rightarrow>
          (w, [SetStatus (''Launching '' @ [CHR 0x27] @ cmd @ [CHR 0x27] @ '' in external window...''),
               SetStatus (''Launch Failed: Command '' @ [CHR 0x27] @ cmd @ [CHR 0x27] @ '' not found.'')])
      | Some (PopenOther e) \<Rightarrow>
          (w, [SetStatus (''Launching '' @ [CHR 0x27] @ cmd @ [CHR 0x27] @ '' in external window...''),
               SetStatus (''Launch Error: An error occurred: '' @ e)]))"

definition worker_launch ::
  "nat \<Rightarrow> storage_world \<Rightarrow> storage_state \<Rightarrow> storage_world \<times> storage_state" where
  "worker_launch i w st =
     (if i < length (workers st)
      then case (workers st ! i, analyzer_command st) of
             (Checked True, _) \<Rightarrow>
               (w, st\<lparr>workers := del_at i (workers st),
                      storage_idle := storage_idle st @
                        [SetStatus ''Disk Analyzer is already open in external application.'']\<rparr>)
           | (Checked False, Found cmd) \<Rightarrow>
               (let (w', cbs) = run_tool cmd w
                in (w', st\<lparr>workers := del_at i (workers st), storage_idle := storage_idle st @ cbs\<rparr>))
           | _ \<Rightarrow> (w, st)
      else (w, st))"

text \<open>One idle callback of the main loop; each returns a false value and runs once.\<close>

definition storage_idle_step :: "storage_world \<Rightarrow> storage_state \<Rightarrow> storage_state" where
  "storage_idle_step w st =
     (case storage_idle st of
        [] \<Rightarrow> st
      | CheckTool # cbs \<Rightarrow> check_tool_availability w (st\<lparr>storage_idle := cbs\<rparr>)
      | SetStatus s # cbs \<Rightarrow> st\<lparr>storage_idle := cbs, storage_status := s\<rparr>)"

subsection \<open>The page and its threads as one system\<close>

datatype storage_event =
    StorageIdle | PageMapped | WorkerCheck nat | WorkerLaunch nat | AnalyzerClosed

fun storage_step ::
  "storage_event \<Rightarrow> storage_world \<times> storage_state \<Rightarrow> storage_world \<times> storage_state" where
  "storage_step StorageIdle (w, st) = (w, storage_idle_step w st)"
| "storage_step PageMapped (w, st) = (w, on_page_mapped st)"
| "storage_step (WorkerCheck i) (w, st) = (w, worker_check i w st)"
| "storage_step (WorkerLaunch i) (w, st) = worker_launch i w st"
| "storage_step AnalyzerClosed (w, st) = (w\<lparr>launched := launched w - 1\<rparr>, st)"

definition run_storage ::
  "storage_event list \<Rightarrow> storage_world \<times> storage_state \<Rightarrow> storage_world \<times> storage_state" where
  "run_storage es s = fold storage_step es s"

inductive storage_reach :: "storage_world \<Rightarrow> storage_world \<times> storage_state \<Rightarrow> bool" for w0 where
  init: "storage_reach w0 (w0, init_storage)"
| step: "storage_reach w0 s \<Longrightarrow> storage_reach w0 (storage_step e s)"

text \<open>The availability check is pending exactly until it has run, and a thread runs only
  with a command found.\<close>

definition storage_inv :: "storage_state \<Rightarrow> bool" where
  "storage_inv st \<longleftrightarrow>
     (analyzer_command st = Unchecked \<longrightarrow> storage_idle st = [CheckTool] \<and> workers st = []) \<and>
     (analyzer_command st \<noteq> Unchecked \<longrightarrow> CheckTool \<notin> set (storage_idle st)) \<and>
     (workers st \<noteq> [] \<longrightarrow> (\<exists>c. analyzer_command st = Found c))"

subsection \<open>Lemmas\<close>

lemma check_commands_find:
  "analyzer_command (check_commands w cmds st) =
     (case find (which_ok w) cmds of Some c \<Rightarrow> Found c | None \<Rightarrow> NotFound)"
  by (induction cmds) simp_all

lemma check_commands_frame [simp]:
  "workers (check_commands w cmds st) = workers st"
  "storage_idle (check_commands w cmds st) = storage_idle st"
  by (induction cmds) simp_all

lemma check_commands_not_unchecked: "analyzer_command (check_commands w cmds st) \<noteq> Unchecked"
  by (induction cmds) simp_all

lemma storage_inv_init: "storage_inv init_storage"
  by (simp add: storage_inv_def init_storage_def)

lemma storage_inv_idle: "storage_inv st \<Longrightarrow> storage_inv (storage_idle_step w st)"
  by (auto simp: storage_inv_def storage_idle_step_def check_tool_availability_def
      check_commands_not_unchecked split: list.split storage_idle.split)

lemma storage_inv_mapped: "storage_inv st \<Longrightarrow> storage_inv (on_page_mapped st)"
  by (auto simp: storage_inv_def on_page_mapped_def split: analyzer.split)

lemma storage_inv_check: "storage_inv st \<Longrightarrow> storage_inv (worker_check i w st)"
  by (auto simp: storage_inv_def worker_check_def)

lemma storage_inv_launch: "storage_inv st \<Longrightarrow> storage_inv (snd (worker_launch i w st))"
  by (auto simp: storage_inv_def worker_launch_def run_tool_def split: worker.split analyzer.split
      bool.split option.split popen_error.split)

lemma storage_reach_inv: "storage_reach w0 s \<Longrightarrow> storage_inv (snd s)"
proof (induction rule: storage_reach.induct)
  case init
  then show ?case by (simp add: storage_inv_init)
next
  case (step s e)
  obtain w st where s: "s = (w, st)" by (cases s)
  show ?case using step.IH unfolding s
    by (cases e) (simp_all add: storage_inv_idle storage_inv_mapped storage_inv_check storage_inv_launch)
qed

lemma storage_launch_flow:
  assumes "analyzer_command st = Found cmd" and "workers st = []" and "storage_idle st = []"
    and "popen_result w cmd = None"
  shows "run_storage [PageMapped, WorkerCheck 0, WorkerLaunch 0, StorageIdle, StorageIdle] (w, st) =
    (if is_analyzer_running w
     then (w, st\<lparr>storage_status := ''Disk Analyzer is already open in external application.''\<rparr>)
     else (w\<lparr>launched := Suc (launched w)\<rparr>, st\<lparr>storage_status := ''Opened in external application.''\<rparr>))"
  using assms
  by (simp add: run_storage_def on_page_mapped_def worker_check_def worker_launch_def run_tool_def
      storage_idle_step_def del_at_def)

subsection \<open>Properties of the storage page\<close>

text \<open>C28: the availability check settles on the first command of
  \<open>ANALYZER_COMMANDS\<close> that \<open>which\<close> finds, and on \<open>False\<close> when it finds none: the loop
  with its \<open>continue\<close> on either exception is \<open>find\<close>.\<close>

theorem check_tool_first_found:
  "analyzer_command (check_tool_availability w st) =
     (case find (which_ok w) ANALYZER_COMMANDS of Some c \<Rightarrow> Found c | None \<Rightarrow> NotFound)"
  unfolding check_tool_availability_def by (rule check_commands_find)

text \<open>C27: showing the page once, with the analyzer found and a
  successful \<open>Popen\<close>, ends after the thread's two steps and the two idle callbacks with
  one more analyzer and the label \<open>Opened in external application.\<close> when none was
  running, and with no launch and the label \<open>Disk Analyzer is already open ...\<close> when one
  was.\<close>

theorem storage_launch_once:
  assumes "analyzer_command st = Found cmd" and "workers st = []" and "storage_idle st = []"
    and "popen_result w cmd = None"
  shows "run_storage [PageMapped, WorkerCheck 0, WorkerLaunch 0, StorageIdle, StorageIdle] (w, st) =
    (if is_analyzer_running w
     then (w, st\<lparr>storage_status := ''Disk Analyzer is already open in external application.''\<rparr>)
     else (w\<lparr>launched := Suc (launched w)\<rparr>, st\<lparr>storage_status := ''Opened in external application.''\<rparr>))"
  using assms by (rule storage_launch_flow)

theorem storage_launch_once_witness:
  "analyzer_command (init_storage\<lparr>analyzer_command := Found ''baobab'', storage_idle := []\<rparr>) = Found ''baobab'' \<and>
   workers (init_storage\<lparr>analyzer_command := Found ''baobab'', storage_idle := []\<rparr>) = [] \<and>
   storage_idle (init_storage\<lparr>analyzer_command := Found ''baobab'', storage_idle := []\<rparr>) = [] \<and>
   popen_result \<lparr>which_ok = (\<lambda>_. True), external_running = False, launched = 0, popen_result = (\<lambda>_. None)\<rparr>
     ''baobab'' = None \<and>
   run_storage [PageMapped, WorkerCheck 0, WorkerLaunch 0, StorageIdle, StorageIdle]
     (\<lparr>which_ok = (\<lambda>_. True), external_running = False, launched = 0, popen_result = (\<lambda>_. None)\<rparr>,
      init_storage\<lparr>analyzer_command := Found ''baobab'', storage_idle := []\<rparr>) =
   (\<lparr>which_ok = (\<lambda>_. True), external_running = False, launched = 1, popen_result = (\<lambda>_. None)\<rparr>,
    init_storage\<lparr>analyzer_command := Found ''baobab'', storage_idle := [],
      storage_status := ''Opened in external application.''\<rparr>)"
  using storage_launch_once [of "init_storage\<lparr>analyzer_command := Found ''baobab'', storage_idle := []\<rparr>" "''baobab''"
      "\<lparr>which_ok = (\<lambda>_. True), external_running = False, launched = 0, popen_result = (\<lambda>_. None)\<rparr>"]
  by (simp add: init_storage_def is_analyzer_running_def)


text \<open>In every state the page and its threads can
  reach, a launch thread exists only when the availability check has found a command, and
  that check runs exactly once, before any thread: it is pending while the command is
  unknown and never again afterwards.\<close>

theorem storage_threads_after_check:
  assumes "storage_reach w0 (w, st)"
  shows "(workers st \<noteq> [] \<longrightarrow> (\<exists>c. analyzer_command st = Found c)) \<and>
    (analyzer_command st = Unchecked \<longrightarrow> storage_idle st = [CheckTool]) \<and>
    (analyzer_command st \<noteq> Unchecked \<longrightarrow> CheckTool \<notin> set (storage_idle st))"
  using storage_reach_inv [OF assms] by (simp add: storage_inv_def)

theorem storage_threads_after_check_witness:
  "storage_reach \<lparr>which_ok = (\<lambda>c. c = ''baobab''), external_running = False, launched = 0,
       popen_result = (\<lambda>_. None)\<rparr>
     (storage_step PageMapped (storage_step StorageIdle (\<lparr>which_ok = (\<lambda>c. c = ''baobab''),
       external_running = False, launched = 0, popen_result = (\<lambda>_. None)\<rparr>, init_storage))) \<and>
   workers (snd (storage_step PageMapped (storage_step StorageIdle (\<lparr>which_ok = (\<lambda>c. c = ''baobab''),
       external_running = False, launched = 0, popen_result = (\<lambda>_. None)\<rparr>, init_storage)))) \<noteq> [] \<and>
   (\<exists>c. analyzer_command (snd (storage_step PageMapped (storage_step StorageIdle (\<lparr>which_ok = (\<lambda>c. c = ''baobab''),
       external_running = False, launched = 0, popen_result = (\<lambda>_. None)\<rparr>, init_storage)))) = Found c)"
proof -
  let ?w = "\<lparr>which_ok = (\<lambda>c. c = ''baobab''), external_running = False, launched = 0,
       popen_result = (\<lambda>_. None)\<rparr>"
  let ?s = "storage_step PageMapped (storage_step StorageIdle (?w, init_storage))"
  have r: "storage_reach ?w ?s" by (intro storage_reach.step storage_reach.init)
  obtain w st where s: "?s = (w, st)" by (cases ?s)
  have "workers st \<noteq> []" using s
    by (auto simp: init_storage_def storage_idle_step_def check_tool_availability_def ANALYZER_COMMANDS_def
        on_page_mapped_def)
  moreover from r have "workers st \<noteq> [] \<longrightarrow> (\<exists>c. analyzer_command st = Found c)"
    unfolding s by (rule storage_threads_after_check [THEN conjunct1])
  ultimately have "workers st \<noteq> [] \<and> (\<exists>c. analyzer_command st = Found c)" by blast
  then show ?thesis using r unfolding s by simp
qed

end
