(* ===== verification/Resources.thy ===== *)
theory Resources
  imports Helpers
begin

text \<open>
  The resource monitor of src/pages/resources.py (class \<open>ResourcesPage\<close>): the metric
  keys fixed at construction, the per-metric history that \<open>update_resources\<close> extends
  every second and cuts to the last \<open>max_history\<close> samples, the network counters turned
  into MB/s, the peak-hold scale of the network sparkline, and the label texts. One
  psutil reading per tick is a parameter record. Python floats are exact rationals here:
  the theorems below are about the windows, the keys and the order of the values, and
  none depends on how a float rounds (\<open>1.2\<close> is written \<open>6/5\<close>). The cairo drawing reads
  this state and is not modelled.
\<close>

subsection \<open>Formatting\<close>

text \<open>\<open>f"{x:.Nf}"\<close>: round \<open>|x|\<close> to \<open>N\<close> decimals (ties to even), keep the sign of a
  negative value even when it rounds to zero.\<close>

definition fmt_fixed :: "nat \<Rightarrow> rat \<Rightarrow> string" where
  "fmt_fixed d x =
     (let q = nat (round_half_even (\<bar>x\<bar> * 10 ^ d));
          f = dec_string (q mod 10 ^ d);
          digits = dec_string (q div 10 ^ d) @
                   (if d = 0 then [] else ''.'' @ replicate (d - length f) CHR ''0'' @ f)
      in if x < 0 then ''-'' @ digits else digits)"

definition card_markup :: "string \<Rightarrow> string" where
  "card_markup s =
     ''<span font_desc='' @ [CHR 0x27] @ ''Sans 28'' @ [CHR 0x27] @ ''><b>'' @ s @ ''</b></span>''"

subsection \<open>State\<close>

definition max_history :: nat where
  "max_history = 120"

definition core_key :: "nat \<Rightarrow> string" where
  "core_key i = ''CPU Core '' @ dec_string (Suc i)"

definition disk_key :: "string \<Rightarrow> string" where
  "disk_key mount = ''Disk '' @ mount"

record resources_state =
  metrics :: "string list"
  metric_history :: "string \<Rightarrow> rat list option"
  max_for_metric :: "string \<Rightarrow> rat option"
  last_bytes_sent :: int
  last_bytes_recv :: int
  disk_partitions :: "string list"
  summary_labels :: "string \<Rightarrow> string option"
  core_labels :: "string list"

text \<open>\<open>__init__\<close> with \<open>cpu_count(logical=True)\<close>, the mount points of
  \<open>disk_partitions(all=False)\<close> and the counters of \<open>net_io_counters()\<close>.\<close>

definition root_mount :: "string list \<Rightarrow> string" where
  "root_mount parts = (case parts of [] \<Rightarrow> ''/'' | m # _ \<Rightarrow> m)"

definition init_resources :: "nat \<Rightarrow> string list \<Rightarrow> int \<Rightarrow> int \<Rightarrow> resources_state" where
  "init_resources cpu_count parts sent recv =
     (let ms = ''CPU Total'' # map core_key [0..<cpu_count] @ [''RAM''] @ [disk_key (root_mount parts)] @
               [''Network Sent'', ''Network Recv'']
      in \<lparr>metrics = ms,
          metric_history = map_of (map (\<lambda>m. (m, [])) ms),
          max_for_metric = (map_of [(m, 100). m \<leftarrow> ms, \<not> sublist ''Network'' m])
                             (''Network Sent'' \<mapsto> 1, ''Network Recv'' \<mapsto> 1),
          last_bytes_sent = sent, last_bytes_recv = recv, disk_partitions = parts,
          summary_labels = [''CPU Total'' \<mapsto> card_markup ''0%'', ''RAM'' \<mapsto> card_markup ''0%'',
                            disk_key (root_mount parts) \<mapsto> card_markup ''0%'',
                            ''Network Sent'' \<mapsto> card_markup ''0%''],
          core_labels = map (\<lambda>i. ''Core '' @ dec_string (Suc i) @ '': 0.0%'') [0..<cpu_count]\<rparr>)"

text \<open>One tick's readings; \<open>None\<close> where psutil raises.\<close>

record psutil_reading =
  cpu_percpu :: "rat list option"
  cpu_count_now :: "nat option"
  ram_percent :: "rat option"
  disk_percent :: "string \<Rightarrow> rat option"
  bytes_sent :: int
  bytes_recv :: int

subsection \<open>The update\<close>

text \<open>\<open>h.setdefault(key, []).append(v)\<close>, then \<open>h[key] = h[key][-max_history:]\<close>.\<close>

definition push_history :: "string \<Rightarrow> rat \<Rightarrow> resources_state \<Rightarrow> resources_state" where
  "push_history key v st =
     (let xs = (case metric_history st key of None \<Rightarrow> [] | Some xs \<Rightarrow> xs) @ [v]
      in st\<lparr>metric_history := (metric_history st)(key \<mapsto> drop (length xs - max_history) xs)\<rparr>)"

definition set_summary :: "string \<Rightarrow> string \<Rightarrow> resources_state \<Rightarrow> resources_state" where
  "set_summary key text st =
     (if summary_labels st key = None then st
      else st\<lparr>summary_labels := (summary_labels st)(key \<mapsto> card_markup text)\<rparr>)"

text \<open>\<open>get_metric_values\<close> for a network metric: the MB/s since the last reading, the
  counter kept, and the scale raised to 1.2 times a speed above it.\<close>

definition network_value ::
  "string \<Rightarrow> int \<Rightarrow> resources_state \<Rightarrow> rat \<times> resources_state" where
  "network_value metric current st =
     (let sent = (metric = ''Network Sent'');
          delta = current - (if sent then last_bytes_sent st else last_bytes_recv st);
          st1 = (if sent then st\<lparr>last_bytes_sent := current\<rparr> else st\<lparr>last_bytes_recv := current\<rparr>);
          speed = of_int delta / 1024 / 1024
      in case max_for_metric st1 metric of
           None \<Rightarrow> (speed, st1)
         | Some m \<Rightarrow>
             (speed, if speed > m then st1\<lparr>max_for_metric := (max_for_metric st1)(metric \<mapsto> speed * 6 / 5)\<rparr>
                     else st1))"

text \<open>The loop over the cores: history and, for the cores that have a widget, the label.\<close>

definition core_update :: "nat \<times> rat \<Rightarrow> resources_state \<Rightarrow> resources_state" where
  "core_update ip st =
     (let (i, p) = ip; st1 = push_history (core_key i) p st
      in if i < length (core_labels st1)
         then st1\<lparr>core_labels := (core_labels st1)[i := ''Core '' @ dec_string (Suc i) @ '': '' @ fmt_fixed 1 p @ ''%'']\<rparr>
         else st1)"

definition cpu_values :: "psutil_reading \<Rightarrow> rat list" where
  "cpu_values r =
     (case cpu_percpu r of
        Some ps \<Rightarrow> ps
      | None \<Rightarrow> replicate (case cpu_count_now r of Some n \<Rightarrow> if n = 0 then 1 else n | None \<Rightarrow> 1) 0)"

definition cpu_total :: "rat list \<Rightarrow> rat" where
  "cpu_total ps = sum_list ps / of_nat (max 1 (length ps))"

text \<open>\<open>update_resources\<close> up to the disk card.\<close>

definition update_local :: "psutil_reading \<Rightarrow> resources_state \<Rightarrow> resources_state" where
  "update_local r st =
     (let ps = cpu_values r;
          total = cpu_total ps;
          st1 = set_summary ''CPU Total'' (fmt_fixed 0 total @ ''%'') (push_history ''CPU Total'' total st);
          st2 = fold core_update (List.enumerate 0 ps) st1;
          ram = (case ram_percent r of Some v \<Rightarrow> v | None \<Rightarrow> 0);
          st3 = set_summary ''RAM'' (fmt_fixed 0 ram @ ''%'') (push_history ''RAM'' ram st2);
          root = root_mount (disk_partitions st3);
          usage = (case disk_percent r root of Some v \<Rightarrow> v | None \<Rightarrow> 0)
      in set_summary (disk_key root) (fmt_fixed 0 usage @ ''%'') (push_history (disk_key root) usage st3))"

text \<open>The network part: both speeds read, then both histories extended.\<close>

definition update_network :: "psutil_reading \<Rightarrow> resources_state \<Rightarrow> resources_state" where
  "update_network r st =
     (let (sent, st5) = network_value ''Network Sent'' (bytes_sent r) st;
          (recv, st6) = network_value ''Network Recv'' (bytes_recv r) st5;
          st7 = push_history ''Network Recv'' recv (push_history ''Network Sent'' sent st6)
      in set_summary ''Network Sent'' (fmt_fixed 2 sent @ '' MB/s'') st7)"

definition update_resources :: "psutil_reading \<Rightarrow> resources_state \<Rightarrow> resources_state" where
  "update_resources r st = update_network r (update_local r st)"

text \<open>The one-second timer: \<open>update_resources\<close> returns \<open>True\<close>, so it runs on every tick.\<close>

definition run_ticks :: "psutil_reading list \<Rightarrow> resources_state \<Rightarrow> resources_state" where
  "run_ticks rs st = fold update_resources rs st"

text \<open>The window of the network sparkline fits its scale: every value is at most the
  scale, which stays positive.\<close>

definition fits_with :: "string \<Rightarrow> rat \<Rightarrow> resources_state \<Rightarrow> bool" where
  "fits_with k v st =
     (case (metric_history st k, max_for_metric st k) of
        (Some xs, Some m) \<Rightarrow> 0 < m \<and> list_all (\<lambda>x. x \<le> m) (xs @ [v])
      | _ \<Rightarrow> False)"

definition fits_scale :: "string \<Rightarrow> resources_state \<Rightarrow> bool" where
  "fits_scale k st =
     (case (metric_history st k, max_for_metric st k) of
        (Some xs, Some m) \<Rightarrow> 0 < m \<and> list_all (\<lambda>v. v \<le> m) xs
      | _ \<Rightarrow> False)"

text \<open>Well-formedness of the page state: every metric of the page has a history of at
  most \<open>max_history\<close> values, and its scale, where it has one, is positive (a metric
  whose name contains \<open>Network\<close> other than the two network metrics, such as the disk
  of a mount point \<open>/mnt/Network\<close>, has none, and the draw function falls back to 100).\<close>

definition resources_wf :: "resources_state \<Rightarrow> bool" where
  "resources_wf st \<longleftrightarrow>
     list_all (\<lambda>k. (case metric_history st k of None \<Rightarrow> False | Some xs \<Rightarrow> length xs \<le> max_history) \<and>
                    (case max_for_metric st k of None \<Rightarrow> True | Some m \<Rightarrow> 0 < m))
       (metrics st)"

text \<open>How one step of the update may change the state: the metrics stay, a history
  is kept or replaced by one of at most \<open>max_history\<close> values and never removed, and a
  scale is only changed to a positive one where it was positive.\<close>

definition grows :: "resources_state \<Rightarrow> resources_state \<Rightarrow> bool" where
  "grows st st' \<longleftrightarrow>
     metrics st' = metrics st \<and>
     (\<forall>k ys. metric_history st' k = Some ys \<longrightarrow> length ys \<le> max_history \<or> metric_history st k = Some ys) \<and>
     (\<forall>k. metric_history st k \<noteq> None \<longrightarrow> metric_history st' k \<noteq> None) \<and>
     (\<forall>k m'. max_for_metric st' k = Some m' \<longrightarrow> (\<exists>m. max_for_metric st k = Some m \<and> (0 < m \<longrightarrow> 0 < m')))"

subsection \<open>Lemmas: windows\<close>

lemma window_append:
  "drop (length (drop (length ys - n) ys @ zs) - n) (drop (length ys - n) ys @ zs) =
   drop (length (ys @ zs) - n) (ys @ zs)"
proof -
  have "drop (length ys - n) ys @ zs = drop (length ys - n) (ys @ zs)" by simp
  moreover have "length ys - (length ys - n) + length zs - n + (length ys - n) = length ys + length zs - n"
    by arith
  ultimately show ?thesis by simp
qed

lemma push_history_same:
  "metric_history (push_history k v st) k =
     Some (drop (length ((case metric_history st k of None \<Rightarrow> [] | Some xs \<Rightarrow> xs) @ [v]) - max_history)
                ((case metric_history st k of None \<Rightarrow> [] | Some xs \<Rightarrow> xs) @ [v]))"
  by (simp add: push_history_def Let_def)

lemma push_history_other [simp]:
  "k' \<noteq> k \<Longrightarrow> metric_history (push_history k v st) k' = metric_history st k'"
  by (simp add: push_history_def Let_def)

lemma push_history_frame [simp]:
  "max_for_metric (push_history k v st) = max_for_metric st"
  "core_labels (push_history k v st) = core_labels st"
  "disk_partitions (push_history k v st) = disk_partitions st"
  "summary_labels (push_history k v st) = summary_labels st"
  by (simp_all add: push_history_def Let_def)

lemma set_summary_frame [simp]:
  "metric_history (set_summary k t st) = metric_history st"
  "max_for_metric (set_summary k t st) = max_for_metric st"
  "disk_partitions (set_summary k t st) = disk_partitions st"
  by (simp_all add: set_summary_def)

lemma network_value_frame [simp]:
  "metric_history (snd (network_value k c st)) = metric_history st"
  "disk_partitions (snd (network_value k c st)) = disk_partitions st"
  by (simp_all add: network_value_def Let_def split: option.split)

lemma network_value_other [simp]:
  "k' \<noteq> k \<Longrightarrow> max_for_metric (snd (network_value k c st)) k' = max_for_metric st k'"
  by (auto simp: network_value_def Let_def split: option.split)

lemma core_update_frame [simp]:
  "max_for_metric (core_update ip st) = max_for_metric st"
  "disk_partitions (core_update ip st) = disk_partitions st"
  by (simp_all add: core_update_def Let_def split: prod.split)

lemma core_key_neq [simp]:
  "core_key i \<noteq> ''CPU Total''" "core_key i \<noteq> ''RAM''"
  "core_key i \<noteq> ''Network Sent''" "core_key i \<noteq> ''Network Recv''"
  "''CPU Total'' \<noteq> core_key i" "''RAM'' \<noteq> core_key i"
  "''Network Sent'' \<noteq> core_key i" "''Network Recv'' \<noteq> core_key i"
  by (simp_all add: core_key_def)

lemma disk_key_neq [simp]:
  "disk_key m \<noteq> ''CPU Total''" "disk_key m \<noteq> ''RAM''"
  "disk_key m \<noteq> ''Network Sent''" "disk_key m \<noteq> ''Network Recv''"
  "''CPU Total'' \<noteq> disk_key m" "''RAM'' \<noteq> disk_key m"
  "''Network Sent'' \<noteq> disk_key m" "''Network Recv'' \<noteq> disk_key m"
  by (simp_all add: disk_key_def)

lemma fold_core_update_other:
  "(\<And>i. k \<noteq> core_key i) \<Longrightarrow> metric_history (fold core_update ips st) k = metric_history st k"
  by (induction ips arbitrary: st) (simp_all add: core_update_def Let_def split: prod.split)

lemma fold_core_update_frame [simp]:
  "max_for_metric (fold core_update ips st) = max_for_metric st"
  "disk_partitions (fold core_update ips st) = disk_partitions st"
  by (induction ips arbitrary: st) simp_all

lemma network_value_parts:
  assumes "network_value k c st = (v, st')"
  shows "metric_history st' = metric_history st" "disk_partitions st' = disk_partitions st"
    "\<And>k'. k' \<noteq> k \<Longrightarrow> max_for_metric st' k' = max_for_metric st k'"
  using network_value_frame [of k c st] network_value_other [of _ k c st] assms by simp_all

lemma map_of_const: "x \<in> set ms \<Longrightarrow> map_of (map (\<lambda>m. (m, c)) ms) x = Some c"
  by (induction ms) auto

lemma update_network_other:
  "k \<noteq> ''Network Sent'' \<Longrightarrow> k \<noteq> ''Network Recv'' \<Longrightarrow>
   metric_history (update_network r st) k = metric_history st k"
  by (auto simp: update_network_def Let_def dest!: network_value_parts(1) split: prod.split)

lemma update_resources_total:
  "metric_history (update_resources r st) ''CPU Total'' =
   metric_history (push_history ''CPU Total'' (cpu_total (cpu_values r)) st) ''CPU Total''"
  by (simp add: update_resources_def update_network_other update_local_def Let_def fold_core_update_other)

lemma update_resources_ram:
  "metric_history (update_resources r st) ''RAM'' =
   metric_history (push_history ''RAM'' (case ram_percent r of Some v \<Rightarrow> v | None \<Rightarrow> 0) st) ''RAM''"
  by (simp add: update_resources_def update_network_other update_local_def Let_def fold_core_update_other
      push_history_same)

lemma run_ticks_window:
  assumes "metric_history st k = Some xs" and "length xs \<le> max_history"
    and "\<And>r st. metric_history (update_resources r st) k =
                 metric_history (push_history k (f r) st) k"
  shows "metric_history (run_ticks rs st) k = Some (drop (length (xs @ map f rs) - max_history) (xs @ map f rs))"
  using assms(1,2)
proof (induction rs arbitrary: st xs)
  case Nil
  then show ?case by (simp add: run_ticks_def)
next
  case (Cons r rs)
  have "metric_history (update_resources r st) k = Some (drop (length (xs @ [f r]) - max_history) (xs @ [f r]))"
    using Cons.prems by (simp add: assms(3) push_history_same)
  moreover have "length (drop (length (xs @ [f r]) - max_history) (xs @ [f r])) \<le> max_history" by simp
  ultimately have "metric_history (run_ticks rs (update_resources r st)) k =
      Some (drop (length (drop (length (xs @ [f r]) - max_history) (xs @ [f r]) @ map f rs) - max_history)
                 (drop (length (xs @ [f r]) - max_history) (xs @ [f r]) @ map f rs))"
    by (rule Cons.IH)
  then show ?case
    using window_append [of "xs @ [f r]" max_history "map f rs"] by (simp add: run_ticks_def)
qed

subsection \<open>Lemmas: the network scale\<close>

lemma fits_cong:
  assumes "metric_history st' k = metric_history st k" and "max_for_metric st' k = max_for_metric st k"
  shows "fits_scale k st' = fits_scale k st" "fits_with k v st' = fits_with k v st"
  using assms by (simp_all add: fits_scale_def fits_with_def)

lemma network_value_max:
  "max_for_metric (snd (network_value k c st)) k =
     (case max_for_metric st k of
        None \<Rightarrow> None
      | Some m \<Rightarrow> Some (if fst (network_value k c st) > m then fst (network_value k c st) * 6 / 5 else m))"
  by (auto simp: network_value_def Let_def split: option.split if_splits)

lemma network_value_fits:
  assumes "fits_scale k st" and "network_value k c st = (v, st')"
  shows "fits_with k v st'"
proof -
  obtain xs m where h: "metric_history st k = Some xs" and mk: "max_for_metric st k = Some m"
    and pos: "0 < m" and all: "list_all (\<lambda>x. x \<le> m) xs"
    using assms(1) by (auto simp: fits_scale_def split: option.splits)
  have hist: "metric_history st' k = Some xs" using network_value_parts(1) [OF assms(2)] h by simp
  have mx: "max_for_metric st' k = Some (if v > m then v * 6 / 5 else m)"
    using network_value_max [of k c st] assms(2) mk by simp
  show ?thesis
  proof (cases "v > m")
    case True
    then have "max_for_metric st' k = Some (v * 6 / 5)" and "0 < v"
      using mx pos by simp_all
    moreover have "list_all (\<lambda>x. x \<le> v * 6 / 5) (xs @ [v])"
      using all True \<open>0 < v\<close> by (auto simp: list_all_iff)
    ultimately show ?thesis using hist by (simp add: fits_with_def)
  next
    case False
    then have "max_for_metric st' k = Some m"
      using mx by simp
    with hist pos all False show ?thesis by (simp add: fits_with_def)
  qed
qed

lemma push_fits: "fits_with k v st \<Longrightarrow> fits_scale k (push_history k v st)"
  by (auto simp: fits_with_def fits_scale_def push_history_same list_all_iff dest: in_set_dropD
      split: option.splits)

lemma set_summary_fits: "fits_scale k (set_summary k' t st) = fits_scale k st"
  by (simp add: fits_scale_def)

lemma push_other_fits:
  "k' \<noteq> k \<Longrightarrow> fits_scale k (push_history k' v st) = fits_scale k st"
  "k' \<noteq> k \<Longrightarrow> fits_with k w (push_history k' v st) = fits_with k w st"
  by (simp_all add: fits_scale_def fits_with_def)

lemma update_local_fits:
  assumes "k = ''Network Sent'' \<or> k = ''Network Recv''"
  shows "fits_scale k (update_local r st) = fits_scale k st"
proof (rule fits_cong(1))
  show "metric_history (update_local r st) k = metric_history st k"
    using assms by (auto simp: update_local_def Let_def fold_core_update_other)
  show "max_for_metric (update_local r st) k = max_for_metric st k"
    by (simp add: update_local_def Let_def)
qed

lemma update_network_fits:
  assumes "fits_scale k st" and "k = ''Network Sent'' \<or> k = ''Network Recv''"
  shows "fits_scale k (update_network r st)"
proof -
  obtain sent st5 where n1: "network_value ''Network Sent'' (bytes_sent r) st = (sent, st5)"
    by (cases "network_value ''Network Sent'' (bytes_sent r) st")
  obtain recv st6 where n2: "network_value ''Network Recv'' (bytes_recv r) st5 = (recv, st6)"
    by (cases "network_value ''Network Recv'' (bytes_recv r) st5")
  have u: "update_network r st = set_summary ''Network Sent'' (fmt_fixed 2 sent @ '' MB/s'')
      (push_history ''Network Recv'' recv (push_history ''Network Sent'' sent st6))"
    by (simp add: update_network_def n1 n2)
  from assms(2) show ?thesis
  proof
    assume k: "k = ''Network Sent''"
    have "fits_with k sent st5" using assms(1) n1 unfolding k by (rule network_value_fits)
    moreover have "fits_with k sent st6 = fits_with k sent st5"
      using network_value_parts [OF n2] k by (intro fits_cong(2)) simp_all
    ultimately have "fits_scale k (push_history k sent st6)" by (simp add: push_fits)
    then show ?thesis unfolding u k by (simp add: set_summary_fits push_other_fits)
  next
    assume k: "k = ''Network Recv''"
    have "fits_scale k st5 = fits_scale k st"
      using network_value_parts [OF n1] k by (intro fits_cong(1)) simp_all
    with assms(1) have "fits_with k recv st6" using n2 unfolding k by (simp add: network_value_fits)
    then have "fits_with k recv (push_history ''Network Sent'' sent st6)" using k by (simp add: push_other_fits)
    then have "fits_scale k (push_history k recv (push_history ''Network Sent'' sent st6))" by (rule push_fits)
    then show ?thesis unfolding u k by (simp add: set_summary_fits)
  qed
qed

lemma run_ticks_fits:
  "fits_scale k st \<Longrightarrow> k = ''Network Sent'' \<or> k = ''Network Recv'' \<Longrightarrow> fits_scale k (run_ticks rs st)"
  by (induction rs arbitrary: st)
    (simp_all add: run_ticks_def update_resources_def update_local_fits update_network_fits)

lemma map_of_core_other:
  "(\<And>i. k \<noteq> core_key i) \<Longrightarrow> map_of (map ((\<lambda>m. (m, c)) \<circ> core_key) is) k = None"
  by (induction "is") auto

lemma init_resources_history:
  "metric_history (init_resources n parts s0 r0) ''CPU Total'' = Some []"
  "metric_history (init_resources n parts s0 r0) ''RAM'' = Some []"
  "metric_history (init_resources n parts s0 r0) ''Network Sent'' = Some []"
  "metric_history (init_resources n parts s0 r0) ''Network Recv'' = Some []"
  by (simp_all add: init_resources_def map_of_const map_add_def map_of_core_other)

subsection \<open>Properties of the resource monitor\<close>

text \<open>C29: after any sequence of one-second ticks, the CPU and RAM
  histories the sparklines draw are exactly the last \<open>max_history\<close> (120) values of the
  whole sequence of readings: the average over the cores (zeros when psutil raises) and
  the RAM percentage (0 when psutil raises). The append-then-slice of the code refines
  the unbounded trace cut to its last two minutes.\<close>

theorem history_last_samples:
  "metric_history (run_ticks rs (init_resources n parts s0 r0)) ''CPU Total'' =
     Some (drop (length rs - max_history) (map (\<lambda>r. cpu_total (cpu_values r)) rs)) \<and>
   metric_history (run_ticks rs (init_resources n parts s0 r0)) ''RAM'' =
     Some (drop (length rs - max_history) (map (\<lambda>r. case ram_percent r of Some v \<Rightarrow> v | None \<Rightarrow> 0) rs))"
proof
  show "metric_history (run_ticks rs (init_resources n parts s0 r0)) ''CPU Total'' =
      Some (drop (length rs - max_history) (map (\<lambda>r. cpu_total (cpu_values r)) rs))"
    using run_ticks_window [OF init_resources_history(1), of "\<lambda>r. cpu_total (cpu_values r)" rs]
    by (simp add: update_resources_total)
  show "metric_history (run_ticks rs (init_resources n parts s0 r0)) ''RAM'' =
      Some (drop (length rs - max_history) (map (\<lambda>r. case ram_percent r of Some v \<Rightarrow> v | None \<Rightarrow> 0) rs))"
    using run_ticks_window [OF init_resources_history(2), of "\<lambda>r. case ram_percent r of Some v \<Rightarrow> v | None \<Rightarrow> 0" rs]
    by (simp add: update_resources_ram)
qed

text \<open>C30: after any sequence of ticks, every speed in the sent
  and received windows is at most the scale \<open>max_for_metric\<close> of its sparkline, and the
  scale is positive: raising the scale to 1.2 times a speed above it keeps the network
  card from clipping.\<close>

theorem network_sparkline_fits:
  "fits_scale ''Network Sent'' (run_ticks rs (init_resources n parts s0 r0)) \<and>
   fits_scale ''Network Recv'' (run_ticks rs (init_resources n parts s0 r0))"
proof -
  have "fits_scale ''Network Sent'' (init_resources n parts s0 r0)"
    "fits_scale ''Network Recv'' (init_resources n parts s0 r0)"
    by (simp_all add: fits_scale_def init_resources_history) (simp_all add: init_resources_def)
  then show ?thesis by (simp add: run_ticks_fits)
qed

subsection \<open>Lemmas: the network counters\<close>

lemma last_bytes_frame [simp]:
  "last_bytes_sent (push_history k v st) = last_bytes_sent st"
  "last_bytes_recv (push_history k v st) = last_bytes_recv st"
  "last_bytes_sent (set_summary k t st) = last_bytes_sent st"
  "last_bytes_recv (set_summary k t st) = last_bytes_recv st"
  "last_bytes_sent (core_update ip st) = last_bytes_sent st"
  "last_bytes_recv (core_update ip st) = last_bytes_recv st"
  by (simp_all add: push_history_def set_summary_def core_update_def Let_def split: prod.split)

lemma last_bytes_fold_core [simp]:
  "last_bytes_sent (fold core_update ips st) = last_bytes_sent st"
  "last_bytes_recv (fold core_update ips st) = last_bytes_recv st"
  by (induction ips arbitrary: st) simp_all

lemma last_bytes_update_local [simp]:
  "last_bytes_sent (update_local r st) = last_bytes_sent st"
  "last_bytes_recv (update_local r st) = last_bytes_recv st"
  by (simp_all add: update_local_def Let_def)

lemma update_local_network [simp]:
  "metric_history (update_local r st) ''Network Sent'' = metric_history st ''Network Sent''"
  "metric_history (update_local r st) ''Network Recv'' = metric_history st ''Network Recv''"
  by (simp_all add: update_local_def Let_def fold_core_update_other)

lemma network_value_speed:
  "fst (network_value ''Network Sent'' c st) = of_int (c - last_bytes_sent st) / 1024 / 1024"
  "fst (network_value ''Network Recv'' c st) = of_int (c - last_bytes_recv st) / 1024 / 1024"
  "last_bytes_sent (snd (network_value ''Network Sent'' c st)) = c"
  "last_bytes_recv (snd (network_value ''Network Sent'' c st)) = last_bytes_recv st"
  "last_bytes_sent (snd (network_value ''Network Recv'' c st)) = last_bytes_sent st"
  "last_bytes_recv (snd (network_value ''Network Recv'' c st)) = c"
  by (simp_all add: network_value_def Let_def split: option.split)

lemma update_network_counters:
  "metric_history (update_network r st) ''Network Sent'' =
     metric_history (push_history ''Network Sent'' (fst (network_value ''Network Sent'' (bytes_sent r) st)) st)
       ''Network Sent''"
  "metric_history (update_network r st) ''Network Recv'' =
     metric_history (push_history ''Network Recv'' (fst (network_value ''Network Recv'' (bytes_recv r) st)) st)
       ''Network Recv''"
  "last_bytes_sent (update_network r st) = bytes_sent r"
  "last_bytes_recv (update_network r st) = bytes_recv r"
proof -
  obtain sent st5 where a: "network_value ''Network Sent'' (bytes_sent r) st = (sent, st5)"
    by (cases "network_value ''Network Sent'' (bytes_sent r) st")
  obtain recv st6 where b: "network_value ''Network Recv'' (bytes_recv r) st5 = (recv, st6)"
    by (cases "network_value ''Network Recv'' (bytes_recv r) st5")
  have s: "last_bytes_sent st5 = bytes_sent r" "last_bytes_recv st5 = last_bytes_recv st"
    "metric_history st5 = metric_history st"
    using network_value_speed(3,4) [of "bytes_sent r" st] network_value_frame(1) [of "''Network Sent''" "bytes_sent r" st]
      a by simp_all
  have t: "last_bytes_recv st6 = bytes_recv r" "last_bytes_sent st6 = bytes_sent r"
    "metric_history st6 = metric_history st"
    using network_value_speed(5,6) [of "bytes_recv r" st5] network_value_frame(1) [of "''Network Recv''" "bytes_recv r" st5]
      b s by simp_all
  have r: "recv = fst (network_value ''Network Recv'' (bytes_recv r) st)"
    by (metis b fst_conv network_value_speed(2) s(2))
  have e: "sent = fst (network_value ''Network Sent'' (bytes_sent r) st)" using a by simp
  show "metric_history (update_network r st) ''Network Sent'' =
     metric_history (push_history ''Network Sent'' (fst (network_value ''Network Sent'' (bytes_sent r) st)) st)
       ''Network Sent''"
    unfolding e [symmetric] using t by (simp add: update_network_def a b push_history_def Let_def)
  show "metric_history (update_network r st) ''Network Recv'' =
     metric_history (push_history ''Network Recv'' (fst (network_value ''Network Recv'' (bytes_recv r) st)) st)
       ''Network Recv''"
    unfolding r [symmetric] using t by (simp add: update_network_def a b push_history_def Let_def)
  show "last_bytes_sent (update_network r st) = bytes_sent r" using t by (simp add: update_network_def a b)
  show "last_bytes_recv (update_network r st) = bytes_recv r" using t by (simp add: update_network_def a b)
qed

lemmas update_resources_counters = update_network_counters [of r "update_local r st" for r st, simplified]

subsection \<open>Lemmas: well-formedness\<close>

lemma grows_refl [intro]: "grows st st"
  by (auto simp: grows_def)

lemma grows_trans:
  assumes "grows st1 st2" and "grows st2 st3"
  shows "grows st1 st3"
proof -
  have "metrics st3 = metrics st1" using assms by (simp add: grows_def)
  moreover have "\<forall>k ys. metric_history st3 k = Some ys \<longrightarrow> length ys \<le> max_history \<or> metric_history st1 k = Some ys"
    using assms unfolding grows_def by blast
  moreover have "\<forall>k. metric_history st1 k \<noteq> None \<longrightarrow> metric_history st3 k \<noteq> None"
    using assms unfolding grows_def by blast
  moreover have "\<forall>k m'. max_for_metric st3 k = Some m' \<longrightarrow> (\<exists>m. max_for_metric st1 k = Some m \<and> (0 < m \<longrightarrow> 0 < m'))"
    using assms unfolding grows_def by fastforce
  ultimately show ?thesis by (simp add: grows_def)
qed

lemma grows_push [intro]: "grows st (push_history k v st)"
  by (auto simp: grows_def push_history_def Let_def)

lemma grows_set_summary [intro]: "grows st (set_summary k t st)"
  by (auto simp: grows_def set_summary_def)

lemma grows_network_value [intro]: "grows st (snd (network_value k c st))"
  by (auto simp: grows_def network_value_def Let_def split: option.splits if_splits)

lemma grows_core_update [intro]: "grows st (core_update ip st)"
proof -
  obtain i p where ip: "ip = (i, p)" by (cases ip)
  have "grows st (push_history (core_key i) p st)" by (rule grows_push)
  moreover have "grows (push_history (core_key i) p st) (core_update ip st)"
    by (auto simp: ip core_update_def grows_def Let_def)
  ultimately show ?thesis by (rule grows_trans)
qed

lemma grows_fold_core_update: "grows st (fold core_update ips st)"
proof (induction ips arbitrary: st)
  case Nil
  then show ?case by auto
next
  case (Cons ip ips)
  then show ?case by (simp add: grows_trans [OF grows_core_update Cons.IH])
qed

lemma grows_update_local: "grows st (update_local r st)"
  unfolding update_local_def Let_def
  by (meson grows_trans grows_push grows_set_summary grows_fold_core_update)

lemma grows_update_network: "grows st (update_network r st)"
proof -
  obtain sent st5 where a: "network_value ''Network Sent'' (bytes_sent r) st = (sent, st5)"
    by (cases "network_value ''Network Sent'' (bytes_sent r) st")
  obtain recv st6 where b: "network_value ''Network Recv'' (bytes_recv r) st5 = (recv, st6)"
    by (cases "network_value ''Network Recv'' (bytes_recv r) st5")
  have "grows st st5" using grows_network_value [of st "''Network Sent''" "bytes_sent r"] a by simp
  moreover have "grows st5 st6" using grows_network_value [of st5 "''Network Recv''" "bytes_recv r"] b by simp
  ultimately have "grows st (set_summary ''Network Sent'' (fmt_fixed 2 sent @ '' MB/s'')
      (push_history ''Network Recv'' recv (push_history ''Network Sent'' sent st6)))"
    by (meson grows_trans grows_push grows_set_summary)
  then show ?thesis by (simp add: update_network_def a b)
qed

lemma grows_update_resources: "grows st (update_resources r st)"
  unfolding update_resources_def using grows_trans grows_update_local grows_update_network by blast

lemma grows_wf:
  assumes wf: "resources_wf st" and g: "grows st st'"
  shows "resources_wf st'"
  unfolding resources_wf_def list_all_iff
proof
  fix k assume "k \<in> set (metrics st')"
  then have "k \<in> set (metrics st)" using g by (simp add: grows_def)
  then have c: "(case metric_history st k of None \<Rightarrow> False | Some xs \<Rightarrow> length xs \<le> max_history) \<and>
      (case max_for_metric st k of None \<Rightarrow> True | Some m \<Rightarrow> 0 < m)"
    using wf by (simp add: resources_wf_def list_all_iff)
  then obtain xs where xs: "metric_history st k = Some xs" "length xs \<le> max_history"
    by (cases "metric_history st k") auto
  have m: "case max_for_metric st k of None \<Rightarrow> True | Some m \<Rightarrow> 0 < m" using c by simp
  obtain ys where ys: "metric_history st' k = Some ys" using g xs(1) by (auto simp: grows_def)
  have "length ys \<le> max_history \<or> metric_history st k = Some ys" using g ys by (simp add: grows_def)
  then have "length ys \<le> max_history" using xs by auto
  moreover have "case max_for_metric st' k of None \<Rightarrow> True | Some m \<Rightarrow> 0 < m"
    using g m by (fastforce simp: grows_def split: option.splits)
  ultimately show "(case metric_history st' k of None \<Rightarrow> False | Some xs \<Rightarrow> length xs \<le> max_history) \<and>
      (case max_for_metric st' k of None \<Rightarrow> True | Some m \<Rightarrow> 0 < m)" using ys by simp
qed

lemma init_max_pos:
  "max_for_metric (init_resources n parts s0 r0) k = Some m \<Longrightarrow> 0 < m"
  by (auto simp: init_resources_def Let_def split: if_splits dest!: map_of_SomeD)

lemma init_history_metrics:
  "k \<in> set (metrics (init_resources n parts s0 r0)) \<Longrightarrow> metric_history (init_resources n parts s0 r0) k = Some []"
proof -
  have e: "metric_history (init_resources n parts s0 r0) =
      map_of (map (\<lambda>m. (m, [])) (metrics (init_resources n parts s0 r0)))"
    by (simp add: init_resources_def Let_def)
  assume "k \<in> set (metrics (init_resources n parts s0 r0))"
  then show ?thesis unfolding e by (rule map_of_const)
qed

lemma init_resources_wf: "resources_wf (init_resources n parts s0 r0)"
  unfolding resources_wf_def list_all_iff
  using init_history_metrics init_max_pos by (simp split: option.split)

text \<open>C31: the page state is well formed when the page is built,
  and every tick of \<open>update_resources\<close>, whatever psutil reports or raises, keeps it well
  formed: each metric keeps a history of at most 120 values and a positive scale where
  it has one.\<close>

theorem resources_wf_invariant:
  "resources_wf (init_resources n parts s0 r0) \<and>
   (resources_wf st \<longrightarrow> resources_wf (update_resources r st))"
  using init_resources_wf grows_wf grows_update_resources by blast

theorem resources_wf_invariant_witness:
  "resources_wf (update_resources \<lparr>cpu_percpu = None, cpu_count_now = None, ram_percent = None,
      disk_percent = (\<lambda>_. None), bytes_sent = 4096, bytes_recv = 0\<rparr> (init_resources 1 [] 0 0))"
  using resources_wf_invariant [of 1 "[]" 0 0 "init_resources 1 [] 0 0"] by simp

end
