(* ===== verification/ResourcesDraw.thy ===== *)
theory ResourcesDraw
  imports Resources
begin

text \<open>
  The two draw functions of src/pages/resources.py (\<open>make_sparkline_draw\<close> and
  \<open>make_network_draw\<close>): what each callback does to the cairo context, as the list of
  the calls it makes, computed from the page state the timer keeps (theory Resources)
  and the size of the drawing area. A callback that raises stops there: its result is
  the calls made so far and whether it raised. Colours and coordinates are exact
  rationals, as the page's floats are in theory Resources.
\<close>

datatype cairo_op =
    SetSourceRGB rat rat rat
  | Paint
  | SetLineWidth rat
  | SetFontSize rat
  | SetLineCapRound
  | MoveTo rat rat
  | LineTo rat rat
  | Stroke
  | ShowText string
  | Rectangle rat rat rat rat
  | Fill

type_synonym rgb = "rat \<times> rat \<times> rat"

definition set_rgb :: "rgb \<Rightarrow> cairo_op" where
  "set_rgb c = (case c of (r, g, b) \<Rightarrow> SetSourceRGB r g b)"

text \<open>\<open>xs[-max_history:]\<close> of \<open>metric_history.get(metric, [])\<close>.\<close>

definition history_list :: "resources_state \<Rightarrow> string \<Rightarrow> rat list" where
  "history_list st metric = (case metric_history st metric of None \<Rightarrow> [] | Some xs \<Rightarrow> xs)"

definition history_window :: "resources_state \<Rightarrow> string \<Rightarrow> rat list" where
  "history_window st metric =
     (let xs = history_list st metric in drop (length xs - max_history) xs)"

text \<open>The loop \<open>for i, v in enumerate(values)\<close> of both functions: the point of the
  \<open>i\<close>-th value, and a path through the points (\<open>move_to\<close> for the first).\<close>

definition line_points :: "rat \<Rightarrow> rat \<Rightarrow> rat \<Rightarrow> rat \<Rightarrow> rat \<Rightarrow> rat list \<Rightarrow> (rat \<times> rat) list" where
  "line_points x_margin y_top draw_w draw_h max_v values =
     map (\<lambda>(i, v). (x_margin + of_nat i * draw_w / of_nat (max 1 (length values - 1)),
                   y_top + draw_h - (min v max_v / max_v) * draw_h))
       (List.enumerate 0 values)"

definition path_ops :: "(rat \<times> rat) list \<Rightarrow> cairo_op list" where
  "path_ops pts = (case pts of [] \<Rightarrow> [] | (x, y) # ps \<Rightarrow> MoveTo x y # map (\<lambda>(x, y). LineTo x y) ps)"

definition background :: "cairo_op list" where
  "background = [SetSourceRGB (7/100) (7/100) (7/100), Paint]"

subsection \<open>\<open>make_sparkline_draw\<close>\<close>

text \<open>One turn of the grid loop \<open>for i in range(3)\<close>.\<close>

definition spark_grid :: "rat \<Rightarrow> rat \<Rightarrow> nat \<Rightarrow> cairo_op list" where
  "spark_grid w draw_h i =
     (let percent_label = (2 - i) * 50; y = 5 + draw_h * (of_nat i / 2)
      in (if i < 2 then [SetSourceRGB (18/100) (18/100) (18/100), MoveTo 25 y, LineTo w y, Stroke] else []) @
         (if 0 < percent_label
          then [SetSourceRGB (6/10) (6/10) (6/10), MoveTo 2 (y + 3),
                ShowText (dec_string percent_label @ ''%'')]
          else []))"

definition sparkline_draw :: "resources_state \<Rightarrow> string \<Rightarrow> rgb \<Rightarrow> int \<Rightarrow> int \<Rightarrow> cairo_op list \<times> bool" where
  "sparkline_draw st metric color w h =
     (let values = history_window st metric
      in if values = [] then (background, False)
         else
           (let w' = of_int w; draw_w = w' - 25; draw_h = of_int h - 5 - 5;
                max_v = (case max_for_metric st metric of None \<Rightarrow> 100 | Some m \<Rightarrow> m);
                y_zero = 5 + draw_h;
                frame = background @
                  [SetSourceRGB (18/100) (18/100) (18/100), SetLineWidth 1, SetFontSize 8] @
                  concat (map (spark_grid w' draw_h) [0..<3]) @
                  [SetSourceRGB (2/10) (2/10) (2/10), MoveTo 25 y_zero, LineTo w' y_zero, Stroke,
                   set_rgb color, SetLineWidth 2, SetLineCapRound]
            in if max_v = 0 then (frame, True)
               else (frame @ path_ops (line_points 25 5 draw_w draw_h max_v values) @ [Stroke], False)))"

subsection \<open>\<open>make_network_draw\<close>\<close>

text \<open>\<open>max(xs or [0])\<close>, and \<open>int(x)\<close> of a float (truncation towards zero).\<close>

definition py_max_or0 :: "rat list \<Rightarrow> rat" where
  "py_max_or0 xs = (case xs of [] \<Rightarrow> 0 | x # ys \<Rightarrow> foldl max x ys)"

definition py_trunc :: "rat \<Rightarrow> int" where
  "py_trunc x = (if 0 \<le> x then \<lfloor>x\<rfloor> else \<lceil>x\<rceil>)"

text \<open>The dynamic scale: the largest value (at least 0.01) rounded up past the next
  multiple of a step chosen by its size.\<close>

definition network_scale :: "rat list \<Rightarrow> rat list \<Rightarrow> rat" where
  "network_scale sent recv =
     (let absolute_max = max (max (py_max_or0 sent) (py_max_or0 recv)) (1/100);
          scale_step = (if absolute_max > 5 then 5 else if absolute_max > 1 then 1
                        else if absolute_max > 1/10 then 2/10 else 5/100)
      in of_int (py_trunc (absolute_max / scale_step) + 1) * scale_step)"

text \<open>One turn of the grid loop \<open>for i in range(num_segments + 1)\<close>, four segments.\<close>

definition net_grid :: "rat \<Rightarrow> rat \<Rightarrow> rat \<Rightarrow> nat \<Rightarrow> cairo_op list" where
  "net_grid w draw_h max_v i =
     (let y = 10 + draw_h * (of_nat i / 4); value = max_v * of_nat (4 - i) / 4
      in (if 0 < i \<and> i < 4 then [MoveTo 45 y, LineTo w y, Stroke] else []) @
         (if i = 4 then [SetSourceRGB (2/10) (2/10) (2/10), MoveTo 45 y, LineTo w y, Stroke,
                         SetSourceRGB (18/100) (18/100) (18/100)] else []) @
         (if 0 < i \<and> i \<le> 4
          then [SetSourceRGB (6/10) (6/10) (6/10), MoveTo 5 (y + 3),
                ShowText (fmt_fixed (if max_v < 1 then 2 else 1) value)]
          else []))"

definition net_line :: "rgb \<Rightarrow> rat \<Rightarrow> rat \<Rightarrow> rat \<Rightarrow> rat list \<Rightarrow> cairo_op list" where
  "net_line color draw_w draw_h max_v values =
     [set_rgb color, SetLineWidth 3, SetLineCapRound, MoveTo 45 (10 + draw_h)] @
     path_ops (line_points 45 10 draw_w draw_h max_v values) @ [Stroke]"

definition net_legend :: "rat \<Rightarrow> cairo_op list" where
  "net_legend w =
     (let legend_x = w - 150; legend_y = 10 + 15
      in [SetSourceRGB 1 1 1,
          SetSourceRGB (9/10) (3/10) (3/10), Rectangle legend_x (legend_y - 8) 10 10, Fill,
          SetSourceRGB 1 1 1, MoveTo (legend_x + 15) legend_y, ShowText ''Sent'',
          SetSourceRGB (2/10) (8/10) (2/10), Rectangle (legend_x + 60) (legend_y - 8) 10 10, Fill,
          SetSourceRGB 1 1 1, MoveTo (legend_x + 75) legend_y, ShowText ''Received''])"

definition network_draw :: "resources_state \<Rightarrow> int \<Rightarrow> int \<Rightarrow> cairo_op list" where
  "network_draw st w h =
     (let sent = history_window st ''Network Sent''; recv = history_window st ''Network Recv'';
          max_v = network_scale sent recv;
          w' = of_int w; h' = of_int h; draw_w = w' - 45; draw_h = h' - 10 - 15;
          frame = background @
            [SetSourceRGB (18/100) (18/100) (18/100), SetLineWidth 1, SetFontSize 10] @
            concat (map (net_grid w' draw_h max_v) [0..<5]) @
            [SetSourceRGB (9/10) (9/10) (9/10), SetFontSize 12, MoveTo 5 (10 - 2), ShowText ''MB/s'',
             SetSourceRGB (4/10) (4/10) (4/10), SetFontSize 10, MoveTo (w' - 70) (h' - 5),
             ShowText (''Last '' @ dec_string (max_history div 60) @ '' min'')]
      in if length sent < 2 \<and> length recv < 2 then frame
         else frame @ net_line (2/10, 8/10, 2/10) draw_w draw_h max_v recv @
                net_line (9/10, 3/10, 3/10) draw_w draw_h max_v sent @ net_legend w')"

text \<open>A tick whose readings are all zero but the bytes sent.\<close>

definition sent_tick :: "int \<Rightarrow> psutil_reading" where
  "sent_tick n = \<lparr>cpu_percpu = Some [0], cpu_count_now = Some 1, ram_percent = Some 0,
     disk_percent = (\<lambda>_. Some 0), bytes_sent = n, bytes_recv = 0\<rparr>"

text \<open>The points a list of calls moves or draws to.\<close>

fun op_point :: "cairo_op \<Rightarrow> (rat \<times> rat) option" where
  "op_point (MoveTo x y) = Some (x, y)"
| "op_point (LineTo x y) = Some (x, y)"
| "op_point _ = None"

definition in_box :: "rat \<Rightarrow> rat \<Rightarrow> rat \<Rightarrow> rat \<Rightarrow> rat \<times> rat \<Rightarrow> bool" where
  "in_box x0 y0 x1 y1 p \<longleftrightarrow> x0 \<le> fst p \<and> fst p \<le> x1 \<and> y0 \<le> snd p \<and> snd p \<le> y1"

subsection \<open>Lemmas: points\<close>

lemma map_filter_append [simp]: "List.map_filter f (xs @ ys) = List.map_filter f xs @ List.map_filter f ys"
  by (simp add: List.map_filter_def)

lemma line_to_points: "List.map_filter op_point (map (\<lambda>(x, y). LineTo x y) ps) = ps"
  by (induction ps) auto

lemma path_ops_points [simp]: "List.map_filter op_point (path_ops pts) = pts"
  by (cases pts) (auto simp: path_ops_def line_to_points)

lemma op_point_set_rgb [simp]: "op_point (set_rgb c) = None"
  by (cases c) (simp add: set_rgb_def)

lemma in_box_mono:
  "in_box a b c d p \<Longrightarrow> a' \<le> a \<Longrightarrow> b' \<le> b \<Longrightarrow> c \<le> c' \<Longrightarrow> d \<le> d' \<Longrightarrow> in_box a' b' c' d' p"
  by (auto simp: in_box_def)

lemma list_all_in_box_mono:
  "list_all (in_box a b c d) ps \<Longrightarrow> a' \<le> a \<Longrightarrow> b' \<le> b \<Longrightarrow> c \<le> c' \<Longrightarrow> d \<le> d' \<Longrightarrow>
   list_all (in_box a' b' c' d') ps"
  by (auto simp: list_all_iff intro: in_box_mono)

lemma scaled_le:
  assumes "of_nat i \<le> d" "0 < d" "0 \<le> dw"
  shows "0 \<le> of_nat i * dw / d" "of_nat i * dw / d \<le> (dw :: rat)"
proof -
  show "0 \<le> of_nat i * dw / d" using assms by simp
  have "of_nat i * dw \<le> d * dw" using assms by (simp add: mult_right_mono)
  then show "of_nat i * dw / d \<le> dw" using assms by (simp add: divide_le_eq mult.commute)
qed

lemma fraction_le:
  assumes "0 \<le> q" "q \<le> 1" "0 \<le> dh"
  shows "yt \<le> yt + dh - q * dh" "yt + dh - q * dh \<le> yt + (dh :: rat)"
proof -
  have "q * dh \<le> dh" using assms mult_right_le_one_le [of dh q] by (simp add: mult.commute)
  then show "yt \<le> yt + dh - q * dh" by simp
  show "yt + dh - q * dh \<le> yt + dh" using assms by simp
qed

lemma clamp_fraction:
  assumes "0 \<le> v" "0 < (m :: rat)"
  shows "0 \<le> min v m / m" "min v m / m \<le> 1"
  using assms by (simp_all add: divide_le_eq min_def)

lemma line_points_in_box:
  assumes "0 \<le> dw" "0 \<le> dh" "0 < max_v" "list_all (\<lambda>v. 0 \<le> v) values"
  shows "list_all (in_box xm yt (xm + dw) (yt + dh)) (line_points xm yt dw dh max_v values)"
  unfolding line_points_def list_all_iff set_map
proof
  fix q assume "q \<in> (\<lambda>(i, v). (xm + of_nat i * dw / of_nat (max 1 (length values - 1)),
                   yt + dh - min v max_v / max_v * dh)) ` set (List.enumerate 0 values)"
  then obtain i where i: "i < length values"
    and q: "q = (xm + of_nat i * dw / of_nat (max 1 (length values - 1)),
                 yt + dh - min (values ! i) max_v / max_v * dh)"
    by (auto simp: in_set_enumerate_eq)
  have v: "0 \<le> values ! i" using assms(4) i by (simp add: list_all_length)
  have d: "of_nat i \<le> (of_nat (max 1 (length values - 1)) :: rat)" "0 < (of_nat (max 1 (length values - 1)) :: rat)"
    using i by auto
  show "in_box xm yt (xm + dw) (yt + dh) q"
    unfolding q in_box_def fst_conv snd_conv
    using scaled_le [OF d assms(1)] fraction_le [OF clamp_fraction [OF v assms(3)] assms(2), of yt]
    by simp
qed

subsection \<open>Lemmas: the sparkline\<close>

lemma spark_grid_points:
  "25 \<le> w \<Longrightarrow> 0 \<le> dh \<Longrightarrow>
   list_all (in_box 0 0 w (dh + 10)) (List.map_filter op_point (concat (map (spark_grid w dh) [0..<3])))"
  by (simp add: spark_grid_def Let_def in_box_def numeral_3_eq_3 upt_rec)

lemma sparkline_draw_cases:
  assumes "history_window st metric \<noteq> []"
    and "max_for_metric st metric = None \<or> (\<exists>m. max_for_metric st metric = Some m \<and> 0 < m)"
    and "list_all (\<lambda>v. 0 \<le> v) (history_window st metric)" and "25 \<le> w" and "10 \<le> h"
  shows "\<not> snd (sparkline_draw st metric color w h) \<and>
         list_all (in_box 0 0 (of_int w) (of_int h)) (List.map_filter op_point (fst (sparkline_draw st metric color w h)))"
proof -
  define m where "m = (case max_for_metric st metric of None \<Rightarrow> 100 | Some m \<Rightarrow> (m :: rat))"
  have m: "0 < m" using assms(2) by (auto simp: m_def)
  have dh: "0 \<le> (of_int h :: rat) - 5 - 5" using assms(5) by simp
  have p: "list_all (in_box 25 5 (25 + (of_int w - 25)) (5 + (of_int h - 5 - 5)))
      (line_points 25 5 (of_int w - 25) (of_int h - 5 - 5) m (history_window st metric))"
    using assms(4) dh m assms(3) by (intro line_points_in_box) simp_all
  have g: "list_all (in_box 0 0 (of_int w) (of_int h - 5 - 5 + 10))
      (List.map_filter op_point (concat (map (spark_grid (of_int w) (of_int h - 5 - 5)) [0..<3])))"
    using assms(4) dh by (intro spark_grid_points) simp_all
  show ?thesis
    using assms(1,4,5) m p g
    by (auto simp: sparkline_draw_def Let_def m_def [symmetric] background_def in_box_def
             intro: list_all_in_box_mono)
qed

lemma wf_max_for_metric:
  "resources_wf st \<Longrightarrow> metric \<in> set (metrics st) \<Longrightarrow>
   max_for_metric st metric = None \<or> (\<exists>m. max_for_metric st metric = Some m \<and> 0 < m)"
  by (auto simp: resources_wf_def list_all_iff split: option.splits)

subsection \<open>Lemmas: the network graph\<close>

lemma foldl_max_ge: "v \<in> set (x # ys) \<Longrightarrow> v \<le> foldl max x (ys :: rat list)"
proof (induction ys arbitrary: x v)
  case Nil
  then show ?case by simp
next
  case (Cons y ys)
  have "max x y \<le> foldl max (max x y) ys" by (rule Cons.IH) simp
  moreover have "v \<le> foldl max (max x y) ys" if "v \<in> set ys" using that by (intro Cons.IH) simp
  ultimately show ?case using Cons.prems by auto
qed

lemma py_max_or0_ge: "v \<in> set xs \<Longrightarrow> v \<le> py_max_or0 xs"
  by (cases xs) (auto simp: py_max_or0_def intro: foldl_max_ge)

lemma trunc_step_above:
  assumes "0 < a" and "0 < s"
  shows "a < of_int (py_trunc (a / s) + 1) * (s :: rat)"
proof -
  have "a / s < of_int (\<lfloor>a / s\<rfloor> + 1)" using floor_correct [of "a / s"] by simp
  then have "a / s * s < of_int (\<lfloor>a / s\<rfloor> + 1) * s" using assms(2) by (rule mult_strict_right_mono)
  then show ?thesis using assms by (simp add: py_trunc_def)
qed

lemma network_scale_gt:
  "max (max (py_max_or0 sent) (py_max_or0 recv)) (1/100) < network_scale sent recv"
  unfolding network_scale_def Let_def by (rule trunc_step_above) auto

lemma net_grid_points:
  "45 \<le> w \<Longrightarrow> 0 \<le> dh \<Longrightarrow>
   list_all (in_box 0 0 w (dh + 25)) (List.map_filter op_point (concat (map (net_grid w dh m) [0..<5])))"
  by (simp add: net_grid_def Let_def in_box_def numeral_eq_Suc upt_rec)

lemma net_line_points:
  assumes "0 \<le> dw" "0 \<le> dh" "0 < m" "list_all (\<lambda>v. 0 \<le> v) values"
  shows "list_all (in_box 45 10 (45 + dw) (10 + dh)) (List.map_filter op_point (net_line c dw dh m values))"
  using line_points_in_box [OF assms, of 45 10] assms(1,2) by (simp add: net_line_def in_box_def)

lemma net_legend_points:
  "150 \<le> w \<Longrightarrow> 25 \<le> h \<Longrightarrow> list_all (in_box 0 0 w h) (List.map_filter op_point (net_legend w))"
  by (simp add: net_legend_def Let_def in_box_def)

lemma network_draw_inside:
  assumes "list_all (\<lambda>v. 0 \<le> v) (history_window st ''Network Sent'')"
    and "list_all (\<lambda>v. 0 \<le> v) (history_window st ''Network Recv'')"
    and "150 \<le> w" and "25 \<le> h"
  shows "list_all (in_box 0 0 (of_int w) (of_int h)) (List.map_filter op_point (network_draw st w h))"
proof -
  define m where "m = network_scale (history_window st ''Network Sent'') (history_window st ''Network Recv'')"
  have m: "0 < m" using network_scale_gt [of "history_window st ''Network Sent''" "history_window st ''Network Recv''"]
    by (simp add: m_def)
  have dh: "0 \<le> (of_int h :: rat) - 10 - 15" using assms(4) by simp
  have dw: "0 \<le> (of_int w :: rat) - 45" using assms(3) by simp
  have l: "list_all (in_box 0 0 (of_int w) (of_int h)) (List.map_filter op_point (net_line c (of_int w - 45) (of_int h - 10 - 15) m vs))"
    if "list_all (\<lambda>v. 0 \<le> v) vs" for c vs
    using net_line_points [OF dw dh m that, of c] by (rule list_all_in_box_mono) simp_all
  have g: "list_all (in_box 0 0 (of_int w) (of_int h))
      (List.map_filter op_point (concat (map (net_grid (of_int w) (of_int h - 10 - 15) m) [0..<5])))"
    using net_grid_points [of "of_int w" "of_int h - 10 - 15" m] assms(3,4)
    by (auto elim: list_all_in_box_mono)
  have e: "list_all (in_box 0 0 (of_int w) (of_int h)) (List.map_filter op_point (net_legend (of_int w)))"
    using assms(3,4) by (intro net_legend_points) simp_all
  show ?thesis
    using assms g e l [OF assms(1)] l [OF assms(2)]
    by (simp add: network_draw_def Let_def m_def [symmetric] background_def in_box_def)
qed

subsection \<open>Lemmas: nonnegative network histories\<close>

lemma list_all_drop: "list_all P xs \<Longrightarrow> list_all P (drop n xs)"
  by (auto simp: list_all_iff dest: in_set_dropD)

lemma history_window_nonneg:
  "list_all (\<lambda>v. 0 \<le> v) (history_list st k) \<Longrightarrow> list_all (\<lambda>v. 0 \<le> v) (history_window st k)"
  by (simp add: history_window_def Let_def list_all_drop)

lemma push_nonneg:
  "list_all (\<lambda>v. 0 \<le> v) (history_list st k) \<Longrightarrow> 0 \<le> v \<Longrightarrow>
   list_all (\<lambda>v. 0 \<le> v) (history_list (push_history k v st) k)"
  by (simp add: history_list_def push_history_same list_all_drop split: option.split)

lemma update_resources_network_nonneg:
  assumes "last_bytes_sent st \<le> bytes_sent r" and "last_bytes_recv st \<le> bytes_recv r"
    and "list_all (\<lambda>v. 0 \<le> v) (history_list st ''Network Sent'')"
    and "list_all (\<lambda>v. 0 \<le> v) (history_list st ''Network Recv'')"
  shows "list_all (\<lambda>v. 0 \<le> v) (history_list (update_resources r st) ''Network Sent'') \<and>
         list_all (\<lambda>v. 0 \<le> v) (history_list (update_resources r st) ''Network Recv'')"
proof -
  let ?st = "update_local r st"
  have h: "history_list ?st ''Network Sent'' = history_list st ''Network Sent''"
    "history_list ?st ''Network Recv'' = history_list st ''Network Recv''"
    by (simp_all add: history_list_def)
  have v: "0 \<le> fst (network_value ''Network Sent'' (bytes_sent r) ?st)"
    "0 \<le> fst (network_value ''Network Recv'' (bytes_recv r) ?st)"
    using assms(1,2) by (simp_all add: network_value_speed)
  have "list_all (\<lambda>v. 0 \<le> v)
      (history_list (push_history ''Network Sent'' (fst (network_value ''Network Sent'' (bytes_sent r) ?st)) ?st)
        ''Network Sent'')"
    using push_nonneg [OF _ v(1)] assms(3) h by simp
  moreover have "list_all (\<lambda>v. 0 \<le> v)
      (history_list (push_history ''Network Recv'' (fst (network_value ''Network Recv'' (bytes_recv r) ?st)) ?st)
        ''Network Recv'')"
    using push_nonneg [OF _ v(2)] assms(4) h by simp
  ultimately show ?thesis
    by (simp add: update_resources_def history_list_def update_network_counters(1,2))
qed

lemma run_ticks_network_nonneg:
  assumes "sorted (last_bytes_sent st # map bytes_sent rs)" and "sorted (last_bytes_recv st # map bytes_recv rs)"
    and "list_all (\<lambda>v. 0 \<le> v) (history_list st ''Network Sent'')"
    and "list_all (\<lambda>v. 0 \<le> v) (history_list st ''Network Recv'')"
  shows "list_all (\<lambda>v. 0 \<le> v) (history_list (run_ticks rs st) ''Network Sent'') \<and>
         list_all (\<lambda>v. 0 \<le> v) (history_list (run_ticks rs st) ''Network Recv'')"
  using assms
proof (induction rs arbitrary: st)
  case Nil
  then show ?case by (simp add: run_ticks_def)
next
  case (Cons r rs)
  have n: "list_all (\<lambda>v. 0 \<le> v) (history_list (update_resources r st) ''Network Sent'') \<and>
      list_all (\<lambda>v. 0 \<le> v) (history_list (update_resources r st) ''Network Recv'')"
    using Cons.prems by (intro update_resources_network_nonneg) simp_all
  have "sorted (last_bytes_sent (update_resources r st) # map bytes_sent rs)"
    "sorted (last_bytes_recv (update_resources r st) # map bytes_recv rs)"
    using Cons.prems(1,2) by (simp_all add: update_resources_def update_network_counters(3,4))
  then show ?case using Cons.IH n by (simp add: run_ticks_def)
qed

lemma init_network_nonneg:
  "list_all (\<lambda>v. 0 \<le> v) (history_list (init_resources n parts s0 r0) ''Network Sent'')"
  "list_all (\<lambda>v. 0 \<le> v) (history_list (init_resources n parts s0 r0) ''Network Recv'')"
  by (simp_all add: history_list_def init_resources_history)

lemma init_last_bytes [simp]:
  "last_bytes_sent (init_resources n parts s0 r0) = s0" "last_bytes_recv (init_resources n parts s0 r0) = r0"
  by (simp_all add: init_resources_def Let_def)

subsection \<open>Properties of the drawing\<close>

text \<open>C32: the network graph's dynamic scale is positive and lies
  strictly above every speed in both windows, so neither line is ever cut off at the
  top of the graph.\<close>

theorem network_scale_above:
  "list_all (\<lambda>v. v < network_scale sent recv) (sent @ recv) \<and> 0 < network_scale sent recv"
proof -
  let ?a = "max (max (py_max_or0 sent) (py_max_or0 recv)) (1/100)"
  have a: "?a < network_scale sent recv" by (rule network_scale_gt)
  have "v < network_scale sent recv" if "v \<in> set (sent @ recv)" for v
  proof -
    have "v \<le> py_max_or0 sent \<or> v \<le> py_max_or0 recv" using that py_max_or0_ge by auto
    then have "v \<le> ?a" by auto
    then show ?thesis using a by (rule le_less_trans)
  qed
  moreover have "0 < ?a" by simp
  ultimately show ?thesis using a by (simp add: list_all_iff)
qed

text \<open>C33: on a well-formed page, the sparkline of any metric of the
  page whose window holds no negative value never raises \<open>ZeroDivisionError\<close>, and
  every point it moves or draws to lies inside the drawing area, for any area at least
  25 wide and 10 high.\<close>

theorem sparkline_inside:
  assumes "resources_wf st" and "metric \<in> set (metrics st)"
    and "list_all (\<lambda>v. 0 \<le> v) (history_window st metric)" and "25 \<le> w" and "10 \<le> h"
  shows "\<not> snd (sparkline_draw st metric color w h) \<and>
         list_all (in_box 0 0 (of_int w) (of_int h)) (List.map_filter op_point (fst (sparkline_draw st metric color w h)))"
proof (cases "history_window st metric = []")
  case True
  then show ?thesis by (simp add: sparkline_draw_def background_def)
next
  case False
  then show ?thesis
    using sparkline_draw_cases wf_max_for_metric [OF assms(1,2)] assms(3-5) by blast
qed

theorem sparkline_inside_witness:
  "\<not> snd (sparkline_draw (update_resources (sent_tick 1048576) (init_resources 1 [] 0 0)) ''CPU Total'' (2/10, 6/10, 8/10) 200 50) \<and>
   list_all (in_box 0 0 200 50) (List.map_filter op_point
     (fst (sparkline_draw (update_resources (sent_tick 1048576) (init_resources 1 [] 0 0)) ''CPU Total'' (2/10, 6/10, 8/10) 200 50)))"
proof -
  let ?st = "update_resources (sent_tick 1048576) (init_resources 1 [] 0 0)"
  have wf: "resources_wf ?st" using grows_wf [OF init_resources_wf grows_update_resources] .
  have m: "''CPU Total'' \<in> set (metrics ?st)"
    using grows_update_resources [of "init_resources 1 [] 0 0" "sent_tick 1048576"]
    by (simp add: grows_def init_resources_def)
  have n: "list_all (\<lambda>v. 0 \<le> v) (history_window ?st ''CPU Total'')" by code_simp
  show ?thesis using sparkline_inside [OF wf m n, of 200 50 "(2/10, 6/10, 8/10)"] by simp
qed

text \<open>C34: from the page as built, after any sequence of ticks in
  which neither byte counter goes down, every point the network graph moves or draws to
  (grid, labels, both lines and the legend) lies inside a drawing area at least 150
  wide and 25 high.\<close>

theorem network_graph_inside:
  assumes "sorted (s0 # map bytes_sent rs)" and "sorted (r0 # map bytes_recv rs)"
    and "150 \<le> w" and "25 \<le> h"
  shows "list_all (in_box 0 0 (of_int w) (of_int h))
           (List.map_filter op_point (network_draw (run_ticks rs (init_resources n parts s0 r0)) w h))"
proof -
  have "list_all (\<lambda>v. 0 \<le> v) (history_list (run_ticks rs (init_resources n parts s0 r0)) ''Network Sent'') \<and>
        list_all (\<lambda>v. 0 \<le> v) (history_list (run_ticks rs (init_resources n parts s0 r0)) ''Network Recv'')"
    using assms(1,2) init_network_nonneg by (intro run_ticks_network_nonneg) simp_all
  then show ?thesis
    using assms(3,4) by (intro network_draw_inside) (simp_all add: history_window_nonneg)
qed

theorem network_graph_inside_witness:
  "list_all (in_box 0 0 400 180) (List.map_filter op_point
     (network_draw (run_ticks [sent_tick 1048576, sent_tick 3145728] (init_resources 1 [] 0 0)) 400 180))"
  using network_graph_inside [of 0 "[sent_tick 1048576, sent_tick 3145728]" 0 400 180 1 "[]"]
  by (simp add: sent_tick_def)


end
