(* ===== verification/Navigation.thy ===== *)
theory Navigation
  imports Prelude
begin

text \<open>
  The window's navigation (src/app.py \<open>SystemManager.on_activate\<close> and
  src/ui/sidebar.py \<open>create_sidebar_button\<close>): the \<open>Gtk.Stack\<close> of the seven pages, in
  the order of \<open>self.pages\<close>, each added with its name and \<open>name.capitalize()\<close> as title;
  the sidebar, whose buttons, a separator and the \<open>Advanced\<close> header are appended in
  order; and a button's \<open>clicked\<close> handler, which sets the stack's visible child by
  name. Text here is a list of Unicode code points, because the icon test of
  \<open>create_sidebar_button\<close> is about code points above 255. The pages themselves are the
  other theories; the stack only records their names.
\<close>

type_synonym ustr = "nat list"

definition ascii :: "string \<Rightarrow> ustr" where
  "ascii s = map of_char s"

text \<open>\<open>str.capitalize\<close> on ASCII text: the first letter upper case, the others lower.\<close>

definition ascii_upper :: "nat \<Rightarrow> nat" where
  "ascii_upper c = (if 97 \<le> c \<and> c \<le> 122 then c - 32 else c)"

definition ascii_lower :: "nat \<Rightarrow> nat" where
  "ascii_lower c = (if 65 \<le> c \<and> c \<le> 90 then c + 32 else c)"

definition py_capitalize :: "ustr \<Rightarrow> ustr" where
  "py_capitalize s = (case s of [] \<Rightarrow> [] | c # cs \<Rightarrow> ascii_upper c # map ascii_lower cs)"

text \<open>The first byte of the UTF-8 encoding of a code point; \<open>None\<close> for a surrogate,
  which \<open>str.encode('utf-8')\<close> refuses with \<open>UnicodeEncodeError\<close>.\<close>

definition utf8_lead :: "nat \<Rightarrow> nat option" where
  "utf8_lead c =
     (if 55296 \<le> c \<and> c \<le> 57343 then None
      else if c < 128 then Some c
      else if c < 2048 then Some (192 + c div 64)
      else if c < 65536 then Some (224 + c div 4096)
      else Some (240 + c div 262144))"

text \<open>The test of line 9 of src/ui/sidebar.py, with Python's evaluation order:
  \<open>icon_name and (len(icon_name) > 1 and (icon_name[0] in "\U0001F300-\U0001F6FF" or
  icon_name[0].encode('utf-8').startswith(b'\xf0')) or any(ord(ch) > 10000 for ch in
  icon_name))\<close>. The \<open>in\<close> is a test of membership in a string of three code points,
  \<open>U+1F300\<close>, \<open>-\<close> and \<open>U+1F6FF\<close>. \<open>None\<close> is the \<open>UnicodeEncodeError\<close>.\<close>

definition icon_is_text :: "ustr \<Rightarrow> bool option" where
  "icon_is_text icon_name =
     (if icon_name = [] then Some False
      else
        (let first = (if 1 < length icon_name then
                        (if hd icon_name \<in> {127744, 45, 128767} then Some True
                         else map_option (\<lambda>b. b = 240) (utf8_lead (hd icon_name)))
                      else Some False)
         in case first of
              None \<Rightarrow> None
            | Some True \<Rightarrow> Some True
            | Some False \<Rightarrow> Some (list_ex (\<lambda>ch. 10000 < ch) icon_name)))"

datatype icon_widget = IconLabel ustr | IconImage ustr

datatype sidebar_widget =
    SidebarButton ustr ustr icon_widget  \<comment> \<open>title, stack name, icon\<close>
  | Separator
  | Header ustr

text \<open>\<open>create_sidebar_button\<close>: the button with its icon; \<open>None\<close> when the test raises.
  \<open>Gtk.Image.new_from_icon_name\<close> does not raise for an unknown name (it shows a
  missing-image icon), so the fallback of its \<open>except\<close> is not taken.\<close>

definition create_sidebar_button :: "ustr \<Rightarrow> ustr \<Rightarrow> ustr \<Rightarrow> sidebar_widget option" where
  "create_sidebar_button title stack_name icon_name =
     map_option (\<lambda>is_text. SidebarButton title stack_name
                   (if is_text then IconLabel icon_name else IconImage icon_name))
       (icon_is_text icon_name)"

record navigation =
  stack_pages :: "(ustr \<times> ustr) list"  \<comment> \<open>name and title of each child, in order\<close>
  visible :: ustr
  sidebar :: "sidebar_widget list"

definition page_names :: "ustr list" where
  "page_names = map ascii [''packages'', ''backups'', ''resources'', ''processes'', ''storage'',
                           ''repositories'', ''services'']"

definition sidebar_items_top :: "(ustr \<times> ustr \<times> ustr) list" where
  "sidebar_items_top =
     [(ascii ''Packages'', ascii ''packages'', ascii ''package-x-generic-symbolic''),
      (ascii ''Backups'', ascii ''backups'', ascii ''backups-app-symbolic''),
      (ascii ''Resources'', ascii ''resources'', ascii ''gnome-system-monitor-symbolic''),
      (ascii ''Processes'', ascii ''processes'', ascii ''format-unordered-list-symbolic''),
      (ascii ''Storage'', ascii ''storage'', ascii ''drive-harddisk-symbolic'')]"

definition sidebar_items_bottom :: "(ustr \<times> ustr \<times> ustr) list" where
  "sidebar_items_bottom =
     [(ascii ''Repositories'', ascii ''repositories'', ascii ''network-server-symbolic''),
      (ascii ''Services'', ascii ''services'', ascii ''org.gnome.Settings-online-accounts-symbolic'')]"

definition make_buttons :: "(ustr \<times> ustr \<times> ustr) list \<Rightarrow> sidebar_widget list option" where
  "make_buttons items =
     those (map (\<lambda>(title, name, icon). create_sidebar_button title name icon) items)"

text \<open>\<open>Gtk.Stack.add_titled\<close> in the order of \<open>self.pages\<close>; the first child added is
  the visible one.\<close>

definition on_activate_nav :: "navigation option" where
  "on_activate_nav =
     (let pages = map (\<lambda>name. (name, py_capitalize name)) page_names
      in case (make_buttons sidebar_items_top, make_buttons sidebar_items_bottom) of
           (Some top_buttons, Some bottom_buttons) \<Rightarrow>
             Some \<lparr>stack_pages = pages, visible = fst (hd pages),
                   sidebar = top_buttons @ [Separator, Header (ascii ''Advanced'')] @ bottom_buttons\<rparr>
         | _ \<Rightarrow> None)"

text \<open>\<open>set_visible_child_name\<close>: a name the stack does not have leaves it unchanged
  (GTK only logs a warning).\<close>

definition set_visible_child_name :: "ustr \<Rightarrow> navigation \<Rightarrow> navigation" where
  "set_visible_child_name name nav =
     (if name \<in> set (map fst (stack_pages nav)) then nav\<lparr>visible := name\<rparr> else nav)"

text \<open>A click on the \<open>i\<close>-th widget of the sidebar: a button's handler, nothing for the
  separator and the header.\<close>

definition click_sidebar :: "nat \<Rightarrow> navigation \<Rightarrow> navigation" where
  "click_sidebar i nav =
     (if i < length (sidebar nav) then
        (case sidebar nav ! i of SidebarButton _ name _ \<Rightarrow> set_visible_child_name name nav | _ \<Rightarrow> nav)
      else nav)"

definition button_target :: "sidebar_widget \<Rightarrow> ustr option" where
  "button_target w = (case w of SidebarButton _ name _ \<Rightarrow> Some name | _ \<Rightarrow> None)"

text \<open>The states the navigation reaches: the window as \<open>on_activate\<close> builds it, then any
  sequence of clicks on the sidebar.\<close>

inductive nav_reach :: "navigation \<Rightarrow> bool" where
  init: "on_activate_nav = Some nav \<Longrightarrow> nav_reach nav"
| click: "nav_reach nav \<Longrightarrow> nav_reach (click_sidebar i nav)"

definition sidebar_targets :: "navigation \<Rightarrow> ustr list" where
  "sidebar_targets nav = List.map_filter button_target (sidebar nav)"

subsection \<open>Lemmas\<close>

lemma click_sidebar_frame [simp]:
  "stack_pages (click_sidebar i nav) = stack_pages nav"
  "sidebar (click_sidebar i nav) = sidebar nav"
  by (auto simp: click_sidebar_def set_visible_child_name_def split: sidebar_widget.split)

lemma sidebar_targets_click [simp]: "sidebar_targets (click_sidebar i nav) = sidebar_targets nav"
  by (simp add: sidebar_targets_def)

lemma click_sidebar_visible:
  "visible nav \<in> set (map fst (stack_pages nav)) \<Longrightarrow>
   visible (click_sidebar i nav) \<in> set (map fst (stack_pages nav))"
  by (auto simp: click_sidebar_def set_visible_child_name_def split: sidebar_widget.split)

lemma click_sidebar_button:
  assumes "i < length (sidebar nav)" and "button_target (sidebar nav ! i) = Some name"
    and "set (sidebar_targets nav) \<subseteq> set (map fst (stack_pages nav))"
  shows "visible (click_sidebar i nav) = name"
proof -
  obtain t ic where w: "sidebar nav ! i = SidebarButton t name ic"
    using assms(2) by (cases "sidebar nav ! i") (auto simp: button_target_def)
  have "sidebar nav ! i \<in> set (sidebar nav)" using assms(1) by simp
  then have "name \<in> set (sidebar_targets nav)"
    using assms(2) by (auto simp: sidebar_targets_def in_set_map_filter)
  then show ?thesis using assms(1,3) w by (auto simp: click_sidebar_def set_visible_child_name_def)
qed

lemma on_activate_nav_targets:
  "case on_activate_nav of
     None \<Rightarrow> False
   | Some nav \<Rightarrow> visible nav \<in> set (map fst (stack_pages nav)) \<and> distinct (map fst (stack_pages nav)) \<and>
                sidebar_targets nav = map fst (stack_pages nav)"
  by (simp add: on_activate_nav_def make_buttons_def sidebar_items_top_def sidebar_items_bottom_def
        create_sidebar_button_def icon_is_text_def utf8_lead_def page_names_def sidebar_targets_def
        button_target_def ascii_def)

lemma on_activate_nav_facts:
  "case on_activate_nav of
     None \<Rightarrow> False
   | Some nav \<Rightarrow> visible nav \<in> set (map fst (stack_pages nav)) \<and> distinct (sidebar_targets nav) \<and>
                set (sidebar_targets nav) = set (map fst (stack_pages nav))"
proof (cases on_activate_nav)
  case None
  then show ?thesis using on_activate_nav_targets by simp
next
  case (Some nav)
  have "visible nav \<in> set (map fst (stack_pages nav)) \<and> distinct (map fst (stack_pages nav)) \<and>
      sidebar_targets nav = map fst (stack_pages nav)"
    using on_activate_nav_targets by (simp add: Some)
  then show ?thesis by (simp add: Some)
qed

lemma nav_reach_facts:
  "nav_reach nav \<Longrightarrow>
   visible nav \<in> set (map fst (stack_pages nav)) \<and> distinct (sidebar_targets nav) \<and>
   set (sidebar_targets nav) = set (map fst (stack_pages nav))"
proof (induction rule: nav_reach.induct)
  case (init nav)
  from on_activate_nav_facts show ?case by (simp add: init)
next
  case (click nav i)
  then show ?case using click_sidebar_visible by simp
qed

subsection \<open>Properties of the navigation\<close>

text \<open>C36: in every state the window reaches, the visible child is one
  of the seven pages; the sidebar has exactly one button per page of the stack; and a
  click on any button shows the page it names.\<close>

theorem sidebar_navigation:
  assumes "nav_reach nav"
  shows "visible nav \<in> set (map fst (stack_pages nav)) \<and> distinct (sidebar_targets nav) \<and>
         set (sidebar_targets nav) = set (map fst (stack_pages nav)) \<and>
         list_all (\<lambda>i. case button_target (sidebar nav ! i) of
                          None \<Rightarrow> True | Some name \<Rightarrow> visible (click_sidebar i nav) = name)
           [0..<length (sidebar nav)]"
proof -
  have f: "visible nav \<in> set (map fst (stack_pages nav)) \<and> distinct (sidebar_targets nav) \<and>
      set (sidebar_targets nav) = set (map fst (stack_pages nav))"
    using assms by (rule nav_reach_facts)
  have "case button_target (sidebar nav ! i) of None \<Rightarrow> True | Some name \<Rightarrow> visible (click_sidebar i nav) = name"
    if "i < length (sidebar nav)" for i
    using that f by (auto intro: click_sidebar_button split: option.split)
  then show ?thesis using f by (simp add: list_all_iff)
qed

theorem sidebar_navigation_witness:
  "case on_activate_nav of
     None \<Rightarrow> False
   | Some nav \<Rightarrow> visible (click_sidebar 8 (click_sidebar 3 nav)) = ascii ''services''"
proof -
  obtain nav where n: "on_activate_nav = Some nav"
    using on_activate_nav_facts by (cases on_activate_nav) auto
  have "case on_activate_nav of None \<Rightarrow> False
      | Some nav \<Rightarrow> length (sidebar nav) = 9 \<and> button_target (sidebar nav ! 8) = Some (ascii ''services'')"
    by (simp add: on_activate_nav_def make_buttons_def sidebar_items_top_def sidebar_items_bottom_def
          create_sidebar_button_def icon_is_text_def utf8_lead_def button_target_def ascii_def Let_def)
  then have b: "length (sidebar nav) = 9" "button_target (sidebar nav ! 8) = Some (ascii ''services'')"
    by (simp_all add: n)
  have r: "nav_reach (click_sidebar 3 nav)" using n by (intro nav_reach.intros)
  have "list_all (\<lambda>i. case button_target (sidebar (click_sidebar 3 nav) ! i) of
      None \<Rightarrow> True | Some name \<Rightarrow> visible (click_sidebar i (click_sidebar 3 nav)) = name)
      [0..<length (sidebar (click_sidebar 3 nav))]"
    using sidebar_navigation [OF r] by simp
  then have "case button_target (sidebar nav ! 8) of
      None \<Rightarrow> True | Some name \<Rightarrow> visible (click_sidebar 8 (click_sidebar 3 nav)) = name"
    using b(1) by (simp add: list_all_iff)
  then have "visible (click_sidebar 8 (click_sidebar 3 nav)) = ascii ''services''"
    using b(2) by simp
  then show ?thesis by (simp add: n)
qed


end
