(* ===== verification/Spec2Isabelle.thy ===== *)
theory Spec2Isabelle
  imports Packages Processes Services Repositories Backups Storage ResourcesDraw Navigation
begin

text \<open>
  \<^bold>\<open>System Manager\<close> (src/) is a GTK 4 desktop console in Python: one application
  window (src/app.py, class \<open>SystemManager\<close>) with a page per task. This development is
  a shallow embedding of the parts of it that hold state or compute: each page's
  handlers are HOL functions on a record of the page's state, the operating system
  (psutil, subprocesses, files) is a parameter or an event carrying the result, and
  exceptions are \<open>Inl\<close> values of a sum or \<open>None\<close>.

  \<^bold>\<open>Parts and theories.\<close>
  \<^item> Prelude: shared lemmas on lists and maps, the named theorem collections.
  \<^item> PyStr, PyRe: the Python built-ins the parsers use (\<open>isspace\<close>, \<open>strip\<close>, \<open>split\<close>,
    \<open>split(sep)\<close>, \<open>splitlines\<close>, \<open>join\<close>, \<open>startswith\<close>, \<open>endswith\<close>, \<open>int\<close>, \<open>str\<close>,
    \<open>split(sep, 1)\<close>, \<open>os.path.basename\<close>, \<open>os.path.splitext\<close>, \<open>str.replace\<close>) on
    Latin-1 strings, the subprocess
    exceptions, and \<open>re.match\<close> for patterns that are a concatenation of literals,
    \<open>\s+\<close>, \<open>(.*?)\<close> and \<open>(.*)\<close>, as a backtracking matcher with Python's preference order.
  \<^item> Modifier: \<open>SystemManager.shift_pressed\<close>/\<open>shift_last_active\<close> and the key handlers
    (src/app.py \<open>on_key_pressed\<close>, \<open>on_key_released\<close>), as a state machine with an
    inductive reachability predicate, and the test \<open>is_shift\<close> of the click handlers.
  \<^item> Store: the \<open>Gtk.ListStore\<close> of a view as a list of rows (check box, identity, other
    columns), and \<open>refresh_process_list\<close> of src/pages/processes.py (update in place,
    append, delete in reverse index order) with the reconciliation contract it refines.
  \<^item> FilterView: \<open>Gtk.TreeModelFilter\<close> as the list of store indices of the visible rows,
    \<open>convert_path_to_child_path\<close>, and the two visible functions.
  \<^item> Selection: the anchor and suppression flag of a view, \<open>on_process_toggled\<close> and
    \<open>on_process_tree_click\<close> (the package view's handlers are the same code), generic in
    the row type and the visible function.
  \<^item> Helpers: \<open>human_readable_size\<close> of src/utils/helpers.py with the float as an exact
    rational (exact below \<open>2^53\<close> bytes) and the \<open>.2f\<close> format (ties to even).
  \<^item> Icons: \<open>build_desktop_icon_map\<close> of src/utils/icons.py: the two globs over
    directory listings, the line loop with its \<open>break\<close>, one file's entry with the
    exceptions it swallows, the fold of the updates and the three \<open>setdefault\<close> calls;
    the listings and file contents are parameters. Processes imports it for the map
    \<open>icon_for_process\<close> reads.
  \<^item> Processes: the rest of src/pages/processes.py: one psutil record to a row (a raising
    record is skipped), \<open>icon_for_process\<close>, the icon cell, the kill dialog and
    \<open>send_signal\<close>, with \<open>os.kill\<close>'s outcome a parameter and effects returned as a list.
  \<^item> Packages: src/pages/packages.py with src/utils/apt.py and src/utils/async_ops.py:
    the full-replace refreshes from \<open>dpkg-query\<close> and \<open>apt list\<close>, the apt actions with
    their confirmation dialog, the running commands and the completion callback, and
    the view as a step function over the signals it connects, the modal apt dialog
    blocking window input while the main-loop callbacks still run.
  \<^item> Services: src/pages/services.py: the \<open>systemctl list-units\<close> parser, the actions and
    the worker threads' results as events.
  \<^item> Repositories: src/pages/repositories.py: the APT source parser (two regular
    expressions), the loading of \<open>sources.list\<close> and \<open>sources.list.d\<close> from a file system
    parameter, the Flatpak output parser and the remote actions.
  \<^item> PyOs: \<open>os.path.join\<close>, \<open>os.path.expanduser\<close>, and \<open>time.strftime\<close> and
    \<open>time.strptime\<close> for \<open>%Y%m%d_%H%M%S\<close> (CPython's \<open>_strptime\<close> regular expression, its
    alternatives tried in order, and the date check).
  \<^item> Backups: src/pages/backups.py: the entries, status line and progress bar, the list
    refresh (directories by modification time, the time read back from the name, the
    size from \<open>du\<close>), create, rename and delete with their dialogs, and the
    \<open>GLib.idle_add\<close> callbacks as a FIFO queue; the file system and the commands are an
    environment record read by each callback, as an event of a step function.
  \<^item> Storage: src/pages/storage.py: the analyzer check in an idle callback, the map
    handler, and each launch thread as two steps, \<open>pgrep\<close> and \<open>Popen\<close>, that interleave
    with the other threads and the main loop; the analyzer processes are the world.
  \<^item> Resources: src/pages/resources.py: the metric keys and empty histories of
    \<open>__init__\<close>, \<open>update_resources\<close> as one tick over a record of psutil readings
    (\<open>None\<close> where psutil raises), its append-and-slice of each history, the network
    branch of \<open>get_metric_values\<close> with the peak-hold scale, and the label texts through
    a model of the \<open>.Nf\<close> format; the one-second timer is a fold over the readings.
    Python floats are exact rationals there, and no theorem depends on float rounding.
  \<^item> ResourcesDraw: the two draw callbacks of src/pages/resources.py
    (\<open>make_sparkline_draw\<close>, \<open>make_network_draw\<close>) as the list of cairo calls each
    makes from the page state and the area's size, with the sparkline's division by the
    scale as the one way to raise.
  \<^item> Navigation: src/app.py \<open>on_activate\<close>'s stack of pages and sidebar, and
    src/ui/sidebar.py \<open>create_sidebar_button\<close> with its icon test on Unicode code
    points (text is a list of code points there) and its \<open>clicked\<close> handler; clicks
    as an inductive reachability relation.
  \<^item> This theory: the application as one state machine over the Shift tracker and the
    process and package views, which share the Shift state, driven by key events,
    timed refreshes and clicks; its reachable states and a gesture scenario.

  \<^bold>\<open>What the lemmas show.\<close> The incremental refresh refines the reconcile contract and
  keeps the store free of duplicate identities; the toggle and range-click handlers
  flip or paint exactly the rows they should, in store order, idempotently; the
  parsers invert the producers' formats (dpkg-query, one-line APT sources) where the
  fields are well formed; error paths are values and are characterised; bounds of the
  size formatter. Several theorems state what the code does where it departs from the
  spec or from its own intent; they are listed as findings in PROJECT.json: the dead
  0.6 s grace window, the stale anchor painting to the end of the store, duplicate
  sample identities, the anchor kept by the package refresh, messages overwritten by a
  later status, success reported for failed or concurrent apt commands, a spinner left
  running after \<open>No\<close>, processes silently dropped, systemctl legend lines listed as
  services, deb822 files shown unparsed, the dead \<open>.disabled\<close> test, a failed
  \<open>rm -rf\<close> reported as nothing, an absolute name prefix writing a backup outside the
  destination, a modification time discarded for a name that only looks stamped, and two analyzers
  launched by two threads whose check and launch interleave. The
  backup page's busy state always ends: every idle callback clears it on every outcome,
  and a name the page creates is read back to the time it was made. The resource
  monitor's CPU and RAM histories are exactly the last 120 readings of the whole run,
  and every network speed in a window stays under its sparkline's positive scale.
  Every command the package view can start is \<open>pkexec apt\<close> or its fixed update
  script, and the modal dialog makes \<open>Yes\<close> run the command built at the click.
  The resource page's state stays well formed on every tick; the network graph's scale
  is above every value, and its points, like a sparkline's on a well-formed page, stay
  inside the drawing area as long as no byte counter goes down, while a counter that
  goes down is drawn below the graph and shown as a negative speed. Every sidebar button
  shows the page it names, one button per page, and the icon test takes a name that
  starts with a hyphen for an emoji.
  The icon map's line loop with its \<open>break\<close> equals the first-match loop without it, the
  map is the defaults overridden by the files in order, and a launcher run through
  \<open>env\<close> is filed under \<open>env\<close>, so the program it starts does not get its icon.

  \<^bold>\<open>Bounds and fuel.\<close> No fuel is used: every loop is structural recursion or a
  \<open>function\<close> with a measure (the unit loop of \<open>human_readable_size\<close> by the nine units,
  \<open>split\<close>, \<open>split(maxsplit)\<close>, \<open>replace\<close> and the matcher by the length of the string or the
  pattern, the \<open>strptime\<close> matcher by the format). The one \<open>while\<close> loop of the code, in
  \<open>human_readable_size\<close>, is also run as \<open>while_option\<close> with its own test and body,
  a loop that may not end, and shown to return from every state. The backup page's idle queue is run
  by an explicit list of callbacks, one per queued job: the drain theorem shows that
  exactly that many callbacks end the busy state. Witnesses evaluate the definitions by
  \<open>simp\<close> and \<open>code_simp\<close>.

  \<^bold>\<open>Not modelled.\<close> src/main.py, which only runs the application; the CSS
  provider, margins, sizes and the layout of each page's widgets (presentation, no state
  a handler reads); the rendering cairo performs for the calls ResourcesDraw lists;
  \<open>str.capitalize\<close> beyond ASCII, which the page names do not need;
  in src/pages/backups.py the layout of the widgets and the initial folder of the folder
  chooser, which no handler reads; the subprocesses and psutil themselves, which are the
  environment. Threads are modelled by the events that deliver their results on the
  main loop, in any order.
\<close>

section \<open>The application as one state machine\<close>

text \<open>
  The state the handlers of several pages share: the application-wide Shift tracker,
  the process view and the package view (\<open>SystemManager.pages\<close>). Each event is one
  callback of the GTK main loop: a key event of the window's key controller, the process
  view's two-second refresh with psutil's listing, a click on a view (the gesture's
  \<open>pressed\<close> signal) or the check-box \<open>toggled\<close> signal that GTK delivers after it, a
  change of a search entry, and a package refresh with its \<open>dpkg-query\<close> result.
\<close>

record system =
  shift :: shift_state
  procs :: proc_state
  pkgs :: pkg_state

definition init_system :: system where
  "init_system = \<lparr>shift = init_shift, procs = init_proc_state, pkgs = init_pkg_state\<rparr>"

datatype event =
    KeyEvent key_event
  | ProcRefresh "pinfo list"
  | ProcClick timestamp "(nat \<times> nat) option"
  | ProcToggle nat
  | ProcSearch string
  | PkgRefresh "string + string"
  | PkgClick timestamp "(nat \<times> nat) option"
  | PkgToggle nat
  | PkgSearch string

fun sys_step :: "icon_map \<Rightarrow> event \<Rightarrow> system \<Rightarrow> system" where
  "sys_step icons (KeyEvent e) s = s\<lparr>shift := key_step (shift s) e\<rparr>"
| "sys_step icons (ProcRefresh ps) s = s\<lparr>procs := refresh_processes icons ps (procs s)\<rparr>"
| "sys_step icons (ProcClick now hit) s =
     s\<lparr>procs := fst (on_process_tree_click (shift s) now hit (procs s))\<rparr>"
| "sys_step icons (ProcToggle path) s = s\<lparr>procs := on_process_toggled path (procs s)\<rparr>"
| "sys_step icons (ProcSearch q) s = s\<lparr>procs := filter_processes q (procs s)\<rparr>"
| "sys_step icons (PkgRefresh r) s = s\<lparr>pkgs := refresh_packages r (pkgs s)\<rparr>"
| "sys_step icons (PkgClick now hit) s =
     s\<lparr>pkgs := fst (on_packages_tree_click (shift s) now hit (pkgs s))\<rparr>"
| "sys_step icons (PkgToggle path) s = s\<lparr>pkgs := on_package_toggled path (pkgs s)\<rparr>"
| "sys_step icons (PkgSearch q) s = s\<lparr>pkgs := filter_packages q (pkgs s)\<rparr>"


text \<open>psutil lists each running process once.\<close>

definition listing_ok :: "event \<Rightarrow> bool" where
  "listing_ok e = (case e of ProcRefresh ps \<Rightarrow> distinct (map pid ps) | _ \<Rightarrow> True)"

inductive sys_reach :: "icon_map \<Rightarrow> system \<Rightarrow> bool" for icons where
  init: "sys_reach icons init_system"
| step: "sys_reach icons s \<Longrightarrow> listing_ok e \<Longrightarrow> sys_reach icons (sys_step icons e s)"

definition sys_inv :: "system \<Rightarrow> bool" where
  "sys_inv s \<longleftrightarrow> shift_inv (shift s) \<and> store_inv (store (proc_page (procs s)))"



subsection \<open>Lemmas\<close>

lemma store_inv_idents: "map ident st' = map ident st \<Longrightarrow> store_inv st' = store_inv st"
  by (simp add: store_inv_def)

lemma sys_inv_init: "sys_inv init_system"
  by (simp add: sys_inv_def init_system_def shift_inv_def init_shift_def init_proc_state_def
      init_page_def store_inv_def)

lemma sys_step_inv:
  assumes "sys_inv s" and "listing_ok e"
  shows "sys_inv (sys_step icons e s)"
proof (cases e)
  case (KeyEvent k)
  with assms(1) show ?thesis by (simp add: sys_inv_def key_step_shift_inv)
next
  case (ProcRefresh ps)
  with assms have "distinct (map fst (process_sample icons ps))"
    by (simp add: listing_ok_def distinct_process_sample)
  with assms(1) ProcRefresh show ?thesis
    by (simp add: sys_inv_def refresh_processes_def refresh_keeps_store_inv)
next
  case (ProcClick now hit)
  obtain pg b where X: "on_tree_click proc_visible_func (shift s) now hit (proc_page (procs s)) = (pg, b)"
    by (cases "on_tree_click proc_visible_func (shift s) now hit (proc_page (procs s))")
  have "map ident (store pg) = map ident (store (proc_page (procs s)))"
    using on_tree_click_idents [of proc_visible_func "shift s" now hit "proc_page (procs s)"] X by simp
  then have "store_inv (store pg) = store_inv (store (proc_page (procs s)))" by (rule store_inv_idents)
  moreover have "fst (on_process_tree_click (shift s) now hit (procs s)) = (procs s)\<lparr>proc_page := pg\<rparr>"
    by (simp only: on_process_tree_click_def Let_def X prod.case fst_conv)
  ultimately show ?thesis using assms(1) ProcClick by (simp add: sys_inv_def)
next
  case (ProcToggle path)
  have "store_inv (store (on_toggled proc_visible_func path (proc_page (procs s)))) =
        store_inv (store (proc_page (procs s)))"
    by (rule store_inv_idents) (rule on_toggled_idents)
  with assms(1) ProcToggle show ?thesis by (simp add: sys_inv_def on_process_toggled_def)
next
  case (ProcSearch q)
  with assms(1) show ?thesis by (simp add: sys_inv_def filter_processes_def)
next
  case (PkgRefresh r)
  with assms(1) show ?thesis by (simp add: sys_inv_def)
next
  case (PkgClick now hit)
  with assms(1) show ?thesis by (simp add: sys_inv_def)
next
  case (PkgToggle path)
  with assms(1) show ?thesis by (simp add: sys_inv_def)
next
  case (PkgSearch q)
  with assms(1) show ?thesis by (simp add: sys_inv_def)
qed

lemma sys_reach_inv: "sys_reach icons s \<Longrightarrow> sys_inv s"
  by (induction rule: sys_reach.induct) (auto intro: sys_inv_init sys_step_inv)

subsection \<open>Properties of the composition\<close>

text \<open>C38: in every state the application can reach, whatever the order
  of key events, refreshes, clicks, toggles and searches on both views, the process
  store holds each pid at most once and the range-gesture test is exactly whether Shift
  is held, provided psutil lists each process once.\<close>

theorem sys_reach_invariant:
  assumes "sys_reach icons s"
  shows "distinct (map ident (store (proc_page (procs s)))) \<and> is_shift (shift s) now = shift_pressed (shift s)"
  using sys_reach_inv [OF assms] by (simp add: sys_inv_def store_inv_def is_shift_inv)

theorem sys_reach_invariant_witness:
  "distinct (map ident (store (proc_page (procs (sys_step Map.empty
      (ProcRefresh [\<lparr>pid = 1, pname = Some ''init'', cpu_percent = None, memory_percent = None,
                     num_threads = None, pstatus = None, username = None, cmdline = None,
                     io_counters = None, exe = None\<rparr>]) init_system))))) \<and>
   is_shift (shift (sys_step Map.empty
      (ProcRefresh [\<lparr>pid = 1, pname = Some ''init'', cpu_percent = None, memory_percent = None,
                     num_threads = None, pstatus = None, username = None, cmdline = None,
                     io_counters = None, exe = None\<rparr>]) init_system)) 5 =
   shift_pressed (shift (sys_step Map.empty
      (ProcRefresh [\<lparr>pid = 1, pname = Some ''init'', cpu_percent = None, memory_percent = None,
                     num_threads = None, pstatus = None, username = None, cmdline = None,
                     io_counters = None, exe = None\<rparr>]) init_system))"
proof -
  let ?e = "ProcRefresh [\<lparr>pid = 1, pname = Some ''init'', cpu_percent = None, memory_percent = None,
                     num_threads = None, pstatus = None, username = None, cmdline = None,
                     io_counters = None, exe = None\<rparr>]"
  have "listing_ok ?e" by (simp add: listing_ok_def)
  with sys_reach.init have "sys_reach Map.empty (sys_step Map.empty ?e init_system)"
    by (rule sys_reach.step)
  then show ?thesis by (rule sys_reach_invariant)
qed



end
